(* ===== verification/Prelude.thy ===== *)
theory Prelude
  imports Complex_Main "HOL-Library.Word" "HOL-Library.List_Lexorder"
    "HOL-Library.Product_Lexorder" "HOL-Library.Sublist" "HOL-Library.Multiset"
begin

text \<open>
  Shared vocabulary of the development: Rust's \<open>Result\<close> with the \<open>?\<close> operator, loops that
  stop at the first error, checked machine arithmetic, UTF-8 strings, comparators and sorting,
  and the generic lemmas about them that the component theories rest on.
\<close>

named_theorems res_simps \<open>unfolding rules of the result combinators\<close>
named_theorems text_defs \<open>definitions of the character classes and string operations\<close>

section \<open>Results\<close>

text \<open>
  A \<open>Result<T, E>\<close> is a value of \<open>'e + 'a\<close>, with \<open>Inl\<close> for \<open>Err\<close>. \<open>and_then\<close> is the
  \<open>?\<close> operator followed by the rest of the function.
\<close>

type_synonym ('e, 'a) res = "'e + 'a"

primrec and_then :: "('e, 'a) res \<Rightarrow> ('a \<Rightarrow> ('e, 'b) res) \<Rightarrow> ('e, 'b) res" where
  "and_then (Inl e) f = Inl e"
| "and_then (Inr x) f = f x"

definition ok_or :: "'a option \<Rightarrow> 'e \<Rightarrow> ('e, 'a) res" where
  "ok_or v e = (case v of None \<Rightarrow> Inl e | Some x \<Rightarrow> Inr x)"

definition is_ok :: "('e, 'a) res \<Rightarrow> bool" where
  "is_ok r \<longleftrightarrow> (case r of Inl _ \<Rightarrow> False | Inr _ \<Rightarrow> True)"

primrec map_err :: "('e \<Rightarrow> 'f) \<Rightarrow> ('e, 'a) res \<Rightarrow> ('f, 'a) res" where
  "map_err f (Inl e) = Inl (f e)"
| "map_err f (Inr x) = Inr x"

text \<open>A \<open>for\<close> loop whose body uses \<open>?\<close>: the state is threaded and the first error stops it.\<close>

primrec try_fold :: "('s \<Rightarrow> 'a \<Rightarrow> ('e, 's) res) \<Rightarrow> 's \<Rightarrow> 'a list \<Rightarrow> ('e, 's) res" where
  "try_fold f s [] = Inr s"
| "try_fold f s (x # xs) = and_then (f s x) (\<lambda>s'. try_fold f s' xs)"

text \<open>\<open>.map(f).collect::<Result<Vec<_>>>()\<close>.\<close>

primrec try_map :: "('a \<Rightarrow> ('e, 'b) res) \<Rightarrow> 'a list \<Rightarrow> ('e, 'b list) res" where
  "try_map f [] = Inr []"
| "try_map f (x # xs) = and_then (f x) (\<lambda>y. and_then (try_map f xs) (\<lambda>ys. Inr (y # ys)))"

text \<open>Slice indexing: out of range is a panic, given here as an error value.\<close>

definition index_or :: "'e \<Rightarrow> 'a list \<Rightarrow> nat \<Rightarrow> ('e, 'a) res" where
  "index_or e xs i = (if i < length xs then Inr (xs ! i) else Inl e)"

lemma and_then_assoc [simp]:
  "and_then (and_then m f) g = and_then m (\<lambda>x. and_then (f x) g)"
  by (cases m) simp_all

lemma and_then_Inr [simp]: "and_then m Inr = m"
  by (cases m) simp_all

lemma and_then_eq_Inr_iff [res_simps]:
  "and_then m f = Inr y \<longleftrightarrow> (\<exists>x. m = Inr x \<and> f x = Inr y)"
  by (cases m) simp_all

lemma and_then_eq_Inl_iff [res_simps]:
  "and_then m f = Inl e \<longleftrightarrow> m = Inl e \<or> (\<exists>x. m = Inr x \<and> f x = Inl e)"
  by (cases m) simp_all

lemma and_then_InrE [elim!]:
  assumes "and_then m f = Inr y"
  obtains x where "m = Inr x" and "f x = Inr y"
  using assms by (auto simp: and_then_eq_Inr_iff)

lemma and_then_cong [fundef_cong]:
  "m = m' \<Longrightarrow> (\<And>x. m' = Inr x \<Longrightarrow> f x = g x) \<Longrightarrow> and_then m f = and_then m' g"
  by (cases m') simp_all

lemma and_then_weak_cong: "m = m' \<Longrightarrow> and_then m f = and_then m' f"
  by simp

lemma ok_or_simps [simp]: "ok_or None e = Inl e" "ok_or (Some x) e = Inr x"
  by (simp_all add: ok_or_def)

lemma ok_or_eq_Inr_iff [simp]: "ok_or v e = Inr x \<longleftrightarrow> v = Some x"
  by (cases v) simp_all

lemma is_ok_simps [simp]: "\<not> is_ok (Inl e)" "is_ok (Inr x)"
  by (simp_all add: is_ok_def)

lemma is_ok_iff: "is_ok r \<longleftrightarrow> (\<exists>x. r = Inr x)"
  by (cases r) simp_all

lemma index_or_eq_Inr_iff [simp]: "index_or e xs i = Inr x \<longleftrightarrow> i < length xs \<and> xs ! i = x"
  by (auto simp: index_or_def)

lemma index_or_in [simp]: "i < length xs \<Longrightarrow> index_or e xs i = Inr (xs ! i)"
  by (simp add: index_or_def)

lemma try_fold_append:
  "try_fold f s (xs @ ys) = and_then (try_fold f s xs) (\<lambda>s'. try_fold f s' ys)"
  by (induction xs arbitrary: s) simp_all

lemma try_fold_cong [fundef_cong]:
  assumes "s = t" and "xs = ys" and "\<And>u x. x \<in> set ys \<Longrightarrow> f u x = g u x"
  shows "try_fold f s xs = try_fold g t ys"
proof -
  have "(\<And>u x. x \<in> set ys \<Longrightarrow> f u x = g u x) \<Longrightarrow> try_fold f t ys = try_fold g t ys"
    by (induction ys arbitrary: t) (auto intro: and_then_cong)
  with assms show ?thesis by simp
qed

text \<open>The invariant rule of such loops; \<open>done\<close> is the list of items already processed.\<close>

lemma try_fold_invariant:
  assumes "try_fold f s xs = Inr t" and "I [] s"
    and "\<And>done x u u'. I done u \<Longrightarrow> x \<in> set xs \<Longrightarrow> f u x = Inr u' \<Longrightarrow> I (done @ [x]) u'"
  shows "I xs t"
proof -
  have "try_fold f s xs = Inr t \<Longrightarrow> I pre s \<Longrightarrow> set xs \<subseteq> A \<Longrightarrow>
      (\<And>done x u u'. I done u \<Longrightarrow> x \<in> A \<Longrightarrow> f u x = Inr u' \<Longrightarrow> I (done @ [x]) u') \<Longrightarrow>
      I (pre @ xs) t" for pre A
  proof (induction xs arbitrary: s pre)
    case Nil
    then show ?case by simp
  next
    case (Cons x xs)
    then obtain u where u: "f s x = Inr u" "try_fold f u xs = Inr t" by auto
    with Cons.prems have "I (pre @ [x]) u" by auto
    from Cons.IH [OF u(2) this] Cons.prems show ?case by simp
  qed
  from this [of "[]" "set xs"] assms show ?thesis by simp
qed

lemma try_fold_error:
  assumes "try_fold f s xs = Inl e"
  shows "\<exists>done x rest u. xs = done @ x # rest \<and> try_fold f s done = Inr u \<and> f u x = Inl e"
  using assms
proof (induction xs arbitrary: s)
  case Nil
  then show ?case by simp
next
  case (Cons x xs)
  show ?case
  proof (cases "f s x")
    case (Inl e')
    with Cons.prems have "x # xs = [] @ x # xs \<and> try_fold f s [] = Inr s \<and> f s x = Inl e"
      by simp
    then show ?thesis by blast
  next
    case (Inr u)
    with Cons.prems have "try_fold f u xs = Inl e" by simp
    from Cons.IH [OF this] obtain ys y zs v
      where "xs = ys @ y # zs" "try_fold f u ys = Inr v" "f v y = Inl e"
      by blast
    with Inr have "x # xs = (x # ys) @ y # zs \<and> try_fold f s (x # ys) = Inr v \<and> f v y = Inl e"
      by simp
    then show ?thesis by blast
  qed
qed

lemma try_fold_total:
  assumes "I s" and "\<And>u x. I u \<Longrightarrow> x \<in> set xs \<Longrightarrow> \<exists>u'. f u x = Inr u' \<and> I u'"
  shows "\<exists>t. try_fold f s xs = Inr t \<and> I t"
  using assms
proof (induction xs arbitrary: s)
  case Nil
  then show ?case by simp
next
  case (Cons x xs)
  then obtain u where "f s x = Inr u" "I u" by (meson list.set_intros(1))
  moreover from Cons.IH [OF this(2)] Cons.prems(2)
  obtain t where "try_fold f u xs = Inr t" "I t" by auto
  ultimately show ?case by simp
qed

lemma try_map_eq_Inr_iff:
  "try_map f xs = Inr ys \<longleftrightarrow> list_all2 (\<lambda>x y. f x = Inr y) xs ys"
proof (induction xs arbitrary: ys)
  case Nil
  then show ?case by auto
next
  case (Cons x xs)
  show ?case
    by (cases ys) (auto simp: and_then_eq_Inr_iff Cons.IH)
qed

lemma try_map_length: "try_map f xs = Inr ys \<Longrightarrow> length ys = length xs"
  by (auto simp: try_map_eq_Inr_iff dest: list_all2_lengthD)

lemma list_all2_set2: "list_all2 R xs ys \<Longrightarrow> y \<in> set ys \<Longrightarrow> \<exists>x\<in>set xs. R x y"
  by (induction rule: list_all2_induct) auto

lemma list_all2_set1: "list_all2 R xs ys \<Longrightarrow> x \<in> set xs \<Longrightarrow> \<exists>y\<in>set ys. R x y"
  by (induction rule: list_all2_induct) auto

subsection \<open>Outcomes\<close>

text \<open>
  \<open>outcome E P r\<close>: the result fails only with an error satisfying \<open>E\<close>, and a success satisfies
  \<open>P\<close>. The rules below follow the shape of the code.
\<close>

definition outcome :: "('e \<Rightarrow> bool) \<Rightarrow> ('a \<Rightarrow> bool) \<Rightarrow> ('e, 'a) res \<Rightarrow> bool" where
  "outcome E P r \<longleftrightarrow> (case r of Inl e \<Rightarrow> E e | Inr x \<Rightarrow> P x)"

lemma outcome_simps [simp]: "outcome E P (Inl e) \<longleftrightarrow> E e" "outcome E P (Inr x) \<longleftrightarrow> P x"
  by (simp_all add: outcome_def)

lemma outcome_InrD: "outcome E P r \<Longrightarrow> r = Inr x \<Longrightarrow> P x"
  by simp

lemma outcome_InlD: "outcome E P r \<Longrightarrow> r = Inl e \<Longrightarrow> E e"
  by simp

lemma outcome_mono: "outcome E P r \<Longrightarrow> (\<And>x. P x \<Longrightarrow> Q x) \<Longrightarrow> outcome E Q r"
  by (cases r) simp_all

lemma outcome_and_then:
  "outcome E P m \<Longrightarrow> (\<And>x. P x \<Longrightarrow> outcome E Q (f x)) \<Longrightarrow> outcome E Q (and_then m f)"
  by (cases m) simp_all

lemma outcome_ok_or [simp]:
  "outcome E P (ok_or v e) \<longleftrightarrow> (case v of None \<Rightarrow> E e | Some x \<Rightarrow> P x)"
  by (cases v) simp_all

lemma outcome_and_then_iff: "outcome E P (and_then r f) \<longleftrightarrow> outcome E (\<lambda>x. outcome E P (f x)) r"
  by (cases r) simp_all

lemma outcome_if_iff:
  "outcome E P (if b then r else r') \<longleftrightarrow> (b \<longrightarrow> outcome E P r) \<and> (\<not> b \<longrightarrow> outcome E P r')"
  by simp

lemma outcome_ok_or_iff: "outcome E P (ok_or v e) \<longleftrightarrow> (v = None \<longrightarrow> E e) \<and> (\<forall>x. v = Some x \<longrightarrow> P x)"
  by (cases v) simp_all

lemma outcome_index_or: "i < length xs \<Longrightarrow> P (xs ! i) \<Longrightarrow> outcome E P (index_or e xs i)"
  by simp

lemma outcome_try_fold_prefix:
  assumes "I [] s"
    and "\<And>done x rest u. xs = done @ x # rest \<Longrightarrow> I done u \<Longrightarrow> outcome E (I (done @ [x])) (f u x)"
  shows "outcome E (I xs) (try_fold f s xs)"
proof -
  have "xs = pre @ ys \<Longrightarrow> I pre u \<Longrightarrow> outcome E (I xs) (try_fold f u ys)" for pre ys u
  proof (induction ys arbitrary: pre u)
    case (Cons y ys)
    from assms(2) [OF Cons.prems] Cons.IH [of "pre @ [y]"] Cons.prems(1)
    show ?case by (auto intro: outcome_and_then)
  qed simp
  from this [of "[]" xs s] assms(1) show ?thesis by simp
qed

lemma outcome_try_fold:
  assumes "I [] s"
    and "\<And>done x u. I done u \<Longrightarrow> x \<in> set xs \<Longrightarrow> outcome E (I (done @ [x])) (f u x)"
  shows "outcome E (I xs) (try_fold f s xs)"
  using assms by (intro outcome_try_fold_prefix) auto

section \<open>Machine arithmetic\<close>

text \<open>
  Unsigned integers whose values are only added, subtracted and compared are natural numbers;
  \<open>checked_add w\<close> is Rust's \<open>checked_add\<close> at width \<open>w\<close>. The supported targets have 64-bit
  \<open>usize\<close>.
\<close>

definition checked_add :: "nat \<Rightarrow> nat \<Rightarrow> nat \<Rightarrow> nat option" where
  "checked_add w a b = (if a + b < 2 ^ w then Some (a + b) else None)"

abbreviation checked_add_usize :: "nat \<Rightarrow> nat \<Rightarrow> nat option" where
  "checked_add_usize \<equiv> checked_add 64"

definition checked_sub :: "nat \<Rightarrow> nat \<Rightarrow> nat option" where
  "checked_sub a b = (if b \<le> a then Some (a - b) else None)"

text \<open>\<open>saturating_add\<close> of the 64-bit counters.\<close>

definition saturating_add :: "nat \<Rightarrow> nat \<Rightarrow> nat" where
  "saturating_add a b = min (a + b) (2 ^ 64 - 1)"

lemma checked_add_eq_Some_iff [simp]:
  "checked_add w a b = Some c \<longleftrightarrow> c = a + b \<and> a + b < 2 ^ w"
  by (auto simp: checked_add_def)

lemma checked_add_eq_None_iff [simp]: "checked_add w a b = None \<longleftrightarrow> 2 ^ w \<le> a + b"
  by (auto simp: checked_add_def)

lemma checked_sub_eq_Some_iff [simp]: "checked_sub a b = Some c \<longleftrightarrow> b \<le> a \<and> c = a - b"
  by (auto simp: checked_sub_def)

text \<open>A loop that only adds up sizes with \<open>checked_add\<close>.\<close>

lemma try_fold_checked_add:
  "b < 2 ^ w \<Longrightarrow> try_fold (\<lambda>b x. ok_or (checked_add w b (f x)) e) b xs =
    (if b + (\<Sum>x\<leftarrow>xs. f x) < 2 ^ w then Inr (b + (\<Sum>x\<leftarrow>xs. f x)) else Inl e)"
  by (induction xs arbitrary: b) (auto simp: checked_add_def)

text \<open>
  Integers that are only stored, compared and hashed keep their width. \<open>le_bytes k\<close> is
  \<open>to_le_bytes\<close> of a \<open>k\<close>-byte integer and \<open>of_le_bytes\<close> is \<open>from_le_bytes\<close>.
\<close>

type_synonym byte = "8 word"
type_synonym u64 = "64 word"

primrec le_bytes :: "nat \<Rightarrow> nat \<Rightarrow> byte list" where
  "le_bytes 0 v = []"
| "le_bytes (Suc k) v = word_of_nat (v mod 256) # le_bytes k (v div 256)"

primrec of_le_bytes :: "byte list \<Rightarrow> nat" where
  "of_le_bytes [] = 0"
| "of_le_bytes (b # bs) = unat b + 256 * of_le_bytes bs"

lemma length_le_bytes [simp]: "length (le_bytes k v) = k"
  by (induction k arbitrary: v) simp_all

lemma of_le_bytes_le_bytes [simp]: "of_le_bytes (le_bytes k v) = v mod 256 ^ k"
proof (induction k arbitrary: v)
  case (Suc k)
  have "unat (word_of_nat (v mod 256) :: byte) = v mod 256"
    by (simp add: unat_of_nat)
  with Suc show ?case by (simp add: mod_mult2_eq)
qed simp

lemma of_le_bytes_less: "of_le_bytes bs < 256 ^ length bs"
proof (induction bs)
  case (Cons b bs)
  have "unat b < 256" by (rule order_less_le_trans [OF unsigned_less]) simp
  with Cons show ?case by simp
qed simp

lemma le_bytes_inj:
  assumes "le_bytes k v = le_bytes k w" and "v < 256 ^ k" and "w < 256 ^ k"
  shows "v = w"
  using arg_cong [OF assms(1), of of_le_bytes] assms(2,3) by simp

section \<open>Bytes and strings\<close>

text \<open>
  A Rust \<open>str\<close> is a sequence of Unicode scalar values stored as UTF-8: here the list of its
  scalar values. \<open>str.len()\<close> counts UTF-8 bytes (\<open>str_len\<close>), \<open>chars().count()\<close> is the length
  of the list, and \<open>as_bytes\<close> is the encoding. The order of strings is bytewise in Rust, which
  for UTF-8 is the lexicographic order of the scalar values.
\<close>

type_synonym uchar = nat
type_synonym rstr = "uchar list"

definition utf8_encode :: "uchar \<Rightarrow> byte list" where
  "utf8_encode c =
    (if c < 0x80 then [word_of_nat c]
     else if c < 0x800 then [word_of_nat (0xC0 + c div 64), word_of_nat (0x80 + c mod 64)]
     else if c < 0x10000 then
       [word_of_nat (0xE0 + c div 4096), word_of_nat (0x80 + c div 64 mod 64),
        word_of_nat (0x80 + c mod 64)]
     else
       [word_of_nat (0xF0 + c div 262144), word_of_nat (0x80 + c div 4096 mod 64),
        word_of_nat (0x80 + c div 64 mod 64), word_of_nat (0x80 + c mod 64)])"

definition as_bytes :: "rstr \<Rightarrow> byte list" where
  "as_bytes s = concat (map utf8_encode s)"

definition utf8_width :: "uchar \<Rightarrow> nat" where
  "utf8_width c = (if c < 0x80 then 1 else if c < 0x800 then 2 else if c < 0x10000 then 3 else 4)"

definition str_len :: "rstr \<Rightarrow> nat" where
  "str_len s = sum_list (map utf8_width s)"

text \<open>ASCII literals of the source.\<close>

definition lit :: "string \<Rightarrow> rstr" where
  "lit s = map of_char s"

definition is_whitespace :: "uchar \<Rightarrow> bool" where
  "is_whitespace c \<longleftrightarrow>
    9 \<le> c \<and> c \<le> 13 \<or> c = 32 \<or> c = 0x85 \<or> c = 0xA0 \<or> c = 0x1680 \<or>
    0x2000 \<le> c \<and> c \<le> 0x200A \<or> c = 0x2028 \<or> c = 0x2029 \<or> c = 0x202F \<or> c = 0x205F \<or> c = 0x3000"

definition is_control :: "uchar \<Rightarrow> bool" where
  "is_control c \<longleftrightarrow> c < 32 \<or> 127 \<le> c \<and> c < 160"

definition is_ascii_digit :: "uchar \<Rightarrow> bool" where
  "is_ascii_digit c \<longleftrightarrow> 48 \<le> c \<and> c \<le> 57"

definition is_ascii_alphabetic :: "uchar \<Rightarrow> bool" where
  "is_ascii_alphabetic c \<longleftrightarrow> 65 \<le> c \<and> c \<le> 90 \<or> 97 \<le> c \<and> c \<le> 122"

definition is_ascii_alphanumeric :: "uchar \<Rightarrow> bool" where
  "is_ascii_alphanumeric c \<longleftrightarrow> is_ascii_alphabetic c \<or> is_ascii_digit c"

definition trim :: "rstr \<Rightarrow> rstr" where
  "trim s = rev (dropWhile is_whitespace (rev (dropWhile is_whitespace s)))"

definition has_nul :: "rstr \<Rightarrow> bool" where
  "has_nul s \<longleftrightarrow> 0 \<in> set s"

text \<open>\<open>hay.contains(needle)\<close> for a string needle.\<close>

fun contains_str :: "rstr \<Rightarrow> rstr \<Rightarrow> bool" where
  "contains_str needle [] = (needle = [])"
| "contains_str needle (c # hay) =
    (take (length needle) (c # hay) = needle \<or> contains_str needle hay)"

text \<open>\<open>format!("{n}")\<close>.\<close>

fun nat_str :: "nat \<Rightarrow> rstr" where
  "nat_str n = (if n < 10 then [48 + n] else nat_str (n div 10) @ [48 + n mod 10])"

declare nat_str.simps [simp del]

lemmas char_class_defs [text_defs] =
  is_whitespace_def is_control_def is_ascii_digit_def is_ascii_alphabetic_def
  is_ascii_alphanumeric_def

lemma str_len_simps [simp]:
  "str_len [] = 0" "str_len (c # s) = utf8_width c + str_len s"
  "str_len (s @ t) = str_len s + str_len t"
  by (simp_all add: str_len_def)

lemma utf8_width_pos [simp]: "0 < utf8_width c"
  by (simp add: utf8_width_def)

lemma str_len_eq_0_iff [simp]: "str_len s = 0 \<longleftrightarrow> s = []"
  by (cases s) auto

lemma length_le_str_len: "length s \<le> str_len s"
proof (induction s)
  case (Cons c s)
  have "1 \<le> utf8_width c" by (simp add: utf8_width_def)
  with Cons show ?case by simp
qed simp

lemma length_utf8_encode [simp]: "length (utf8_encode c) = utf8_width c"
  by (simp add: utf8_encode_def utf8_width_def)

lemma length_as_bytes [simp]: "length (as_bytes s) = str_len s"
  by (induction s) (simp_all add: as_bytes_def)

lemma as_bytes_append [simp]: "as_bytes (s @ t) = as_bytes s @ as_bytes t"
  by (simp add: as_bytes_def)

lemma has_nul_append [simp]: "has_nul (s @ t) \<longleftrightarrow> has_nul s \<or> has_nul t"
  by (auto simp: has_nul_def)

lemma has_nul_Nil [simp]: "\<not> has_nul []"
  by (simp add: has_nul_def)

lemma contains_str_iff_sublist: "contains_str needle hay \<longleftrightarrow> sublist needle hay"
proof (induction hay)
  case Nil
  then show ?case by simp
next
  case (Cons c hay)
  have "take (length needle) (c # hay) = needle \<longleftrightarrow> prefix needle (c # hay)"
    by (metis append_eq_conv_conj prefix_def take_is_prefix)
  with Cons show ?case by (simp add: sublist_Cons_right)
qed

lemma trim_eq_Nil_iff: "trim s = [] \<longleftrightarrow> (\<forall>c\<in>set s. is_whitespace c)"
proof -
  have "trim s = [] \<longleftrightarrow> (\<forall>c\<in>set (dropWhile is_whitespace s). is_whitespace c)"
    by (simp add: trim_def dropWhile_eq_Nil_conv)
  also have "\<dots> \<longleftrightarrow> (\<forall>c\<in>set s. is_whitespace c)"
    by (induction s) auto
  finally show ?thesis .
qed

section \<open>Comparators and sorting\<close>

datatype ordering = Less | Equal | Greater

primrec reverse_ordering :: "ordering \<Rightarrow> ordering" where
  "reverse_ordering Less = Greater"
| "reverse_ordering Equal = Equal"
| "reverse_ordering Greater = Less"

definition cmp :: "'a::linorder \<Rightarrow> 'a \<Rightarrow> ordering" where
  "cmp a b = (if a < b then Less else if a = b then Equal else Greater)"

primrec then_with :: "ordering \<Rightarrow> ordering \<Rightarrow> ordering" where
  "then_with Less d = Less"
| "then_with Equal d = d"
| "then_with Greater d = Greater"

text \<open>
  \<open>sort_by\<close> (and \<open>sort_by_key\<close>): a stable sort by a comparator. \<open>sort_unstable_by\<close> may reorder
  items that compare equal; it is used only where no two items do, and the lemma
  \<open>sort_by_unique\<close> below shows that the result is then the same.
\<close>

fun insert_by :: "('a \<Rightarrow> 'a \<Rightarrow> ordering) \<Rightarrow> 'a \<Rightarrow> 'a list \<Rightarrow> 'a list" where
  "insert_by c x [] = [x]"
| "insert_by c x (y # ys) = (if c x y = Greater then y # insert_by c x ys else x # y # ys)"

definition sort_by :: "('a \<Rightarrow> 'a \<Rightarrow> ordering) \<Rightarrow> 'a list \<Rightarrow> 'a list" where
  "sort_by c xs = foldr (insert_by c) xs []"

abbreviation sorted_by :: "('a \<Rightarrow> 'a \<Rightarrow> ordering) \<Rightarrow> 'a list \<Rightarrow> bool" where
  "sorted_by c xs \<equiv> sorted_wrt (\<lambda>x y. c x y \<noteq> Greater) xs"

lemma mset_insert_by: "mset (insert_by c x xs) = add_mset x (mset xs)"
  by (induction xs) auto

lemma mset_sort_by [simp]: "mset (sort_by c xs) = mset xs"
  by (induction xs) (simp_all add: sort_by_def mset_insert_by)

lemma set_sort_by [simp]: "set (sort_by c xs) = set xs"
  by (metis mset_sort_by set_mset_mset)

lemma length_sort_by [simp]: "length (sort_by c xs) = length xs"
  by (metis mset_sort_by size_mset)

lemma distinct_sort_by [simp]: "distinct (sort_by c xs) = distinct xs"
  by (metis mset_eq_imp_distinct_iff mset_sort_by)

lemma map_insert_by:
  "map f (insert_by (\<lambda>x y. c (f x) (f y)) x xs) = insert_by c (f x) (map f xs)"
  by (induction xs) simp_all

lemma map_sort_by: "map f (sort_by (\<lambda>x y. c (f x) (f y)) xs) = sort_by c (map f xs)"
  by (induction xs) (simp_all add: sort_by_def map_insert_by)

text \<open>The contract of an \<open>Ord\<close> implementation or of a comparison closure.\<close>

locale comparator =
  fixes c :: "'a \<Rightarrow> 'a \<Rightarrow> ordering"
  assumes antisym: "c y x = reverse_ordering (c x y)"
    and trans: "c x y \<noteq> Greater \<Longrightarrow> c y z \<noteq> Greater \<Longrightarrow> c x z \<noteq> Greater"
begin

lemma self_Equal: "c x x = Equal"
  using antisym [of x x] by (cases "c x x") auto

lemma total: "c x y \<noteq> Greater \<or> c y x \<noteq> Greater"
  using antisym [of x y] by (cases "c x y") auto

lemma sorted_insert_by: "sorted_by c xs \<Longrightarrow> sorted_by c (insert_by c x xs)"
proof (induction xs)
  case Nil
  then show ?case by simp
next
  case (Cons y ys)
  show ?case
  proof (cases "c x y = Greater")
    case True
    then have "c y x \<noteq> Greater" using total by blast
    moreover have "set (insert_by c x ys) = insert x (set ys)"
      by (metis mset_insert_by set_mset_add_mset_insert set_mset_mset)
    ultimately show ?thesis using Cons True by simp
  next
    case False
    moreover have "\<forall>z\<in>set ys. c x z \<noteq> Greater"
      using Cons.prems False trans [of x y] by simp
    ultimately show ?thesis using Cons.prems by simp
  qed
qed

lemma sorted_sort_by: "sorted_by c (sort_by c xs)"
  by (induction xs) (simp_all add: sort_by_def sorted_insert_by)

lemma sorted_unique:
  assumes "sorted_by c xs" and "sorted_by c ys" and "mset xs = mset ys"
    and "\<And>x y. x \<in> set xs \<Longrightarrow> y \<in> set xs \<Longrightarrow> c x y = Equal \<Longrightarrow> x = y"
  shows "xs = ys"
  using assms
proof (induction xs arbitrary: ys)
  case Nil
  then show ?case by simp
next
  case (Cons x xs)
  then obtain y ys' where ys: "ys = y # ys'" by (cases ys) auto
  have sets: "set (x # xs) = set (y # ys')" using Cons.prems(3) ys by (metis set_mset_mset)
  have "y = x \<or> y \<in> set xs" and "x = y \<or> x \<in> set ys'" using sets by auto
  then have "c x y \<noteq> Greater" and "c y x \<noteq> Greater"
    using Cons.prems(1,2) self_Equal ys by auto
  then have "c x y = Equal"
    using antisym [of x y] by (cases "c x y"; cases "c y x") auto
  moreover have "y \<in> set (x # xs)" using sets by simp
  ultimately have xy: "x = y" using Cons.prems(4) [of x y] by simp
  have "xs = ys'"
  proof (rule Cons.IH)
    show "mset xs = mset ys'" using Cons.prems(3) ys xy by simp
  qed (use Cons.prems ys in auto)
  with xy ys show ?case by simp
qed

lemma sort_by_unique:
  assumes "mset xs = mset ys"
    and "\<And>x y. x \<in> set xs \<Longrightarrow> y \<in> set xs \<Longrightarrow> c x y = Equal \<Longrightarrow> x = y"
  shows "sort_by c xs = sort_by c ys"
  by (rule sorted_unique) (use assms in \<open>auto simp: sorted_sort_by\<close>)

end

lemma comparator_cmp_on: "comparator (\<lambda>x y. cmp (f x) (f y))"
  by unfold_locales (auto simp: cmp_def split: if_splits)

lemma comparator_reverse: "comparator c \<Longrightarrow> comparator (\<lambda>x y. c y x)"
  unfolding comparator_def by blast

lemma then_with_eq_Equal [simp]: "then_with a b = Equal \<longleftrightarrow> a = Equal \<and> b = Equal"
  by (cases a) simp_all

lemma cmp_eq_Equal [simp]: "cmp a b = Equal \<longleftrightarrow> a = b"
  by (simp add: cmp_def)

lemma comparator_then:
  assumes "comparator c" and "comparator d"
  shows "comparator (\<lambda>x y. then_with (c x y) (d x y))"
proof
  fix x y
  show "then_with (c y x) (d y x) = reverse_ordering (then_with (c x y) (d x y))"
    using comparator.antisym [OF assms(1), of y x] comparator.antisym [OF assms(2), of y x]
    by (cases "c x y") auto
next
  fix x y z
  assume xy: "then_with (c x y) (d x y) \<noteq> Greater" and yz: "then_with (c y z) (d y z) \<noteq> Greater"
  have le: "c x y \<noteq> Greater" "c y z \<noteq> Greater"
    using xy yz by (cases "c x y"; cases "c y z"; simp)+
  then have xz: "c x z \<noteq> Greater" by (rule comparator.trans [OF assms(1)])
  show "then_with (c x z) (d x z) \<noteq> Greater"
  proof (cases "c x z")
    case Equal
    then have "c z x \<noteq> Greater"
      using comparator.antisym [OF assms(1), of z x] by simp
    then have "c y x \<noteq> Greater" "c z y \<noteq> Greater"
      using le comparator.trans [OF assms(1)] by blast+
    then have "c x y = Equal" "c y z = Equal"
      using le comparator.antisym [OF assms(1), of y x] comparator.antisym [OF assms(1), of z y]
      by (cases "c x y"; cases "c y z"; simp)+
    with xy yz Equal show ?thesis using comparator.trans [OF assms(2), of x y z] by simp
  qed (use xz in simp_all)
qed

lemmas comparator_intros = comparator_cmp_on comparator_reverse comparator_then

section \<open>Binary search\<close>

text \<open>\<open>slice::binary_search\<close>: halving on \<open>[lo, hi)\<close>; \<open>None\<close> is its \<open>Err\<close> result.\<close>

function binary_search_in :: "'a::linorder list \<Rightarrow> 'a \<Rightarrow> nat \<Rightarrow> nat \<Rightarrow> nat option" where
  "binary_search_in xs x lo hi =
    (if lo < hi then
       (let mid = (lo + hi) div 2 in
        case cmp (xs ! mid) x of
          Equal \<Rightarrow> Some mid
        | Less \<Rightarrow> binary_search_in xs x (Suc mid) hi
        | Greater \<Rightarrow> binary_search_in xs x lo mid)
     else None)"
  by pat_completeness auto
termination
  by (relation "measure (\<lambda>(xs, x, lo, hi). hi - lo)") auto

declare binary_search_in.simps [simp del]

definition binary_search :: "'a::linorder list \<Rightarrow> 'a \<Rightarrow> nat option" where
  "binary_search xs x = binary_search_in xs x 0 (length xs)"

lemma binary_search_in_Some:
  "binary_search_in xs x lo hi = Some i \<Longrightarrow> hi \<le> length xs \<Longrightarrow> i < length xs \<and> xs ! i = x"
proof (induction xs x lo hi rule: binary_search_in.induct)
  case (1 xs x lo hi)
  then show ?case
    by (subst (asm) (2) binary_search_in.simps)
      (auto simp: Let_def cmp_def split: if_splits ordering.splits)
qed

lemma binary_search_in_None:
  "binary_search_in xs x lo hi = None \<Longrightarrow> sorted xs \<Longrightarrow> hi \<le> length xs \<Longrightarrow>
    lo \<le> i \<Longrightarrow> i < hi \<Longrightarrow> xs ! i \<noteq> x"
proof (induction xs x lo hi rule: binary_search_in.induct)
  case (1 xs x lo hi)
  define mid where "mid = (lo + hi) div 2"
  have lohi: "lo < hi" using "1.prems" by simp
  then have mid: "lo \<le> mid" "mid < hi" by (auto simp: mid_def)
  note step = binary_search_in.simps [of xs x lo hi, folded mid_def]
  consider "xs ! mid < x" | "xs ! mid = x" | "x < xs ! mid" by fastforce
  then show ?case
  proof cases
    case 1
    then have rec: "binary_search_in xs x (Suc mid) hi = None"
      using "1.prems"(1) lohi step by (simp add: Let_def cmp_def)
    show ?thesis
    proof (cases "i \<le> mid")
      case True
      then have "xs ! i \<le> xs ! mid" using "1.prems" mid by (intro sorted_nth_mono) auto
      with 1 show ?thesis by auto
    next
      case False
      with "1.IH"(1) [OF lohi mid_def] rec 1 "1.prems" show ?thesis by (simp add: cmp_def)
    qed
  next
    case 2
    then show ?thesis using "1.prems"(1) lohi step by (simp add: Let_def cmp_def)
  next
    case 3
    then have "cmp (xs ! mid) x = Greater" by (auto simp: cmp_def)
    then have rec: "binary_search_in xs x lo mid = None"
      using "1.prems"(1) lohi step by (simp add: Let_def)
    show ?thesis
    proof (cases "mid \<le> i")
      case True
      then have "xs ! mid \<le> xs ! i" using "1.prems" by (intro sorted_nth_mono) auto
      with 3 show ?thesis by auto
    next
      case False
      with "1.IH"(2) [OF lohi mid_def] rec \<open>cmp (xs ! mid) x = Greater\<close> "1.prems" mid
      show ?thesis by simp
    qed
  qed
qed

lemma binary_search_Some: "binary_search xs x = Some i \<Longrightarrow> i < length xs \<and> xs ! i = x"
  unfolding binary_search_def by (rule binary_search_in_Some) auto

lemma binary_search_found:
  assumes "sorted xs" and "x \<in> set xs"
  obtains i where "binary_search xs x = Some i" and "i < length xs" and "xs ! i = x"
proof (cases "binary_search xs x")
  case None
  from assms(2) obtain i where "i < length xs" "xs ! i = x" by (auto simp: in_set_conv_nth)
  with binary_search_in_None [of xs x 0 "length xs" i] None assms(1) show ?thesis
    by (simp add: binary_search_def)
next
  case (Some i)
  with binary_search_Some [OF this] that show ?thesis by blast
qed

lemma binary_search_mem: "sorted xs \<Longrightarrow> binary_search xs x \<noteq> None \<longleftrightarrow> x \<in> set xs"
  by (metis binary_search_Some binary_search_found nth_mem option.distinct(1) option.exhaust)

end
