(* ===== verification/Ordered_Map.thy ===== *)
theory Ordered_Map
  imports Prelude
begin

text \<open>
  Rust's \<open>BTreeMap\<close>: the interface its clients rely on, as a locale with the laws of lookup,
  insertion and removal, and its model, the association list sorted by key that iteration
  over the map yields.
\<close>

section \<open>The interface\<close>

locale ordered_map =
  fixes empty :: "'m"
    and get :: "'m \<Rightarrow> 'k::linorder \<Rightarrow> 'v option"
    and ins :: "'k \<Rightarrow> 'v \<Rightarrow> 'm \<Rightarrow> 'm"
    and del :: "'k \<Rightarrow> 'm \<Rightarrow> 'm"
    and entries :: "'m \<Rightarrow> ('k \<times> 'v) list"
    and wf :: "'m \<Rightarrow> bool"
  assumes entries_empty: "entries empty = []"
    and wf_empty: "wf empty"
    and get_entries: "wf m \<Longrightarrow> get m = map_of (entries m)"
    and keys_ascending: "wf m \<Longrightarrow> sorted_wrt (<) (map fst (entries m))"
    and get_ins: "wf m \<Longrightarrow> get (ins k v m) = (get m)(k \<mapsto> v)"
    and get_del: "wf m \<Longrightarrow> get (del k m) = (get m)(k := None)"
    and wf_ins: "wf m \<Longrightarrow> wf (ins k v m)"
    and wf_del: "wf m \<Longrightarrow> wf (del k m)"
begin

lemma distinct_keys: "wf m \<Longrightarrow> distinct (map fst (entries m))"
  using keys_ascending strict_sorted_iff by blast

lemma in_entries_iff: "wf m \<Longrightarrow> (k, v) \<in> set (entries m) \<longleftrightarrow> get m k = Some v"
  by (simp add: get_entries distinct_keys)

lemma key_in_iff: "wf m \<Longrightarrow> k \<in> fst ` set (entries m) \<longleftrightarrow> get m k \<noteq> None"
  by (simp add: get_entries map_of_eq_None_iff)

lemma dom_get: "wf m \<Longrightarrow> dom (get m) = fst ` set (entries m)"
  by (simp add: get_entries dom_map_of_conv_image_fst)

lemma finite_dom: "wf m \<Longrightarrow> finite (dom (get m))"
  by (simp add: dom_get)

lemma length_entries: "wf m \<Longrightarrow> length (entries m) = card (dom (get m))"
  using distinct_card [OF distinct_keys] by (simp add: dom_get)

lemma length_ins:
  "wf m \<Longrightarrow> length (entries (ins k v m)) =
    (if get m k = None then Suc (length (entries m)) else length (entries m))"
  by (auto simp: length_entries wf_ins get_ins finite_dom domIff card_insert_if)

lemma length_del:
  "wf m \<Longrightarrow> length (entries (del k m)) =
    (if get m k = None then length (entries m) else length (entries m) - 1)"
  by (auto simp: length_entries wf_del get_del finite_dom domIff card_Diff_singleton_if)

text \<open>Totals over the stored values, as the code keeps them in counters beside the map.\<close>

lemma weight_entries:
  assumes "wf m"
  shows "(\<Sum>(k, v)\<leftarrow>entries m. f k v) = (\<Sum>k\<in>dom (get m). f k (the (get m k)) :: nat)"
proof -
  have "(\<Sum>(k, v)\<leftarrow>entries m. f k v) = (\<Sum>kv\<in>set (entries m). f (fst kv) (snd kv))"
    using distinct_keys [OF assms]
    by (simp add: sum_list_distinct_conv_sum_set distinct_map case_prod_beta)
  also have "\<dots> = (\<Sum>k\<in>dom (get m). f k (the (get m k)))"
  proof (rule sum.reindex_cong [of "\<lambda>k. (k, the (get m k))"])
    show "set (entries m) = (\<lambda>k. (k, the (get m k))) ` dom (get m)"
      using assms by (force simp: in_entries_iff dom_get image_iff)
  qed (auto intro: inj_onI)
  finally show ?thesis .
qed

lemma weight_ins:
  assumes "wf m"
  shows "(\<Sum>(k, v)\<leftarrow>entries (ins k v m). f k v) +
      (case get m k of None \<Rightarrow> 0 | Some old \<Rightarrow> f k old) =
    (\<Sum>(k, v)\<leftarrow>entries m. f k v) + (f k v :: nat)"
proof -
  let ?D = "dom (get m) - {k}"
  have fin: "finite ?D" using finite_dom [OF assms] by simp
  have rest: "(\<Sum>j\<in>?D. f j (the (((get m)(k \<mapsto> v)) j))) = (\<Sum>j\<in>?D. f j (the (get m j)))"
    by (intro sum.cong) auto
  have new: "(\<Sum>(k, v)\<leftarrow>entries (ins k v m). f k v) = f k v + (\<Sum>j\<in>?D. f j (the (get m j)))"
  proof -
    have "(\<Sum>(k, v)\<leftarrow>entries (ins k v m). f k v) =
        (\<Sum>j\<in>insert k ?D. f j (the (((get m)(k \<mapsto> v)) j)))"
      by (simp add: weight_entries wf_ins get_ins assms)
    also have "\<dots> = f k v + (\<Sum>j\<in>?D. f j (the (((get m)(k \<mapsto> v)) j)))"
      using fin by (subst sum.insert) auto
    finally show ?thesis by (simp only: rest)
  qed
  show ?thesis
  proof (cases "get m k")
    case None
    then have "?D = dom (get m)" by auto
    with None new show ?thesis by (simp add: weight_entries assms)
  next
    case (Some old)
    then have "dom (get m) = insert k ?D" by auto
    then have "(\<Sum>j\<in>dom (get m). f j (the (get m j))) = f k old + (\<Sum>j\<in>?D. f j (the (get m j)))"
      using fin Some sum.insert [of ?D k "\<lambda>j. f j (the (get m j))"] by simp
    with Some new show ?thesis by (simp add: weight_entries assms)
  qed
qed

lemma weight_del:
  assumes "wf m" and "get m k = Some old"
  shows "(\<Sum>(k, v)\<leftarrow>entries (del k m). f k v) + f k old = (\<Sum>(k, v)\<leftarrow>entries m. f k v :: nat)"
proof -
  have "dom (get (del k m)) = dom (get m) - {k}"
    by (simp add: get_del assms)
  moreover have "(\<Sum>j\<in>dom (get m) - {k}. f j (the (get (del k m) j))) =
      (\<Sum>j\<in>dom (get m) - {k}. f j (the (get m j)))"
    by (intro sum.cong) (auto simp: get_del assms)
  moreover have "(\<Sum>j\<in>dom (get m). f j (the (get m j))) =
      f k old + (\<Sum>j\<in>dom (get m) - {k}. f j (the (get m j)))"
    using assms finite_dom by (subst sum.remove [of _ k]) auto
  ultimately show ?thesis by (simp add: weight_entries assms wf_del)
qed

end

section \<open>Sorted association lists\<close>

type_synonym ('k, 'v) btree = "('k \<times> 'v) list"

fun bt_insert :: "'k::linorder \<Rightarrow> 'v \<Rightarrow> ('k, 'v) btree \<Rightarrow> ('k, 'v) btree" where
  "bt_insert k v [] = [(k, v)]"
| "bt_insert k v (e # m) =
    (if k < fst e then (k, v) # e # m
     else if k = fst e then (k, v) # m
     else e # bt_insert k v m)"

text \<open>\<open>BTreeMap::get\<close> is \<open>map_of\<close>.\<close>

definition bt_remove :: "'k::linorder \<Rightarrow> ('k, 'v) btree \<Rightarrow> ('k, 'v) btree" where
  "bt_remove k m = filter (\<lambda>e. fst e \<noteq> k) m"

definition bt_retain :: "('k \<Rightarrow> 'v \<Rightarrow> bool) \<Rightarrow> ('k::linorder, 'v) btree \<Rightarrow> ('k, 'v) btree" where
  "bt_retain p m = filter (\<lambda>(k, v). p k v) m"

definition bt_extend :: "('k::linorder, 'v) btree \<Rightarrow> ('k, 'v) btree \<Rightarrow> ('k, 'v) btree" where
  "bt_extend m n = fold (\<lambda>(k, v). bt_insert k v) n m"

definition bt_wf :: "('k::linorder, 'v) btree \<Rightarrow> bool" where
  "bt_wf m \<longleftrightarrow> sorted_wrt (<) (map fst m)"

lemma bt_insert_keys: "fst ` set (bt_insert k v m) = insert k (fst ` set m)"
  by (induction m) auto

lemma bt_wf_Nil [simp]: "bt_wf []"
  by (simp add: bt_wf_def)

lemma bt_wf_Cons [simp]: "bt_wf (e # m) \<longleftrightarrow> (\<forall>k\<in>fst ` set m. fst e < k) \<and> bt_wf m"
  by (auto simp: bt_wf_def)

lemma bt_wf_filter: "bt_wf m \<Longrightarrow> bt_wf (filter p m)"
  by (induction m) auto

lemma bt_wf_insert: "bt_wf m \<Longrightarrow> bt_wf (bt_insert k v m)"
proof (induction m)
  case (Cons e m)
  show ?case
    using Cons by (auto simp: bt_insert_keys)
qed simp

lemma bt_get_insert:
  assumes "bt_wf m"
  shows "map_of (bt_insert k v m) = (map_of m)(k \<mapsto> v)"
  using assms by (induction m) (auto simp: fun_eq_iff)

lemma bt_get_remove: "map_of (bt_remove k m) = (map_of m)(k := None)"
  by (induction m) (auto simp: bt_remove_def fun_eq_iff)

lemma bt_wf_remove: "bt_wf m \<Longrightarrow> bt_wf (bt_remove k m)"
  by (simp add: bt_remove_def bt_wf_filter)

lemma bt_wf_retain: "bt_wf m \<Longrightarrow> bt_wf (bt_retain p m)"
  by (simp add: bt_retain_def bt_wf_filter)

lemma bt_get_retain:
  assumes "bt_wf m"
  shows "map_of (bt_retain p m) k =
    (case map_of m k of None \<Rightarrow> None | Some v \<Rightarrow> if p k v then Some v else None)"
  using assms
proof (induction m)
  case (Cons e m)
  obtain k' v' where e: "e = (k', v')" by (cases e)
  have "k' \<notin> fst ` set m" using Cons.prems e by auto
  then have "map_of m k' = None" by (simp add: map_of_eq_None_iff)
  with Cons e show ?case by (auto simp: bt_retain_def split: option.splits)
qed (simp add: bt_retain_def)

interpretation bt: ordered_map "[]" map_of bt_insert bt_remove "\<lambda>m. m" bt_wf
  by unfold_locales
    (auto simp: bt_wf_insert bt_get_insert bt_get_remove bt_wf_remove bt_wf_def [symmetric]
      simp del: bt_wf_Cons) 

lemma bt_extend_wf_get:
  assumes "bt_wf m" and "bt_wf n"
  shows "bt_wf (bt_extend m n) \<and> map_of (bt_extend m n) = map_of m ++ map_of n"
  using assms
proof (induction n arbitrary: m)
  case Nil
  then show ?case by (simp add: bt_extend_def)
next
  case (Cons e n)
  obtain k v where e: "e = (k, v)" by (cases e)
  have wf: "bt_wf (bt_insert k v m)" using Cons.prems by (simp add: bt_wf_insert)
  have "k \<notin> dom (map_of n)"
    using Cons.prems e by (auto simp: dom_map_of_conv_image_fst)
  then have "(map_of m)(k \<mapsto> v) ++ map_of n = (map_of m ++ map_of n)(k \<mapsto> v)"
    by (simp add: map_add_upd_left)
  then have ext: "map_of (bt_insert k v m) ++ map_of n = map_of m ++ map_of (e # n)"
    using Cons.prems e by (simp only: bt_get_insert map_of.simps fst_conv snd_conv map_add_upd)
  have step: "bt_extend m (e # n) = bt_extend (bt_insert k v m) n"
    by (simp add: bt_extend_def e)
  have "bt_wf n" using Cons.prems by simp
  from Cons.IH [OF wf this] show ?case by (simp only: ext step)
qed

end
