(* ===== verification/Metering.thy ===== *)
theory Metering
  imports Prelude
begin

text \<open>
  Two contracts several components share. A meter counts work against a ceiling and refuses
  the charge that would pass it: match events, scanned bytes, authored bytes. A greedy admission
  walks a ranked list and takes each item that still fits its budget: lorebook entries and
  memory candidates.
\<close>

section \<open>Meters\<close>

locale meter =
  fixes charge :: "'s \<Rightarrow> 'a \<Rightarrow> ('e, 's) res"
    and cost :: "'a \<Rightarrow> nat"
    and used :: "'s \<Rightarrow> nat"
    and cap :: "'s \<Rightarrow> nat"
  assumes charge_Inr: "charge s x = Inr s' \<Longrightarrow>
      used s' = used s + cost x \<and> used s' \<le> cap s \<and> cap s' = cap s"
    and charge_fits: "used s + cost x \<le> cap s \<Longrightarrow> cap s < 2 ^ 64 \<Longrightarrow> is_ok (charge s x)"
begin

lemma run_Inr:
  "try_fold charge s xs = Inr t \<Longrightarrow>
    used t = used s + (\<Sum>x\<leftarrow>xs. cost x) \<and> cap t = cap s \<and> (xs = [] \<or> used t \<le> cap s)"
proof (induction xs arbitrary: s)
  case Nil
  then show ?case by simp
next
  case (Cons x xs)
  then obtain u where u: "charge s x = Inr u" "try_fold charge u xs = Inr t" by auto
  from Cons.IH [OF u(2)] charge_Inr [OF u(1)] u(2) show ?case by auto
qed

lemma run_fits:
  "used s + (\<Sum>x\<leftarrow>xs. cost x) \<le> cap s \<Longrightarrow> cap s < 2 ^ 64 \<Longrightarrow> is_ok (try_fold charge s xs)"
proof (induction xs arbitrary: s)
  case Nil
  then show ?case by simp
next
  case (Cons x xs)
  then have "is_ok (charge s x)" by (intro charge_fits) auto
  then obtain u where u: "charge s x = Inr u" by (auto simp: is_ok_iff)
  with charge_Inr [OF u] Cons show ?case by auto
qed

text \<open>A run of charges succeeds exactly when the whole of it fits under the ceiling.\<close>

lemma run_ok_iff:
  assumes "used s \<le> cap s" and "cap s < 2 ^ 64"
  shows "is_ok (try_fold charge s xs) \<longleftrightarrow> used s + (\<Sum>x\<leftarrow>xs. cost x) \<le> cap s"
proof
  assume "is_ok (try_fold charge s xs)"
  then obtain t where "try_fold charge s xs = Inr t" by (auto simp: is_ok_iff)
  from run_Inr [OF this] assms(1) show "used s + (\<Sum>x\<leftarrow>xs. cost x) \<le> cap s" by auto
qed (use run_fits assms(2) in blast)

end

section \<open>Greedy admission\<close>

definition greedy_step :: "('s \<Rightarrow> 'a \<Rightarrow> bool) \<Rightarrow> ('s \<Rightarrow> 'a \<Rightarrow> 's) \<Rightarrow> 's \<Rightarrow> 'a \<Rightarrow> 's" where
  "greedy_step fits admit s x = (if fits s x then admit s x else s)"

locale greedy_admission =
  fixes fits :: "'s \<Rightarrow> 'a \<Rightarrow> bool"
    and admit :: "'s \<Rightarrow> 'a \<Rightarrow> 's"
    and key :: "'a \<Rightarrow> 'k"
    and chosen :: "'s \<Rightarrow> 'k list"
    and sound :: "'s \<Rightarrow> bool"
  assumes chosen_admit: "chosen (admit s x) = chosen s @ [key x]"
    and sound_admit: "sound s \<Longrightarrow> fits s x \<Longrightarrow> sound (admit s x)"
    and fits_antimono: "sound s \<Longrightarrow> fits s y \<Longrightarrow> fits (admit s y) x \<Longrightarrow> fits s x"
begin

abbreviation run :: "'s \<Rightarrow> 'a list \<Rightarrow> 's" where
  "run \<equiv> foldl (greedy_step fits admit)"

lemma run_sound: "sound s \<Longrightarrow> sound (run s xs)"
  by (induction xs arbitrary: s) (auto simp: greedy_step_def sound_admit)

lemma run_admitted: "\<exists>ys. subseq ys xs \<and> run s xs = foldl admit s ys"
proof (induction xs arbitrary: s)
  case Nil
  then show ?case by (intro exI [of _ "[]"]) simp
next
  case (Cons x xs)
  from Cons.IH [of "greedy_step fits admit s x"] obtain ys
    where ys: "subseq ys xs" "run s (x # xs) = foldl admit (greedy_step fits admit s x) ys"
    by auto
  show ?case
  proof (cases "fits s x")
    case True
    with ys have "subseq (x # ys) (x # xs) \<and> run s (x # xs) = foldl admit s (x # ys)"
      by (simp add: greedy_step_def)
    then show ?thesis by blast
  next
    case False
    with ys have "subseq ys (x # xs) \<and> run s (x # xs) = foldl admit s ys"
      by (simp add: greedy_step_def list_emb_Cons)
    then show ?thesis by blast
  qed
qed

lemma chosen_admits: "chosen (foldl admit s ys) = chosen s @ map key ys"
  by (induction ys arbitrary: s) (simp_all add: chosen_admit)

lemma run_chosen: "\<exists>ys. subseq ys xs \<and> chosen (run s xs) = chosen s @ map key ys"
  using run_admitted [of xs s] chosen_admits by metis

lemma run_fits_antimono: "sound s \<Longrightarrow> fits (run s xs) x \<Longrightarrow> fits s x"
proof (induction xs arbitrary: s)
  case Nil
  then show ?case by simp
next
  case (Cons y xs)
  show ?case
  proof (cases "fits s y")
    case True
    with Cons.prems Cons.IH [of "admit s y"] have "fits (admit s y) x"
      by (simp add: greedy_step_def sound_admit)
    with Cons.prems(1) True show ?thesis by (rule fits_antimono)
  next
    case False
    with Cons show ?thesis by (simp add: greedy_step_def)
  qed
qed

text \<open>No item that was passed over would still fit at the end.\<close>

lemma run_maximal:
  "sound s \<Longrightarrow> x \<in> set xs \<Longrightarrow> key x \<notin> set (chosen (run s xs)) \<Longrightarrow> \<not> fits (run s xs) x"
proof (induction xs arbitrary: s)
  case Nil
  then show ?case by simp
next
  case (Cons y xs)
  let ?t = "greedy_step fits admit s y"
  have sound: "sound ?t" using Cons.prems(1) by (simp add: greedy_step_def sound_admit)
  show ?case
  proof (cases "x \<in> set xs")
    case True
    with Cons.IH [OF sound True] Cons.prems(3) show ?thesis by simp
  next
    case False
    with Cons.prems(2) have xy: "x = y" by simp
    have "\<not> fits s y"
    proof
      assume "fits s y"
      then have "key y \<in> set (chosen ?t)" by (simp add: greedy_step_def chosen_admit)
      with run_chosen [of xs ?t] Cons.prems(3) xy show False by auto
    qed
    with xy Cons.prems(1) run_fits_antimono [of s "y # xs" x] show ?thesis by blast
  qed
qed

end

end
