(* ===== verification/Lore_Model.thy ===== *)
theory Lore_Model
  imports Ordered_Map Metering
begin

text \<open>
  The lorebook data model: errors (\<open>error.rs\<close>), search normalisation (\<open>normalize.rs\<close>), entries,
  catalogs and selection requests with their admission checks (\<open>model.rs\<close>), and the import and
  export envelope (\<open>import.rs\<close>). Unicode NFKC, the lowercase table and the JSON codec are
  parameters.
\<close>

section \<open>Errors and limits\<close>

datatype LimitKind = LiteralMatchEvents | RegexEvaluations | RegexScanBytes | RegexMatches

text \<open>\<open>Panicked\<close> stands for a Rust panic (an index out of range); it is not a variant of the source.\<close>

datatype LorebookError =
    InvalidField string string
  | TooManyItems string nat
  | PayloadTooLarge string nat
  | DuplicateEntryId
  | InvalidRegex nat
  | SearchLimitExceeded LimitKind
  | ImportSyntax
  | ImportSchema
  | UnsupportedImportVersion
  | Serialization
  | Panicked

abbreviation (input) "MAX_CATALOG_ENTRIES \<equiv> 100000 :: nat"
abbreviation (input) "MAX_CATALOG_BYTES \<equiv> 67108864 :: nat"
abbreviation (input) "MAX_ENTRY_CONTENT_BYTES \<equiv> 262144 :: nat"
abbreviation (input) "MAX_ENTRY_CONDITIONS \<equiv> 64 :: nat"
abbreviation (input) "MAX_KEY_BYTES \<equiv> 4096 :: nat"
abbreviation (input) "MAX_REGEX_BYTES \<equiv> 4096 :: nat"
abbreviation (input) "MAX_RECENT_TURNS \<equiv> 512 :: nat"
abbreviation (input) "MAX_TURN_BYTES \<equiv> 262144 :: nat"
abbreviation (input) "MAX_SEARCH_INPUT_BYTES \<equiv> 2097152 :: nat"
abbreviation (input) "MAX_OUTPUT_BYTES \<equiv> 4194304 :: nat"
abbreviation (input) "MAX_OUTPUT_TOKENS \<equiv> 1000000 :: nat"
abbreviation (input) "MAX_REGEX_SCAN_BYTES \<equiv> 8388608 :: nat"
abbreviation (input) "MAX_REGEX_MATCHES \<equiv> 8192 :: nat"
abbreviation (input) "MAX_REGEX_EVALUATIONS \<equiv> 1024 :: nat"
abbreviation (input) "MAX_LITERAL_MATCH_EVENTS \<equiv> 4194304 :: nat"
abbreviation (input) "MAX_ACTIVE_REGEX_CONDITIONS \<equiv> 1024 :: nat"
abbreviation (input) "MAX_ACTIVE_REGEX_PATTERN_BYTES \<equiv> 1048576 :: nat"
abbreviation (input) "MAX_LORE_IMPORT_BYTES \<equiv> 75497472 :: nat"
abbreviation (input) "MAX_ENTRY_ID_BYTES \<equiv> 128 :: nat"
abbreviation (input) "MAX_TOKENIZER_ID_BYTES \<equiv> 256 :: nat"
abbreviation (input) "MAX_TOKENIZER_REVISION_BYTES \<equiv> 256 :: nat"

section \<open>Normalisation\<close>

text \<open>
  \<open>nfkc\<close> is the \<open>unicode-normalization\<close> crate, \<open>to_lowercase\<close> the Unicode lowercase table.
\<close>

record unicode =
  nfkc :: "rstr \<Rightarrow> rstr"
  to_lowercase :: "uchar \<Rightarrow> rstr"

text \<open>The loop of \<open>normalize_search_text\<close> over the characters, with \<open>pending_space\<close>.\<close>

fun collapse_spaces :: "rstr \<Rightarrow> bool \<Rightarrow> rstr \<Rightarrow> rstr" where
  "collapse_spaces normalized pending_space [] = normalized"
| "collapse_spaces normalized pending_space (c # cs) =
    (if is_whitespace c then collapse_spaces normalized (normalized \<noteq> []) cs
     else if pending_space then collapse_spaces (normalized @ [32, c]) False cs
     else collapse_spaces (normalized @ [c]) pending_space cs)"

definition normalize_search_text :: "unicode \<Rightarrow> rstr \<Rightarrow> bool \<Rightarrow> rstr" where
  "normalize_search_text u value case_sensitive =
    (let compatible = nfkc u value;
         cased = (if case_sensitive then compatible else concat (map (to_lowercase u) compatible))
     in collapse_spaces [] False cased)"

section \<open>Entries\<close>

definition EntryId_parse :: "rstr \<Rightarrow> (LorebookError, rstr) res" where
  "EntryId_parse value =
    (if value = [] \<or> str_len value > MAX_ENTRY_ID_BYTES
     then Inl (InvalidField ''entry.id'' ''must be a bounded non-empty identifier'')
     else if \<not> list_all (\<lambda>c. is_ascii_alphanumeric c \<or> c \<in> set (lit ''-_.:'')) value
     then Inl (InvalidField ''entry.id'' ''contains unsupported characters'')
     else Inr value)"

datatype EntrySource = Global | CharacterCard | Chat

primrec precedence :: "EntrySource \<Rightarrow> nat" where
  "precedence Global = 0"
| "precedence CharacterCard = 1"
| "precedence Chat = 2"

text \<open>\<open>Literal value case_sensitive\<close> and \<open>Regex pattern required_literal case_insensitive\<close>.\<close>

datatype MatchCondition = Literal rstr bool | Regex rstr rstr bool

fun MatchCondition_validate :: "MatchCondition \<Rightarrow> (LorebookError, unit) res" where
  "MatchCondition_validate (Literal value case_sensitive) =
    (if value = [] \<or> str_len value > MAX_KEY_BYTES
     then Inl (InvalidField ''entry.condition.key'' ''must be a bounded non-empty string'')
     else Inr ())"
| "MatchCondition_validate (Regex pattern required_literal case_insensitive) =
    (if required_literal = [] \<or> str_len required_literal > MAX_KEY_BYTES
     then Inl (InvalidField ''entry.condition.key'' ''must be a bounded non-empty string'')
     else if pattern = [] \<or> str_len pattern > MAX_REGEX_BYTES
     then Inl (InvalidField ''entry.condition.regex'' ''must be a bounded non-empty pattern'')
     else Inr ())"

datatype SecondaryConditions =
    NoSecondary | AnyOf "MatchCondition list" | AllOf "MatchCondition list"

record MatchConditions =
  primary :: "MatchCondition list"
  secondary :: SecondaryConditions

primrec secondary_list :: "SecondaryConditions \<Rightarrow> MatchCondition list" where
  "secondary_list NoSecondary = []"
| "secondary_list (AnyOf values) = values"
| "secondary_list (AllOf values) = values"

definition MatchConditions_validate :: "MatchConditions \<Rightarrow> (LorebookError, unit) res" where
  "MatchConditions_validate self =
    (if primary self = []
     then Inl (InvalidField ''entry.conditions.primary'' ''must contain at least one condition'')
     else let sec = secondary_list (secondary self) in
       if secondary self \<noteq> NoSecondary \<and> sec = []
       then Inl (InvalidField ''entry.conditions.secondary''
              ''enabled secondary conditions cannot be empty'')
       else and_then (ok_or (checked_add_usize (length (primary self)) (length sec))
              (TooManyItems ''entry.conditions'' MAX_ENTRY_CONDITIONS)) (\<lambda>count.
         if count > MAX_ENTRY_CONDITIONS
         then Inl (TooManyItems ''entry.conditions'' MAX_ENTRY_CONDITIONS)
         else try_fold (\<lambda>_. MatchCondition_validate) () (primary self @ sec)))"

datatype Activation =
    Constant
  | Selective MatchConditions
  | Probability nat "MatchConditions option"

fun Activation_validate :: "Activation \<Rightarrow> (LorebookError, unit) res" where
  "Activation_validate Constant = Inr ()"
| "Activation_validate (Selective conditions) = MatchConditions_validate conditions"
| "Activation_validate (Probability basis_points conditions) =
    (if basis_points > 10000
     then Inl (InvalidField ''entry.activation.basisPoints'' ''must be in 0..=10000'')
     else case conditions of None \<Rightarrow> Inr () | Some cs \<Rightarrow> MatchConditions_validate cs)"

record LoreEntry =
  entry_id :: rstr
  source :: EntrySource
  priority :: int
  order :: int
  enabled :: bool
  activation :: Activation
  content :: rstr
  reserved_tokens :: nat

definition LoreEntry_validate :: "LoreEntry \<Rightarrow> (LorebookError, unit) res" where
  "LoreEntry_validate self =
    (if content self = [] then Inl (InvalidField ''entry.content'' ''must not be empty'')
     else if str_len (content self) > MAX_ENTRY_CONTENT_BYTES
     then Inl (PayloadTooLarge ''entry.content'' MAX_ENTRY_CONTENT_BYTES)
     else if reserved_tokens self = 0 \<or> reserved_tokens self > MAX_OUTPUT_TOKENS
     then Inl (InvalidField ''entry.reservedTokens'' ''must be within the output token ceiling'')
     else Activation_validate (activation self))"

definition LoreEntry_new ::
  "rstr \<Rightarrow> EntrySource \<Rightarrow> int \<Rightarrow> int \<Rightarrow> bool \<Rightarrow> Activation \<Rightarrow> rstr \<Rightarrow> nat \<Rightarrow>
    (LorebookError, LoreEntry) res" where
  "LoreEntry_new eid src prio ord en act cont toks =
    (let value = \<lparr>entry_id = eid, source = src, priority = prio, order = ord, enabled = en,
                  activation = act, content = cont, reserved_tokens = toks\<rparr>
     in and_then (LoreEntry_validate value) (\<lambda>_. Inr value))"

definition set_enabled :: "bool \<Rightarrow> LoreEntry \<Rightarrow> LoreEntry" where
  "set_enabled en self = self\<lparr>enabled := en\<rparr>"

primrec activation_conditions :: "Activation \<Rightarrow> MatchConditions option" where
  "activation_conditions Constant = None"
| "activation_conditions (Selective conditions) = Some conditions"
| "activation_conditions (Probability basis_points conditions) = conditions"

definition condition_iter :: "MatchConditions \<Rightarrow> MatchCondition list" where
  "condition_iter conditions = primary conditions @ secondary_list (secondary conditions)"

section \<open>Catalogs\<close>

record LorebookCatalog =
  catalog_revision :: u64
  entries :: "LoreEntry list"

fun condition_bytes :: "MatchCondition \<Rightarrow> nat" where
  "condition_bytes (Literal value _) = str_len value"
| "condition_bytes (Regex pattern required_literal _) = str_len pattern + str_len required_literal"

text \<open>One pass of the loop of \<open>LorebookCatalog::validate\<close>: the identifiers seen and the byte total.\<close>

definition catalog_validate_step ::
  "rstr set \<times> nat \<Rightarrow> LoreEntry \<Rightarrow> (LorebookError, rstr set \<times> nat) res" where
  "catalog_validate_step st entry =
    (let (ids, bytes) = st; too_large = PayloadTooLarge ''catalog'' MAX_CATALOG_BYTES in
     and_then (LoreEntry_validate entry) (\<lambda>_.
     if entry_id entry \<in> ids then Inl DuplicateEntryId
     else and_then (ok_or (Option.bind (checked_add_usize bytes (str_len (entry_id entry)))
            (\<lambda>value. checked_add_usize value (str_len (content entry)))) too_large) (\<lambda>bytes.
     and_then
       (try_fold (\<lambda>b condition. ok_or (checked_add_usize b (condition_bytes condition)) too_large)
         bytes (case activation_conditions (activation entry) of
           None \<Rightarrow> [] | Some conditions \<Rightarrow> condition_iter conditions)) (\<lambda>bytes.
     if bytes > MAX_CATALOG_BYTES then Inl too_large
     else Inr (insert (entry_id entry) ids, bytes)))))"

definition LorebookCatalog_validate :: "LorebookCatalog \<Rightarrow> (LorebookError, unit) res" where
  "LorebookCatalog_validate self =
    (if catalog_revision self = 0
     then Inl (InvalidField ''catalog.revision'' ''must be at least one'')
     else if length (entries self) > MAX_CATALOG_ENTRIES
     then Inl (TooManyItems ''catalog.entries'' MAX_CATALOG_ENTRIES)
     else and_then (try_fold catalog_validate_step ({}, 0) (entries self)) (\<lambda>_. Inr ()))"

definition LorebookCatalog_new ::
  "u64 \<Rightarrow> LoreEntry list \<Rightarrow> (LorebookError, LorebookCatalog) res" where
  "LorebookCatalog_new revision es =
    (let value = \<lparr>catalog_revision = revision, entries = es\<rparr>
     in and_then (LorebookCatalog_validate value) (\<lambda>_. Inr value))"

section \<open>Selection requests\<close>

datatype MessageState = Complete | Partial | Failed

record ChatTurn =
  turn_revision :: u64
  turn_state :: MessageState
  turn_content :: rstr

datatype SummarySnapshot = Missing | Corrupt u64 | Available u64 rstr

record ConversationSnapshot =
  chat_revision :: u64
  branch_revision :: u64
  total_turns :: u64
  recent_turns :: "ChatTurn list"
  summary :: SummarySnapshot

datatype PartialMessagePolicy = Exclude | Include

record SelectionSettings =
  search_depth :: nat
  partial_messages :: PartialMessagePolicy
  max_output_tokens :: nat
  max_output_bytes :: nat
  max_literal_match_events :: nat
  max_regex_evaluations :: nat
  max_regex_scan_bytes :: nat
  max_regex_matches :: nat
  tokenizer_id :: rstr
  tokenizer_revision :: rstr
  separator :: rstr

definition SelectionSettings_validate :: "SelectionSettings \<Rightarrow> (LorebookError, unit) res" where
  "SelectionSettings_validate self =
    (if search_depth self > MAX_RECENT_TURNS then Inl (TooManyItems ''searchDepth'' MAX_RECENT_TURNS)
     else if max_output_tokens self > MAX_OUTPUT_TOKENS
     then Inl (InvalidField ''maxOutputTokens'' ''exceeds the product ceiling'')
     else if max_output_bytes self > MAX_OUTPUT_BYTES
     then Inl (PayloadTooLarge ''output'' MAX_OUTPUT_BYTES)
     else if max_literal_match_events self > MAX_LITERAL_MATCH_EVENTS
     then Inl (TooManyItems ''literalMatchEvents'' MAX_LITERAL_MATCH_EVENTS)
     else if max_regex_evaluations self > MAX_REGEX_EVALUATIONS
     then Inl (TooManyItems ''regexEvaluations'' MAX_REGEX_EVALUATIONS)
     else if max_regex_scan_bytes self > MAX_REGEX_SCAN_BYTES
     then Inl (PayloadTooLarge ''regexScan'' MAX_REGEX_SCAN_BYTES)
     else if max_regex_matches self > MAX_REGEX_MATCHES
     then Inl (TooManyItems ''regexMatches'' MAX_REGEX_MATCHES)
     else if tokenizer_id self = [] \<or> str_len (tokenizer_id self) > MAX_TOKENIZER_ID_BYTES
     then Inl (InvalidField ''tokenizerId'' ''must be a bounded non-empty identifier'')
     else if tokenizer_revision self = [] \<or>
       str_len (tokenizer_revision self) > MAX_TOKENIZER_REVISION_BYTES
     then Inl (InvalidField ''tokenizerRevision'' ''must be a bounded non-empty identifier'')
     else if str_len (separator self) > MAX_KEY_BYTES
     then Inl (PayloadTooLarge ''separator'' MAX_KEY_BYTES)
     else Inr ())"

record SelectionRequest =
  conversation :: ConversationSnapshot
  settings :: SelectionSettings
  seed :: u64

definition add_turn_bytes :: "nat \<Rightarrow> ChatTurn \<Rightarrow> (LorebookError, nat) res" where
  "add_turn_bytes bytes turn =
    (if str_len (turn_content turn) > MAX_TURN_BYTES
     then Inl (PayloadTooLarge ''turn.content'' MAX_TURN_BYTES)
     else ok_or (checked_add_usize bytes (str_len (turn_content turn)))
       (PayloadTooLarge ''searchInput'' MAX_SEARCH_INPUT_BYTES))"

definition SelectionRequest_validate :: "SelectionRequest \<Rightarrow> (LorebookError, unit) res" where
  "SelectionRequest_validate self =
    (let conv = conversation self;
         too_large = PayloadTooLarge ''searchInput'' MAX_SEARCH_INPUT_BYTES in
     and_then (SelectionSettings_validate (settings self)) (\<lambda>_.
     if length (recent_turns conv) > MAX_RECENT_TURNS
     then Inl (TooManyItems ''recentTurns'' MAX_RECENT_TURNS)
     else if length (recent_turns conv) > unat (total_turns conv)
     then Inl (InvalidField ''totalTurns'' ''cannot be smaller than the supplied recent tail'')
     else and_then (try_fold add_turn_bytes 0 (recent_turns conv)) (\<lambda>bytes.
     and_then (case summary conv of
            Available _ cont \<Rightarrow>
              if str_len cont > MAX_TURN_BYTES
              then Inl (PayloadTooLarge ''summary.content'' MAX_TURN_BYTES)
              else ok_or (checked_add_usize bytes (str_len cont)) too_large
          | _ \<Rightarrow> Inr bytes) (\<lambda>bytes.
     if bytes > MAX_SEARCH_INPUT_BYTES then Inl too_large else Inr ()))))"

section \<open>Import and export\<close>

datatype ImportTrust = Untrusted | LocallyTrusted

record ImportEnvelope =
  env_format :: rstr
  env_schema_version :: nat
  env_catalog :: LorebookCatalog

text \<open>
  The JSON codec of \<open>serde_json\<close>: decoding fails with a syntax (or end of input) error, flagged
  \<open>True\<close>, or with a data error; encoding may fail.
\<close>

record lore_codec =
  decode_envelope :: "byte list \<Rightarrow> bool + ImportEnvelope"
  encode_envelope :: "ImportEnvelope \<Rightarrow> byte list option"

abbreviation (input) "LORE_IMPORT_FORMAT \<equiv> lit ''lorepia.lorebook''"

definition import_catalog_with_trust ::
  "lore_codec \<Rightarrow> byte list \<Rightarrow> ImportTrust \<Rightarrow> (LorebookError, LorebookCatalog) res" where
  "import_catalog_with_trust codec bytes trust =
    (if length bytes > MAX_LORE_IMPORT_BYTES
     then Inl (PayloadTooLarge ''import'' MAX_LORE_IMPORT_BYTES)
     else and_then (map_err (\<lambda>syntax. if syntax then ImportSyntax else ImportSchema)
            (decode_envelope codec bytes)) (\<lambda>envelope.
     if env_format envelope \<noteq> LORE_IMPORT_FORMAT then Inl ImportSchema
     else if env_schema_version envelope \<noteq> 1 then Inl UnsupportedImportVersion
     else and_then (LorebookCatalog_validate (env_catalog envelope)) (\<lambda>_.
       let catalog = env_catalog envelope in
       Inr (if trust = Untrusted
            then catalog\<lparr>entries := map (set_enabled False) (entries catalog)\<rparr>
            else catalog))))"

definition import_catalog :: "lore_codec \<Rightarrow> byte list \<Rightarrow> (LorebookError, LorebookCatalog) res" where
  "import_catalog codec bytes = import_catalog_with_trust codec bytes Untrusted"

definition export_catalog :: "lore_codec \<Rightarrow> LorebookCatalog \<Rightarrow> (LorebookError, byte list) res" where
  "export_catalog codec catalog =
    and_then (LorebookCatalog_validate catalog) (\<lambda>_.
    and_then (ok_or (encode_envelope codec
        \<lparr>env_format = LORE_IMPORT_FORMAT, env_schema_version = 1, env_catalog = catalog\<rparr>)
      Serialization) (\<lambda>bytes.
    if length bytes > MAX_LORE_IMPORT_BYTES
    then Inl (PayloadTooLarge ''export'' MAX_LORE_IMPORT_BYTES) else Inr bytes))"

end
