(* ===== verification/Lore_Engine.thy ===== *)
theory Lore_Engine
  imports Lore_Model
begin

text \<open>
  The lorebook selection engine (\<open>engine.rs\<close>): the literal pattern indexes, compilation of a
  catalog, the search input of a request, activation under work limits, ranking and greedy
  admission, and the selection cache. The Aho-Corasick matcher, the regular expression engine and
  SHA-256 are fields of the record \<open>engine_env\<close>, next to the Unicode tables.
\<close>

record ('ac, 'rx) engine_env =
  env_unicode :: unicode
  ac_build :: "rstr list \<Rightarrow> 'ac option"
  find_overlapping_iter :: "'ac \<Rightarrow> rstr \<Rightarrow> nat list"
  rx_build :: "rstr \<Rightarrow> bool \<Rightarrow> 'rx option"
  find_iter :: "'rx \<Rightarrow> rstr \<Rightarrow> (nat \<times> nat) list"
  sha256 :: "byte list \<Rightarrow> byte list"

abbreviation (input) "MAX_CACHE_ENTRIES \<equiv> 16 :: nat"
abbreviation (input) "RANDOM_DOMAIN \<equiv> as_bytes (lit ''lorepia-lorebook-probability-v1'')"
abbreviation (input) "CACHE_DOMAIN \<equiv> as_bytes (lit ''lorepia-lorebook-cache-v1'')"
abbreviation (input) "SEARCH_DOMAIN \<equiv> as_bytes (lit ''lorepia-lorebook-search-slice-v1'')"

section \<open>Data\<close>

record SelectionReceipt =
  rc_catalog_revision :: u64
  rc_chat_revision :: u64
  rc_branch_revision :: u64
  cache_fingerprint :: "byte list"
  cache_hit :: bool
  candidate_count :: nat
  matched_count :: nat
  selected_ids :: "rstr list"
  selected_tokens :: nat
  selected_bytes :: nat
  literal_match_events :: nat
  regex_evaluations :: nat
  regex_scan_bytes :: nat
  regex_matches :: nat

record Selection =
  prompt_text :: rstr
  receipt :: SelectionReceipt

text \<open>The fields of \<open>CacheKey\<close>, compared in this order (the derived \<open>Ord\<close>).\<close>

datatype CacheKey = CacheKey
  (ck_catalog_revision: u64)
  (ck_catalog_generation: u64)
  (ck_chat_revision: u64)
  (ck_branch_revision: u64)
  (ck_search_depth: u64)
  (ck_seed: u64)
  (ck_tokenizer_fingerprint: "byte list")
  (ck_settings_fingerprint: "byte list")
  (ck_search_slice_fingerprint: "byte list")

primrec CacheKey_fields where
  "CacheKey_fields (CacheKey a b c d e f g h i) = (a, b, c, d, e, f, g, h, i)"

lemma CacheKey_fields_inj [simp]: "CacheKey_fields k = CacheKey_fields l \<longleftrightarrow> k = l"
  by (cases k; cases l) simp

instantiation CacheKey :: linorder
begin

definition less_eq_CacheKey :: "CacheKey \<Rightarrow> CacheKey \<Rightarrow> bool" where
  "less_eq_CacheKey k l \<longleftrightarrow> CacheKey_fields k \<le> CacheKey_fields l"

definition less_CacheKey :: "CacheKey \<Rightarrow> CacheKey \<Rightarrow> bool" where
  "less_CacheKey k l \<longleftrightarrow> CacheKey_fields k < CacheKey_fields l"

instance
proof
  fix k l m :: CacheKey
  show "k < l \<longleftrightarrow> k \<le> l \<and> \<not> l \<le> k"
    unfolding less_eq_CacheKey_def less_CacheKey_def by (rule less_le_not_le)
  show "k \<le> k" by (simp add: less_eq_CacheKey_def)
  show "k \<le> m" if "k \<le> l" "l \<le> m"
    using that unfolding less_eq_CacheKey_def by (rule order_trans)
  show "k = l" if "k \<le> l" "l \<le> k"
    using that unfolding less_eq_CacheKey_def by (metis CacheKey_fields_inj order_antisym)
  show "k \<le> l \<or> l \<le> k" unfolding less_eq_CacheKey_def by (rule linear)
qed

end

datatype PatternRef = PatternRef (pr_folded: bool) (pr_index: nat)

datatype 'rx CompiledCondition = CompiledLiteral PatternRef | CompiledRegex 'rx

datatype 'rx CompiledSecondary =
    CompiledNone
  | CompiledAny "'rx CompiledCondition list"
  | CompiledAll "'rx CompiledCondition list"

datatype 'rx CompiledConditions =
  CompiledConditions (cc_primary: "'rx CompiledCondition list") (cc_secondary: "'rx CompiledSecondary")

datatype 'rx CompiledActivation =
    CompiledConstant
  | CompiledSelective "'rx CompiledConditions"
  | CompiledProbability nat "'rx CompiledConditions option"

datatype 'rx CompiledEntry =
  CompiledEntry (ce_source: LoreEntry) (ce_activation: "'rx CompiledActivation")

record 'ac PatternIndex =
  matcher :: "'ac option"
  patterns :: "rstr list"
  candidate_entries :: "nat list list"

record ('ac, 'rx) CompiledCatalog =
  revision :: u64
  generation :: u64
  compiled_entries :: "'rx CompiledEntry list"
  sensitive :: "'ac PatternIndex"
  folded :: "'ac PatternIndex"
  unconditional :: "nat list"

section \<open>Literal pattern indexes\<close>

record LiteralWork =
  events :: nat
  max_events :: nat

definition LiteralWork_new :: "nat \<Rightarrow> LiteralWork" where
  "LiteralWork_new cap = \<lparr>events = 0, max_events = cap\<rparr>"

definition LiteralWork_charge :: "LiteralWork \<Rightarrow> (LorebookError, LiteralWork) res" where
  "LiteralWork_charge self =
    and_then (ok_or (checked_add_usize (events self) 1) (SearchLimitExceeded LiteralMatchEvents))
      (\<lambda>n. let self = self\<lparr>events := n\<rparr> in
        if events self > max_events self then Inl (SearchLimitExceeded LiteralMatchEvents)
        else Inr self)"

definition PatternIndex_build ::
  "('ac, 'rx) engine_env \<Rightarrow> rstr set \<Rightarrow> (LorebookError, 'ac PatternIndex) res" where
  "PatternIndex_build env pats =
    (let ps = sorted_list_of_set pats in
     and_then (if ps = [] then Inr None
       else and_then (ok_or (ac_build env ps)
         (InvalidField ''catalog.conditions'' ''cannot build search index'')) (Inr \<circ> Some))
       (\<lambda>m. Inr \<lparr>matcher = m, patterns = ps, candidate_entries = replicate (length ps) []\<rparr>))"

definition PatternIndex_lookup :: "'ac PatternIndex \<Rightarrow> rstr \<Rightarrow> (LorebookError, nat) res" where
  "PatternIndex_lookup self pattern =
    ok_or (binary_search (patterns self) pattern)
      (InvalidField ''catalog.conditions'' ''search index is inconsistent'')"

definition mark_hit ::
  "LiteralWork \<times> bool list \<Rightarrow> nat \<Rightarrow> (LorebookError, LiteralWork \<times> bool list) res" where
  "mark_hit st found =
    (let (work, hits) = st in
     and_then (LiteralWork_charge work) (\<lambda>work.
     if found < length hits then Inr (work, hits[found := True]) else Inl Panicked))"

definition PatternIndex_matches ::
  "('ac, 'rx) engine_env \<Rightarrow> 'ac PatternIndex \<Rightarrow> rstr \<Rightarrow> LiteralWork \<Rightarrow>
    (LorebookError, LiteralWork \<times> bool list) res" where
  "PatternIndex_matches env self haystack work =
    (let hits = replicate (length (patterns self)) False in
     case matcher self of
       None \<Rightarrow> Inr (work, hits)
     | Some m \<Rightarrow> try_fold mark_hit (work, hits) (find_overlapping_iter env m haystack))"

section \<open>Compilation\<close>

record pattern_scan =
  sensitive_patterns :: "rstr set"
  folded_patterns :: "rstr set"
  active_regex_conditions :: nat
  active_regex_pattern_bytes :: nat

text \<open>The body of the first loop of \<open>compile_catalog\<close>, per condition of an enabled entry.\<close>

fun scan_condition ::
  "unicode \<Rightarrow> pattern_scan \<Rightarrow> MatchCondition \<Rightarrow> (LorebookError, pattern_scan) res" where
  "scan_condition u st (Literal value case_sensitive) =
    (let normalized = normalize_search_text u value case_sensitive in
     if normalized = []
     then Inl (InvalidField ''entry.condition.key'' ''normalization cannot produce an empty key'')
     else if case_sensitive
     then Inr (st\<lparr>sensitive_patterns := insert normalized (sensitive_patterns st)\<rparr>)
     else Inr (st\<lparr>folded_patterns := insert normalized (folded_patterns st)\<rparr>))"
| "scan_condition u st (Regex pattern required_literal case_insensitive) =
    and_then (ok_or (checked_add_usize (active_regex_conditions st) 1)
        (TooManyItems ''activeRegexConditions'' MAX_ACTIVE_REGEX_CONDITIONS)) (\<lambda>n.
    and_then (ok_or (checked_add_usize (active_regex_pattern_bytes st) (str_len pattern))
        (PayloadTooLarge ''activeRegexPatterns'' MAX_ACTIVE_REGEX_PATTERN_BYTES)) (\<lambda>b.
    Inr (st\<lparr>active_regex_conditions := n, active_regex_pattern_bytes := b\<rparr>)))"

definition entry_conditions :: "LoreEntry \<Rightarrow> MatchCondition list" where
  "entry_conditions entry =
    (case activation_conditions (activation entry) of
       None \<Rightarrow> [] | Some conditions \<Rightarrow> condition_iter conditions)"

definition scan_patterns :: "unicode \<Rightarrow> LoreEntry list \<Rightarrow> (LorebookError, pattern_scan) res" where
  "scan_patterns u es =
    and_then (try_fold (\<lambda>st entry. try_fold (scan_condition u) st (entry_conditions entry))
      \<lparr>sensitive_patterns = {}, folded_patterns = {}, active_regex_conditions = 0,
       active_regex_pattern_bytes = 0\<rparr> es) (\<lambda>st.
    if active_regex_conditions st > MAX_ACTIVE_REGEX_CONDITIONS
    then Inl (TooManyItems ''activeRegexConditions'' MAX_ACTIVE_REGEX_CONDITIONS)
    else if active_regex_pattern_bytes st > MAX_ACTIVE_REGEX_PATTERN_BYTES
    then Inl (PayloadTooLarge ''activeRegexPatterns'' MAX_ACTIVE_REGEX_PATTERN_BYTES)
    else Inr st)"

fun compile_condition ::
  "('ac, 'rx) engine_env \<Rightarrow> nat \<Rightarrow> 'ac PatternIndex \<Rightarrow> 'ac PatternIndex \<Rightarrow> MatchCondition \<Rightarrow>
    (LorebookError, 'rx CompiledCondition) res" where
  "compile_condition env entry_index sens_ix fold_ix (Literal value case_sensitive) =
    (let normalized = normalize_search_text (env_unicode env) value case_sensitive in
     and_then (if case_sensitive then PatternIndex_lookup sens_ix normalized
               else PatternIndex_lookup fold_ix normalized) (\<lambda>index.
     Inr (CompiledLiteral (PatternRef (\<not> case_sensitive) index))))"
| "compile_condition env entry_index sens_ix fold_ix (Regex pattern required_literal case_insensitive) =
    and_then (ok_or (rx_build env pattern case_insensitive) (InvalidRegex entry_index)) (\<lambda>regex.
    Inr (CompiledRegex regex))"

definition compile_conditions ::
  "('ac, 'rx) engine_env \<Rightarrow> nat \<Rightarrow> 'ac PatternIndex \<Rightarrow> 'ac PatternIndex \<Rightarrow> MatchConditions \<Rightarrow>
    (LorebookError, 'rx CompiledConditions) res" where
  "compile_conditions env entry_index sens_ix fold_ix conditions =
    (let compile_many = try_map (compile_condition env entry_index sens_ix fold_ix) in
     and_then (compile_many (primary conditions)) (\<lambda>prim.
     and_then (case secondary conditions of
         NoSecondary \<Rightarrow> Inr CompiledNone
       | AnyOf values \<Rightarrow> and_then (compile_many values) (Inr \<circ> CompiledAny)
       | AllOf values \<Rightarrow> and_then (compile_many values) (Inr \<circ> CompiledAll)) (\<lambda>sec.
     Inr (CompiledConditions prim sec))))"

fun compile_activation ::
  "('ac, 'rx) engine_env \<Rightarrow> nat \<Rightarrow> 'ac PatternIndex \<Rightarrow> 'ac PatternIndex \<Rightarrow> Activation \<Rightarrow>
    (LorebookError, 'rx CompiledActivation) res" where
  "compile_activation env entry_index sens_ix fold_ix Constant = Inr CompiledConstant"
| "compile_activation env entry_index sens_ix fold_ix (Selective conditions) =
    and_then (compile_conditions env entry_index sens_ix fold_ix conditions) (Inr \<circ> CompiledSelective)"
| "compile_activation env entry_index sens_ix fold_ix (Probability basis_points conditions) =
    (case conditions of
       None \<Rightarrow> Inr (CompiledProbability basis_points None)
     | Some value \<Rightarrow> and_then (compile_conditions env entry_index sens_ix fold_ix value)
         (Inr \<circ> CompiledProbability basis_points \<circ> Some))"

fun compiled_secondary_list :: "'rx CompiledSecondary \<Rightarrow> 'rx CompiledCondition list" where
  "compiled_secondary_list CompiledNone = []"
| "compiled_secondary_list (CompiledAny values) = values"
| "compiled_secondary_list (CompiledAll values) = values"

definition compiled_condition_iter :: "'rx CompiledConditions \<Rightarrow> 'rx CompiledCondition list" where
  "compiled_condition_iter conditions =
    cc_primary conditions @ compiled_secondary_list (cc_secondary conditions)"

text \<open>The \<open>match\<close> that opens the two functions below: the conditions of an activation, if any.\<close>

fun compiled_conditions_of :: "'rx CompiledActivation \<Rightarrow> 'rx CompiledConditions option" where
  "compiled_conditions_of CompiledConstant = None"
| "compiled_conditions_of (CompiledSelective conditions) = Some conditions"
| "compiled_conditions_of (CompiledProbability basis_points conditions) = conditions"

definition compiled_activation_contains_regex :: "'rx CompiledActivation \<Rightarrow> bool" where
  "compiled_activation_contains_regex act =
    (case compiled_conditions_of act of
       None \<Rightarrow> False
     | Some conditions \<Rightarrow>
         list_ex (\<lambda>c. case c of CompiledRegex _ \<Rightarrow> True | CompiledLiteral _ \<Rightarrow> False)
           (compiled_condition_iter conditions))"

definition push_candidate :: "nat \<Rightarrow> 'ac PatternIndex \<Rightarrow> nat \<Rightarrow> (LorebookError, 'ac PatternIndex) res"
  where
  "push_candidate entry_index self i =
    and_then (index_or Panicked (candidate_entries self) i) (\<lambda>cands.
    Inr (if cands \<noteq> [] \<and> last cands = entry_index then self
         else self\<lparr>candidate_entries := (candidate_entries self)[i := cands @ [entry_index]]\<rparr>))"

fun register_condition ::
  "nat \<Rightarrow> 'ac PatternIndex \<times> 'ac PatternIndex \<Rightarrow> 'rx CompiledCondition \<Rightarrow>
    (LorebookError, 'ac PatternIndex \<times> 'ac PatternIndex) res" where
  "register_condition entry_index (sens_ix, fold_ix) (CompiledRegex _) = Inr (sens_ix, fold_ix)"
| "register_condition entry_index (sens_ix, fold_ix) (CompiledLiteral reference) =
    (if pr_folded reference
     then and_then (push_candidate entry_index fold_ix (pr_index reference)) (\<lambda>f. Inr (sens_ix, f))
     else and_then (push_candidate entry_index sens_ix (pr_index reference)) (\<lambda>s. Inr (s, fold_ix)))"

definition register_activation_candidates ::
  "nat \<Rightarrow> 'rx CompiledActivation \<Rightarrow> 'ac PatternIndex \<times> 'ac PatternIndex \<Rightarrow>
    (LorebookError, 'ac PatternIndex \<times> 'ac PatternIndex) res" where
  "register_activation_candidates entry_index act indexes =
    (case compiled_conditions_of act of
       None \<Rightarrow> Inr indexes
     | Some conditions \<Rightarrow>
         try_fold (register_condition entry_index) indexes (compiled_condition_iter conditions))"

definition always_candidate :: "'rx CompiledActivation \<Rightarrow> bool" where
  "always_candidate act \<longleftrightarrow>
    (case act of
       CompiledConstant \<Rightarrow> True
     | CompiledProbability _ None \<Rightarrow> True
     | _ \<Rightarrow> False) \<or> compiled_activation_contains_regex act"

text \<open>The body of the second loop of \<open>compile_catalog\<close>, per enabled entry.\<close>

definition compile_entry ::
  "('ac, 'rx) engine_env \<Rightarrow> ('ac, 'rx) CompiledCatalog \<Rightarrow> LoreEntry \<Rightarrow>
    (LorebookError, ('ac, 'rx) CompiledCatalog) res" where
  "compile_entry env st entry =
    (let entry_index = length (compiled_entries st) in
     and_then (compile_activation env entry_index (sensitive st) (folded st) (activation entry)) (\<lambda>act.
     let uncond = (if always_candidate act then unconditional st @ [entry_index]
                   else unconditional st) in
     and_then (register_activation_candidates entry_index act (sensitive st, folded st)) (\<lambda>(sens_ix, fold_ix).
     Inr (st\<lparr>compiled_entries := compiled_entries st @ [CompiledEntry entry act],
             sensitive := sens_ix, folded := fold_ix, unconditional := uncond\<rparr>))))"

definition compile_catalog ::
  "('ac, 'rx) engine_env \<Rightarrow> LorebookCatalog \<Rightarrow> u64 \<Rightarrow>
    (LorebookError, ('ac, 'rx) CompiledCatalog) res" where
  "compile_catalog env catalog gen =
    and_then (LorebookCatalog_validate catalog) (\<lambda>_.
    let es = filter enabled (entries catalog) in
    and_then (scan_patterns (env_unicode env) es) (\<lambda>scan.
    and_then (PatternIndex_build env (sensitive_patterns scan)) (\<lambda>sens_ix.
    and_then (PatternIndex_build env (folded_patterns scan)) (\<lambda>fold_ix.
    try_fold (compile_entry env)
      \<lparr>revision = catalog_revision catalog, generation = gen, compiled_entries = [],
       sensitive = sens_ix, folded = fold_ix, unconditional = []\<rparr> es))))"

section \<open>Search input and cache key\<close>

definition digest_u64 :: "u64 \<Rightarrow> byte list" where
  "digest_u64 value = le_bytes 8 (unat value)"

text \<open>A \<open>usize\<close> below \<open>2 ^ 64\<close> converted to \<open>u64\<close> and hashed.\<close>

definition digest_usize :: "nat \<Rightarrow> byte list" where
  "digest_usize value = digest_u64 (word_of_nat value)"

definition digest_text :: "rstr \<Rightarrow> byte list" where
  "digest_text value = digest_usize (str_len value) @ as_bytes value"

definition append_segment :: "rstr \<Rightarrow> rstr \<Rightarrow> rstr" where
  "append_segment target segment = (if target = [] then segment else target @ [10] @ segment)"

record SearchInput =
  si_regex :: rstr
  si_sensitive :: rstr
  si_folded :: rstr
  si_fingerprint :: "byte list"

fun summary_digest :: "SummarySnapshot \<Rightarrow> byte list" where
  "summary_digest Missing = [0]"
| "summary_digest (Corrupt r) = [1] @ digest_u64 r"
| "summary_digest (Available r cont) = [2] @ digest_u64 r @ digest_text cont"

fun summary_segment :: "SummarySnapshot \<Rightarrow> rstr" where
  "summary_segment (Available r cont) = append_segment [] cont"
| "summary_segment _ = []"

fun turn_included :: "PartialMessagePolicy \<Rightarrow> MessageState \<Rightarrow> bool" where
  "turn_included policy Complete = True"
| "turn_included policy Partial = (policy = Include)"
| "turn_included policy Failed = False"

fun state_tag :: "MessageState \<Rightarrow> byte" where
  "state_tag Complete = 0"
| "state_tag Partial = 1"
| "state_tag Failed = 2"

text \<open>The body of the loop over the searched turns: the digest input and the raw text so far.\<close>

definition search_turn ::
  "PartialMessagePolicy \<Rightarrow> byte list \<times> rstr \<Rightarrow> ChatTurn \<Rightarrow> byte list \<times> rstr" where
  "search_turn policy st turn =
    (let (digest, raw) = st;
         digest = digest @ digest_u64 (turn_revision turn) @ [state_tag (turn_state turn)] in
     if turn_included policy (turn_state turn)
     then (digest @ digest_text (turn_content turn), append_segment raw (turn_content turn))
     else (digest, raw))"

definition searched_turns :: "SelectionRequest \<Rightarrow> ChatTurn list" where
  "searched_turns request =
    (let turns = recent_turns (conversation request) in
     drop (length turns - search_depth (settings request)) turns)"

definition search_slice :: "SelectionRequest \<Rightarrow> byte list \<times> rstr" where
  "search_slice request =
    (let s = summary (conversation request) in
     foldl (search_turn (partial_messages (settings request)))
       (SEARCH_DOMAIN @ summary_digest s, summary_segment s) (searched_turns request))"

definition SearchInput_build :: "('ac, 'rx) engine_env \<Rightarrow> SelectionRequest \<Rightarrow> SearchInput" where
  "SearchInput_build env request =
    (let (digest, raw) = search_slice request in
     \<lparr>si_regex = raw,
      si_sensitive = normalize_search_text (env_unicode env) raw True,
      si_folded = normalize_search_text (env_unicode env) raw False,
      si_fingerprint = sha256 env digest\<rparr>)"

definition tokenizer_digest :: "SelectionSettings \<Rightarrow> byte list" where
  "tokenizer_digest s = digest_text (tokenizer_id s) @ digest_text (tokenizer_revision s)"

definition settings_digest :: "SelectionSettings \<Rightarrow> byte list" where
  "settings_digest s =
    digest_usize (search_depth s) @
    [case partial_messages s of Exclude \<Rightarrow> 0 | Include \<Rightarrow> 1] @
    digest_usize (max_output_tokens s) @
    digest_usize (max_output_bytes s) @
    digest_usize (max_literal_match_events s) @
    digest_usize (max_regex_evaluations s) @
    digest_usize (max_regex_scan_bytes s) @
    digest_usize (max_regex_matches s) @
    digest_text (separator s)"

definition build_cache_key ::
  "('ac, 'rx) engine_env \<Rightarrow> ('ac, 'rx) CompiledCatalog \<Rightarrow> SelectionRequest \<Rightarrow> SearchInput \<Rightarrow> CacheKey"
  where
  "build_cache_key env catalog request search =
    CacheKey (revision catalog) (generation catalog)
      (chat_revision (conversation request)) (branch_revision (conversation request))
      (word_of_nat (search_depth (settings request))) (seed request)
      (sha256 env (tokenizer_digest (settings request)))
      (sha256 env (settings_digest (settings request)))
      (si_fingerprint search)"

definition fingerprint :: "('ac, 'rx) engine_env \<Rightarrow> CacheKey \<Rightarrow> byte list" where
  "fingerprint env k =
    sha256 env (CACHE_DOMAIN @
      digest_u64 (ck_catalog_revision k) @ digest_u64 (ck_catalog_generation k) @
      digest_u64 (ck_chat_revision k) @ digest_u64 (ck_branch_revision k) @
      digest_u64 (ck_search_depth k) @ digest_u64 (ck_seed k) @
      ck_tokenizer_fingerprint k @ ck_settings_fingerprint k @ ck_search_slice_fingerprint k)"

section \<open>Activation\<close>

record EvaluationLimits =
  max_evaluations :: nat
  max_scan_bytes :: nat
  max_matches :: nat
  evaluations :: nat
  scan_bytes :: nat
  matches :: nat

definition EvaluationLimits_new :: "SelectionRequest \<Rightarrow> EvaluationLimits" where
  "EvaluationLimits_new request =
    \<lparr>max_evaluations = max_regex_evaluations (settings request),
     max_scan_bytes = max_regex_scan_bytes (settings request),
     max_matches = max_regex_matches (settings request),
     evaluations = 0, scan_bytes = 0, matches = 0\<rparr>"

definition charge_evaluation ::
  "EvaluationLimits \<Rightarrow> unit \<Rightarrow> (LorebookError, EvaluationLimits) res" where
  "charge_evaluation self _ =
    and_then (ok_or (checked_add_usize (evaluations self) 1) (SearchLimitExceeded RegexEvaluations))
      (\<lambda>n. if n > max_evaluations self then Inl (SearchLimitExceeded RegexEvaluations)
           else Inr (self\<lparr>evaluations := n\<rparr>))"

definition charge_scan :: "EvaluationLimits \<Rightarrow> rstr \<Rightarrow> (LorebookError, EvaluationLimits) res" where
  "charge_scan self input =
    and_then (ok_or (checked_add_usize (scan_bytes self) (str_len input))
        (SearchLimitExceeded RegexScanBytes))
      (\<lambda>n. if n > max_scan_bytes self then Inl (SearchLimitExceeded RegexScanBytes)
           else Inr (self\<lparr>scan_bytes := n\<rparr>))"

definition charge_match ::
  "EvaluationLimits \<Rightarrow> nat \<times> nat \<Rightarrow> (LorebookError, EvaluationLimits) res" where
  "charge_match self _ =
    and_then (ok_or (checked_add_usize (matches self) 1) (SearchLimitExceeded RegexMatches))
      (\<lambda>n. if n > max_matches self then Inl (SearchLimitExceeded RegexMatches)
           else Inr (self\<lparr>matches := n\<rparr>))"

definition EvaluationLimits_evaluate ::
  "('ac, 'rx) engine_env \<Rightarrow> EvaluationLimits \<Rightarrow> 'rx \<Rightarrow> rstr \<Rightarrow>
    (LorebookError, EvaluationLimits \<times> bool) res" where
  "EvaluationLimits_evaluate env self regex input =
    and_then (charge_evaluation self ()) (\<lambda>self.
    and_then (charge_scan self input) (\<lambda>self.
    try_fold (\<lambda>(self, matched) found.
        and_then (charge_match self found) (\<lambda>self. Inr (self, True)))
      (self, False) (find_iter env regex input)))"

record PatternHits =
  ph_sensitive :: "bool list"
  ph_folded :: "bool list"

definition PatternHits_contains :: "PatternHits \<Rightarrow> PatternRef \<Rightarrow> (LorebookError, bool) res" where
  "PatternHits_contains self reference =
    index_or Panicked (if pr_folded reference then ph_folded self else ph_sensitive self)
      (pr_index reference)"

fun condition_matches ::
  "('ac, 'rx) engine_env \<Rightarrow> PatternHits \<Rightarrow> rstr \<Rightarrow> EvaluationLimits \<Rightarrow> 'rx CompiledCondition \<Rightarrow>
    (LorebookError, EvaluationLimits \<times> bool) res" where
  "condition_matches env hits regex_input limits (CompiledLiteral reference) =
    and_then (PatternHits_contains hits reference) (\<lambda>b. Inr (limits, b))"
| "condition_matches env hits regex_input limits (CompiledRegex regex) =
    EvaluationLimits_evaluate env limits regex regex_input"

fun any_matches ::
  "('ac, 'rx) engine_env \<Rightarrow> PatternHits \<Rightarrow> rstr \<Rightarrow> EvaluationLimits \<Rightarrow> 'rx CompiledCondition list \<Rightarrow>
    (LorebookError, EvaluationLimits \<times> bool) res" where
  "any_matches env hits regex_input limits [] = Inr (limits, False)"
| "any_matches env hits regex_input limits (condition # conditions) =
    and_then (condition_matches env hits regex_input limits condition) (\<lambda>(limits, b).
    if b then Inr (limits, True) else any_matches env hits regex_input limits conditions)"

text \<open>The loop of the \<open>All\<close> branch of \<open>CompiledConditions::matches\<close>.\<close>

fun all_match ::
  "('ac, 'rx) engine_env \<Rightarrow> PatternHits \<Rightarrow> rstr \<Rightarrow> EvaluationLimits \<Rightarrow> 'rx CompiledCondition list \<Rightarrow>
    (LorebookError, EvaluationLimits \<times> bool) res" where
  "all_match env hits regex_input limits [] = Inr (limits, True)"
| "all_match env hits regex_input limits (condition # conditions) =
    and_then (condition_matches env hits regex_input limits condition) (\<lambda>(limits, b).
    if \<not> b then Inr (limits, False) else all_match env hits regex_input limits conditions)"

definition conditions_match ::
  "('ac, 'rx) engine_env \<Rightarrow> PatternHits \<Rightarrow> rstr \<Rightarrow> EvaluationLimits \<Rightarrow> 'rx CompiledConditions \<Rightarrow>
    (LorebookError, EvaluationLimits \<times> bool) res" where
  "conditions_match env hits regex_input limits self =
    and_then (any_matches env hits regex_input limits (cc_primary self)) (\<lambda>(limits, b).
    if \<not> b then Inr (limits, False)
    else case cc_secondary self of
        CompiledNone \<Rightarrow> Inr (limits, True)
      | CompiledAny conditions \<Rightarrow> any_matches env hits regex_input limits conditions
      | CompiledAll conditions \<Rightarrow> all_match env hits regex_input limits conditions)"

definition probability_bucket :: "u64 \<Rightarrow> 16 word" where
  "probability_bucket value = ucast (drop_bit 64 (ucast value * 10000 :: 128 word))"

definition probability_admits :: "('ac, 'rx) engine_env \<Rightarrow> u64 \<Rightarrow> rstr \<Rightarrow> nat \<Rightarrow> bool" where
  "probability_admits env sd eid basis_points =
    (if basis_points = 0 then False
     else if basis_points = 10000 then True
     else let bytes = sha256 env (RANDOM_DOMAIN @ digest_u64 sd @ digest_text eid);
              value = word_of_nat (of_le_bytes (take 8 bytes))
          in unat (probability_bucket value) < basis_points)"

fun activation_matches ::
  "('ac, 'rx) engine_env \<Rightarrow> LoreEntry \<Rightarrow> PatternHits \<Rightarrow> rstr \<Rightarrow> u64 \<Rightarrow> EvaluationLimits \<Rightarrow>
    'rx CompiledActivation \<Rightarrow> (LorebookError, EvaluationLimits \<times> bool) res" where
  "activation_matches env entry hits regex_input sd limits CompiledConstant = Inr (limits, True)"
| "activation_matches env entry hits regex_input sd limits (CompiledSelective conditions) =
    conditions_match env hits regex_input limits conditions"
| "activation_matches env entry hits regex_input sd limits
      (CompiledProbability basis_points conditions) =
    and_then (case conditions of
        None \<Rightarrow> Inr (limits, True)
      | Some cs \<Rightarrow> conditions_match env hits regex_input limits cs) (\<lambda>(limits, b).
    if \<not> b then Inr (limits, False)
    else Inr (limits, probability_admits env sd (entry_id entry) basis_points))"

section \<open>Selection\<close>

definition compare_entries :: "LoreEntry \<Rightarrow> LoreEntry \<Rightarrow> ordering" where
  "compare_entries left right =
    then_with (cmp (priority right) (priority left))
      (then_with (cmp (precedence (source right)) (precedence (source left)))
        (then_with (cmp (order left) (order right))
          (cmp (entry_id left) (entry_id right))))"

definition add_candidate ::
  "bool list \<times> nat list \<Rightarrow> nat \<Rightarrow> (LorebookError, bool list \<times> nat list) res" where
  "add_candidate st entry =
    (let (seen, candidates) = st in
     and_then (index_or Panicked seen entry) (\<lambda>b.
     Inr (if \<not> b then (seen[entry := True], candidates @ [entry]) else (seen, candidates))))"

definition add_pattern_candidates ::
  "'ac PatternIndex \<Rightarrow> bool list \<Rightarrow> bool list \<times> nat list \<Rightarrow>
    (LorebookError, bool list \<times> nat list) res" where
  "add_pattern_candidates index hits st =
    try_fold (\<lambda>st (pattern_index, hit).
      if hit then and_then (index_or Panicked (candidate_entries index) pattern_index)
        (try_fold add_candidate st)
      else Inr st) st (enumerate 0 hits)"

text \<open>The loop over the candidates, which keeps those whose activation matches.\<close>

definition match_candidate ::
  "('ac, 'rx) engine_env \<Rightarrow> ('ac, 'rx) CompiledCatalog \<Rightarrow> PatternHits \<Rightarrow> rstr \<Rightarrow> u64 \<Rightarrow>
    EvaluationLimits \<times> nat list \<Rightarrow> nat \<Rightarrow> (LorebookError, EvaluationLimits \<times> nat list) res" where
  "match_candidate env compiled hits regex_input sd st entry_index =
    (let (limits, matched) = st in
     and_then (index_or Panicked (compiled_entries compiled) entry_index) (\<lambda>entry.
     and_then (activation_matches env (ce_source entry) hits regex_input sd limits
        (ce_activation entry)) (\<lambda>(limits, b).
     Inr (limits, if b then matched @ [entry_index] else matched))))"

text \<open>
  The admission loop, over the ranked entries: \<open>admission\<close> holds its local variables and
  \<open>next_sizes\<close> the checked sums; an entry is admitted when both sums fit.
\<close>

record admission =
  adm_text :: rstr
  adm_ids :: "rstr list"
  adm_tokens :: nat

definition next_sizes ::
  "SelectionSettings \<Rightarrow> admission \<Rightarrow> LoreEntry \<Rightarrow> (nat \<times> nat) option" where
  "next_sizes s st entry =
    (let separator_bytes = (if adm_ids st = [] then 0 else str_len (separator s)) in
     Option.bind (Option.bind (checked_add_usize (str_len (adm_text st)) separator_bytes)
        (\<lambda>value. checked_add_usize value (str_len (content entry)))) (\<lambda>next_bytes.
     Option.bind (checked_add 32 (adm_tokens st) (reserved_tokens entry)) (\<lambda>next_tokens.
     Some (next_bytes, next_tokens))))"

definition admits :: "SelectionSettings \<Rightarrow> admission \<Rightarrow> LoreEntry \<Rightarrow> bool" where
  "admits s st entry =
    (case next_sizes s st entry of
       None \<Rightarrow> False
     | Some (next_bytes, next_tokens) \<Rightarrow>
         \<not> (next_bytes > max_output_bytes s \<or> next_tokens > max_output_tokens s))"

definition admit_entry :: "SelectionSettings \<Rightarrow> admission \<Rightarrow> LoreEntry \<Rightarrow> admission" where
  "admit_entry s st entry =
    \<lparr>adm_text = (if adm_ids st \<noteq> [] then adm_text st @ separator s else adm_text st) @ content entry,
     adm_ids = adm_ids st @ [entry_id entry],
     adm_tokens = adm_tokens st + reserved_tokens entry\<rparr>"

definition admit_all :: "SelectionSettings \<Rightarrow> LoreEntry list \<Rightarrow> admission" where
  "admit_all s es =
    foldl (greedy_step (admits s) (admit_entry s)) \<lparr>adm_text = [], adm_ids = [], adm_tokens = 0\<rparr> es"

text \<open>The stages of \<open>select_uncached\<close>: the candidates, the ranking, the result.\<close>

definition collect_candidates ::
  "('ac, 'rx) CompiledCatalog \<Rightarrow> bool list \<Rightarrow> bool list \<Rightarrow> (LorebookError, nat list) res" where
  "collect_candidates compiled sensitive_hits folded_hits =
    (let seen = replicate (length (compiled_entries compiled)) False in
     and_then (try_fold add_candidate (seen, []) (unconditional compiled)) (\<lambda>st.
     and_then (add_pattern_candidates (sensitive compiled) sensitive_hits st) (\<lambda>st.
     and_then (add_pattern_candidates (folded compiled) folded_hits st) (\<lambda>(seen, candidates).
     Inr candidates))))"

definition rank_matched :: "('ac, 'rx) CompiledCatalog \<Rightarrow> nat list \<Rightarrow> LoreEntry list" where
  "rank_matched compiled matched =
    (let entry_at = (\<lambda>i. ce_source (compiled_entries compiled ! i)) in
     map entry_at (sort_by (\<lambda>l r. compare_entries (entry_at l) (entry_at r)) matched))"

definition build_selection ::
  "('ac, 'rx) CompiledCatalog \<Rightarrow> SelectionRequest \<Rightarrow> byte list \<Rightarrow> LiteralWork \<Rightarrow> nat list \<Rightarrow>
    EvaluationLimits \<Rightarrow> nat list \<Rightarrow> Selection" where
  "build_selection compiled request fp literal_work candidates limits matched =
    (let adm = admit_all (settings request) (rank_matched compiled matched) in
     \<lparr>prompt_text = adm_text adm,
      receipt =
       \<lparr>rc_catalog_revision = revision compiled,
        rc_chat_revision = chat_revision (conversation request),
        rc_branch_revision = branch_revision (conversation request),
        cache_fingerprint = fp,
        cache_hit = False,
        candidate_count = length candidates,
        matched_count = length matched,
        selected_ids = adm_ids adm,
        selected_tokens = adm_tokens adm,
        selected_bytes = str_len (adm_text adm),
        literal_match_events = events literal_work,
        regex_evaluations = evaluations limits,
        regex_scan_bytes = scan_bytes limits,
        regex_matches = matches limits\<rparr>\<rparr>)"

definition select_uncached ::
  "('ac, 'rx) engine_env \<Rightarrow> ('ac, 'rx) CompiledCatalog \<Rightarrow> SelectionRequest \<Rightarrow> SearchInput \<Rightarrow>
    byte list \<Rightarrow> (LorebookError, Selection) res" where
  "select_uncached env compiled request search fp =
    and_then (PatternIndex_matches env (sensitive compiled) (si_sensitive search)
      (LiteralWork_new (max_literal_match_events (settings request)))) (\<lambda>(literal_work, sensitive_hits).
    and_then (PatternIndex_matches env (folded compiled) (si_folded search) literal_work)
      (\<lambda>(literal_work, folded_hits).
    and_then (collect_candidates compiled sensitive_hits folded_hits) (\<lambda>candidates.
    let hits = \<lparr>ph_sensitive = sensitive_hits, ph_folded = folded_hits\<rparr> in
    and_then (try_fold (match_candidate env compiled hits (si_regex search) (seed request))
      (EvaluationLimits_new request, []) candidates) (\<lambda>(limits, matched).
    Inr (build_selection compiled request fp literal_work candidates limits matched)))))"

section \<open>The engine\<close>

record ('ac, 'rx) LorebookEngine =
  compiled :: "('ac, 'rx) CompiledCatalog"
  cache :: "(CacheKey, Selection) btree"

definition LorebookEngine_new ::
  "('ac, 'rx) engine_env \<Rightarrow> LorebookCatalog \<Rightarrow> (LorebookError, ('ac, 'rx) LorebookEngine) res" where
  "LorebookEngine_new env catalog =
    and_then (compile_catalog env catalog 1) (\<lambda>c. Inr \<lparr>compiled = c, cache = []\<rparr>)"

definition replace_catalog ::
  "('ac, 'rx) engine_env \<Rightarrow> ('ac, 'rx) LorebookEngine \<Rightarrow> LorebookCatalog \<Rightarrow>
    (LorebookError, ('ac, 'rx) LorebookEngine) res" where
  "replace_catalog env self catalog =
    and_then (ok_or (checked_add 64 (unat (generation (compiled self))) 1)
        (InvalidField ''catalog.generation'' ''revision counter overflowed'')) (\<lambda>gen.
    and_then (compile_catalog env catalog (word_of_nat gen)) (\<lambda>c.
    Inr (self\<lparr>compiled := c, cache := []\<rparr>)))"

text \<open>The two critical sections of \<open>select\<close>: the cache lookup, and eviction with insertion.\<close>

definition cache_lookup :: "(CacheKey, Selection) btree \<Rightarrow> CacheKey \<Rightarrow> Selection option" where
  "cache_lookup m k =
    map_option (\<lambda>s. s\<lparr>receipt := (receipt s)\<lparr>cache_hit := True\<rparr>\<rparr>) (map_of m k)"

definition cache_store ::
  "CacheKey \<Rightarrow> Selection \<Rightarrow> (CacheKey, Selection) btree \<Rightarrow> (CacheKey, Selection) btree" where
  "cache_store k selection m =
    (let m = (if length m \<ge> MAX_CACHE_ENTRIES
              then (case m of [] \<Rightarrow> m | (oldest, _) # _ \<Rightarrow> bt_remove oldest m)
              else m)
     in bt_insert k selection m)"

definition select ::
  "('ac, 'rx) engine_env \<Rightarrow> ('ac, 'rx) LorebookEngine \<Rightarrow> SelectionRequest \<Rightarrow>
    (LorebookError, ('ac, 'rx) LorebookEngine \<times> Selection) res" where
  "select env self request =
    and_then (SelectionRequest_validate request) (\<lambda>_.
    let search = SearchInput_build env request;
        key = build_cache_key env (compiled self) request search in
    case cache_lookup (cache self) key of
      Some cached \<Rightarrow> Inr (self, cached)
    | None \<Rightarrow>
        and_then (select_uncached env (compiled self) request search (fingerprint env key))
          (\<lambda>selection. Inr (self\<lparr>cache := cache_store key selection (cache self)\<rparr>, selection)))"

definition import_trusted_engine ::
  "('ac, 'rx) engine_env \<Rightarrow> lore_codec \<Rightarrow> byte list \<Rightarrow>
    (LorebookError, ('ac, 'rx) LorebookEngine) res" where
  "import_trusted_engine env codec bytes =
    and_then (import_catalog_with_trust codec bytes LocallyTrusted) (LorebookEngine_new env)"

end
