(* ===== verification/Lore_Correct.thy ===== *)
theory Lore_Correct
  imports Lore_Engine
begin

text \<open>
  Correctness of lorebook selection. A reference semantics states when an entry is active by
  searching the text directly; compilation, the pattern indexes, the candidate lists and the work
  limits are shown to implement it.
\<close>

section \<open>Meters, ranking and admission as instances of the shared contracts\<close>

interpretation literal_meter: meter "\<lambda>w _. LiteralWork_charge w" "\<lambda>_. 1" events max_events
  by unfold_locales (auto simp: LiteralWork_charge_def checked_add_def Let_def split: if_splits)

interpretation evaluation_meter: meter charge_evaluation "\<lambda>_. 1" evaluations max_evaluations
  by unfold_locales (auto simp: charge_evaluation_def checked_add_def split: if_splits)

interpretation scan_meter: meter charge_scan str_len scan_bytes max_scan_bytes
  by unfold_locales (auto simp: charge_scan_def checked_add_def split: if_splits)

interpretation match_meter: meter charge_match "\<lambda>_. 1" matches max_matches
  by unfold_locales (auto simp: charge_match_def checked_add_def split: if_splits)

interpretation rank: comparator compare_entries
  unfolding compare_entries_def
  by (intro comparator_then comparator_cmp_on)
    (rule comparator_reverse [OF comparator_cmp_on])+

definition admission_sound :: "SelectionSettings \<Rightarrow> admission \<Rightarrow> bool" where
  "admission_sound s st \<longleftrightarrow>
    str_len (adm_text st) \<le> max_output_bytes s \<and> adm_tokens st \<le> max_output_tokens s"

lemma admits_iff:
  "admits s st e \<longleftrightarrow>
    (let n = str_len (adm_text st) + (if adm_ids st = [] then 0 else str_len (separator s)) +
             str_len (content e);
         t = adm_tokens st + reserved_tokens e
     in n < 2 ^ 64 \<and> n \<le> max_output_bytes s \<and> t < 2 ^ 32 \<and> t \<le> max_output_tokens s)"
  by (auto simp: admits_def next_sizes_def Let_def checked_add_def split: option.splits)

interpretation admission: greedy_admission "admits cfg" "admit_entry cfg" entry_id adm_ids
    "admission_sound cfg" for cfg
  by unfold_locales
    (auto simp: admits_iff admit_entry_def admission_sound_def Let_def split: if_splits)

section \<open>Reference semantics\<close>

fun condition_holds :: "('ac, 'rx) engine_env \<Rightarrow> SearchInput \<Rightarrow> MatchCondition \<Rightarrow> bool" where
  "condition_holds env search (Literal value case_sensitive) =
    contains_str (normalize_search_text (env_unicode env) value case_sensitive)
      (if case_sensitive then si_sensitive search else si_folded search)"
| "condition_holds env search (Regex pattern required_literal case_insensitive) =
    (case rx_build env pattern case_insensitive of
       None \<Rightarrow> False
     | Some regex \<Rightarrow> find_iter env regex (si_regex search) \<noteq> [])"

definition conditions_hold :: "('ac, 'rx) engine_env \<Rightarrow> SearchInput \<Rightarrow> MatchConditions \<Rightarrow> bool" where
  "conditions_hold env search cs \<longleftrightarrow>
    list_ex (condition_holds env search) (primary cs) \<and>
    (case secondary cs of
       NoSecondary \<Rightarrow> True
     | AnyOf vs \<Rightarrow> list_ex (condition_holds env search) vs
     | AllOf vs \<Rightarrow> list_all (condition_holds env search) vs)"

definition entry_holds ::
  "('ac, 'rx) engine_env \<Rightarrow> SearchInput \<Rightarrow> u64 \<Rightarrow> LoreEntry \<Rightarrow> bool" where
  "entry_holds env search sd e \<longleftrightarrow>
    (case activation e of
       Constant \<Rightarrow> True
     | Selective cs \<Rightarrow> conditions_hold env search cs
     | Probability bp cs \<Rightarrow>
         (case cs of None \<Rightarrow> True | Some cs \<Rightarrow> conditions_hold env search cs) \<and>
         probability_admits env sd (entry_id e) bp)"

definition active_ranked ::
  "('ac, 'rx) engine_env \<Rightarrow> LorebookCatalog \<Rightarrow> SelectionRequest \<Rightarrow> LoreEntry list" where
  "active_ranked env catalog request =
    sort_by compare_entries
      (filter (entry_holds env (SearchInput_build env request) (seed request))
        (filter enabled (entries catalog)))"

text \<open>
  The documented contract of the Aho-Corasick crate for overlapping search with the standard match
  kind: the iterator reports a pattern if and only if it occurs in the text.
\<close>

definition finds_all_overlapping :: "('ac, 'rx) engine_env \<Rightarrow> bool" where
  "finds_all_overlapping env \<longleftrightarrow>
    (\<forall>ps ac hay. ac_build env ps = Some ac \<longrightarrow>
      set (find_overlapping_iter env ac hay) = {i. i < length ps \<and> contains_str (ps ! i) hay})"

section \<open>Compilation\<close>

definition index_wf :: "('ac, 'rx) engine_env \<Rightarrow> rstr list \<Rightarrow> 'ac PatternIndex \<Rightarrow> bool" where
  "index_wf env ps ix \<longleftrightarrow>
    patterns ix = ps \<and> sorted ps \<and> length (candidate_entries ix) = length ps \<and>
    (if ps = [] then matcher ix = None else matcher ix = ac_build env ps \<and> ac_build env ps \<noteq> None)"

fun condition_rel ::
  "('ac, 'rx) engine_env \<Rightarrow> rstr list \<Rightarrow> rstr list \<Rightarrow> MatchCondition \<Rightarrow> 'rx CompiledCondition \<Rightarrow> bool"
  where
  "condition_rel env sp fp (Literal value cs) (CompiledLiteral r) \<longleftrightarrow>
    pr_folded r = (\<not> cs) \<and> pr_index r < length (if cs then sp else fp) \<and>
    (if cs then sp else fp) ! pr_index r = normalize_search_text (env_unicode env) value cs"
| "condition_rel env sp fp (Regex pattern _ ci) (CompiledRegex rx) \<longleftrightarrow>
    rx_build env pattern ci = Some rx"
| "condition_rel env sp fp _ _ \<longleftrightarrow> False"

fun secondary_rel where
  "secondary_rel R NoSecondary CompiledNone \<longleftrightarrow> True"
| "secondary_rel R (AnyOf cs) (CompiledAny ds) \<longleftrightarrow> list_all2 R cs ds"
| "secondary_rel R (AllOf cs) (CompiledAll ds) \<longleftrightarrow> list_all2 R cs ds"
| "secondary_rel R _ _ \<longleftrightarrow> False"

definition conditions_rel where
  "conditions_rel R cs ds \<longleftrightarrow>
    list_all2 R (primary cs) (cc_primary ds) \<and> secondary_rel R (secondary cs) (cc_secondary ds)"

fun activation_rel where
  "activation_rel R Constant CompiledConstant \<longleftrightarrow> True"
| "activation_rel R (Selective cs) (CompiledSelective ds) \<longleftrightarrow> conditions_rel R cs ds"
| "activation_rel R (Probability p cs) (CompiledProbability q ds) \<longleftrightarrow>
    p = q \<and> rel_option (conditions_rel R) cs ds"
| "activation_rel R _ _ \<longleftrightarrow> False"

lemma compile_condition_rel:
  "compile_condition env n sens_ix fold_ix c = Inr d \<Longrightarrow>
    condition_rel env (patterns sens_ix) (patterns fold_ix) c d"
  by (cases c)
    (auto simp: PatternIndex_lookup_def Let_def dest: binary_search_Some split: if_splits)

lemma compile_activation_rel:
  assumes "compile_activation env n sens_ix fold_ix a = Inr b"
  shows "activation_rel (condition_rel env (patterns sens_ix) (patterns fold_ix)) a b"
proof -
  let ?R = "condition_rel env (patterns sens_ix) (patterns fold_ix)"
  have many: "try_map (compile_condition env n sens_ix fold_ix) cs = Inr ds \<Longrightarrow> list_all2 ?R cs ds"
    for cs ds
    by (auto simp: try_map_eq_Inr_iff elim!: list_all2_mono dest: compile_condition_rel)
  have "compile_conditions env n sens_ix fold_ix cs = Inr ds \<Longrightarrow> conditions_rel ?R cs ds" for cs ds
    by (auto simp: compile_conditions_def conditions_rel_def many Let_def
        split: SecondaryConditions.splits)
  with assms show ?thesis by (cases a) (auto split: option.splits)
qed

text \<open>Every condition the code registers, in terms of the source conditions.\<close>

definition compiled_list :: "'rx CompiledActivation \<Rightarrow> 'rx CompiledCondition list" where
  "compiled_list a =
    (case compiled_conditions_of a of None \<Rightarrow> [] | Some ds \<Rightarrow> compiled_condition_iter ds)"

lemma secondary_rel_list:
  "secondary_rel R cs ds \<Longrightarrow> list_all2 R (secondary_list cs) (compiled_secondary_list ds)"
  by (cases cs; cases ds) auto

lemma activation_rel_list:
  "activation_rel R (activation e) b \<Longrightarrow> list_all2 R (entry_conditions e) (compiled_list b)"
  by (cases "activation e"; cases b)
    (auto simp: entry_conditions_def compiled_list_def conditions_rel_def condition_iter_def
      compiled_condition_iter_def secondary_rel_list option_rel_Some1 list_all2_appendI
      split: option.splits)

subsection \<open>Candidate lists\<close>

text \<open>How an index may change while entry \<open>n\<close> is registered.\<close>

definition index_extends :: "nat \<Rightarrow> 'ac PatternIndex \<Rightarrow> 'ac PatternIndex \<Rightarrow> bool" where
  "index_extends n ix ix' \<longleftrightarrow>
    patterns ix' = patterns ix \<and> matcher ix' = matcher ix \<and>
    length (candidate_entries ix') = length (candidate_entries ix) \<and>
    (\<forall>j<length (candidate_entries ix).
      set (candidate_entries ix ! j) \<subseteq> set (candidate_entries ix' ! j) \<and>
      set (candidate_entries ix' ! j) \<subseteq> insert n (set (candidate_entries ix ! j)))"

lemma index_extends_refl [simp]: "index_extends n ix ix"
  by (auto simp: index_extends_def)

lemma index_extends_trans:
  "index_extends n a b \<Longrightarrow> index_extends n b c \<Longrightarrow> index_extends n a c"
  unfolding index_extends_def by (simp, blast)

lemma index_extendsD:
  "index_extends n a b \<Longrightarrow> j < length (candidate_entries a) \<Longrightarrow> m \<in> set (candidate_entries a ! j) \<Longrightarrow>
    m \<in> set (candidate_entries b ! j)"
  by (auto simp: index_extends_def)

lemma index_extends_wf: "index_extends n ix ix' \<Longrightarrow> index_wf env ps ix \<Longrightarrow> index_wf env ps ix'"
  by (auto simp: index_extends_def index_wf_def split: if_splits)

lemma push_candidate_outcome:
  assumes "i < length (candidate_entries ix)"
  shows "outcome (\<lambda>_. False) (\<lambda>ix'. index_extends n ix ix' \<and> n \<in> set (candidate_entries ix' ! i))
    (push_candidate n ix i)"
  using assms by (auto simp: push_candidate_def index_extends_def nth_list_update)

fun registered ::
  "nat \<Rightarrow> 'ac PatternIndex \<times> 'ac PatternIndex \<Rightarrow> 'rx CompiledCondition \<Rightarrow> bool" where
  "registered n (s, f) (CompiledLiteral r) \<longleftrightarrow>
    n \<in> set (candidate_entries (if pr_folded r then f else s) ! pr_index r)"
| "registered n (s, f) (CompiledRegex _) \<longleftrightarrow> True"

fun ref_in_range :: "'ac PatternIndex \<times> 'ac PatternIndex \<Rightarrow> 'rx CompiledCondition \<Rightarrow> bool" where
  "ref_in_range (s, f) (CompiledLiteral r) \<longleftrightarrow>
    pr_index r < length (candidate_entries (if pr_folded r then f else s))"
| "ref_in_range (s, f) (CompiledRegex _) \<longleftrightarrow> True"

definition pair_extends where
  "pair_extends n a b \<longleftrightarrow> index_extends n (fst a) (fst b) \<and> index_extends n (snd a) (snd b)"

lemma pair_extends_in_range: "pair_extends n a b \<Longrightarrow> ref_in_range b d \<longleftrightarrow> ref_in_range a d"
  by (cases a; cases b; cases d) (auto simp: pair_extends_def index_extends_def)

lemma pair_extends_registered:
  "pair_extends n a b \<Longrightarrow> ref_in_range a d \<Longrightarrow> registered m a d \<Longrightarrow> registered m b d"
  by (cases a; cases b; cases d) (auto simp: pair_extends_def dest: index_extendsD split: if_splits)

lemma pair_extends_trans:
  "pair_extends n a b \<Longrightarrow> pair_extends n b c \<Longrightarrow> pair_extends n a c"
  unfolding pair_extends_def by (blast intro: index_extends_trans)

lemma register_condition_outcome:
  assumes "ref_in_range ixs d"
  shows "outcome (\<lambda>_. False) (\<lambda>ixs'. pair_extends n ixs ixs' \<and> registered n ixs' d)
    (register_condition n ixs d)"
proof (cases ixs)
  case (Pair s f)
  show ?thesis
  proof (cases d)
    case (CompiledLiteral r)
    with assms Pair show ?thesis
      by (auto simp: pair_extends_def
          intro!: outcome_and_then [OF push_candidate_outcome [where n = n]])
  qed (simp add: Pair pair_extends_def)
qed

lemma register_activation_outcome:
  fixes a :: "'rx CompiledActivation"
  assumes "\<forall>d\<in>set (compiled_list a). ref_in_range ixs d"
  shows "outcome (\<lambda>_. False)
    (\<lambda>ixs'. pair_extends n ixs ixs' \<and> (\<forall>d\<in>set (compiled_list a). registered n ixs' d))
    (register_activation_candidates n a ixs)"
proof (cases "compiled_conditions_of a")
  case None
  then show ?thesis
    by (simp add: register_activation_candidates_def compiled_list_def pair_extends_def)
next
  case (Some ds)
  let ?I = "\<lambda>(pre :: 'rx CompiledCondition list) ixs'. pair_extends n ixs ixs' \<and>
    (\<forall>d\<in>set pre. ref_in_range ixs d \<longrightarrow> registered n ixs' d)"
  have "outcome (\<lambda>_. False) (?I (compiled_list a))
      (try_fold (register_condition n) ixs (compiled_list a))"
  proof (rule outcome_try_fold)
    fix pre d u
    assume I: "?I pre u" and d: "d \<in> set (compiled_list a)"
    then have "ref_in_range u d" using assms pair_extends_in_range by blast
    from register_condition_outcome [OF this, of n]
    show "outcome (\<lambda>_. False) (?I (pre @ [d])) (register_condition n u d)"
      by (rule outcome_mono)
        (use I in \<open>auto intro: pair_extends_trans pair_extends_registered
          simp: pair_extends_in_range\<close>)
  qed (simp add: pair_extends_def)
  then have "outcome (\<lambda>_. False)
      (\<lambda>ixs'. pair_extends n ixs ixs' \<and> (\<forall>d\<in>set (compiled_list a). registered n ixs' d))
      (try_fold (register_condition n) ixs (compiled_list a))"
    by (rule outcome_mono) (use assms in blast)
  with Some show ?thesis by (simp add: register_activation_candidates_def compiled_list_def)
qed

subsection \<open>Compiled catalogs\<close>

text \<open>What \<open>compile_catalog\<close> establishes for the enabled entries \<open>es\<close>.\<close>

definition compiled_inv ::
  "('ac, 'rx) engine_env \<Rightarrow> rstr list \<Rightarrow> rstr list \<Rightarrow> u64 \<Rightarrow> u64 \<Rightarrow> LoreEntry list \<Rightarrow>
    ('ac, 'rx) CompiledCatalog \<Rightarrow> bool" where
  "compiled_inv env sp fp rv gen es cat \<longleftrightarrow>
    revision cat = rv \<and> generation cat = gen \<and>
    map ce_source (compiled_entries cat) = es \<and>
    index_wf env sp (sensitive cat) \<and> index_wf env fp (folded cat) \<and>
    (\<forall>ce\<in>set (compiled_entries cat).
      activation_rel (condition_rel env sp fp) (activation (ce_source ce)) (ce_activation ce)) \<and>
    (\<forall>i. i \<in> set (unconditional cat) \<longleftrightarrow>
      i < length es \<and> always_candidate (ce_activation (compiled_entries cat ! i))) \<and>
    (\<forall>i<length es. \<forall>d\<in>set (compiled_list (ce_activation (compiled_entries cat ! i))).
      registered i (sensitive cat, folded cat) d) \<and>
    (\<forall>cs\<in>set (candidate_entries (sensitive cat)) \<union> set (candidate_entries (folded cat)).
      set cs \<subseteq> {..<length es})"

lemma condition_rel_in_range:
  "condition_rel env sp fp c d \<Longrightarrow> index_wf env sp s \<Longrightarrow> index_wf env fp f \<Longrightarrow> ref_in_range (s, f) d"
  by (cases c; cases d) (auto simp: index_wf_def split: if_splits)

lemma activation_rel_in_range:
  fixes e :: LoreEntry
  assumes "activation_rel (condition_rel env sp fp) (activation e) b"
    and "index_wf env sp s" and "index_wf env fp f"
  shows "\<forall>d\<in>set (compiled_list b). ref_in_range (s, f) d"
  using list_all2_set2 [OF activation_rel_list [OF assms(1)]] condition_rel_in_range [OF _ assms(2,3)]
  by blast

lemma candidates_below_extends:
  assumes "index_extends n a b" and "\<forall>cs\<in>set (candidate_entries a). set cs \<subseteq> {..<n}"
  shows "\<forall>cs\<in>set (candidate_entries b). set cs \<subseteq> {..<Suc n}"
proof
  fix cs assume "cs \<in> set (candidate_entries b)"
  then obtain j where j: "j < length (candidate_entries b)" "cs = candidate_entries b ! j"
    by (auto simp: in_set_conv_nth)
  with assms(1) have "j < length (candidate_entries a)" "set cs \<subseteq> insert n (set (candidate_entries a ! j))"
    by (auto simp: index_extends_def)
  moreover from this(1) assms(2) have "set (candidate_entries a ! j) \<subseteq> {..<n}" by simp
  ultimately show "set cs \<subseteq> {..<Suc n}" by (auto simp: less_Suc_eq)
qed

lemma compile_entry_inv:
  assumes inv: "compiled_inv env sp fp rv gen es cat"
    and act: "compile_activation env (length es) (sensitive cat) (folded cat) (activation e) = Inr a"
  shows "outcome (\<lambda>_. False) (compiled_inv env sp fp rv gen (es @ [e])) (compile_entry env cat e)"
proof -
  let ?n = "length es" and ?ix = "(sensitive cat, folded cat)"
  have len: "length (compiled_entries cat) = ?n"
    using inv by (auto simp: compiled_inv_def)
  have wf: "index_wf env sp (sensitive cat)" "index_wf env fp (folded cat)"
    using inv by (auto simp: compiled_inv_def)
  then have rel: "activation_rel (condition_rel env sp fp) (activation e) a"
    using compile_activation_rel [OF act] by (simp add: index_wf_def)
  note range = activation_rel_in_range [OF rel wf]
  have old_range: "\<forall>d\<in>set (compiled_list (ce_activation (compiled_entries cat ! i))). ref_in_range ?ix d"
    if "i < ?n" for i
    using inv len that by (intro activation_rel_in_range [OF _ wf]) (auto simp: compiled_inv_def)
  have "compiled_inv env sp fp rv gen (es @ [e])
      (cat\<lparr>compiled_entries := compiled_entries cat @ [CompiledEntry e a], sensitive := fst ixs,
           folded := snd ixs,
           unconditional := (if always_candidate a then unconditional cat @ [?n] else unconditional cat)\<rparr>)"
    if "pair_extends ?n ?ix ixs" "\<forall>d\<in>set (compiled_list a). registered ?n ixs d" for ixs
  proof -
    have ext: "index_extends ?n (sensitive cat) (fst ixs)" "index_extends ?n (folded cat) (snd ixs)"
      using that(1) by (auto simp: pair_extends_def)
    have "registered i (fst ixs, snd ixs) d"
      if "i < ?n" "d \<in> set (compiled_list (ce_activation (compiled_entries cat ! i)))" for i d
      using pair_extends_registered [OF \<open>pair_extends ?n ?ix ixs\<close>, of d i] old_range that inv
      by (auto simp: compiled_inv_def)
    then have reg: "\<forall>i<Suc ?n. \<forall>d\<in>set (compiled_list (ce_activation
        ((compiled_entries cat @ [CompiledEntry e a]) ! i))). registered i (fst ixs, snd ixs) d"
      using that(2) len by (simp add: nth_append less_Suc_eq)
    have cands: "\<forall>cs\<in>set (candidate_entries (fst ixs)) \<union> set (candidate_entries (snd ixs)).
        set cs \<subseteq> {..<Suc ?n}"
      using candidates_below_extends [OF ext(1)] candidates_below_extends [OF ext(2)] inv
      unfolding compiled_inv_def by blast
    have unc: "i \<in> set (if always_candidate a then unconditional cat @ [?n] else unconditional cat) \<longleftrightarrow>
        i < Suc ?n \<and> always_candidate (ce_activation
          ((compiled_entries cat @ [CompiledEntry e a]) ! i))" for i
    proof -
      have "i \<in> set (unconditional cat) \<longleftrightarrow>
          i < ?n \<and> always_candidate (ce_activation (compiled_entries cat ! i))"
        using inv by (simp add: compiled_inv_def)
      then show ?thesis using len by (cases "i < ?n"; cases "i = ?n") (simp_all add: nth_append)
    qed
    show ?thesis
      using inv rel reg cands unc index_extends_wf [OF ext(1) wf(1)] index_extends_wf [OF ext(2) wf(2)]
      unfolding compiled_inv_def by simp
  qed
  then show ?thesis
    unfolding compile_entry_def Let_def len act and_then.simps
    by (intro outcome_and_then [OF register_activation_outcome [OF range, of ?n]])
      (auto simp: case_prod_beta)
qed

text \<open>
  Errors of the checks that precede compilation: neither an inconsistency of the compiled data nor
  a rejected regular expression.
\<close>

definition admission_error :: "LorebookError \<Rightarrow> bool" where
  "admission_error e \<longleftrightarrow>
    e \<noteq> Panicked \<and> e \<noteq> InvalidField ''catalog.conditions'' ''search index is inconsistent'' \<and>
    (\<forall>i. e \<noteq> InvalidRegex i)"

fun scanned :: "unicode \<Rightarrow> pattern_scan \<Rightarrow> MatchCondition \<Rightarrow> bool" where
  "scanned u st (Literal value cs) \<longleftrightarrow>
    normalize_search_text u value cs \<in> (if cs then sensitive_patterns st else folded_patterns st)"
| "scanned u st (Regex _ _ _) \<longleftrightarrow> True"

definition scan_extends :: "pattern_scan \<Rightarrow> pattern_scan \<Rightarrow> bool" where
  "scan_extends a b \<longleftrightarrow>
    sensitive_patterns a \<subseteq> sensitive_patterns b \<and> folded_patterns a \<subseteq> folded_patterns b \<and>
    (finite (sensitive_patterns a) \<longrightarrow> finite (sensitive_patterns b)) \<and>
    (finite (folded_patterns a) \<longrightarrow> finite (folded_patterns b))"

lemma scan_extends_trans: "scan_extends a b \<Longrightarrow> scan_extends b c \<Longrightarrow> scan_extends a c"
  by (auto simp: scan_extends_def)

lemma scan_extends_refl [simp]: "scan_extends a a"
  by (simp add: scan_extends_def)

lemma scan_extends_scanned: "scan_extends a b \<Longrightarrow> scanned u a c \<Longrightarrow> scanned u b c"
  by (cases c) (auto simp: scan_extends_def split: if_splits)

lemma scan_condition_outcome:
  "outcome (admission_error) (\<lambda>b. scan_extends a b \<and> scanned u b c) (scan_condition u a c)"
  by (cases c)
    (auto simp: Let_def admission_error_def scan_extends_def split: option.splits
      intro!: outcome_and_then [where P = "\<lambda>_. True"])

lemma scan_conditions_outcome:
  "outcome (admission_error) (\<lambda>b. scan_extends a b \<and> (\<forall>c\<in>set cs. scanned u b c))
    (try_fold (scan_condition u) a cs)"
proof (rule outcome_try_fold)
  fix pre c m
  assume I: "scan_extends a m \<and> (\<forall>c\<in>set pre. scanned u m c)"
  show "outcome (admission_error)
      (\<lambda>b. scan_extends a b \<and> (\<forall>c\<in>set (pre @ [c]). scanned u b c)) (scan_condition u m c)"
    by (rule outcome_mono [OF scan_condition_outcome])
      (use I in \<open>auto intro: scan_extends_trans scan_extends_scanned\<close>)
qed simp

lemma scan_patterns_outcome:
  "outcome (admission_error)
    (\<lambda>b. finite (sensitive_patterns b) \<and> finite (folded_patterns b) \<and>
      (\<forall>e\<in>set es. \<forall>c\<in>set (entry_conditions e). scanned u b c)) (scan_patterns u es)"
proof -
  let ?z = "\<lparr>sensitive_patterns = {}, folded_patterns = {}, active_regex_conditions = 0,
       active_regex_pattern_bytes = 0\<rparr>"
  have "outcome (admission_error)
      (\<lambda>b. scan_extends ?z b \<and> (\<forall>e\<in>set es. \<forall>c\<in>set (entry_conditions e). scanned u b c))
      (try_fold (\<lambda>st entry. try_fold (scan_condition u) st (entry_conditions entry)) ?z es)"
  proof (rule outcome_try_fold)
    fix pre e m
    assume I: "scan_extends ?z m \<and> (\<forall>e\<in>set pre. \<forall>c\<in>set (entry_conditions e). scanned u m c)"
    show "outcome (admission_error)
        (\<lambda>b. scan_extends ?z b \<and> (\<forall>e\<in>set (pre @ [e]). \<forall>c\<in>set (entry_conditions e). scanned u b c))
        (try_fold (scan_condition u) m (entry_conditions e))"
      by (rule outcome_mono [OF scan_conditions_outcome])
        (use I in \<open>auto intro: scan_extends_trans scan_extends_scanned\<close>)
  qed simp
  then show ?thesis
    unfolding scan_patterns_def
    by (rule outcome_and_then) (auto simp: admission_error_def scan_extends_def)
qed

lemma PatternIndex_build_outcome:
  "finite pats \<Longrightarrow> outcome (admission_error)
    (\<lambda>ix. index_wf env (sorted_list_of_set pats) ix \<and> (\<forall>cs\<in>set (candidate_entries ix). cs = []))
    (PatternIndex_build env pats)"
  by (cases "ac_build env (sorted_list_of_set pats)")
    (auto simp: PatternIndex_build_def Let_def index_wf_def admission_error_def)

subsection \<open>Catalog admission\<close>

definition entry_bytes :: "LoreEntry \<Rightarrow> nat" where
  "entry_bytes e = str_len (entry_id e) + str_len (content e) +
    (\<Sum>c\<leftarrow>entry_conditions e. condition_bytes c)"

lemma catalog_validate_step_eq:
  assumes "b \<le> MAX_CATALOG_BYTES"
  shows "catalog_validate_step (ids, b) e =
    and_then (LoreEntry_validate e) (\<lambda>_.
      if entry_id e \<in> ids then Inl DuplicateEntryId
      else if b + entry_bytes e \<le> MAX_CATALOG_BYTES
      then Inr (insert (entry_id e) ids, b + entry_bytes e)
      else Inl (PayloadTooLarge ''catalog'' MAX_CATALOG_BYTES))"
proof -
  let ?m = "str_len (entry_id e) + str_len (content e)"
  have conds: "(case activation_conditions (activation e) of
      None \<Rightarrow> [] | Some conditions \<Rightarrow> condition_iter conditions) = entry_conditions e"
    by (simp add: entry_conditions_def)
  show ?thesis
  proof (cases "b + ?m < 2 ^ 64")
    case True
    then have "Option.bind (checked_add_usize b (str_len (entry_id e)))
        (\<lambda>value. checked_add_usize value (str_len (content e))) = Some (b + ?m)"
      by (simp add: checked_add_def)
    with True show ?thesis
      by (auto simp: catalog_validate_step_def conds Let_def try_fold_checked_add entry_bytes_def
          intro!: and_then_cong)
  next
    case False
    then have "Option.bind (checked_add_usize b (str_len (entry_id e)))
        (\<lambda>value. checked_add_usize value (str_len (content e))) = None"
      by (simp add: checked_add_def)
    moreover have "\<not> b + entry_bytes e \<le> MAX_CATALOG_BYTES"
      using False by (simp add: entry_bytes_def)
    ultimately show ?thesis
      by (auto simp: catalog_validate_step_def Let_def intro!: and_then_cong)
  qed
qed

lemma catalog_validate_fold:
  "b \<le> MAX_CATALOG_BYTES \<Longrightarrow> is_ok (try_fold catalog_validate_step (ids, b) es) \<longleftrightarrow>
    (\<forall>e\<in>set es. LoreEntry_validate e = Inr ()) \<and> distinct (map entry_id es) \<and>
    entry_id ` set es \<inter> ids = {} \<and> b + (\<Sum>e\<leftarrow>es. entry_bytes e) \<le> MAX_CATALOG_BYTES"
proof (induction es arbitrary: ids b)
  case Nil
  then show ?case by simp
next
  case (Cons e es)
  show ?case
  proof (cases "LoreEntry_validate e = Inr () \<and> entry_id e \<notin> ids \<and>
      b + entry_bytes e \<le> MAX_CATALOG_BYTES")
    case True
    with Cons.IH [of "b + entry_bytes e" "insert (entry_id e) ids"] Cons.prems show ?thesis
      by (auto simp: catalog_validate_step_eq add.assoc)
  next
    case False
    with Cons.prems show ?thesis
      by (cases "LoreEntry_validate e") (auto simp: catalog_validate_step_eq)
  qed
qed

lemma LorebookCatalog_validate_iff:
  "LorebookCatalog_validate cat = Inr () \<longleftrightarrow>
    catalog_revision cat \<noteq> 0 \<and> length (entries cat) \<le> MAX_CATALOG_ENTRIES \<and>
    (\<forall>e\<in>set (entries cat). LoreEntry_validate e = Inr ()) \<and>
    distinct (map entry_id (entries cat)) \<and>
    (\<Sum>e\<leftarrow>entries cat. entry_bytes e) \<le> MAX_CATALOG_BYTES"
  using catalog_validate_fold [of 0 "{}" "entries cat"]
  by (cases "try_fold catalog_validate_step ({}, 0) (entries cat)")
    (auto simp: LorebookCatalog_validate_def)

lemma and_then_validate_error:
  "outcome E (\<lambda>_. True) m \<Longrightarrow> (\<And>x. outcome E (\<lambda>_. True) (f x)) \<Longrightarrow> outcome E (\<lambda>_. True) (and_then m f)"
  by (rule outcome_and_then)

lemma MatchConditions_validate_error:
  "outcome (admission_error) (\<lambda>_. True) (MatchConditions_validate cs)"
proof -
  have "outcome (admission_error) (\<lambda>_. True) (MatchCondition_validate c)" for c
    by (cases c) (auto simp: admission_error_def)
  then have "outcome (admission_error) (\<lambda>_. True) (try_fold (\<lambda>_. MatchCondition_validate) () xs)"
    for xs
    by (rule outcome_try_fold [where I = "\<lambda>_ _. True", simplified])
  then show ?thesis
    by (auto simp: MatchConditions_validate_def Let_def admission_error_def checked_add_def)
qed

lemma LoreEntry_validate_error:
  "outcome (admission_error) (\<lambda>_. True) (LoreEntry_validate e)"
  using MatchConditions_validate_error
  by (cases "activation e") (auto simp: LoreEntry_validate_def admission_error_def split: option.splits)

lemma LorebookCatalog_validate_error:
  "outcome (admission_error) (\<lambda>_. True) (LorebookCatalog_validate cat)"
proof -
  have "outcome (admission_error) (\<lambda>st. snd st \<le> MAX_CATALOG_BYTES)
      (try_fold catalog_validate_step ({}, 0) (entries cat))"
  proof (rule outcome_try_fold)
    fix pre :: "LoreEntry list" and e and st :: "rstr set \<times> nat"
    assume "snd st \<le> MAX_CATALOG_BYTES"
    then show "outcome (admission_error) (\<lambda>st. snd st \<le> MAX_CATALOG_BYTES)
        (catalog_validate_step st e)"
      using LoreEntry_validate_error [of e]
      by (cases st; cases "LoreEntry_validate e")
        (auto simp: catalog_validate_step_eq admission_error_def)
  qed simp
  then show ?thesis
    by (cases "try_fold catalog_validate_step ({}, 0) (entries cat)")
      (auto simp: LorebookCatalog_validate_def admission_error_def)
qed

subsection \<open>Compilation never meets an inconsistency\<close>

lemma try_map_outcome:
  assumes "\<And>x. x \<in> set xs \<Longrightarrow> outcome E (\<lambda>_. True) (f x)"
  shows "outcome E (\<lambda>_. True) (try_map f xs)"
  using assms by (induction xs) (auto intro!: outcome_and_then [where P = "\<lambda>_. True"])

definition regex_error :: "('ac, 'rx) engine_env \<Rightarrow> LoreEntry \<Rightarrow> nat \<Rightarrow> LorebookError \<Rightarrow> bool" where
  "regex_error env entry n e \<longleftrightarrow>
    e = InvalidRegex n \<and>
    (\<exists>p q ci. Regex p q ci \<in> set (entry_conditions entry) \<and> rx_build env p ci = None)"

fun indexed :: "unicode \<Rightarrow> rstr list \<Rightarrow> rstr list \<Rightarrow> MatchCondition \<Rightarrow> bool" where
  "indexed u sp fp (Literal value cs) \<longleftrightarrow>
    normalize_search_text u value cs \<in> set (if cs then sp else fp)"
| "indexed u sp fp (Regex _ _ _) \<longleftrightarrow> True"

lemma compile_condition_outcome:
  assumes "c \<in> set (entry_conditions entry)"
    and "indexed (env_unicode env) (patterns s) (patterns f) c"
    and "sorted (patterns s)" and "sorted (patterns f)"
  shows "outcome (regex_error env entry n) (\<lambda>_. True) (compile_condition env n s f c)"
proof (cases c)
  case (Literal v cs)
  let ?ix = "if cs then s else f"
  have "sorted (patterns ?ix)" "normalize_search_text (env_unicode env) v cs \<in> set (patterns ?ix)"
    using assms Literal by (auto split: if_splits)
  then obtain i where "binary_search (patterns ?ix) (normalize_search_text (env_unicode env) v cs) = Some i"
    by (rule binary_search_found)
  then show ?thesis
    by (cases cs) (simp_all add: Literal PatternIndex_lookup_def)
next
  case (Regex p q ci)
  with assms(1) show ?thesis
    by (cases "rx_build env p ci") (auto simp: regex_error_def)
qed

lemma compile_activation_outcome:
  assumes conds: "\<forall>c\<in>set (entry_conditions entry).
      indexed (env_unicode env) (patterns s) (patterns f) c"
    and "sorted (patterns s)" and "sorted (patterns f)"
  shows "outcome (regex_error env entry n) (\<lambda>_. True)
    (compile_activation env n s f (activation entry))"
proof -
  let ?E = "regex_error env entry n"
  have many: "outcome ?E (\<lambda>_. True) (try_map (compile_condition env n s f) cs)"
    if "set cs \<subseteq> set (entry_conditions entry)" for cs
    using that conds assms(2,3) by (intro try_map_outcome compile_condition_outcome) auto
  have all: "outcome ?E (\<lambda>_. True) (compile_conditions env n s f cs)"
    if "activation_conditions (activation entry) = Some cs" for cs
  proof -
    have sub: "set (primary cs) \<subseteq> set (entry_conditions entry)"
      "set (secondary_list (secondary cs)) \<subseteq> set (entry_conditions entry)"
      using that by (auto simp: entry_conditions_def condition_iter_def)
    show ?thesis
      unfolding compile_conditions_def Let_def
      using many [OF sub(2)]
      by (intro outcome_and_then [OF many [OF sub(1)]] outcome_and_then [where P = "\<lambda>_. True"])
        (auto split: SecondaryConditions.splits intro!: outcome_and_then [where P = "\<lambda>_. True"])
  qed
  show ?thesis
    using all by (cases "activation entry")
      (auto split: option.splits intro!: outcome_and_then [where P = "\<lambda>_. True"])
qed

definition compile_error :: "('ac, 'rx) engine_env \<Rightarrow> LoreEntry list \<Rightarrow> LorebookError \<Rightarrow> bool" where
  "compile_error env es e \<longleftrightarrow>
    admission_error e \<or> (\<exists>i<length es. regex_error env (es ! i) i e)"

lemma compile_loop_outcome:
  assumes "compiled_inv env sp fp rv gen [] cat" and "sorted sp" and "sorted fp"
    and conds: "\<forall>e\<in>set es. \<forall>c\<in>set (entry_conditions e). indexed (env_unicode env) sp fp c"
  shows "outcome (compile_error env es) (compiled_inv env sp fp rv gen es)
    (try_fold (compile_entry env) cat es)"
proof (rule outcome_try_fold_prefix)
  fix pre e rest st
  assume es: "es = pre @ e # rest" and inv: "compiled_inv env sp fp rv gen pre st"
  have len: "length (compiled_entries st) = length pre"
    using inv by (auto simp: compiled_inv_def)
  have pats: "patterns (sensitive st) = sp" "patterns (folded st) = fp"
    using inv by (auto simp: compiled_inv_def index_wf_def)
  have "outcome (regex_error env e (length pre)) (\<lambda>_. True)
      (compile_activation env (length pre) (sensitive st) (folded st) (activation e))"
    using conds es assms(2,3) by (intro compile_activation_outcome) (auto simp: pats)
  then show "outcome (compile_error env es) (compiled_inv env sp fp rv gen (pre @ [e]))
      (compile_entry env st e)"
  proof (cases "compile_activation env (length pre) (sensitive st) (folded st) (activation e)")
    case (Inl x)
    moreover assume "outcome (regex_error env e (length pre)) (\<lambda>_. True)
      (compile_activation env (length pre) (sensitive st) (folded st) (activation e))"
    ultimately show ?thesis
      using es by (auto simp: compile_entry_def len compile_error_def intro!: exI [of _ "length pre"])
  next
    case (Inr a)
    from compile_entry_inv [OF inv Inr] show ?thesis by (cases "compile_entry env st e") auto
  qed
qed (rule assms(1))

theorem compile_catalog_outcome:
  "outcome (compile_error env (filter enabled (entries catalog)))
    (\<lambda>cat. LorebookCatalog_validate catalog = Inr () \<and>
      (\<exists>sp fp. compiled_inv env sp fp (catalog_revision catalog) gen
        (filter enabled (entries catalog)) cat))
    (compile_catalog env catalog gen)"
proof -
  let ?es = "filter enabled (entries catalog)"
  let ?E = "compile_error env ?es"
  have adm: "outcome admission_error P m \<Longrightarrow> outcome ?E P m" for P and m :: "(LorebookError, 'z) res"
    by (cases m) (auto simp: compile_error_def)
  show ?thesis
  proof (cases "LorebookCatalog_validate catalog")
    case (Inl e)
    with LorebookCatalog_validate_error [of catalog] show ?thesis
      by (simp add: compile_catalog_def compile_error_def)
  next
    case (Inr u)
    have loop: "outcome ?E (\<lambda>cat. \<exists>sp fp. compiled_inv env sp fp (catalog_revision catalog) gen ?es cat)
       (try_fold (compile_entry env) \<lparr>revision = catalog_revision catalog, generation = gen,
          compiled_entries = [], sensitive = s, folded = f, unconditional = []\<rparr> ?es)"
      if "\<forall>e\<in>set ?es. \<forall>c\<in>set (entry_conditions e). scanned (env_unicode env) sc c"
        "finite (sensitive_patterns sc)" "finite (folded_patterns sc)"
        "index_wf env (sorted_list_of_set (sensitive_patterns sc)) s"
        "\<forall>cs\<in>set (candidate_entries s). cs = []"
        "index_wf env (sorted_list_of_set (folded_patterns sc)) f"
        "\<forall>cs\<in>set (candidate_entries f). cs = []" for sc s f
    proof (rule outcome_mono [OF compile_loop_outcome])
      have "scanned u sc c \<Longrightarrow> indexed u (sorted_list_of_set (sensitive_patterns sc))
          (sorted_list_of_set (folded_patterns sc)) c" for u c
        using that(2,3) by (cases c) auto
      with that(1) show "\<forall>e\<in>set ?es. \<forall>c\<in>set (entry_conditions e). indexed (env_unicode env)
          (sorted_list_of_set (sensitive_patterns sc)) (sorted_list_of_set (folded_patterns sc)) c"
        by blast
    qed (use that in \<open>auto simp: compiled_inv_def\<close>)
    show ?thesis
      unfolding compile_catalog_def Inr and_then.simps Let_def
      by (rule outcome_and_then [OF adm [OF scan_patterns_outcome [of ?es "env_unicode env"]]],
          elim conjE, rule outcome_and_then [OF adm [OF PatternIndex_build_outcome]], assumption,
          rule outcome_and_then [OF adm [OF PatternIndex_build_outcome]], assumption,
          rule outcome_mono [OF loop]) auto
  qed
qed

section \<open>Matching\<close>

definition limit_error :: "LorebookError \<Rightarrow> bool" where
  "limit_error e \<longleftrightarrow> (\<exists>k. e = SearchLimitExceeded k)"

definition hits_of :: "rstr list \<Rightarrow> rstr \<Rightarrow> bool list" where
  "hits_of ps hay = map (\<lambda>p. contains_str p hay) ps"

lemma LiteralWork_charge_outcome:
  "outcome limit_error (\<lambda>w'. events w' = Suc (events w) \<and> max_events w' = max_events w \<and>
    events w' \<le> max_events w) (LiteralWork_charge w)"
  by (auto simp: LiteralWork_charge_def limit_error_def Let_def checked_add_def)

lemma mark_hits_outcome:
  assumes "set found \<subseteq> {..<n}" and "events w \<le> max_events w"
  shows "outcome limit_error
    (\<lambda>(w', hits). hits = map (\<lambda>i. i \<in> set found) [0..<n] \<and> max_events w' = max_events w \<and>
      events w' = events w + length found \<and> events w' \<le> max_events w)
    (try_fold mark_hit (w, replicate n False) found)"
proof (rule outcome_try_fold)
  show "case (w, replicate n False) of (w', hits) \<Rightarrow> hits = map (\<lambda>i. i \<in> set []) [0..<n] \<and>
      max_events w' = max_events w \<and> events w' = events w + length [] \<and> events w' \<le> max_events w"
    using assms(2) by (simp add: map_replicate_const)
next
  fix pre i and st :: "LiteralWork \<times> bool list"
  assume I: "case st of (w', hits) \<Rightarrow> hits = map (\<lambda>i. i \<in> set pre) [0..<n] \<and>
      max_events w' = max_events w \<and> events w' = events w + length pre \<and> events w' \<le> max_events w"
    and i: "i \<in> set found"
  obtain w' hits where st: "st = (w', hits)" by (cases st)
  have "i < n" using assms(1) i by auto
  moreover have "hits = map (\<lambda>i. i \<in> set pre) [0..<n]" using I st by simp
  ultimately have "hits[i := True] = map (\<lambda>j. j \<in> set (pre @ [i])) [0..<n]" and "i < length hits"
    by (auto intro!: nth_equalityI simp: nth_list_update split: if_splits)
  then show "outcome limit_error (\<lambda>(w', hits). hits = map (\<lambda>j. j \<in> set (pre @ [i])) [0..<n] \<and>
      max_events w' = max_events w \<and> events w' = events w + length (pre @ [i]) \<and>
      events w' \<le> max_events w) (mark_hit st i)"
    using I unfolding mark_hit_def st
    by (auto intro!: outcome_and_then [OF LiteralWork_charge_outcome])
qed

lemma PatternIndex_matches_outcome:
  assumes "finds_all_overlapping env" and "index_wf env ps ix" and "events w \<le> max_events w"
  shows "outcome limit_error
    (\<lambda>(w', hits). hits = hits_of ps hay \<and> max_events w' = max_events w \<and> events w' \<le> max_events w)
    (PatternIndex_matches env ix hay w)"
proof (cases "ps = []")
  case True
  with assms show ?thesis
    by (simp add: PatternIndex_matches_def index_wf_def hits_of_def)
next
  case False
  with assms(2) obtain ac where ac: "ac_build env ps = Some ac" "matcher ix = Some ac" "patterns ix = ps"
    by (auto simp: index_wf_def)
  have found: "set (find_overlapping_iter env ac hay) =
      {i. i < length ps \<and> contains_str (ps ! i) hay}"
    using assms(1) ac(1) unfolding finds_all_overlapping_def by blast
  have "hits_of ps hay = map (\<lambda>i. i \<in> set (find_overlapping_iter env ac hay)) [0..<length ps]"
    unfolding found hits_of_def by (rule nth_equalityI) simp_all
  moreover from found have "set (find_overlapping_iter env ac hay) \<subseteq> {..<length ps}" by auto
  ultimately have "outcome limit_error (\<lambda>(w', hits). hits = hits_of ps hay \<and>
      max_events w' = max_events w \<and> events w' \<le> max_events w)
      (try_fold mark_hit (w, replicate (length ps) False) (find_overlapping_iter env ac hay))"
    by (intro outcome_mono [OF mark_hits_outcome [OF _ assms(3)]]) auto
  with ac show ?thesis by (simp add: PatternIndex_matches_def)
qed

definition limits_ok :: "EvaluationLimits \<Rightarrow> EvaluationLimits \<Rightarrow> bool" where
  "limits_ok l0 l \<longleftrightarrow>
    max_evaluations l = max_evaluations l0 \<and> max_scan_bytes l = max_scan_bytes l0 \<and>
    max_matches l = max_matches l0 \<and> evaluations l \<le> max_evaluations l \<and>
    scan_bytes l \<le> max_scan_bytes l \<and> matches l \<le> max_matches l"

lemma charge_outcomes:
  "limits_ok l0 l \<Longrightarrow> outcome limit_error (limits_ok l0) (charge_evaluation l u)"
  "limits_ok l0 l \<Longrightarrow> outcome limit_error (limits_ok l0) (charge_scan l input)"
  "limits_ok l0 l \<Longrightarrow> outcome limit_error (limits_ok l0) (charge_match l m)"
  by (auto simp: charge_evaluation_def charge_scan_def charge_match_def limits_ok_def limit_error_def
      checked_add_def)

lemma evaluate_outcome:
  assumes "limits_ok l0 l"
  shows "outcome limit_error (\<lambda>(l', b). limits_ok l0 l' \<and> b = (find_iter env rx input \<noteq> []))
    (EvaluationLimits_evaluate env l rx input)"
proof -
  have "outcome limit_error (\<lambda>(l', b). limits_ok l0 l' \<and> b = (find_iter env rx input \<noteq> []))
      (try_fold (\<lambda>(self, matched) found.
        and_then (charge_match self found) (\<lambda>self. Inr (self, True))) (m, False) (find_iter env rx input))"
    if "limits_ok l0 m" for m
    by (rule outcome_try_fold)
      (use that in \<open>auto intro!: outcome_and_then [OF charge_outcomes(3)]\<close>)
  then show ?thesis
    unfolding EvaluationLimits_evaluate_def
    by (intro outcome_and_then [OF charge_outcomes(1) [OF assms]]
        outcome_and_then [OF charge_outcomes(2)])
qed

locale matching =
  fixes env :: "('ac, 'rx) engine_env" and search :: SearchInput and sp fp :: "rstr list"
    and hits :: PatternHits and l0 :: EvaluationLimits
  assumes hits_sensitive: "ph_sensitive hits = hits_of sp (si_sensitive search)"
    and hits_folded: "ph_folded hits = hits_of fp (si_folded search)"
begin

abbreviation "rel \<equiv> condition_rel env sp fp"
abbreviation "tells P \<equiv> (\<lambda>(l, b). limits_ok l0 l \<and> b = P)"

lemma condition_outcome:
  assumes "limits_ok l0 l" and "rel c d"
  shows "outcome limit_error (tells (condition_holds env search c))
    (condition_matches env hits (si_regex search) l d)"
proof (cases d)
  case (CompiledLiteral r)
  with assms show ?thesis
    by (cases c) (auto simp: PatternHits_contains_def hits_sensitive hits_folded hits_of_def
        index_or_def split: if_splits)
next
  case (CompiledRegex rx)
  with assms evaluate_outcome [OF assms(1), of env rx "si_regex search"] show ?thesis
    by (cases c) auto
qed

lemma any_outcome:
  "list_all2 rel cs ds \<Longrightarrow> limits_ok l0 l \<Longrightarrow>
    outcome limit_error (tells (list_ex (condition_holds env search) cs))
      (any_matches env hits (si_regex search) l ds)"
  by (induction cs ds arbitrary: l rule: list_all2_induct)
    (auto intro!: outcome_and_then [OF condition_outcome])

lemma all_outcome:
  "list_all2 rel cs ds \<Longrightarrow> limits_ok l0 l \<Longrightarrow>
    outcome limit_error (tells (list_all (condition_holds env search) cs))
      (all_match env hits (si_regex search) l ds)"
  by (induction cs ds arbitrary: l rule: list_all2_induct)
    (auto intro!: outcome_and_then [OF condition_outcome])

lemma conditions_outcome:
  assumes "conditions_rel rel cs ds" and "limits_ok l0 l"
  shows "outcome limit_error (tells (conditions_hold env search cs))
    (conditions_match env hits (si_regex search) l ds)"
proof -
  from assms(1) have prim: "list_all2 rel (primary cs) (cc_primary ds)"
    and sec: "secondary_rel rel (secondary cs) (cc_secondary ds)"
    by (simp_all add: conditions_rel_def)
  let ?sec = "case secondary cs of NoSecondary \<Rightarrow> True
      | AnyOf vs \<Rightarrow> list_ex (condition_holds env search) vs
      | AllOf vs \<Rightarrow> list_all (condition_holds env search) vs"
  have "outcome limit_error (tells ?sec) (case cc_secondary ds of
        CompiledNone \<Rightarrow> Inr (l, True)
      | CompiledAny ds \<Rightarrow> any_matches env hits (si_regex search) l ds
      | CompiledAll ds \<Rightarrow> all_match env hits (si_regex search) l ds)" if "limits_ok l0 l" for l
    using sec that by (cases "secondary cs"; cases "cc_secondary ds") (simp_all add: any_outcome all_outcome)
  then show ?thesis
    unfolding conditions_match_def conditions_hold_def
    by (intro outcome_and_then [OF any_outcome [OF prim assms(2)]]) (auto split: prod.splits)
qed

lemma activation_outcome:
  assumes "activation_rel rel (activation e) d" and "limits_ok l0 l"
  shows "outcome limit_error (tells (entry_holds env search sd e))
    (activation_matches env e hits (si_regex search) sd l d)"
proof (cases d)
  case CompiledConstant
  with assms show ?thesis by (cases "activation e") (auto simp: entry_holds_def)
next
  case (CompiledSelective ds)
  with assms conditions_outcome [OF _ assms(2)] show ?thesis
    by (cases "activation e") (auto simp: entry_holds_def)
next
  case (CompiledProbability bp ds)
  with assms(1) obtain cs where cs: "activation e = Probability bp cs"
      "rel_option (conditions_rel rel) cs ds"
    by (cases "activation e") auto
  then have "outcome limit_error
      (tells (case cs of None \<Rightarrow> True | Some cs \<Rightarrow> conditions_hold env search cs))
      (case ds of None \<Rightarrow> Inr (l, True) | Some ds \<Rightarrow> conditions_match env hits (si_regex search) l ds)"
    using assms(2) conditions_outcome by (cases cs; cases ds) auto
  with CompiledProbability cs(1) show ?thesis
    by (auto simp: entry_holds_def intro: outcome_and_then)
qed

end

abbreviation hits_at :: "rstr list \<Rightarrow> rstr list \<Rightarrow> SearchInput \<Rightarrow> PatternHits" where
  "hits_at sp fp search \<equiv>
    \<lparr>ph_sensitive = hits_of sp (si_sensitive search), ph_folded = hits_of fp (si_folded search)\<rparr>"

interpretation selecting: matching env search sp fp "hits_at sp fp search" l0 for env search sp fp l0
  by unfold_locales simp_all

subsection \<open>Candidates\<close>

definition cand_inv :: "nat \<Rightarrow> nat set \<Rightarrow> bool list \<times> nat list \<Rightarrow> bool" where
  "cand_inv n S st \<longleftrightarrow> length (fst st) = n \<and> distinct (snd st) \<and> set (snd st) = S \<and> S \<subseteq> {..<n} \<and>
    (\<forall>i<n. fst st ! i \<longleftrightarrow> i \<in> S)"

lemma add_candidate_inv:
  "cand_inv n S st \<Longrightarrow> e < n \<Longrightarrow> outcome (\<lambda>_. False) (cand_inv n (insert e S)) (add_candidate st e)"
  by (cases st) (auto simp: add_candidate_def cand_inv_def nth_list_update insert_absorb)

lemma add_candidates_inv:
  assumes "cand_inv n S st" and "set xs \<subseteq> {..<n}"
  shows "outcome (\<lambda>_. False) (cand_inv n (S \<union> set xs)) (try_fold add_candidate st xs)"
  using assms
proof (induction xs arbitrary: S st)
  case (Cons x xs)
  then have "outcome (\<lambda>_. False) (cand_inv n (insert x S)) (add_candidate st x)"
    by (intro add_candidate_inv) auto
  then show ?case
    using Cons.IH [of "insert x S"] Cons.prems by (auto intro: outcome_and_then)
qed simp

definition hit_candidates :: "'ac PatternIndex \<Rightarrow> bool list \<Rightarrow> nat set" where
  "hit_candidates ix hits = (\<Union>j\<in>{j. j < length hits \<and> hits ! j}. set (candidate_entries ix ! j))"

lemma hit_candidatesI:
  "j < length hits \<Longrightarrow> hits ! j \<Longrightarrow> i \<in> set (candidate_entries ix ! j) \<Longrightarrow> i \<in> hit_candidates ix hits"
  by (auto simp: hit_candidates_def)

lemma add_pattern_candidates_inv:
  assumes "cand_inv n S st" and "length hits = length (candidate_entries ix)"
    and below: "\<forall>cs\<in>set (candidate_entries ix). set cs \<subseteq> {..<n}"
  shows "outcome (\<lambda>_. False) (cand_inv n (S \<union> hit_candidates ix hits)) (add_pattern_candidates ix hits st)"
proof -
  let ?I = "\<lambda>pre. cand_inv n (S \<union> (\<Union>(j, h)\<in>set pre. if h then set (candidate_entries ix ! j) else {}))"
  have "outcome (\<lambda>_. False) (?I (enumerate 0 hits)) (add_pattern_candidates ix hits st)"
    unfolding add_pattern_candidates_def
  proof (rule outcome_try_fold)
    fix pre p u
    assume I: "?I pre u" and p: "p \<in> set (enumerate 0 hits)"
    obtain j h where "p = (j, h)" by (cases p)
    with p assms(2) have jh: "p = (j, h)" "j < length (candidate_entries ix)"
      by (simp_all add: in_set_enumerate_eq)
    then have "set (candidate_entries ix ! j) \<subseteq> {..<n}" using below by simp
    from add_candidates_inv [OF I this] I
    show "outcome (\<lambda>_. False) (?I (pre @ [p])) (case p of (pattern_index, hit) \<Rightarrow>
        if hit then and_then (index_or Panicked (candidate_entries ix) pattern_index)
          (try_fold add_candidate u) else Inr u)"
      using jh by (simp add: Un_ac)
  qed (use assms(1) in simp)
  moreover have "(\<Union>(j, h)\<in>set (enumerate 0 hits). if h then set (candidate_entries ix ! j) else {}) =
      hit_candidates ix hits"
    by (force simp: hit_candidates_def in_set_enumerate_eq split: if_splits)
  ultimately show ?thesis by simp
qed

text \<open>Completeness: an entry that holds is a candidate.\<close>

lemma literal_hit_candidate:
  assumes inv: "compiled_inv env sp fp rv gen es cat" and i: "i < length es"
    and d: "CompiledLiteral r \<in> set (compiled_list (ce_activation (compiled_entries cat ! i)))"
    and rel: "condition_rel env sp fp c (CompiledLiteral r)" and holds: "condition_holds env search c"
  shows "i \<in> hit_candidates (sensitive cat) (hits_of sp (si_sensitive search)) \<union>
    hit_candidates (folded cat) (hits_of fp (si_folded search))"
proof -
  have "\<forall>i<length es. \<forall>d\<in>set (compiled_list (ce_activation (compiled_entries cat ! i))).
      registered i (sensitive cat, folded cat) d"
    using inv unfolding compiled_inv_def by simp
  note reg = this [rule_format, OF i d]
  have "\<exists>v cs. c = Literal v cs" using rel by (cases c) simp_all
  then obtain v cs where c: "c = Literal v cs" by blast
  show ?thesis
  proof (cases cs)
    case True
    with reg rel holds c have "i \<in> hit_candidates (sensitive cat) (hits_of sp (si_sensitive search))"
      by (intro hit_candidatesI [of "pr_index r"]) (simp_all add: hits_of_def)
    then show ?thesis by simp
  next
    case False
    with reg rel holds c have "i \<in> hit_candidates (folded cat) (hits_of fp (si_folded search))"
      by (intro hit_candidatesI [of "pr_index r"]) (simp_all add: hits_of_def)
    then show ?thesis by simp
  qed
qed

lemma holds_is_candidate:
  assumes inv: "compiled_inv env sp fp rv gen es cat" and i: "i < length es"
    and holds: "entry_holds env search sd (es ! i)"
  shows "i \<in> set (unconditional cat) \<union>
    hit_candidates (sensitive cat) (hits_of sp (si_sensitive search)) \<union>
    hit_candidates (folded cat) (hits_of fp (si_folded search))"
proof (cases "always_candidate (ce_activation (compiled_entries cat ! i))")
  case True
  with inv i show ?thesis by (auto simp: compiled_inv_def)
next
  case False
  let ?ce = "compiled_entries cat ! i" and ?e = "es ! i"
  have ce: "?ce \<in> set (compiled_entries cat)" "ce_source ?ce = ?e"
    using inv i by (auto simp: compiled_inv_def)
  then have rel: "activation_rel (condition_rel env sp fp) (activation ?e) (ce_activation ?ce)"
    using inv by (auto simp: compiled_inv_def)
  obtain cs ds where cs: "activation_conditions (activation ?e) = Some cs"
      "compiled_conditions_of (ce_activation ?ce) = Some ds"
      "conditions_rel (condition_rel env sp fp) cs ds" "conditions_hold env search cs"
    using rel False holds
    by (cases "activation ?e"; cases "ce_activation ?ce")
      (auto simp: always_candidate_def entry_holds_def option_rel_Some1 split: option.splits)
  then obtain c where c: "c \<in> set (primary cs)" "condition_holds env search c"
    by (auto simp: conditions_hold_def list_ex_iff)
  from cs(3) have "list_all2 (condition_rel env sp fp) (primary cs) (cc_primary ds)"
    by (simp add: conditions_rel_def)
  with c(1) obtain d where d: "d \<in> set (cc_primary ds)" "condition_rel env sp fp c d"
    by (metis list_all2_set1)
  then have mem: "d \<in> set (compiled_list (ce_activation ?ce))"
    using cs(2) by (simp add: compiled_list_def compiled_condition_iter_def)
  have "\<nexists>rx. d = CompiledRegex rx"
    using False mem cs(2)
    by (auto simp: always_candidate_def compiled_activation_contains_regex_def compiled_list_def
        list_ex_iff)
  then obtain r where "d = CompiledLiteral r" by (cases d) auto
  with literal_hit_candidate [OF inv i _ _ c(2)] d mem show ?thesis by auto
qed

end
