(* ===== verification/Utf8.thy ===== *)
theory Utf8
  imports Prelude
begin

text \<open>
  UTF-8 as a code: a decoder for one scalar value inverts the encoder, so the encoding of a string
  of Unicode scalar values determines it, also when the bytes are followed by others. The hashed
  encodings of the lorebook cache and of memory identifiers rest on this.
\<close>

definition valid_str :: "rstr \<Rightarrow> bool" where
  "valid_str s \<longleftrightarrow> (\<forall>c\<in>set s. c < 0x110000)"

fun utf8_decode1 :: "nat list \<Rightarrow> nat" where
  "utf8_decode1 (a # rest) =
    (if a < 0x80 then a
     else if a < 0xE0 then (a - 0xC0) * 64 + (rest ! 0 - 0x80)
     else if a < 0xF0 then (a - 0xE0) * 4096 + (rest ! 0 - 0x80) * 64 + (rest ! 1 - 0x80)
     else (a - 0xF0) * 262144 + (rest ! 0 - 0x80) * 4096 + (rest ! 1 - 0x80) * 64 + (rest ! 2 - 0x80))"
| "utf8_decode1 [] = 0"

lemma unat_byte_of_nat: "n < 256 \<Longrightarrow> unat (word_of_nat n :: byte) = n"
  by (simp add: unat_of_nat)

lemma unat_utf8_encode:
  assumes "c < 0x110000"
  shows "map unat (utf8_encode c) =
    (if c < 0x80 then [c]
     else if c < 0x800 then [0xC0 + c div 64, 0x80 + c mod 64]
     else if c < 0x10000 then [0xE0 + c div 4096, 0x80 + c div 64 mod 64, 0x80 + c mod 64]
     else [0xF0 + c div 262144, 0x80 + c div 4096 mod 64, 0x80 + c div 64 mod 64, 0x80 + c mod 64])"
proof -
  have "c < 0x800 \<Longrightarrow> c div 64 < 32" "c < 0x10000 \<Longrightarrow> c div 4096 < 16" "c div 262144 < 5"
    using assms by simp_all
  moreover have "c mod 64 < 64" "c div 64 mod 64 < 64" "c div 4096 mod 64 < 64" by simp_all
  ultimately show ?thesis
    by (simp add: utf8_encode_def unat_byte_of_nat del: of_nat_add)
qed

lemma utf8_decode1_encode:
  assumes "c < 0x110000"
  shows "utf8_decode1 (map unat (utf8_encode c @ bs)) = c"
proof -
  have digits: "c div 64 * 64 + c mod 64 = c" "c div 4096 * 64 + c div 64 mod 64 = c div 64"
    "c div 262144 * 64 + c div 4096 mod 64 = c div 4096"
    using div_mult_mod_eq [of c 64] div_mult_mod_eq [of "c div 64" 64]
      div_mult_mod_eq [of "c div 4096" 64]
    by (simp_all add: div_mult2_eq [symmetric])
  then have sums: "c div 4096 * 4096 + c div 64 mod 64 * 64 + c mod 64 = c"
    "c div 262144 * 262144 + c div 4096 mod 64 * 4096 + c div 64 mod 64 * 64 + c mod 64 = c"
    by linarith+
  have "c div 64 < 32 \<longleftrightarrow> c < 0x800" "c div 4096 < 16 \<longleftrightarrow> c < 0x10000"
    by (simp_all add: div_less_iff_less_mult)
  then show ?thesis
    using digits(1) sums by (simp add: unat_utf8_encode [OF assms])
qed

lemma utf8_encode_prefix:
  assumes "utf8_encode c @ xs = utf8_encode d @ ys" and "c < 0x110000" and "d < 0x110000"
  shows "c = d \<and> xs = ys"
  using utf8_decode1_encode [OF assms(2), of xs] utf8_decode1_encode [OF assms(3), of ys] assms(1)
  by auto

lemma as_bytes_inj:
  "as_bytes s = as_bytes t \<Longrightarrow> valid_str s \<Longrightarrow> valid_str t \<Longrightarrow> s = t"
proof (induction s arbitrary: t)
  case Nil
  then have "length (as_bytes t) = 0" by (simp add: as_bytes_def)
  then show ?case by simp
next
  case (Cons c s)
  have "str_len t \<noteq> 0"
    using arg_cong [OF Cons.prems(1), of length] by (auto simp: utf8_width_def split: if_splits)
  then obtain d t' where t: "t = d # t'" by (cases t) auto
  with Cons.prems have "utf8_encode c @ as_bytes s = utf8_encode d @ as_bytes t'"
    "c < 0x110000" "d < 0x110000"
    by (simp_all add: as_bytes_def valid_str_def)
  then have "c = d \<and> as_bytes s = as_bytes t'" by (rule utf8_encode_prefix)
  with Cons t show ?case by (simp add: valid_str_def)
qed

end
