(* ===== verification/Lore_Select.thy ===== *)
theory Lore_Select
  imports Lore_Correct Utf8
begin

text \<open>
  Selection as a whole: the optimised search agrees with the reference semantics, the admitted
  text keeps to its budgets and leaves nothing out that would fit, and the errors that remain are
  the declared limits.
\<close>

section \<open>Uncached selection implements the reference semantics\<close>

lemma match_candidates_outcome:
  assumes inv: "compiled_inv env sp fp rv gen es cat" and below: "set cands \<subseteq> {..<length es}"
    and "limits_ok l0 l0"
  shows "outcome limit_error
    (\<lambda>(l, matched). limits_ok l0 l \<and> matched = filter (\<lambda>i. entry_holds env search sd (es ! i)) cands)
    (try_fold (match_candidate env cat (hits_at sp fp search) (si_regex search) sd) (l0, []) cands)"
proof (rule outcome_try_fold)
  fix pre i st
  assume I: "case st of (l, matched) \<Rightarrow>
      limits_ok l0 l \<and> matched = filter (\<lambda>i. entry_holds env search sd (es ! i)) pre"
    and "i \<in> set cands"
  then have i: "i < length es" using below by auto
  let ?ce = "compiled_entries cat ! i"
  have len: "length (compiled_entries cat) = length es" and src: "ce_source ?ce = es ! i"
    using inv i by (auto simp: compiled_inv_def)
  have "activation_rel (condition_rel env sp fp) (activation (ce_source ?ce)) (ce_activation ?ce)"
    using inv i len by (simp add: compiled_inv_def)
  from selecting.activation_outcome [OF this [unfolded src], where search = search and sd = sd]
  show "outcome limit_error (\<lambda>(l, matched). limits_ok l0 l \<and>
      matched = filter (\<lambda>i. entry_holds env search sd (es ! i)) (pre @ [i]))
      (match_candidate env cat (hits_at sp fp search) (si_regex search) sd st i)"
    using I i len
    by (cases st) (auto simp: match_candidate_def src intro!: outcome_and_then)
qed (use assms(3) in simp)

lemma mset_filter_indices:
  assumes "distinct cands" and "set cands \<subseteq> {..<length es}"
    and "\<And>i. i < length es \<Longrightarrow> P (es ! i) \<Longrightarrow> i \<in> set cands"
  shows "mset (map (\<lambda>i. es ! i) (filter (\<lambda>i. P (es ! i)) cands)) = mset (filter P es)"
proof -
  have "mset (filter (\<lambda>i. P (es ! i)) cands) = mset (filter (\<lambda>i. P (es ! i)) [0..<length es])"
    by (rule set_eq_iff_mset_eq_distinct [THEN iffD1]) (use assms in auto)
  then have "mset (map (\<lambda>i. es ! i) (filter (\<lambda>i. P (es ! i)) cands)) =
      mset (map (\<lambda>i. es ! i) (filter (\<lambda>i. P (es ! i)) [0..<length es]))"
    by (simp only: mset_map)
  also have "map (\<lambda>i. es ! i) (filter (\<lambda>i. P (es ! i)) [0..<length es]) =
      filter P (map (\<lambda>i. es ! i) [0..<length es])"
    by (simp add: filter_map comp_def)
  finally show ?thesis by (simp add: map_nth)
qed

lemma compare_entries_Equal: "compare_entries a b = Equal \<Longrightarrow> entry_id a = entry_id b"
  by (simp add: compare_entries_def)

lemma rank_unique:
  assumes "mset xs = mset ys" and "distinct (map entry_id ys)"
  shows "sort_by compare_entries xs = sort_by compare_entries ys"
proof (rule rank.sort_by_unique [OF assms(1)])
  fix x y
  assume "x \<in> set xs" "y \<in> set xs" "compare_entries x y = Equal"
  moreover have "set xs = set ys" using assms(1) by (metis set_mset_mset)
  ultimately show "x = y"
    using assms(2) compare_entries_Equal by (metis distinct_map inj_on_def)
qed

definition implements_reference ::
  "('ac, 'rx) engine_env \<Rightarrow> LorebookCatalog \<Rightarrow> SelectionRequest \<Rightarrow> Selection \<Rightarrow> bool" where
  "implements_reference env catalog request sel \<longleftrightarrow>
    (let ranked = active_ranked env catalog request;
         adm = admit_all (settings request) ranked
     in prompt_text sel = adm_text adm \<and>
        selected_ids (receipt sel) = adm_ids adm \<and>
        selected_tokens (receipt sel) = adm_tokens adm \<and>
        selected_bytes (receipt sel) = str_len (adm_text adm) \<and>
        matched_count (receipt sel) = length ranked \<and>
        matched_count (receipt sel) \<le> candidate_count (receipt sel) \<and>
        candidate_count (receipt sel) \<le> length (filter enabled (entries catalog)) \<and>
        literal_match_events (receipt sel) \<le> max_literal_match_events (settings request) \<and>
        regex_evaluations (receipt sel) \<le> max_regex_evaluations (settings request) \<and>
        regex_scan_bytes (receipt sel) \<le> max_regex_scan_bytes (settings request) \<and>
        regex_matches (receipt sel) \<le> max_regex_matches (settings request))"

lemma compiled_inv_facts:
  assumes "compiled_inv env sp fp rv gen es cat"
  shows "length (compiled_entries cat) = length es"
    and "set (unconditional cat) \<subseteq> {..<length es}"
    and "index_wf env sp (sensitive cat)" and "index_wf env fp (folded cat)"
    and "\<forall>cs\<in>set (candidate_entries (sensitive cat)). set cs \<subseteq> {..<length es}"
    and "\<forall>cs\<in>set (candidate_entries (folded cat)). set cs \<subseteq> {..<length es}"
    and "i < length es \<Longrightarrow> ce_source (compiled_entries cat ! i) = es ! i"
  using assms by (auto simp: compiled_inv_def)

text \<open>The three candidate loops: no duplicates, in range, and every entry that holds.\<close>

lemma collect_candidates_outcome:
  assumes inv: "compiled_inv env sp fp rv gen es cat"
  shows "outcome limit_error
    (\<lambda>cands. distinct cands \<and> set cands \<subseteq> {..<length es} \<and>
      (\<forall>i<length es. entry_holds env search sd (es ! i) \<longrightarrow> i \<in> set cands))
    (collect_candidates cat (hits_of sp (si_sensitive search)) (hits_of fp (si_folded search)))"
    (is "outcome _ ?P ?m")
proof -
  note facts = compiled_inv_facts [OF inv]
  have start: "cand_inv (length es) {} (replicate (length (compiled_entries cat)) False, [])"
    by (simp add: cand_inv_def facts(1))
  have hl: "length (hits_of sp h) = length (candidate_entries (sensitive cat))"
    "length (hits_of fp h) = length (candidate_entries (folded cat))" for h
    using facts(3,4) by (simp_all add: hits_of_def index_wf_def)
  have "outcome (\<lambda>_. False) ?P ?m"
    unfolding collect_candidates_def Let_def
    by (intro outcome_and_then [OF add_candidates_inv [OF start facts(2)]]
        outcome_and_then [OF add_pattern_candidates_inv [OF _ hl(1) facts(5)]]
        outcome_and_then [OF add_pattern_candidates_inv [OF _ hl(2) facts(6)]])
      (use holds_is_candidate [OF inv] in \<open>auto simp: cand_inv_def split: prod.splits\<close>)
  then show ?thesis by (cases ?m) auto
qed

lemma rank_matched_eq:
  assumes inv: "compiled_inv env sp fp rv gen es cat" and ids: "distinct (map entry_id es)"
    and "distinct cands" and "set cands \<subseteq> {..<length es}"
    and "\<forall>i<length es. P (es ! i) \<longrightarrow> i \<in> set cands"
  shows "rank_matched cat (filter (\<lambda>i. P (es ! i)) cands) = sort_by compare_entries (filter P es)"
proof -
  let ?at = "\<lambda>i. ce_source (compiled_entries cat ! i)"
  have "map ?at (filter (\<lambda>i. P (es ! i)) cands) = map (\<lambda>i. es ! i) (filter (\<lambda>i. P (es ! i)) cands)"
    using compiled_inv_facts(7) [OF inv] assms(4) by (intro map_cong) auto
  moreover have "mset (map (\<lambda>i. es ! i) (filter (\<lambda>i. P (es ! i)) cands)) = mset (filter P es)"
    by (rule mset_filter_indices) (use assms in auto)
  moreover have "distinct (map entry_id (filter P es))"
    using ids by (rule distinct_map_filter)
  ultimately have "sort_by compare_entries (map ?at (filter (\<lambda>i. P (es ! i)) cands)) =
      sort_by compare_entries (filter P es)"
    by (metis rank_unique)
  then show ?thesis
    unfolding rank_matched_def Let_def map_sort_by [of ?at compare_entries] .
qed

lemma select_uncached_outcome:
  assumes ac: "finds_all_overlapping env"
    and inv: "compiled_inv env sp fp rv gen (filter enabled (entries catalog)) cat"
    and ids: "distinct (map entry_id (entries catalog))"
  shows "outcome limit_error (implements_reference env catalog request)
    (select_uncached env cat request (SearchInput_build env request) fpr)"
proof -
  let ?es = "filter enabled (entries catalog)" and ?search = "SearchInput_build env request"
    and ?w0 = "LiteralWork_new (max_literal_match_events (settings request))"
    and ?l0 = "EvaluationLimits_new request"
  let ?holds = "entry_holds env ?search (seed request)"
  note facts = compiled_inv_facts [OF inv]
  have w0: "events ?w0 \<le> max_events ?w0" and l0: "limits_ok ?l0 ?l0"
    by (simp_all add: LiteralWork_new_def EvaluationLimits_new_def limits_ok_def)
  have ids': "distinct (map entry_id ?es)" using ids by (rule distinct_map_filter)
  have result: "implements_reference env catalog request
      (build_selection cat request fpr w cands l (filter (\<lambda>i. ?holds (?es ! i)) cands))"
    if "events w \<le> max_literal_match_events (settings request)" "limits_ok ?l0 l"
      "distinct cands" "set cands \<subseteq> {..<length ?es}" "\<forall>i<length ?es. ?holds (?es ! i) \<longrightarrow> i \<in> set cands"
    for w l cands
  proof -
    note ranked = rank_matched_eq [OF inv ids' that(3-5)]
    have "length (rank_matched cat (filter (\<lambda>i. ?holds (?es ! i)) cands)) =
        length (filter (\<lambda>i. ?holds (?es ! i)) cands)"
      by (simp add: rank_matched_def Let_def)
    moreover have "length cands \<le> length ?es"
      using card_mono [OF _ that(4)] distinct_card [OF that(3)] by simp
    ultimately show ?thesis
      using that(1,2) unfolding implements_reference_def build_selection_def active_ranked_def Let_def
      by (simp add: ranked limits_ok_def EvaluationLimits_new_def)
  qed
  have final: "outcome limit_error (implements_reference env catalog request)
      (and_then (collect_candidates cat (hits_of sp (si_sensitive ?search)) (hits_of fp (si_folded ?search)))
        (\<lambda>candidates. and_then (try_fold (match_candidate env cat (hits_at sp fp ?search)
            (si_regex ?search) (seed request)) (?l0, []) candidates) (\<lambda>(limits, matched).
          Inr (build_selection cat request fpr w candidates limits matched))))"
    if "events w \<le> max_literal_match_events (settings request)" for w
    by (rule outcome_and_then [OF collect_candidates_outcome [OF inv]], elim conjE,
        rule outcome_and_then [OF match_candidates_outcome [OF inv _ l0]])
      (use result that in auto)
  have w0': "max_events ?w0 = max_literal_match_events (settings request)"
    by (simp add: LiteralWork_new_def)
  show ?thesis
    unfolding select_uncached_def
  proof (rule outcome_and_then [OF PatternIndex_matches_outcome [OF ac facts(3) w0]], clarify)
    fix w1 :: LiteralWork
    assume w1: "max_events w1 = max_events ?w0" "events w1 \<le> max_events ?w0"
    then have le: "events w1 \<le> max_events w1" by simp
    show "outcome limit_error (implements_reference env catalog request)
        (and_then (PatternIndex_matches env (folded cat) (si_folded ?search) w1)
          (\<lambda>(literal_work, folded_hits).
            and_then (collect_candidates cat (hits_of sp (si_sensitive ?search)) folded_hits)
             (\<lambda>candidates.
                 let hits = \<lparr>ph_sensitive = hits_of sp (si_sensitive ?search), ph_folded = folded_hits\<rparr>
                 in and_then (try_fold (match_candidate env cat hits (si_regex ?search) (seed request))
                        (?l0, []) candidates)
                     (\<lambda>(limits, matched).
                         Inr (build_selection cat request fpr literal_work candidates limits matched)))))"
      by (rule outcome_and_then [OF PatternIndex_matches_outcome [OF ac facts(4) le]])
        (use final w1 w0' in \<open>auto simp: Let_def\<close>)
  qed
qed

end
