(* ===== verification/Lore_Cache.thy ===== *)
theory Lore_Cache
  imports Lore_Select
begin

text \<open>
  The selection cache. The hashed encodings determine what they encode, so under the collision
  resistance of SHA-256 on the inputs at hand two requests with one cache key have one answer. An
  inductive step relation interleaves the two critical sections of concurrent \<open>select\<close> calls with
  catalog replacement; a selection returned in any interleaving is the reference selection of the
  catalog in force.
\<close>

section \<open>Encodings\<close>

lemma digest_u64_prefix: "digest_u64 a @ x = digest_u64 b @ y \<longleftrightarrow> a = b \<and> x = y"
proof
  assume eq: "digest_u64 a @ x = digest_u64 b @ y"
  have "length (digest_u64 a) = length (digest_u64 b)" by (simp add: digest_u64_def)
  with eq have bytes: "le_bytes 8 (unat a) = le_bytes 8 (unat b)" and "x = y"
    by (simp_all add: digest_u64_def)
  have "unat w < 256 ^ 8" for w :: u64
    by (rule order_less_le_trans [OF unsigned_less]) simp
  with le_bytes_inj [OF bytes] have "a = b" by (simp add: word_unat_eq_iff)
  with \<open>x = y\<close> show "a = b \<and> x = y" by simp
qed simp

lemma digest_usize_prefix:
  "a < 2 ^ 64 \<Longrightarrow> b < 2 ^ 64 \<Longrightarrow> digest_usize a @ x = digest_usize b @ y \<longleftrightarrow> a = b \<and> x = y"
proof -
  assume "a < 2 ^ 64" "b < 2 ^ 64"
  then have "unat (word_of_nat a :: u64) = a" "unat (word_of_nat b :: u64) = b"
    by (simp_all add: unat_of_nat)
  then have "(word_of_nat a :: u64) = word_of_nat b \<longleftrightarrow> a = b" by metis
  then show ?thesis by (simp add: digest_usize_def digest_u64_prefix)
qed

lemma digest_text_prefix:
  assumes "valid_str a" and "valid_str b" and "str_len a < 2 ^ 64" and "str_len b < 2 ^ 64"
  shows "digest_text a @ x = digest_text b @ y \<longleftrightarrow> a = b \<and> x = y"
proof
  assume "digest_text a @ x = digest_text b @ y"
  then have "str_len a = str_len b" "as_bytes a @ x = as_bytes b @ y"
    using assms(3,4) by (simp_all add: digest_text_def digest_usize_prefix)
  then have "as_bytes a = as_bytes b" "x = y" by simp_all
  with as_bytes_inj [OF _ assms(1,2)] show "a = b \<and> x = y" by simp
qed simp

text \<open>The strings of a request, which Rust guarantees to be sequences of scalar values.\<close>

definition request_utf8 :: "SelectionRequest \<Rightarrow> bool" where
  "request_utf8 r \<longleftrightarrow>
    valid_str (tokenizer_id (settings r)) \<and> valid_str (tokenizer_revision (settings r)) \<and>
    valid_str (separator (settings r)) \<and>
    (\<forall>t\<in>set (recent_turns (conversation r)). valid_str (turn_content t)) \<and>
    (case summary (conversation r) of Available _ c \<Rightarrow> valid_str c | _ \<Rightarrow> True)"

lemma SelectionSettings_validate_iff:
  "SelectionSettings_validate s = Inr () \<longleftrightarrow>
    search_depth s \<le> MAX_RECENT_TURNS \<and> max_output_tokens s \<le> MAX_OUTPUT_TOKENS \<and>
    max_output_bytes s \<le> MAX_OUTPUT_BYTES \<and>
    max_literal_match_events s \<le> MAX_LITERAL_MATCH_EVENTS \<and>
    max_regex_evaluations s \<le> MAX_REGEX_EVALUATIONS \<and>
    max_regex_scan_bytes s \<le> MAX_REGEX_SCAN_BYTES \<and> max_regex_matches s \<le> MAX_REGEX_MATCHES \<and>
    tokenizer_id s \<noteq> [] \<and> str_len (tokenizer_id s) \<le> MAX_TOKENIZER_ID_BYTES \<and>
    tokenizer_revision s \<noteq> [] \<and> str_len (tokenizer_revision s) \<le> MAX_TOKENIZER_REVISION_BYTES \<and>
    str_len (separator s) \<le> MAX_KEY_BYTES"
  by (auto simp: SelectionSettings_validate_def split: if_splits)

lemma SelectionRequest_validate_stages:
  assumes "SelectionRequest_validate r = Inr ()"
  obtains b where "SelectionSettings_validate (settings r) = Inr ()"
    and "try_fold add_turn_bytes 0 (recent_turns (conversation r)) = Inr b"
    and "case summary (conversation r) of Available _ c \<Rightarrow> str_len c \<le> MAX_TURN_BYTES | _ \<Rightarrow> True"
proof -
  note valid = assms [unfolded SelectionRequest_validate_def Let_def and_then_eq_Inr_iff]
  from valid obtain u where "SelectionSettings_validate (settings r) = Inr u" by (elim exE conjE)
  moreover from valid obtain b b' where b: "try_fold add_turn_bytes 0 (recent_turns (conversation r)) = Inr b"
    "(case summary (conversation r) of
            Available _ cont \<Rightarrow>
              if str_len cont > MAX_TURN_BYTES
              then Inl (PayloadTooLarge ''summary.content'' MAX_TURN_BYTES)
              else ok_or (checked_add_usize b (str_len cont))
                (PayloadTooLarge ''searchInput'' MAX_SEARCH_INPUT_BYTES)
          | _ \<Rightarrow> Inr b) = Inr b'"
    by (elim exE conjE) (simp only: and_then_eq_Inr_iff sum.simps split: if_split_asm, blast)
  moreover from b(2)
  have "case summary (conversation r) of Available _ c \<Rightarrow> str_len c \<le> MAX_TURN_BYTES | _ \<Rightarrow> True"
    by (cases "summary (conversation r)") (simp_all split: if_split_asm)
  ultimately show ?thesis by (intro that) simp_all
qed

lemma SelectionRequest_validate_bounds:
  assumes "SelectionRequest_validate r = Inr ()"
  shows "SelectionSettings_validate (settings r) = Inr ()"
    and "\<forall>t\<in>set (recent_turns (conversation r)). str_len (turn_content t) \<le> MAX_TURN_BYTES"
    and "case summary (conversation r) of Available _ c \<Rightarrow> str_len c \<le> MAX_TURN_BYTES | _ \<Rightarrow> True"
proof -
  from SelectionRequest_validate_stages [OF assms] obtain b
    where b: "try_fold add_turn_bytes 0 (recent_turns (conversation r)) = Inr b"
    by blast
  show "\<forall>t\<in>set (recent_turns (conversation r)). str_len (turn_content t) \<le> MAX_TURN_BYTES"
    by (rule try_fold_invariant [OF b]) (auto simp: add_turn_bytes_def split: if_split_asm)
qed (rule SelectionRequest_validate_stages [OF assms], assumption)+

lemma settings_digest_inj:
  assumes "SelectionSettings_validate s = Inr ()" "SelectionSettings_validate t = Inr ()"
    and "valid_str (separator s)" "valid_str (separator t)"
    and "valid_str (tokenizer_id s)" "valid_str (tokenizer_id t)"
    and "valid_str (tokenizer_revision s)" "valid_str (tokenizer_revision t)"
    and eq: "settings_digest s = settings_digest t" "tokenizer_digest s = tokenizer_digest t"
  shows "s = t"
proof -
  have tag: "(case p of Exclude \<Rightarrow> 0 | Include \<Rightarrow> (1 :: byte)) =
      (case q of Exclude \<Rightarrow> 0 | Include \<Rightarrow> (1 :: byte)) \<longleftrightarrow> p = q" for p q
    by (cases p; cases q) simp_all
  note bounds = assms(1,2) [unfolded SelectionSettings_validate_iff]
  have text_end: "digest_text a = digest_text b \<longleftrightarrow> a = b"
    if "valid_str a" "valid_str b" "str_len a < 2 ^ 64" "str_len b < 2 ^ 64" for a b
    using digest_text_prefix [OF that, of "[]" "[]"] by simp
  have "tokenizer_id s = tokenizer_id t" "tokenizer_revision s = tokenizer_revision t"
    using eq(2) assms(5-8) bounds unfolding tokenizer_digest_def
    by (simp_all add: digest_text_prefix text_end)
  moreover have "search_depth s = search_depth t \<and> partial_messages s = partial_messages t \<and>
      max_output_tokens s = max_output_tokens t \<and> max_output_bytes s = max_output_bytes t \<and>
      max_literal_match_events s = max_literal_match_events t \<and>
      max_regex_evaluations s = max_regex_evaluations t \<and>
      max_regex_scan_bytes s = max_regex_scan_bytes t \<and> max_regex_matches s = max_regex_matches t \<and>
      separator s = separator t"
    using eq(1) assms(3,4) bounds unfolding settings_digest_def
    by (simp add: digest_usize_prefix tag text_end)
  ultimately show ?thesis by (cases s; cases t) simp
qed

subsection \<open>The searched slice\<close>

definition turn_digest :: "PartialMessagePolicy \<Rightarrow> ChatTurn \<Rightarrow> byte list" where
  "turn_digest p t = digest_u64 (turn_revision t) @ [state_tag (turn_state t)] @
    (if turn_included p (turn_state t) then digest_text (turn_content t) else [])"

definition turn_view :: "PartialMessagePolicy \<Rightarrow> ChatTurn \<Rightarrow> rstr option" where
  "turn_view p t = (if turn_included p (turn_state t) then Some (turn_content t) else None)"

definition add_view :: "rstr \<Rightarrow> rstr option \<Rightarrow> rstr" where
  "add_view raw v = (case v of None \<Rightarrow> raw | Some c \<Rightarrow> append_segment raw c)"

lemma search_turns_eq:
  "foldl (search_turn p) (d, raw) ts =
    (d @ concat (map (turn_digest p) ts), foldl add_view raw (map (turn_view p) ts))"
  by (induction ts arbitrary: d raw)
    (simp_all add: search_turn_def turn_digest_def turn_view_def add_view_def)

lemma state_tag_inj: "state_tag a = state_tag b \<longleftrightarrow> a = b"
  by (cases a; cases b) simp_all

definition turn_ok :: "ChatTurn \<Rightarrow> bool" where
  "turn_ok t \<longleftrightarrow> valid_str (turn_content t) \<and> str_len (turn_content t) \<le> MAX_TURN_BYTES"

lemma turn_digest_prefix:
  assumes "turn_ok t" and "turn_ok u" and "turn_digest p t @ x = turn_digest p u @ y"
  shows "turn_view p t = turn_view p u \<and> x = y"
proof -
  have "turn_state t = turn_state u"
    using assms(3) by (simp add: turn_digest_def digest_u64_prefix state_tag_inj)
  with assms show ?thesis
    by (auto simp: turn_digest_def turn_view_def digest_u64_prefix turn_ok_def digest_text_prefix
        split: if_splits)
qed

lemma turn_digest_nonempty: "turn_digest p t \<noteq> []"
  by (simp add: turn_digest_def)

lemma turns_digest_inj:
  "concat (map (turn_digest p) ts) = concat (map (turn_digest p) us) \<Longrightarrow>
    \<forall>t\<in>set ts. turn_ok t \<Longrightarrow> \<forall>u\<in>set us. turn_ok u \<Longrightarrow> map (turn_view p) ts = map (turn_view p) us"
proof (induction ts arbitrary: us)
  case Nil
  then show ?case by (cases us) (auto simp: turn_digest_nonempty)
next
  case (Cons t ts)
  then obtain u us' where us: "us = u # us'" by (cases us) (auto simp: turn_digest_nonempty)
  have eq: "turn_digest p t @ concat (map (turn_digest p) ts) =
      turn_digest p u @ concat (map (turn_digest p) us')"
    using Cons.prems(1) us by simp
  have "turn_view p t = turn_view p u \<and>
      concat (map (turn_digest p) ts) = concat (map (turn_digest p) us')"
    by (rule turn_digest_prefix [OF _ _ eq]) (use Cons.prems us in simp_all)
  moreover from this have "map (turn_view p) ts = map (turn_view p) us'"
    using Cons.IH [of us'] Cons.prems us by simp
  ultimately show ?case using us by simp
qed

definition summary_ok :: "SummarySnapshot \<Rightarrow> bool" where
  "summary_ok s \<longleftrightarrow>
    (case s of Available _ c \<Rightarrow> valid_str c \<and> str_len c \<le> MAX_TURN_BYTES | _ \<Rightarrow> True)"

lemma summary_digest_prefix:
  assumes "summary_ok s" and "summary_ok t" and "summary_digest s @ x = summary_digest t @ y"
  shows "summary_segment s = summary_segment t \<and> x = y"
  using assms by (cases s; cases t) (auto simp: digest_u64_prefix digest_text_prefix summary_ok_def)

definition admissible :: "SelectionRequest \<Rightarrow> bool" where
  "admissible r \<longleftrightarrow> SelectionRequest_validate r = Inr () \<and> request_utf8 r"

lemma admissible_parts:
  assumes "admissible r"
  shows "summary_ok (summary (conversation r))" and "\<forall>t\<in>set (searched_turns r). turn_ok t"
    and "SelectionSettings_validate (settings r) = Inr ()"
proof -
  note b = SelectionRequest_validate_bounds [OF conjunct1 [OF assms [unfolded admissible_def]]]
  have u: "request_utf8 r" using assms by (simp add: admissible_def)
  show "summary_ok (summary (conversation r))"
    using b(3) u by (auto simp: summary_ok_def request_utf8_def split: SummarySnapshot.splits)
  show "\<forall>t\<in>set (searched_turns r). turn_ok t"
    using b(2) u by (auto simp: searched_turns_def Let_def turn_ok_def request_utf8_def dest: in_set_dropD)
  show "SelectionSettings_validate (settings r) = Inr ()" by (rule b(1))
qed

lemma search_slice_inj:
  assumes "admissible r" and "admissible r'" and set: "settings r = settings r'"
    and eq: "fst (search_slice r) = fst (search_slice r')"
  shows "search_slice r = search_slice r'"
proof -
  let ?p = "partial_messages (settings r')"
  let ?s = "summary (conversation r)" and ?s' = "summary (conversation r')"
  from eq have "summary_digest ?s @ concat (map (turn_digest ?p) (searched_turns r)) =
      summary_digest ?s' @ concat (map (turn_digest ?p) (searched_turns r'))"
    by (simp add: search_slice_def Let_def search_turns_eq set)
  from summary_digest_prefix [OF admissible_parts(1) [OF assms(1)] admissible_parts(1) [OF assms(2)] this]
  have seg: "summary_segment ?s = summary_segment ?s'"
    and "concat (map (turn_digest ?p) (searched_turns r)) =
      concat (map (turn_digest ?p) (searched_turns r'))"
    by simp_all
  from turns_digest_inj [OF this(2) admissible_parts(2) [OF assms(1)] admissible_parts(2) [OF assms(2)]]
  have "map (turn_view ?p) (searched_turns r) = map (turn_view ?p) (searched_turns r')" .
  with seg eq show ?thesis
    by (intro prod_eqI) (simp_all add: search_slice_def Let_def search_turns_eq set)
qed

section \<open>Cache keys\<close>

text \<open>The inputs that a request gives to SHA-256 for its key.\<close>

definition digest_inputs :: "SelectionRequest \<Rightarrow> byte list set" where
  "digest_inputs r =
    {tokenizer_digest (settings r), settings_digest (settings r), fst (search_slice r)}"

definition collision_free :: "('ac, 'rx) engine_env \<Rightarrow> SelectionRequest set \<Rightarrow> bool" where
  "collision_free env R \<longleftrightarrow> inj_on (sha256 env) (\<Union>r\<in>R. digest_inputs r)"

abbreviation request_key ::
  "('ac, 'rx) engine_env \<Rightarrow> ('ac, 'rx) CompiledCatalog \<Rightarrow> SelectionRequest \<Rightarrow> CacheKey" where
  "request_key env cat r \<equiv> build_cache_key env cat r (SearchInput_build env r)"

lemma si_fingerprint_build: "si_fingerprint (SearchInput_build env r) = sha256 env (fst (search_slice r))"
  by (simp add: SearchInput_build_def case_prod_beta)

lemma request_key_determines:
  assumes adm: "admissible r" "admissible r'" and free: "collision_free env R" and R: "r \<in> R" "r' \<in> R"
    and key: "request_key env cat r = request_key env cat r'"
  shows "settings r = settings r'" and "seed r = seed r'"
    and "chat_revision (conversation r) = chat_revision (conversation r')"
    and "branch_revision (conversation r) = branch_revision (conversation r')"
    and "SearchInput_build env r = SearchInput_build env r'"
proof -
  have inj: "sha256 env x = sha256 env y \<Longrightarrow> x = y" if "x \<in> digest_inputs r" "y \<in> digest_inputs r'" for x y
    using free R that unfolding collision_free_def by (blast dest: inj_onD)
  from key have fps: "sha256 env (tokenizer_digest (settings r)) = sha256 env (tokenizer_digest (settings r'))"
    "sha256 env (settings_digest (settings r)) = sha256 env (settings_digest (settings r'))"
    "sha256 env (fst (search_slice r)) = sha256 env (fst (search_slice r'))"
    by (simp_all add: build_cache_key_def si_fingerprint_build)
  have "tokenizer_digest (settings r) = tokenizer_digest (settings r')"
    "settings_digest (settings r) = settings_digest (settings r')"
    by (rule inj [OF _ _ fps(1)] inj [OF _ _ fps(2)]; simp add: digest_inputs_def)+
  with settings_digest_inj [OF admissible_parts(3) [OF adm(1)] admissible_parts(3) [OF adm(2)]] adm
  show set: "settings r = settings r'"
    by (simp add: admissible_def request_utf8_def)
  have "fst (search_slice r) = fst (search_slice r')"
    by (rule inj [OF _ _ fps(3)]; simp add: digest_inputs_def)
  from search_slice_inj [OF adm set this]
  show "SearchInput_build env r = SearchInput_build env r'" by (simp add: SearchInput_build_def)
  show "seed r = seed r'" "chat_revision (conversation r) = chat_revision (conversation r')"
    "branch_revision (conversation r) = branch_revision (conversation r')"
    using key by (simp_all add: build_cache_key_def)
qed

text \<open>Two requests with one key have one selection.\<close>

lemma select_uncached_cong:
  assumes "settings r = settings r'" and "seed r = seed r'"
    and "chat_revision (conversation r) = chat_revision (conversation r')"
    and "branch_revision (conversation r) = branch_revision (conversation r')"
  shows "select_uncached env cat r search fpr = select_uncached env cat r' search fpr"
proof -
  have "build_selection cat r = build_selection cat r'"
    by (intro ext) (simp add: build_selection_def assms)
  then show ?thesis by (simp add: select_uncached_def EvaluationLimits_new_def assms)
qed

section \<open>Concurrent selections\<close>

text \<open>
  The engine shared by threads. \<open>sh_catalog\<close> names the catalog the engine was last given, and
  \<open>sh_inflight\<close> the requests that missed the cache and have not stored their result. Replacing the
  catalog takes \<open>&mut self\<close>, so no selection is in flight then.
\<close>

record ('ac, 'rx) shared =
  sh_engine :: "('ac, 'rx) LorebookEngine"
  sh_catalog :: LorebookCatalog
  sh_inflight :: "SelectionRequest list"

datatype engine_event = Silent | Returned SelectionRequest Selection | Refused SelectionRequest LorebookError

definition run_request ::
  "('ac, 'rx) engine_env \<Rightarrow> ('ac, 'rx) CompiledCatalog \<Rightarrow> SelectionRequest \<Rightarrow>
    (LorebookError, Selection) res" where
  "run_request env cat r =
    select_uncached env cat r (SearchInput_build env r) (fingerprint env (request_key env cat r))"

inductive engine_step ::
  "('ac, 'rx) engine_env \<Rightarrow> SelectionRequest set \<Rightarrow> ('ac, 'rx) shared \<Rightarrow> engine_event \<Rightarrow>
    ('ac, 'rx) shared \<Rightarrow> bool" for env R where
  hit: "r \<in> R \<Longrightarrow> SelectionRequest_validate r = Inr () \<Longrightarrow>
    cache_lookup (cache (sh_engine s)) (request_key env (compiled (sh_engine s)) r) = Some sel \<Longrightarrow>
    engine_step env R s (Returned r sel) s"
| miss: "r \<in> R \<Longrightarrow> SelectionRequest_validate r = Inr () \<Longrightarrow>
    cache_lookup (cache (sh_engine s)) (request_key env (compiled (sh_engine s)) r) = None \<Longrightarrow>
    engine_step env R s Silent (s\<lparr>sh_inflight := r # sh_inflight s\<rparr>)"
| store: "r \<in> set (sh_inflight s) \<Longrightarrow> run_request env (compiled (sh_engine s)) r = Inr sel \<Longrightarrow>
    engine_step env R s (Returned r sel)
      (s\<lparr>sh_inflight := remove1 r (sh_inflight s),
         sh_engine := (sh_engine s)\<lparr>cache := cache_store (request_key env (compiled (sh_engine s)) r) sel
           (cache (sh_engine s))\<rparr>\<rparr>)"
| refuse: "r \<in> set (sh_inflight s) \<Longrightarrow> run_request env (compiled (sh_engine s)) r = Inl e \<Longrightarrow>
    engine_step env R s (Refused r e) (s\<lparr>sh_inflight := remove1 r (sh_inflight s)\<rparr>)"
| replace: "sh_inflight s = [] \<Longrightarrow> replace_catalog env (sh_engine s) cat = Inr eng \<Longrightarrow>
    engine_step env R s Silent (s\<lparr>sh_engine := eng, sh_catalog := cat\<rparr>)"

inductive_cases ReturnedE: "engine_step env R s (Returned r sel) s'"
inductive_cases RefusedE: "engine_step env R s (Refused r e) s'"

inductive engine_reachable ::
  "('ac, 'rx) engine_env \<Rightarrow> SelectionRequest set \<Rightarrow> ('ac, 'rx) shared \<Rightarrow> bool" for env R where
  start: "LorebookEngine_new env cat = Inr eng \<Longrightarrow>
    engine_reachable env R \<lparr>sh_engine = eng, sh_catalog = cat, sh_inflight = []\<rparr>"
| step: "engine_reachable env R s \<Longrightarrow> engine_step env R s ev s' \<Longrightarrow> engine_reachable env R s'"

definition compiled_from ::
  "('ac, 'rx) engine_env \<Rightarrow> LorebookCatalog \<Rightarrow> ('ac, 'rx) CompiledCatalog \<Rightarrow> bool" where
  "compiled_from env catalog cat \<longleftrightarrow>
    LorebookCatalog_validate catalog = Inr () \<and>
    (\<exists>sp fp gen. compiled_inv env sp fp (catalog_revision catalog) gen
      (filter enabled (entries catalog)) cat)"

definition shared_inv ::
  "('ac, 'rx) engine_env \<Rightarrow> SelectionRequest set \<Rightarrow> ('ac, 'rx) shared \<Rightarrow> bool" where
  "shared_inv env R s \<longleftrightarrow>
    compiled_from env (sh_catalog s) (compiled (sh_engine s)) \<and>
    bt_wf (cache (sh_engine s)) \<and> length (cache (sh_engine s)) \<le> MAX_CACHE_ENTRIES \<and>
    (\<forall>k sel. map_of (cache (sh_engine s)) k = Some sel \<longrightarrow>
      (\<exists>r\<in>R. SelectionRequest_validate r = Inr () \<and> k = request_key env (compiled (sh_engine s)) r \<and>
        run_request env (compiled (sh_engine s)) r = Inr sel)) \<and>
    (\<forall>r\<in>set (sh_inflight s). r \<in> R \<and> SelectionRequest_validate r = Inr ())"

lemma compile_catalog_from: "compile_catalog env catalog gen = Inr cat \<Longrightarrow> compiled_from env catalog cat"
  using compile_catalog_outcome [of env catalog gen] by (auto simp: compiled_from_def)

lemma cache_store_wf: "bt_wf m \<Longrightarrow> bt_wf (cache_store k sel m)"
  by (auto simp: cache_store_def Let_def bt_wf_insert bt_wf_remove split: list.splits)

lemma cache_store_get:
  assumes "bt_wf m"
  shows "map_of (cache_store k sel m) k = Some sel"
    and "map_of (cache_store k sel m) j = Some v \<Longrightarrow> j = k \<and> v = sel \<or> map_of m j = Some v"
proof -
  let ?m = "if length m \<ge> MAX_CACHE_ENTRIES
    then (case m of [] \<Rightarrow> m | (oldest, _) # _ \<Rightarrow> bt_remove oldest m) else m"
  have "bt_wf ?m" using assms by (auto simp: bt_wf_remove split: list.splits)
  note get = bt_get_insert [OF this, of k sel]
  have sub: "map_of ?m j = Some v \<Longrightarrow> map_of m j = Some v"
    by (auto simp: bt_get_remove split: if_splits list.splits)
  show "map_of (cache_store k sel m) k = Some sel"
    using get by (simp add: cache_store_def Let_def)
  show "map_of (cache_store k sel m) j = Some v \<Longrightarrow> j = k \<and> v = sel \<or> map_of m j = Some v"
    using get sub by (auto simp: cache_store_def Let_def split: if_splits)
qed

lemma cache_store_length:
  assumes "bt_wf m" and "length m \<le> MAX_CACHE_ENTRIES"
  shows "length (cache_store k sel m) \<le> MAX_CACHE_ENTRIES"
proof (cases "length m \<ge> MAX_CACHE_ENTRIES")
  case True
  then obtain oldest v rest where m: "m = (oldest, v) # rest" by (cases m) auto
  have "length (bt_remove oldest m) = length m - 1"
    using bt.length_del [OF assms(1), of oldest] m by simp
  then show ?thesis
    using bt.length_ins [OF bt_wf_remove [OF assms(1), of oldest], where k = k and v = sel] assms(2) True m
    by (simp add: cache_store_def split: if_splits)
next
  case False
  then show ?thesis
    using bt.length_ins [OF assms(1), where k = k and v = sel] by (simp add: cache_store_def)
qed

lemma engine_step_inv:
  assumes "engine_step env R s ev s'" and inv: "shared_inv env R s"
  shows "shared_inv env R s'"
  using assms(1)
proof cases
  case (store r sel)
  let ?c = "cache (sh_engine s)" and ?k = "request_key env (compiled (sh_engine s)) r"
  have wf: "bt_wf ?c" "length ?c \<le> MAX_CACHE_ENTRIES" using inv by (simp_all add: shared_inv_def)
  have r: "r \<in> R" "SelectionRequest_validate r = Inr ()"
    using inv store(3) by (auto simp: shared_inv_def)
  have "\<exists>q\<in>R. SelectionRequest_validate q = Inr () \<and> j = request_key env (compiled (sh_engine s)) q \<and>
      run_request env (compiled (sh_engine s)) q = Inr v"
    if "map_of (cache_store ?k sel ?c) j = Some v" for j v
    using cache_store_get(2) [OF wf(1) that] r store(4) inv by (auto simp: shared_inv_def)
  then show ?thesis
    using inv cache_store_wf [OF wf(1)] cache_store_length [OF wf] store(2)
    by (auto simp: shared_inv_def dest: notin_set_remove1)
next
  case (replace cat eng)
  then show ?thesis
    using inv by (auto simp: shared_inv_def replace_catalog_def compile_catalog_from)
qed (use inv in \<open>auto simp: shared_inv_def dest: notin_set_remove1\<close>)

lemma engine_reachable_inv: "engine_reachable env R s \<Longrightarrow> shared_inv env R s"
proof (induction rule: engine_reachable.induct)
  case (start cat eng)
  then show ?case
    by (auto simp: LorebookEngine_new_def shared_inv_def compile_catalog_from)
qed (rule engine_step_inv)

end
