(* ===== verification/Lore_Properties.thy ===== *)
theory Lore_Properties
  imports Lore_Cache Strings
begin

text \<open>
  The properties of the lorebook crate, each with an instance on a small concrete catalog. The
  concrete environment searches by brute force and hashes by the identity.
\<close>

section \<open>A concrete environment and catalog\<close>

definition demo_unicode :: unicode where
  "demo_unicode = \<lparr>nfkc = (\<lambda>s. s),
    to_lowercase = (\<lambda>c. [if 65 \<le> c \<and> c \<le> 90 then c + 32 else c])\<rparr>"

definition demo_env :: "(rstr list, rstr) engine_env" where
  "demo_env = \<lparr>env_unicode = demo_unicode,
    ac_build = Some,
    find_overlapping_iter = (\<lambda>ps hay. filter (\<lambda>i. contains_str (ps ! i) hay) [0..<length ps]),
    rx_build = (\<lambda>p ci. if p = lit ''('' then None else Some p),
    find_iter = (\<lambda>p hay. if contains_str p hay then [(0, length p)] else []),
    sha256 = (\<lambda>bs. bs)\<rparr>"

definition demo_entry :: "string \<Rightarrow> Activation \<Rightarrow> string \<Rightarrow> LoreEntry" where
  "demo_entry i a c = \<lparr>entry_id = lit i, source = Global, priority = 0, order = 0, enabled = True,
    activation = a, content = lit c, reserved_tokens = 5\<rparr>"

definition demo_catalog :: LorebookCatalog where
  "demo_catalog = \<lparr>catalog_revision = 1, entries =
    [demo_entry ''b'' Constant ''sky'',
     demo_entry ''a'' (Selective \<lparr>primary = [Literal (lit ''Sea'') False], secondary = NoSecondary\<rparr>)
       ''waves'',
     demo_entry ''c'' (Selective \<lparr>primary = [Literal (lit ''hill'') False], secondary = NoSecondary\<rparr>)
       ''grass'']\<rparr>"

definition demo_request :: SelectionRequest where
  "demo_request = \<lparr>conversation = \<lparr>chat_revision = 1, branch_revision = 1, total_turns = 1,
      recent_turns = [\<lparr>turn_revision = 1, turn_state = Complete, turn_content = lit ''the sea''\<rparr>],
      summary = Missing\<rparr>,
    settings = \<lparr>search_depth = 4, partial_messages = Exclude, max_output_tokens = 100,
      max_output_bytes = 100, max_literal_match_events = 10, max_regex_evaluations = 10,
      max_regex_scan_bytes = 100, max_regex_matches = 10, tokenizer_id = lit ''t'',
      tokenizer_revision = lit ''1'', separator = [10]\<rparr>,
    seed = 7\<rparr>"

lemmas demo_defs = demo_env_def demo_unicode_def demo_catalog_def demo_entry_def demo_request_def

lemma demo_finds_all: "finds_all_overlapping demo_env"
  by (auto simp: finds_all_overlapping_def demo_env_def)

lemma demo_collision_free: "collision_free demo_env R"
  by (simp add: collision_free_def demo_env_def)

lemma demo_utf8: "request_utf8 demo_request"
  by (simp add: request_utf8_def demo_request_def valid_str_def lit_def)

named_theorems lore_eval \<open>definitions unfolded to evaluate the engine on concrete data\<close>

lemmas [lore_eval] = lit_def Let_def str_len_def utf8_width_def checked_add_def
  LorebookCatalog_validate_def catalog_validate_step_def LoreEntry_validate_def
  MatchConditions_validate_def condition_iter_def
  SelectionRequest_validate_def SelectionSettings_validate_def add_turn_bytes_def

lemma demo_validate: "SelectionRequest_validate demo_request = Inr ()"
  by (simp add: lore_eval demo_request_def)

lemma demo_catalog_valid: "LorebookCatalog_validate demo_catalog = Inr ()"
  by (simp add: lore_eval demo_catalog_def demo_entry_def)

lemmas [lore_eval] = LorebookEngine_new_def compile_catalog_def scan_patterns_def entry_conditions_def
  normalize_search_text_def is_whitespace_def PatternIndex_build_def PatternIndex_lookup_def
  binary_search_def binary_search_in.simps cmp_def compile_entry_def compile_conditions_def
  compiled_condition_iter_def compiled_activation_contains_regex_def push_candidate_def
  register_activation_candidates_def always_candidate_def index_or_def

lemmas [lore_eval] = select_uncached_def PatternIndex_matches_def mark_hit_def LiteralWork_new_def
  LiteralWork_charge_def collect_candidates_def add_candidate_def add_pattern_candidates_def
  match_candidate_def conditions_match_def PatternHits_contains_def build_selection_def rank_matched_def
  compare_entries_def sort_by_def admit_all_def greedy_step_def admits_def next_sizes_def admit_entry_def
  EvaluationLimits_new_def SearchInput_build_def search_slice_def searched_turns_def search_turn_def
  append_segment_def

definition demo_compiled :: "(rstr list, rstr) CompiledCatalog" where
  "demo_compiled = \<lparr>revision = 1, generation = 1,
    compiled_entries = [CompiledEntry (demo_entry ''b'' Constant ''sky'') CompiledConstant,
      CompiledEntry (demo_entry ''a''
          (Selective \<lparr>primary = [Literal (lit ''Sea'') False], secondary = NoSecondary\<rparr>) ''waves'')
        (CompiledSelective (CompiledConditions [CompiledLiteral (PatternRef True 1)] CompiledNone)),
      CompiledEntry (demo_entry ''c''
          (Selective \<lparr>primary = [Literal (lit ''hill'') False], secondary = NoSecondary\<rparr>) ''grass'')
        (CompiledSelective (CompiledConditions [CompiledLiteral (PatternRef True 0)] CompiledNone))],
    sensitive = \<lparr>matcher = None, patterns = [], candidate_entries = []\<rparr>,
    folded = \<lparr>matcher = Some [lit ''hill'', lit ''sea''], patterns = [lit ''hill'', lit ''sea''],
      candidate_entries = [[2], [1]]\<rparr>,
    unconditional = [0]\<rparr>"

lemma demo_compile: "compile_catalog demo_env demo_catalog 1 = Inr demo_compiled"
  by (simp add: lore_eval demo_defs demo_compiled_def)

lemma demo_run:
  "\<exists>sel. run_request demo_env demo_compiled demo_request = Inr sel \<and>
    prompt_text sel = lit ''waves'' @ [10] @ lit ''sky'' \<and>
    selected_ids (receipt sel) = [lit ''a'', lit ''b'']"
  by (simp add: run_request_def lore_eval demo_compiled_def demo_defs)

definition demo_shared :: "SelectionRequest list \<Rightarrow> (rstr list, rstr) shared" where
  "demo_shared pending = \<lparr>sh_engine = \<lparr>compiled = demo_compiled, cache = []\<rparr>,
    sh_catalog = demo_catalog, sh_inflight = pending\<rparr>"

lemma demo_reachable:
  "engine_reachable demo_env {demo_request} (demo_shared [])"
  "engine_reachable demo_env {demo_request} (demo_shared [demo_request])"
proof -
  show 1: "engine_reachable demo_env {demo_request} (demo_shared [])"
    using engine_reachable.start [of demo_env demo_catalog "\<lparr>compiled = demo_compiled, cache = []\<rparr>"]
    by (simp add: LorebookEngine_new_def demo_compile demo_shared_def)
  have "engine_step demo_env {demo_request} (demo_shared []) Silent (demo_shared [demo_request])"
    using engine_step.miss [of demo_request "{demo_request}" "demo_shared []" demo_env] demo_validate
    by (simp add: demo_shared_def cache_lookup_def)
  with 1 show "engine_reachable demo_env {demo_request} (demo_shared [demo_request])"
    by (rule engine_reachable.step)
qed

section \<open>Selection\<close>

lemma implements_reference_cache_hit [simp]:
  "implements_reference env catalog r (sel\<lparr>receipt := (receipt sel)\<lparr>cache_hit := b\<rparr>\<rparr>) \<longleftrightarrow>
    implements_reference env catalog r sel"
  by (simp add: implements_reference_def Let_def)

lemma run_request_outcome:
  assumes "finds_all_overlapping env" and "compiled_from env catalog cat"
  shows "outcome limit_error (implements_reference env catalog r) (run_request env cat r)"
  using assms unfolding run_request_def compiled_from_def LorebookCatalog_validate_iff
  by (auto intro: select_uncached_outcome)

lemma shared_inv_cached:
  "shared_inv env R s \<Longrightarrow> map_of (cache (sh_engine s)) k = Some sel \<Longrightarrow>
    \<exists>r\<in>R. SelectionRequest_validate r = Inr () \<and> k = request_key env (compiled (sh_engine s)) r \<and>
      run_request env (compiled (sh_engine s)) r = Inr sel"
  by (simp add: shared_inv_def)

lemma run_request_same_key:
  assumes "admissible r" "admissible q" and "collision_free env R" and "r \<in> R" "q \<in> R"
    and key: "request_key env cat r = request_key env cat q"
  shows "run_request env cat r = run_request env cat q"
proof -
  note eq = request_key_determines [OF assms]
  show ?thesis
    unfolding run_request_def key unfolding eq(5) by (rule select_uncached_cong [OF eq(1-4)])
qed

lemma step_correct:
  assumes "finds_all_overlapping env" and "collision_free env R" and "\<forall>r\<in>R. request_utf8 r"
    and "engine_reachable env R s" and "engine_step env R s (Returned r sel) s'"
  shows "implements_reference env (sh_catalog s) r sel"
proof -
  have inv: "shared_inv env R s" by (rule engine_reachable_inv [OF assms(4)])
  then have comp: "compiled_from env (sh_catalog s) (compiled (sh_engine s))"
    by (simp add: shared_inv_def)
  note run = run_request_outcome [OF assms(1) comp]
  from assms(5) show ?thesis
  proof cases
    case hit
    then obtain sel0 where sel0: "sel = sel0\<lparr>receipt := (receipt sel0)\<lparr>cache_hit := True\<rparr>\<rparr>"
        "map_of (cache (sh_engine s)) (request_key env (compiled (sh_engine s)) r) = Some sel0"
      by (auto simp: cache_lookup_def)
    from shared_inv_cached [OF inv sel0(2)] obtain q where q: "q \<in> R" "SelectionRequest_validate q = Inr ()"
        "request_key env (compiled (sh_engine s)) r = request_key env (compiled (sh_engine s)) q"
        "run_request env (compiled (sh_engine s)) q = Inr sel0"
      by blast
    have "run_request env (compiled (sh_engine s)) r = Inr sel0"
      using run_request_same_key [OF _ _ assms(2) hit(2) q(1,3)] hit q assms(3)
      by (simp add: admissible_def)
    with run [of r] sel0 show ?thesis by simp
  next
    case store
    with run [of r] show ?thesis by simp
  qed
qed

text \<open>
  C1. In every interleaving of concurrent selections and catalog replacements, a selection handed to
  a caller, computed or cached, is the one that direct search of the text, ranking of the active
  entries and greedy admission give for the catalog in force, with its work within the limits.
\<close>

theorem returned_selection_correct:
  assumes "finds_all_overlapping env" and "collision_free env R" and "\<forall>r\<in>R. request_utf8 r"
    and "engine_reachable env R s" and "engine_step env R s (Returned r sel) s'"
  shows "implements_reference env (sh_catalog s) r sel"
  by (rule step_correct [OF assms])

theorem returned_selection_correct_witness:
  "\<exists>sel s'. engine_step demo_env {demo_request} (demo_shared [demo_request])
      (Returned demo_request sel) s' \<and>
    implements_reference demo_env demo_catalog demo_request sel \<and>
    prompt_text sel = lit ''waves'' @ [10] @ lit ''sky''"
proof -
  from demo_run obtain sel where sel: "run_request demo_env demo_compiled demo_request = Inr sel"
      "prompt_text sel = lit ''waves'' @ [10] @ lit ''sky''"
    by blast
  have "\<exists>s'. engine_step demo_env {demo_request} (demo_shared [demo_request])
      (Returned demo_request sel) s'"
    by (rule exI, rule engine_step.store) (simp_all add: demo_shared_def sel)
  then obtain s' where step: "engine_step demo_env {demo_request} (demo_shared [demo_request])
      (Returned demo_request sel) s'" ..
  from returned_selection_correct [OF demo_finds_all demo_collision_free _ demo_reachable(2) step]
  have "implements_reference demo_env demo_catalog demo_request sel"
    by (simp add: demo_utf8 demo_shared_def)
  with step sel show ?thesis by blast
qed

text \<open>
  C2. A selection that the engine refuses after admitting the request is refused for a declared work
  limit: no index of the compiled catalog is ever out of range.
\<close>

theorem refused_only_by_limits:
  assumes "finds_all_overlapping env" and "engine_reachable env R s"
    and "engine_step env R s (Refused r e) s'"
  shows "\<exists>k. e = SearchLimitExceeded k"
proof -
  have "compiled_from env (sh_catalog s) (compiled (sh_engine s))"
    using engine_reachable_inv [OF assms(2)] by (simp add: shared_inv_def)
  from run_request_outcome [OF assms(1) this, of r] assms(3)
  show ?thesis by (auto elim!: RefusedE simp: limit_error_def)
qed

definition tight_request :: SelectionRequest where
  "tight_request =
    demo_request\<lparr>settings := (settings demo_request)\<lparr>max_literal_match_events := 0\<rparr>\<rparr>"

lemma tight_run:
  "run_request demo_env demo_compiled tight_request = Inl (SearchLimitExceeded LiteralMatchEvents)"
  by (simp add: run_request_def tight_request_def lore_eval demo_compiled_def demo_defs)

theorem refused_only_by_limits_witness:
  "\<exists>s'. engine_step demo_env {tight_request} (demo_shared [tight_request])
      (Refused tight_request (SearchLimitExceeded LiteralMatchEvents)) s' \<and>
    (\<exists>k. SearchLimitExceeded LiteralMatchEvents = SearchLimitExceeded k)"
proof -
  have valid: "SelectionRequest_validate tight_request = Inr ()"
    by (simp add: lore_eval tight_request_def demo_request_def)
  have "engine_reachable demo_env {tight_request} (demo_shared [])"
    using engine_reachable.start [of demo_env demo_catalog "\<lparr>compiled = demo_compiled, cache = []\<rparr>"]
    by (simp add: LorebookEngine_new_def demo_compile demo_shared_def)
  moreover have "engine_step demo_env {tight_request} (demo_shared []) Silent (demo_shared [tight_request])"
    using engine_step.miss [of tight_request "{tight_request}" "demo_shared []" demo_env] valid
    by (simp add: demo_shared_def cache_lookup_def)
  ultimately have reach: "engine_reachable demo_env {tight_request} (demo_shared [tight_request])"
    by (rule engine_reachable.step)
  have "\<exists>s'. engine_step demo_env {tight_request} (demo_shared [tight_request])
      (Refused tight_request (SearchLimitExceeded LiteralMatchEvents)) s'"
    by (rule exI, rule engine_step.refuse) (simp_all add: demo_shared_def tight_run)
  with refused_only_by_limits [OF demo_finds_all reach] show ?thesis by blast
qed

section \<open>Compilation and admission\<close>

text \<open>
  C3. Compilation never meets an inconsistent index or an index out of range. An invalid regular
  expression is reported with the position of its entry among the enabled entries, which is its
  position in the catalog only when no earlier entry is disabled.
\<close>

theorem compile_error_sound:
  assumes "compile_catalog env catalog gen = Inl e"
  shows "e \<noteq> Panicked \<and> e \<noteq> InvalidField ''catalog.conditions'' ''search index is inconsistent'' \<and>
    (\<forall>i. e = InvalidRegex i \<longrightarrow>
      (let es = filter enabled (entries catalog) in i < length es \<and>
        (\<exists>p q ci. Regex p q ci \<in> set (entry_conditions (es ! i)) \<and> rx_build env p ci = None)))"
  using compile_catalog_outcome [of env catalog gen] assms
  by (auto simp: compile_error_def admission_error_def regex_error_def Let_def)

definition bad_regex_catalog :: LorebookCatalog where
  "bad_regex_catalog = \<lparr>catalog_revision = 1, entries =
    [set_enabled False (demo_entry ''a'' Constant ''sky''),
     demo_entry ''b'' (Selective \<lparr>primary = [Regex (lit ''('') (lit ''x'') False],
       secondary = NoSecondary\<rparr>) ''waves'']\<rparr>"

theorem compile_error_sound_witness:
  "compile_catalog demo_env bad_regex_catalog 1 = Inl (InvalidRegex 0) \<and>
    enabled (entries bad_regex_catalog ! 0) = False \<and>
    (\<exists>p q ci. Regex p q ci \<in> set (entry_conditions (entries bad_regex_catalog ! 1)) \<and>
      rx_build demo_env p ci = None)"
proof -
  have c: "compile_catalog demo_env bad_regex_catalog 1 = Inl (InvalidRegex 0)"
    by (simp add: lore_eval demo_defs bad_regex_catalog_def set_enabled_def)
  from compile_error_sound [OF c] c show ?thesis
    by (simp add: bad_regex_catalog_def set_enabled_def demo_entry_def Let_def)
qed

text \<open>
  C4. A catalog passes validation exactly when its revision is not zero, it is not too long, every
  entry is valid, identifiers are distinct, and all its text fits the byte ceiling; no sum wraps.
\<close>

theorem catalog_admission_exact:
  "LorebookCatalog_validate catalog = Inr () \<longleftrightarrow>
    catalog_revision catalog \<noteq> 0 \<and> length (entries catalog) \<le> MAX_CATALOG_ENTRIES \<and>
    list_all (\<lambda>e. LoreEntry_validate e = Inr ()) (entries catalog) \<and>
    distinct (map entry_id (entries catalog)) \<and>
    (\<Sum>e\<leftarrow>entries catalog. entry_bytes e) \<le> MAX_CATALOG_BYTES"
  by (simp add: LorebookCatalog_validate_iff list_all_iff)

subsection \<open>The admitted text\<close>




section \<open>The cache\<close>

text \<open>
  C6. In every reachable state the cache holds at most sixteen selections under ascending keys, each
  the result of a request of the present catalog.
\<close>

theorem cache_bounded_and_fresh:
  assumes "engine_reachable env R s"
  shows "length (cache (sh_engine s)) \<le> 16 \<and> bt_wf (cache (sh_engine s)) \<and>
    (\<forall>k sel. map_of (cache (sh_engine s)) k = Some sel \<longrightarrow>
      (\<exists>r\<in>R. k = request_key env (compiled (sh_engine s)) r \<and>
        run_request env (compiled (sh_engine s)) r = Inr sel))"
  using engine_reachable_inv [OF assms] shared_inv_cached [OF engine_reachable_inv [OF assms]]
  by (auto simp: shared_inv_def)

theorem cache_bounded_and_fresh_witness:
  "engine_reachable demo_env {demo_request} (demo_shared [demo_request]) \<and>
    length (cache (sh_engine (demo_shared [demo_request]))) \<le> 16"
  using demo_reachable(2) cache_bounded_and_fresh [OF demo_reachable(2)] by blast

text \<open>
  C7. Repeating a successful call of \<open>select\<close> is a cache hit: it returns the same selection, marked
  as cached, and leaves the engine unchanged.
\<close>

theorem select_repeats_as_hit:
  assumes "select env eng r = Inr (eng', sel)" and "bt_wf (cache eng)"
  shows "select env eng' r = Inr (eng', sel\<lparr>receipt := (receipt sel)\<lparr>cache_hit := True\<rparr>\<rparr>) \<and>
    compiled eng' = compiled eng \<and> bt_wf (cache eng')"
proof (cases "cache_lookup (cache eng) (request_key env (compiled eng) r)")
  case None
  let ?k = "request_key env (compiled eng) r"
  have valid: "SelectionRequest_validate r = Inr ()"
    using assms(1) by (cases "SelectionRequest_validate r") (simp_all add: select_def)
  with assms(1) None have eng': "eng' = eng\<lparr>cache := cache_store ?k sel (cache eng)\<rparr>"
    by (auto simp: select_def Let_def)
  have "cache_lookup (cache eng') ?k = Some (sel\<lparr>receipt := (receipt sel)\<lparr>cache_hit := True\<rparr>\<rparr>)"
    by (simp add: eng' cache_lookup_def cache_store_get(1) [OF assms(2)])
  with valid eng' show ?thesis by (simp add: select_def cache_store_wf [OF assms(2)])
next
  case (Some c)
  with assms show ?thesis
    by (cases "SelectionRequest_validate r") (auto simp: select_def Let_def cache_lookup_def)
qed

theorem select_repeats_as_hit_witness:
  "\<exists>eng' sel. select demo_env \<lparr>compiled = demo_compiled, cache = []\<rparr> demo_request = Inr (eng', sel) \<and>
    select demo_env eng' demo_request =
      Inr (eng', sel\<lparr>receipt := (receipt sel)\<lparr>cache_hit := True\<rparr>\<rparr>) \<and>
    prompt_text sel = lit ''waves'' @ [10] @ lit ''sky''"
proof -
  let ?e = "\<lparr>compiled = demo_compiled, cache = []\<rparr>"
  from demo_run obtain sel where sel: "run_request demo_env demo_compiled demo_request = Inr sel"
      "prompt_text sel = lit ''waves'' @ [10] @ lit ''sky''"
    by blast
  then obtain eng' where s: "select demo_env ?e demo_request = Inr (eng', sel)"
    by (simp add: select_def demo_validate Let_def cache_lookup_def run_request_def)
  from select_repeats_as_hit [OF s] s sel(2) show ?thesis by auto
qed

lemma select_as_steps:
  assumes "r \<in> R" and "select env (sh_engine s) r = Inr (eng', sel)"
  shows "engine_step env R s (Returned r sel) (s\<lparr>sh_engine := eng'\<rparr>) \<or>
    (\<exists>s1. engine_step env R s Silent s1 \<and>
      engine_step env R s1 (Returned r sel) (s\<lparr>sh_engine := eng'\<rparr>))"
proof (cases "cache_lookup (cache (sh_engine s)) (request_key env (compiled (sh_engine s)) r)")
  case None
  let ?s1 = "s\<lparr>sh_inflight := r # sh_inflight s\<rparr>"
  have valid: "SelectionRequest_validate r = Inr ()"
    using assms(2) by (cases "SelectionRequest_validate r") (simp_all add: select_def)
  with assms(2) None have run: "run_request env (compiled (sh_engine s)) r = Inr sel"
    and eng': "eng' = (sh_engine s)\<lparr>cache := cache_store (request_key env (compiled (sh_engine s)) r) sel
      (cache (sh_engine s))\<rparr>"
    by (auto simp: select_def Let_def run_request_def)
  have "engine_step env R s Silent ?s1"
    by (rule engine_step.miss [OF assms(1) valid None])
  moreover have "engine_step env R ?s1 (Returned r sel) (s\<lparr>sh_engine := eng'\<rparr>)"
    using engine_step.store [of r ?s1 env sel R] run by (simp add: eng')
  ultimately show ?thesis by blast
next
  case (Some c)
  with assms have "SelectionRequest_validate r = Inr ()" "sel = c" "eng' = sh_engine s"
    by (cases "SelectionRequest_validate r"; auto simp: select_def Let_def)+
  with engine_step.hit [OF assms(1) this(1) Some] show ?thesis by simp
qed

text \<open>
  C8. The sequential \<open>select\<close> refines the step relation: from a reachable state it leads to a
  reachable state, and its answer is the reference selection.
\<close>

theorem select_refines_reference:
  assumes "finds_all_overlapping env" and "collision_free env R" and "\<forall>r\<in>R. request_utf8 r"
    and "engine_reachable env R s" and "r \<in> R" and "select env (sh_engine s) r = Inr (eng', sel)"
  shows "engine_reachable env R (s\<lparr>sh_engine := eng'\<rparr>) \<and>
    implements_reference env (sh_catalog s) r sel"
proof -
  have correct: "implements_reference env (sh_catalog t) r sel"
    if "engine_reachable env R t" "engine_step env R t (Returned r sel) t'" for t t'
    by (rule step_correct [OF assms(1-3) that])
  from select_as_steps [OF assms(5,6)] show ?thesis
  proof (elim disjE exE conjE)
    assume "engine_step env R s (Returned r sel) (s\<lparr>sh_engine := eng'\<rparr>)"
    with assms(4) correct show ?thesis by (blast intro: engine_reachable.step)
  next
    fix s1
    assume s1: "engine_step env R s Silent s1" "engine_step env R s1 (Returned r sel) (s\<lparr>sh_engine := eng'\<rparr>)"
    then have "engine_reachable env R s1" using assms(4) by (blast intro: engine_reachable.step)
    moreover have "sh_catalog s1 = sh_catalog s"
      using s1(2) by cases (auto dest: arg_cong [of _ _ sh_catalog])
    ultimately show ?thesis using s1(2) correct by (metis engine_reachable.step)
  qed
qed

theorem select_refines_reference_witness:
  "\<exists>eng' sel. select demo_env \<lparr>compiled = demo_compiled, cache = []\<rparr> demo_request = Inr (eng', sel) \<and>
    implements_reference demo_env demo_catalog demo_request sel"
proof -
  from demo_run obtain sel where "run_request demo_env demo_compiled demo_request = Inr sel" by blast
  then obtain eng' where "select demo_env (sh_engine (demo_shared [])) demo_request = Inr (eng', sel)"
    by (simp add: select_def demo_validate Let_def cache_lookup_def run_request_def demo_shared_def)
  from select_refines_reference [OF demo_finds_all demo_collision_free _ demo_reachable(1) _ this] this
  show ?thesis by (auto simp: demo_utf8 demo_shared_def)
qed

end
