(* ===== verification/Lore_Import.thy ===== *)
theory Lore_Import
  imports Lore_Properties
begin

text \<open>
  Properties of import and export, of search normalisation and of the probability draw.
\<close>

section \<open>Import\<close>

lemma set_enabled_simps [simp]:
  "entry_id (set_enabled b e) = entry_id e" "enabled (set_enabled b e) = b"
  "LoreEntry_validate (set_enabled b e) = LoreEntry_validate e"
  "entry_bytes (set_enabled b e) = entry_bytes e"
  by (simp_all add: set_enabled_def LoreEntry_validate_def entry_bytes_def entry_conditions_def)

lemma import_catalog_facts:
  assumes "import_catalog codec bytes = Inr catalog"
  shows "LorebookCatalog_validate catalog = Inr ()" and "filter enabled (entries catalog) = []"
proof -
  obtain cat where cat: "LorebookCatalog_validate cat = Inr ()"
      "catalog = cat\<lparr>entries := map (set_enabled False) (entries cat)\<rparr>"
    using assms by (auto simp: import_catalog_def import_catalog_with_trust_def Let_def split: if_splits)
  then show "LorebookCatalog_validate catalog = Inr ()"
    unfolding LorebookCatalog_validate_iff by (simp add: comp_def)
  show "filter enabled (entries catalog) = []" by (simp add: cat(2) filter_empty_conv)
qed

lemma compile_disabled:
  assumes "LorebookCatalog_validate catalog = Inr ()" and "filter enabled (entries catalog) = []"
  shows "compile_catalog env catalog gen = Inr \<lparr>revision = catalog_revision catalog, generation = gen,
    compiled_entries = [], sensitive = \<lparr>matcher = None, patterns = [], candidate_entries = []\<rparr>,
    folded = \<lparr>matcher = None, patterns = [], candidate_entries = []\<rparr>, unconditional = []\<rparr>"
  by (simp add: compile_catalog_def assms scan_patterns_def PatternIndex_build_def)

text \<open>
  C9. An imported catalog grants no activation: whatever the bytes, the codec, the regular expression
  engine and the conversation, an engine built from it selects no entry and gives the empty text,
  until entries are enabled locally.
\<close>

theorem untrusted_import_selects_nothing:
  assumes "import_catalog codec bytes = Inr catalog" and "SelectionRequest_validate r = Inr ()"
  shows "\<exists>eng eng' sel. LorebookEngine_new env catalog = Inr eng \<and>
    select env eng r = Inr (eng', sel) \<and> prompt_text sel = [] \<and> selected_ids (receipt sel) = []"
proof -
  note facts = import_catalog_facts [OF assms(1)]
  show ?thesis
    by (simp add: LorebookEngine_new_def compile_disabled [OF facts] select_def assms(2) Let_def
        cache_lookup_def select_uncached_def PatternIndex_matches_def collect_candidates_def
        add_pattern_candidates_def build_selection_def rank_matched_def sort_by_def admit_all_def)
qed

definition demo_codec :: lore_codec where
  "demo_codec = \<lparr>decode_envelope = (\<lambda>bytes. Inr \<lparr>env_format = LORE_IMPORT_FORMAT,
      env_schema_version = 1, env_catalog = demo_catalog\<rparr>),
    encode_envelope = (\<lambda>e. Some [1])\<rparr>"

theorem untrusted_import_selects_nothing_witness:
  "\<exists>catalog eng eng' sel. import_catalog demo_codec [1] = Inr catalog \<and>
    LorebookEngine_new demo_env catalog = Inr eng \<and>
    select demo_env eng demo_request = Inr (eng', sel) \<and> prompt_text sel = []"
proof -
  have "\<exists>catalog. import_catalog demo_codec [1] = Inr catalog"
    by (simp add: import_catalog_def import_catalog_with_trust_def demo_codec_def demo_catalog_valid Let_def)
  then obtain catalog where "import_catalog demo_codec [1] = Inr catalog" ..
  with untrusted_import_selects_nothing [OF this demo_validate, of demo_env] show ?thesis by blast
qed

text \<open>
  C10. Exporting a catalog and importing it as locally trusted gives it back; importing it untrusted
  gives it back with every entry disabled. The JSON codec is assumed to decode what it encodes.
\<close>

theorem export_import_roundtrip:
  assumes "\<And>e bs. encode_envelope codec e = Some bs \<Longrightarrow> decode_envelope codec bs = Inr e"
    and "export_catalog codec catalog = Inr bytes"
  shows "import_catalog_with_trust codec bytes LocallyTrusted = Inr catalog \<and>
    import_catalog codec bytes =
      Inr (catalog\<lparr>entries := map (set_enabled False) (entries catalog)\<rparr>)"
proof -
  let ?e = "\<lparr>env_format = LORE_IMPORT_FORMAT, env_schema_version = 1, env_catalog = catalog\<rparr>"
  have "LorebookCatalog_validate catalog = Inr ()" "encode_envelope codec ?e = Some bytes"
    "length bytes \<le> MAX_LORE_IMPORT_BYTES"
    using assms(2) by (auto simp: export_catalog_def split: if_splits)
  with assms(1) [OF this(2)] show ?thesis
    by (simp add: import_catalog_def import_catalog_with_trust_def Let_def)
qed

text \<open>A codec for the one envelope of \<open>demo_catalog\<close>; it refuses to encode any other.\<close>

definition single_codec :: lore_codec where
  "single_codec = (let e = \<lparr>env_format = LORE_IMPORT_FORMAT, env_schema_version = 1,
      env_catalog = demo_catalog\<rparr> in
    \<lparr>decode_envelope = (\<lambda>bytes. if bytes = [1] then Inr e else Inl True),
     encode_envelope = (\<lambda>x. if x = e then Some [1] else None)\<rparr>)"

theorem export_import_roundtrip_witness:
  "export_catalog single_codec demo_catalog = Inr [1] \<and>
    import_catalog_with_trust single_codec [1] LocallyTrusted = Inr demo_catalog"
proof -
  have e: "export_catalog single_codec demo_catalog = Inr [1]"
    by (simp add: export_catalog_def single_codec_def demo_catalog_valid Let_def)
  have "encode_envelope single_codec x = Some bs \<Longrightarrow> decode_envelope single_codec bs = Inr x" for x bs
    by (auto simp: single_codec_def Let_def split: if_splits)
  from export_import_roundtrip [OF this e] e show ?thesis by blast
qed

section \<open>Normalisation\<close>

text \<open>The maximal runs of characters that are not white space.\<close>

fun add_word_char :: "rstr list \<times> rstr \<Rightarrow> uchar \<Rightarrow> rstr list \<times> rstr" where
  "add_word_char (ws, w) c =
    (if is_whitespace c then (if w = [] then ws else ws @ [w], []) else (ws, w @ [c]))"

definition words :: "rstr \<Rightarrow> rstr list" where
  "words s = (let (ws, w) = foldl add_word_char ([], []) s in if w = [] then ws else ws @ [w])"

definition flush :: "rstr list \<times> rstr \<Rightarrow> rstr list" where
  "flush st = (if snd st = [] then fst st else fst st @ [snd st])"

lemma join_with_last_char:
  "w \<noteq> [] \<Longrightarrow> join_with sep (ws @ [w @ [c]]) = join_with sep (ws @ [w]) @ [c]"
  by (simp add: join_with_snoc)

lemma join_with_Nil_iff: "\<forall>w\<in>set ws. w \<noteq> [] \<Longrightarrow> join_with sep ws = [] \<longleftrightarrow> ws = []"
  by (induction sep ws rule: join_with.induct) auto

lemma collapse_spaces_words:
  assumes "\<forall>w\<in>set ws. w \<noteq> []" and "p \<longleftrightarrow> w = [] \<and> ws \<noteq> []"
  shows "collapse_spaces (join_with [32] (flush (ws, w))) p s =
    join_with [32] (flush (foldl add_word_char (ws, w) s))"
  using assms
proof (induction s arbitrary: ws w p)
  case Nil
  then show ?case by simp
next
  case (Cons c s)
  show ?case
  proof (cases "is_whitespace c")
    case True
    let ?ws = "flush (ws, w)"
    have ne: "\<forall>w\<in>set ?ws. w \<noteq> []" using Cons.prems(1) by (auto simp: flush_def)
    have word: "add_word_char (ws, w) c = (?ws, [])" using True by (simp add: flush_def)
    have "collapse_spaces (join_with [32] (flush (?ws, []))) (?ws \<noteq> []) s =
        join_with [32] (flush (foldl add_word_char (?ws, []) s))"
      by (rule Cons.IH) (use ne in auto)
    moreover have "flush (?ws, []) = ?ws" by (simp add: flush_def)
    ultimately show ?thesis
      using True join_with_Nil_iff [OF ne, of "[32]"] word by (simp del: add_word_char.simps)
  next
    case False
    have step: "collapse_spaces (join_with [32] (flush (ws, w @ [c]))) False s =
        join_with [32] (flush (foldl add_word_char (ws, w @ [c]) s))"
      using Cons.IH [where ws = ws and w = "w @ [c]" and p = False] Cons.prems(1) by simp
    show ?thesis
    proof (cases "w = []")
      case True
      with False step Cons.prems(2) show ?thesis
        by (cases "ws = []") (simp_all add: flush_def join_with_snoc)
    next
      case w: False
      with False step Cons.prems(2) show ?thesis
        by (simp add: flush_def join_with_last_char)
    qed
  qed
qed

text \<open>
  Normalised search text is the white-space-separated words of the compatible, case-folded text
  joined by single spaces.
\<close>

theorem normalize_joins_words:
  "normalize_search_text u value case_sensitive =
    join_with [32] (words (if case_sensitive then nfkc u value
      else concat (map (to_lowercase u) (nfkc u value))))"
  using collapse_spaces_words [where ws = "[]" and w = "[]" and p = False]
  by (simp add: normalize_search_text_def Let_def words_def flush_def case_prod_beta)

section \<open>The probability draw\<close>

text \<open>
  The bucket of a draw is \<open>value * 10000 / 2 ^ 64\<close> rounded down, below 10000: neither the
  128-bit product nor the narrowing to 16 bits loses anything.
\<close>

theorem probability_bucket_exact:
  "unat (probability_bucket value) = unat value * 10000 div 2 ^ 64 \<and>
    unat (probability_bucket value) < 10000"
proof -
  have v: "unat value < 2 ^ 64" by (rule order_less_le_trans [OF unsigned_less]) simp
  let ?p = "ucast value * 10000 :: 128 word"
  have "unat (ucast value :: 128 word) = unat value"
    using v by (simp add: unsigned_ucast_eq take_bit_nat_eq_self_iff)
  then have p: "unat ?p = unat value * 10000"
    using v by (simp add: unat_word_ariths)
  have b: "unat value * 10000 div 2 ^ 64 < 10000"
    using v by (simp add: div_less_iff_less_mult)
  have "unat (drop_bit 64 ?p) = unat value * 10000 div 2 ^ 64"
    unfolding unsigned_drop_bit_eq unfolding p drop_bit_eq_div
    using v by (simp add: take_bit_nat_eq_self)
  then have "unat (probability_bucket value) = take_bit 16 (unat value * 10000 div 2 ^ 64)"
    by (simp only: probability_bucket_def unsigned_ucast_eq) simp
  moreover have "take_bit 16 (unat value * 10000 div 2 ^ 64) = unat value * 10000 div 2 ^ 64"
    using b by (intro take_bit_nat_eq_self) simp
  ultimately show ?thesis using b by (simp only:)
qed

text \<open>
  Raising the basis points never turns an admitted entry away; zero never admits and ten thousand
  always does.
\<close>

theorem probability_monotone:
  assumes "probability_admits env sd eid p" and "p \<le> q" and "q \<le> 10000"
  shows "probability_admits env sd eid q \<and> \<not> probability_admits env sd eid 0 \<and>
    probability_admits env sd eid 10000"
  using assms by (auto simp: probability_admits_def Let_def split: if_splits)

theorem probability_monotone_witness:
  "probability_admits demo_env 1 (lit ''e'') 10000 \<and> probability_admits demo_env 1 (lit ''e'') 10000"
  using probability_monotone [of demo_env 1 "lit ''e''" 10000 10000]
  by (simp add: probability_admits_def)

end
