(* ===== verification/Json.thy ===== *)
theory Json
  imports Ordered_Map "HOL-Library.Log_Nat"
begin

text \<open>
  JSON documents as the JSON library presents them, shared by the components that read or write
  them: floats, values with objects as ordered maps, and the measures of a document that
  importers bound.
\<close>

text \<open>
  A 64-bit float: its finite values are reals; signed zeros compare equal and are one value. The
  flag of an infinity tells the negative one.
\<close>

datatype f64 = Finite real | NaN | Infinity bool

definition is_finite :: "f64 \<Rightarrow> bool" where
  "is_finite x = (case x of Finite _ \<Rightarrow> True | _ \<Rightarrow> False)"

text \<open>
  A \<open>serde_json::Value\<close>, where the members of an object are in ascending key order; and the
  events of a document being read, where they are in document order and keys may repeat.
\<close>

datatype json =
    JNull
  | JBool bool
  | JInt int
  | JFloat f64
  | JString rstr
  | JArray "json list"
  | JObject "(rstr \<times> json) list"

text \<open>The number of values of a document and the length of its longest path.\<close>

fun json_nodes :: "json \<Rightarrow> nat" where
  "json_nodes (JArray vs) = 1 + (\<Sum>v\<leftarrow>vs. json_nodes v)"
| "json_nodes (JObject ms) = 1 + (\<Sum>m\<leftarrow>ms. json_nodes (snd m))"
| "json_nodes _ = 1"

fun json_depth :: "json \<Rightarrow> nat" where
  "json_depth (JArray vs) = 1 + foldr (\<lambda>v d. max (json_depth v) d) vs 0"
| "json_depth (JObject ms) = 1 + foldr (\<lambda>m d. max (json_depth (snd m)) d) ms 0"
| "json_depth _ = 1"

text \<open>No object of the document repeats a key, and every float is finite.\<close>

fun json_unique :: "json \<Rightarrow> bool" where
  "json_unique (JArray vs) = (\<forall>v\<in>set vs. json_unique v)"
| "json_unique (JObject ms) = (distinct (map fst ms) \<and> (\<forall>m\<in>set ms. json_unique (snd m)))"
| "json_unique (JFloat x) = is_finite x"
| "json_unique _ = True"

text \<open>The value a document denotes: objects as ordered maps.\<close>

fun json_value :: "json \<Rightarrow> json" where
  "json_value (JArray vs) = JArray (map json_value vs)"
| "json_value (JObject ms) =
    JObject (foldl (\<lambda>m (k, v). bt_insert k v m) [] (map (\<lambda>m. (fst m, json_value (snd m))) ms))"
| "json_value v = v"

text \<open>\<open>value.get(key)\<close> and the readers \<open>as_str\<close> and \<open>as_u64\<close>.\<close>

fun json_get :: "rstr \<Rightarrow> json \<Rightarrow> json option" where
  "json_get k (JObject ms) = map_of ms k"
| "json_get k _ = None"

fun json_str :: "json \<Rightarrow> rstr option" where
  "json_str (JString s) = Some s"
| "json_str _ = None"

fun json_u64 :: "json \<Rightarrow> nat option" where
  "json_u64 (JInt i) = (if 0 \<le> i \<and> i < 2 ^ 64 then Some (nat i) else None)"
| "json_u64 _ = None"

fun json_array :: "json \<Rightarrow> json list option" where
  "json_array (JArray vs) = Some vs"
| "json_array _ = None"

fun json_object :: "json \<Rightarrow> (rstr \<times> json) list option" where
  "json_object (JObject ms) = Some ms"
| "json_object _ = None"

fun json_i64 :: "json \<Rightarrow> int option" where
  "json_i64 (JInt i) = (if - (2 ^ 63) \<le> i \<and> i < 2 ^ 63 then Some i else None)"
| "json_i64 _ = None"

text \<open>
  The cast of an integer to \<open>f64\<close>: the nearest value with a 53-bit significand, ties to even.
\<close>

definition int_as_f64 :: "int \<Rightarrow> f64" where
  "int_as_f64 i =
    (let unit = 2 ^ nat (bitlen \<bar>i\<bar> - 53); q = \<bar>i\<bar> div unit; r = \<bar>i\<bar> mod unit;
         q' = (if unit < 2 * r \<or> unit = 2 * r \<and> odd q then q + 1 else q) in
     Finite (real_of_int (sgn i * (q' * unit))))"

fun json_f64 :: "json \<Rightarrow> f64 option" where
  "json_f64 (JInt i) = Some (int_as_f64 i)"
| "json_f64 (JFloat x) = Some x"
| "json_f64 _ = None"

fun f64_less :: "f64 \<Rightarrow> f64 \<Rightarrow> bool" where
  "f64_less (Finite x) (Finite y) = (x < y)"
| "f64_less (Finite x) (Infinity neg) = (\<not> neg)"
| "f64_less (Infinity neg) (Finite y) = neg"
| "f64_less (Infinity neg) (Infinity neg') = (neg \<and> \<not> neg')"
| "f64_less _ _ = False"

lemma add_foldr_max_le:
  "d + foldr (\<lambda>x d. max (f x) d) xs (0::nat) \<le> k \<longleftrightarrow> d \<le> k \<and> (\<forall>x\<in>set xs. d + f x \<le> k)"
  by (induction xs) (auto simp: max_def)

lemma json_members_nodes: "(k, v) \<in> set ms \<Longrightarrow> json_nodes v \<le> (\<Sum>m\<leftarrow>ms. json_nodes (snd m))"
  using member_le_sum_list [of "json_nodes v" "map (\<lambda>m. json_nodes (snd m)) ms"] by force

lemma json_items_nodes: "v \<in> set vs \<Longrightarrow> json_nodes v \<le> (\<Sum>v\<leftarrow>vs. json_nodes v)"
  using member_le_sum_list [of "json_nodes v" "map json_nodes vs"] by force

lemma json_object_eq_Some_iff [simp]: "json_object v = Some ms \<longleftrightarrow> v = JObject ms"
  by (cases v) auto

lemma json_array_eq_Some_iff [simp]: "json_array v = Some vs \<longleftrightarrow> v = JArray vs"
  by (cases v) auto

lemma json_str_eq_Some_iff [simp]: "json_str v = Some s \<longleftrightarrow> v = JString s"
  by (cases v) auto

lemma int_as_f64_exact: "\<bar>i\<bar> < 2 ^ 53 \<Longrightarrow> int_as_f64 i = Finite (real_of_int i)"
proof -
  assume "\<bar>i\<bar> < 2 ^ 53"
  then have "bitlen \<bar>i\<bar> \<le> 53" by (simp add: bitlen_le_iff_power)
  then show ?thesis by (simp add: int_as_f64_def sgn_if abs_if)
qed

end
