(* ===== verification/Prompt_Schema.thy ===== *)
theory Prompt_Schema
  imports Json Metering
begin

text \<open>
  The data of the prompt crate: errors (\<open>error.rs\<close>), presets and their blocks (\<open>schema.rs\<close>), and
  the provider message type they compile to (\<open>ChatMessage\<close> of \<open>lorepia-providers\<close>). The two error
  variants that only \<open>compile_prompt_request\<close> raises, for the token counter and the provider
  adapter, are left out with that function.
\<close>

section \<open>Errors\<close>

text \<open>\<open>Panicked\<close> stands for a Rust panic; it is not a variant of the source.\<close>

datatype PromptError =
    InvalidField rstr rstr
  | TooManyItems rstr nat
  | PayloadTooLarge rstr nat
  | UnknownVariable rstr
  | UnsupportedFeature rstr rstr
  | RegexError rstr rstr
  | Import rstr
  | Json
  | Panicked

abbreviation invalid :: "rstr \<Rightarrow> string \<Rightarrow> PromptError" where
  "invalid field reason \<equiv> InvalidField field (lit reason)"

section \<open>Messages\<close>

datatype MessageRole = System | User | Assistant

record ChatMessage =
  msg_role :: MessageRole
  msg_content :: rstr

section \<open>Presets\<close>

text \<open>\<open>PromptRole\<close> has the variants of \<open>MessageRole\<close>, and the conversion between them is the identity.\<close>

datatype PromptRole = PromptSystem | PromptUser | PromptAssistant

primrec role_of :: "PromptRole \<Rightarrow> MessageRole" where
  "role_of PromptSystem = System"
| "role_of PromptUser = User"
| "role_of PromptAssistant = Assistant"

datatype PromptBlockKind =
    RawKind | ChatKind | PersonaKind | CharacterDescriptionKind | AuthorNoteKind | LorebookKind
  | LongTermMemoryKind | FinalInsertionKind | ChatMlKind | CachePointKind

datatype RawPromptSpecial = Main | GlobalNote

datatype ContentFormat = Plain | Custom rstr

datatype ChatEnd = Index nat | EndOfChat

record ChatSelection =
  sel_start :: nat
  sel_end :: ChatEnd

datatype PromptBlock =
    Raw rstr bool PromptRole "RawPromptSpecial option" rstr
  | Chat rstr bool ChatSelection
  | Persona rstr bool PromptRole ContentFormat
  | CharacterDescription rstr bool PromptRole ContentFormat
  | AuthorNote rstr bool PromptRole "rstr option" ContentFormat
  | Lorebook rstr bool PromptRole ContentFormat
  | LongTermMemory rstr bool PromptRole ContentFormat
  | FinalInsertion rstr bool PromptRole rstr
  | ChatMl rstr bool PromptRole rstr
  | CachePointBlock rstr bool nat PromptRole

primrec block_name :: "PromptBlock \<Rightarrow> rstr" where
  "block_name (Raw n e r s p) = n"
| "block_name (Chat n e s) = n"
| "block_name (Persona n e r f) = n"
| "block_name (CharacterDescription n e r f) = n"
| "block_name (AuthorNote n e r d f) = n"
| "block_name (Lorebook n e r f) = n"
| "block_name (LongTermMemory n e r f) = n"
| "block_name (FinalInsertion n e r p) = n"
| "block_name (ChatMl n e r p) = n"
| "block_name (CachePointBlock n e d r) = n"

primrec block_enabled :: "PromptBlock \<Rightarrow> bool" where
  "block_enabled (Raw n e r s p) = e"
| "block_enabled (Chat n e s) = e"
| "block_enabled (Persona n e r f) = e"
| "block_enabled (CharacterDescription n e r f) = e"
| "block_enabled (AuthorNote n e r d f) = e"
| "block_enabled (Lorebook n e r f) = e"
| "block_enabled (LongTermMemory n e r f) = e"
| "block_enabled (FinalInsertion n e r p) = e"
| "block_enabled (ChatMl n e r p) = e"
| "block_enabled (CachePointBlock n e d r) = e"

primrec block_kind :: "PromptBlock \<Rightarrow> PromptBlockKind" where
  "block_kind (Raw n e r s p) = RawKind"
| "block_kind (Chat n e s) = ChatKind"
| "block_kind (Persona n e r f) = PersonaKind"
| "block_kind (CharacterDescription n e r f) = CharacterDescriptionKind"
| "block_kind (AuthorNote n e r d f) = AuthorNoteKind"
| "block_kind (Lorebook n e r f) = LorebookKind"
| "block_kind (LongTermMemory n e r f) = LongTermMemoryKind"
| "block_kind (FinalInsertion n e r p) = FinalInsertionKind"
| "block_kind (ChatMl n e r p) = ChatMlKind"
| "block_kind (CachePointBlock n e d r) = CachePointKind"

record PromptSampling =
  temperature :: "f64 option"
  top_k :: "nat option"
  min_p :: "f64 option"
  top_a :: "f64 option"
  repetition_penalty :: "f64 option"
  top_p :: "f64 option"
  presence_penalty :: "f64 option"
  frequency_penalty :: "f64 option"
  stop_sequences :: "rstr list"
  sampling_seed :: "int option"

record SyntheticMessage =
  syn_role :: PromptRole
  syn_template :: rstr

record PromptTemplateSettings =
  preamble :: "SyntheticMessage option"
  epilogue :: "SyntheticMessage option"
  default_variables :: "(rstr, rstr) btree"

record ToolReference =
  tool_id :: rstr
  tool_enabled :: bool

record ModuleReference =
  module_id :: rstr
  module_version :: rstr
  digest_sha256 :: rstr
  module_enabled :: bool

datatype TransformTarget = Input | Request | Response | Display | Translation

record RegexFlags =
  global_flag :: bool
  case_insensitive :: bool
  multi_line :: bool
  unicode_flag :: bool
  dot_matches_new_line :: bool

record RegexRule =
  rule_name :: rstr
  rule_enabled :: bool
  rule_target :: TransformTarget
  rule_pattern :: rstr
  rule_replacement :: rstr
  rule_flags :: RegexFlags

record AdvancedSettings =
  template_settings :: PromptTemplateSettings
  tools :: "ToolReference list"
  regex_rules :: "RegexRule list"
  modules :: "ModuleReference list"

record PromptPreset =
  preset_name :: rstr
  blocks :: "PromptBlock list"
  sampling :: PromptSampling
  advanced :: AdvancedSettings

record CachePoint =
  cp_block_index :: nat
  cp_message_index :: nat
  cp_depth :: nat
  cp_role :: PromptRole

end
