(* ===== verification/Prompt_Template.thy ===== *)
theory Prompt_Template
  imports Prompt_Schema
begin

text \<open>
  Templates with \<open>${name}\<close> variables (\<open>template.rs\<close>). The code scans bytes for ASCII markers; on a
  UTF-8 string that is the scan of its scalar values written here. Validation and rendering are
  shown to agree with a parse into text and variable segments.
\<close>

abbreviation (input) "MAX_RENDERED_TEXT_BYTES \<equiv> 4194304 :: nat"

definition validate_variable_name :: "rstr \<Rightarrow> bool" where
  "validate_variable_name name =
    (case name of
       [] \<Rightarrow> False
     | first # bytes \<Rightarrow>
         if \<not> is_ascii_alphabetic first \<and> first \<noteq> 95 then False
         else str_len name \<le> 64 \<and>
           list_all (\<lambda>c. is_ascii_alphanumeric c \<or> c \<in> set (lit ''_.-'')) bytes)"

text \<open>The variable that starts after \<open>${\<close>: its name and the text after the closing brace.\<close>

definition split_name :: "rstr \<Rightarrow> (rstr \<times> rstr) option" where
  "split_name s =
    (if 125 \<in> set s
     then Some (takeWhile (\<lambda>c. c \<noteq> 125) s, tl (dropWhile (\<lambda>c. c \<noteq> 125) s)) else None)"

lemma split_name_Some:
  "split_name s = Some (name, rest) \<Longrightarrow> s = name @ 125 # rest \<and> 125 \<notin> set name"
proof -
  assume "split_name s = Some (name, rest)"
  then have h: "125 \<in> set s" "name = takeWhile (\<lambda>c. c \<noteq> 125) s"
    "rest = tl (dropWhile (\<lambda>c. c \<noteq> 125) s)"
    by (auto simp: split_name_def split: if_splits)
  have "dropWhile (\<lambda>c. c \<noteq> 125) s \<noteq> []" using h(1) by (simp add: dropWhile_eq_Nil_conv)
  moreover from this have "hd (dropWhile (\<lambda>c. c \<noteq> 125) s) = 125"
    using hd_dropWhile by blast
  ultimately have "dropWhile (\<lambda>c. c \<noteq> 125) s = 125 # rest" using h(3) by (metis list.collapse)
  then show ?thesis
    using h(2) takeWhile_dropWhile_id [of "\<lambda>c. c \<noteq> 125" s] by (auto dest: set_takeWhileD)
qed

lemma split_name_length: "split_name s = Some (name, rest) \<Longrightarrow> length rest < length s"
  using split_name_Some by fastforce

text \<open>\<open>opens_variable c cs\<close>: the scan is at \<open>$\<close> followed by an opening brace.\<close>

definition opens_variable :: "uchar \<Rightarrow> rstr \<Rightarrow> bool" where
  "opens_variable c cs \<longleftrightarrow> c = 36 \<and> cs \<noteq> [] \<and> hd cs = 123"

function validate_template_from :: "rstr \<Rightarrow> rstr list \<Rightarrow> rstr \<Rightarrow> (PromptError, rstr list) res" where
  "validate_template_from field variables [] = Inr variables"
| "validate_template_from field variables (c # cs) =
    (if \<not> opens_variable c cs then validate_template_from field variables cs
     else case split_name (tl cs) of
       None \<Rightarrow> Inl (invalid field ''unterminated ${name} variable'')
     | Some (name, rest) \<Rightarrow>
         if \<not> validate_variable_name name
         then Inl (invalid field ''variable names must be 1-64 ASCII letters, digits, '_', '.' or '-' and cannot start with a digit'')
         else validate_template_from field (variables @ [name]) rest)"
  by pat_completeness auto
termination
  by (relation "measure (\<lambda>(field, vs, s). length s)")
    (auto dest!: split_name_length simp: opens_variable_def split: list.splits)

definition validate_template_syntax :: "rstr \<Rightarrow> rstr \<Rightarrow> (PromptError, rstr list) res" where
  "validate_template_syntax template field = validate_template_from field [] template"

definition append_rendered :: "rstr \<Rightarrow> rstr \<Rightarrow> (PromptError, rstr) res" where
  "append_rendered out value =
    (let too_large = PayloadTooLarge (lit ''rendered content'') MAX_RENDERED_TEXT_BYTES in
     and_then (ok_or (checked_add_usize (str_len out) (str_len value)) too_large) (\<lambda>next_len.
     if next_len > MAX_RENDERED_TEXT_BYTES then Inl too_large else Inr (out @ value)))"

text \<open>The loop of \<open>render_with_reserved\<close>; \<open>pending\<close> is the literal text since \<open>literal_start\<close>.\<close>

function render_from ::
  "(rstr \<Rightarrow> rstr option) \<Rightarrow> rstr \<Rightarrow> rstr \<Rightarrow> rstr \<Rightarrow> (PromptError, rstr) res" where
  "render_from lookup out pending [] = append_rendered out pending"
| "render_from lookup out pending (c # cs) =
    (if \<not> opens_variable c cs then render_from lookup out (pending @ [c]) cs
     else and_then (append_rendered out pending) (\<lambda>out.
       case split_name (tl cs) of
         None \<Rightarrow> Inl (invalid (lit ''template'') ''unterminated ${name} variable'')
       | Some (name, rest) \<Rightarrow>
           if \<not> validate_variable_name name
           then Inl (invalid (lit ''template'') ''invalid variable name'')
           else and_then (ok_or (lookup name) (UnknownVariable name)) (\<lambda>value.
             and_then (append_rendered out value) (\<lambda>out. render_from lookup out [] rest))))"
  by pat_completeness auto
termination
  by (relation "measure (\<lambda>(lookup, out, pending, s). length s)")
    (auto dest!: split_name_length simp: opens_variable_def split: list.splits)

definition lookup_variable ::
  "(rstr, rstr) btree \<Rightarrow> (rstr \<times> rstr) option \<Rightarrow> rstr \<Rightarrow> rstr option" where
  "lookup_variable variables reserved name =
    (case reserved of
       Some (reserved_name, value) \<Rightarrow>
         if reserved_name = name then Some value else map_of variables name
     | None \<Rightarrow> map_of variables name)"

definition render_with_reserved ::
  "rstr \<Rightarrow> (rstr, rstr) btree \<Rightarrow> (rstr \<times> rstr) option \<Rightarrow> (PromptError, rstr) res" where
  "render_with_reserved template variables reserved =
    render_from (lookup_variable variables reserved) [] [] template"

definition render_template :: "rstr \<Rightarrow> (rstr, rstr) btree \<Rightarrow> (PromptError, rstr) res" where
  "render_template template variables = render_with_reserved template variables None"

primrec render_content ::
  "ContentFormat \<Rightarrow> rstr \<Rightarrow> (rstr, rstr) btree \<Rightarrow> (PromptError, rstr) res" where
  "render_content Plain src variables =
    (if str_len src > MAX_RENDERED_TEXT_BYTES
     then Inl (PayloadTooLarge (lit ''rendered content'') MAX_RENDERED_TEXT_BYTES) else Inr src)"
| "render_content (Custom template) src variables =
    render_with_reserved template variables (Some (lit ''value'', src))"

section \<open>Templates as segments\<close>

datatype segment = Text rstr | Var rstr

primrec unparse :: "segment \<Rightarrow> rstr" where
  "unparse (Text s) = s"
| "unparse (Var n) = [36, 123] @ n @ [125]"

primrec substitute :: "(rstr \<Rightarrow> rstr option) \<Rightarrow> segment \<Rightarrow> rstr" where
  "substitute lookup (Text s) = s"
| "substitute lookup (Var n) = the (lookup n)"

definition segment_vars :: "segment list \<Rightarrow> rstr list" where
  "segment_vars segs = concat (map (\<lambda>g. case g of Text _ \<Rightarrow> [] | Var n \<Rightarrow> [n]) segs)"

lemma segment_vars_simps [simp]:
  "segment_vars [] = []" "segment_vars (Text s # gs) = segment_vars gs"
  "segment_vars (Var n # gs) = n # segment_vars gs"
  by (simp_all add: segment_vars_def)

abbreviation "rendered_too_large \<equiv> PayloadTooLarge (lit ''rendered content'') MAX_RENDERED_TEXT_BYTES"

lemma append_rendered_eq:
  "append_rendered out v =
    (if str_len (out @ v) \<le> MAX_RENDERED_TEXT_BYTES then Inr (out @ v) else Inl rendered_too_large)"
  by (simp add: append_rendered_def Let_def checked_add_def)

text \<open>The segments of a well-formed template: characters and variables, from left to right.\<close>

inductive template_segments :: "rstr \<Rightarrow> segment list \<Rightarrow> bool" where
  nil: "template_segments [] []"
| char: "\<not> opens_variable c cs \<Longrightarrow> template_segments cs gs \<Longrightarrow>
    template_segments (c # cs) (Text [c] # gs)"
| var: "opens_variable c cs \<Longrightarrow> split_name (tl cs) = Some (n, rest) \<Longrightarrow> validate_variable_name n \<Longrightarrow>
    template_segments rest gs \<Longrightarrow> template_segments (c # cs) (Var n # gs)"

lemma validate_template_segments:
  "validate_template_from field vs s = Inr ws \<Longrightarrow>
    \<exists>gs. template_segments s gs \<and> ws = vs @ segment_vars gs"
proof (induction field vs s rule: validate_template_from.induct)
  case (1 field vs)
  then show ?case using template_segments.nil by fastforce
next
  case (2 field vs c cs)
  show ?case
  proof (cases "opens_variable c cs")
    case False
    with 2 obtain gs where "template_segments cs gs" "ws = vs @ segment_vars gs" by auto
    with False show ?thesis by (intro exI [of _ "Text [c] # gs"]) (simp add: template_segments.char)
  next
    case True
    with 2(3) obtain n rest where n: "split_name (tl cs) = Some (n, rest)" "validate_variable_name n"
        "validate_template_from field (vs @ [n]) rest = Inr ws"
      by (auto split: option.splits if_splits)
    from 2(2) [OF _ n(1) refl _ n(3)] True n(2) obtain gs
      where "template_segments rest gs" "ws = (vs @ [n]) @ segment_vars gs" by auto
    with True n show ?thesis by (intro exI [of _ "Var n # gs"]) (simp add: template_segments.var)
  qed
qed

lemma template_segments_unparse: "template_segments s gs \<Longrightarrow> concat (map unparse gs) = s"
proof (induction rule: template_segments.induct)
  case (var c cs n rest gs)
  then obtain ds where "c = 36" "cs = 123 # ds" by (cases cs) (auto simp: opens_variable_def)
  with var split_name_Some [OF var(2)] show ?case by simp
qed simp_all

lemma template_segments_valid:
  "template_segments s gs \<Longrightarrow> n \<in> set (segment_vars gs) \<Longrightarrow> validate_variable_name n"
  by (induction rule: template_segments.induct) auto

definition all_bound :: "(rstr \<Rightarrow> rstr option) \<Rightarrow> segment list \<Rightarrow> bool" where
  "all_bound lookup gs \<longleftrightarrow> (\<forall>n\<in>set (segment_vars gs). lookup n \<noteq> None)"

definition substituted :: "(rstr \<Rightarrow> rstr option) \<Rightarrow> segment list \<Rightarrow> rstr" where
  "substituted lookup gs = concat (map (substitute lookup) gs)"

text \<open>
  Rendering appends the substituted segments once, or fails because a variable has no value or the
  text is too large; it fails only then.
\<close>

definition render_result ::
  "(rstr \<Rightarrow> rstr option) \<Rightarrow> rstr \<Rightarrow> segment list \<Rightarrow> (PromptError, rstr) res \<Rightarrow> bool" where
  "render_result lookup base gs r \<longleftrightarrow>
    (let text = base @ substituted lookup gs in
     if all_bound lookup gs \<and> str_len text \<le> MAX_RENDERED_TEXT_BYTES then r = Inr text
     else r = Inl rendered_too_large \<or>
       (\<exists>n\<in>set (segment_vars gs). lookup n = None \<and> r = Inl (UnknownVariable n)))"

lemma render_from_result:
  "template_segments s gs \<Longrightarrow> render_result lookup (out @ pending) gs (render_from lookup out pending s)"
proof (induction arbitrary: out pending rule: template_segments.induct)
  case nil
  then show ?case by (simp add: render_result_def all_bound_def substituted_def append_rendered_eq)
next
  case (char c cs gs)
  from char(3) [of out "pending @ [c]"] char(1) show ?case
    by (simp add: render_result_def all_bound_def substituted_def Let_def add.assoc)
next
  case (var c cs n rest gs)
  show ?case
  proof (cases "str_len (out @ pending) \<le> MAX_RENDERED_TEXT_BYTES \<and> lookup n \<noteq> None")
    case True
    then obtain v where v: "lookup n = Some v" by auto
    from var(5) [of "out @ pending @ v" "[]"] True v var(1-3) show ?thesis
      by (auto simp: render_result_def all_bound_def substituted_def Let_def append_rendered_eq)
  next
    case False
    with var(1-3) show ?thesis
      by (auto simp: render_result_def all_bound_def Let_def append_rendered_eq substituted_def)
  qed
qed

lemma render_template_result:
  assumes "validate_template_syntax template field = Inr vs"
  shows "\<exists>gs. template_segments template gs \<and> vs = segment_vars gs \<and>
    render_result (lookup_variable variables reserved) [] gs
      (render_with_reserved template variables reserved)"
  using validate_template_segments [OF assms [unfolded validate_template_syntax_def]]
    render_from_result [where out = "[]" and pending = "[]"]
  by (auto simp: render_with_reserved_def)

end
