(* ===== verification/Prompt_Regex.thy ===== *)
theory Prompt_Regex
  imports Prompt_Template
begin

text \<open>
  The text transforms of a preset (\<open>regex_pipeline.rs\<close>): validation of the rule table, replacement
  strings, compiled rules and their application under a scan and match budget. The regular
  expression engine is the record \<open>regex_engine\<close>; a capture is the list of the spans of its groups,
  in scalar positions of the text.
\<close>

abbreviation (input) "MAX_PATTERN_BYTES \<equiv> 16384 :: nat"
abbreviation (input) "MAX_REPLACEMENT_BYTES \<equiv> 65536 :: nat"
abbreviation (input) "MAX_RULES \<equiv> 128 :: nat"
abbreviation (input) "MAX_ACTIVE_RULES \<equiv> 64 :: nat"
abbreviation (input) "MAX_TEXT_BYTES \<equiv> 4194304 :: nat"
abbreviation (input) "MAX_CUMULATIVE_SCAN_BYTES \<equiv> 134217728 :: nat"
abbreviation (input) "MAX_MATCHES_PER_RULE \<equiv> 100000 :: nat"
abbreviation (input) "MAX_CUMULATIVE_MATCHES \<equiv> 100000 :: nat"

type_synonym capture = "(nat \<times> nat) option list"

record 'rx regex_engine =
  regex_build :: "rstr \<Rightarrow> RegexFlags \<Rightarrow> 'rx option"
  captures_len :: "'rx \<Rightarrow> nat"
  captures_iter :: "'rx \<Rightarrow> rstr \<Rightarrow> capture list"

text \<open>\<open>captures.get(i)\<close>.\<close>

definition capture_get :: "capture \<Rightarrow> nat \<Rightarrow> (nat \<times> nat) option" where
  "capture_get captures i = (if i < length captures then captures ! i else None)"

text \<open>\<open>&s[a..b]\<close>, which panics when the range is not within the string.\<close>

definition slice :: "rstr \<Rightarrow> nat \<Rightarrow> nat \<Rightarrow> (PromptError, rstr) res" where
  "slice s a b = (if a \<le> b \<and> b \<le> length s then Inr (take (b - a) (drop a s)) else Inl Panicked)"

section \<open>The rule table\<close>

definition rule_label :: "nat \<Rightarrow> rstr \<Rightarrow> rstr" where
  "rule_label index name =
    (if name \<noteq> [] \<and> str_len name \<le> 256 then name
     else lit ''rule['' @ nat_str index @ lit '']'')"

definition validate_rule_table :: "PromptPreset \<Rightarrow> (PromptError, unit) res" where
  "validate_rule_table preset =
    (let rules = regex_rules (advanced preset) in
     if length rules > MAX_RULES then Inl (TooManyItems (lit ''advanced.regex'') MAX_RULES)
     else if length (filter rule_enabled rules) > MAX_ACTIVE_RULES
     then Inl (TooManyItems (lit ''advanced.regex.enabled'') MAX_ACTIVE_RULES)
     else try_fold (\<lambda>_ (index, rule).
       if str_len (rule_pattern rule) > MAX_PATTERN_BYTES
       then Inl (PayloadTooLarge (lit ''advanced.regex['' @ nat_str index @ lit ''].pattern'')
              MAX_PATTERN_BYTES)
       else if str_len (rule_replacement rule) > MAX_REPLACEMENT_BYTES
       then Inl (PayloadTooLarge (lit ''advanced.regex['' @ nat_str index @ lit ''].replacement'')
              MAX_REPLACEMENT_BYTES)
       else Inr ()) () (enumerate 0 rules))"

definition ensure_text_size :: "rstr \<Rightarrow> nat \<Rightarrow> (PromptError, unit) res" where
  "ensure_text_size field bytes =
    (if bytes > MAX_TEXT_BYTES then Inl (PayloadTooLarge field MAX_TEXT_BYTES) else Inr ())"

definition compile_regex ::
  "'rx regex_engine \<Rightarrow> rstr \<Rightarrow> rstr \<Rightarrow> RegexFlags \<Rightarrow> (PromptError, 'rx) res" where
  "compile_regex rxe label pattern flags =
    and_then (ok_or (regex_build rxe pattern flags)
        (RegexError label (lit ''pattern rejected by the bounded Rust regex contract''))) (\<lambda>regex.
    if captures_len rxe regex > 64
    then Inl (RegexError label (lit ''pattern exceeds 63 capture groups plus the whole match''))
    else Inr regex)"

section \<open>Replacement strings\<close>

datatype ReplacementPart = Literal rstr | Dollar | Capture nat

definition replacement_error :: "rstr \<Rightarrow> string \<Rightarrow> (PromptError, 'a) res" where
  "replacement_error label reason =
    Inl (RegexError label (lit ''replacement rejected: '' @ lit reason))"

text \<open>\<open>digits.parse::<usize>()\<close> on a non-empty digit string; \<open>None\<close> on overflow.\<close>

definition parse_usize :: "rstr \<Rightarrow> nat option" where
  "parse_usize digits =
    (let n = foldl (\<lambda>n c. 10 * n + (c - 48)) 0 digits in if n < 2 ^ 64 then Some n else None)"

definition push_literal :: "rstr \<Rightarrow> ReplacementPart list \<Rightarrow> ReplacementPart list" where
  "push_literal pending parts = (if pending \<noteq> [] then parts @ [Literal pending] else parts)"

function parse_replacement_from ::
  "rstr \<Rightarrow> ReplacementPart list \<Rightarrow> rstr \<Rightarrow> rstr \<Rightarrow> (PromptError, ReplacementPart list) res" where
  "parse_replacement_from label parts pending [] = Inr (push_literal pending parts)"
| "parse_replacement_from label parts pending (c # cs) =
    (if c \<noteq> 36 then parse_replacement_from label parts (pending @ [c]) cs
     else let parts = push_literal pending parts in
       case cs of
         [] \<Rightarrow> replacement_error label ''only `$$` and `${0}` through `${63}` are allowed after `$`''
       | d # ds \<Rightarrow>
           if d = 36 then parse_replacement_from label (parts @ [Dollar]) [] ds
           else if d = 123 then
             (case split_name ds of
                None \<Rightarrow> replacement_error label ''unterminated capture reference''
              | Some (digits, rest) \<Rightarrow>
                  if digits = [] \<or> \<not> list_all is_ascii_digit digits \<or>
                    length digits > 1 \<and> hd digits = 48
                  then replacement_error label
                    ''capture references must use canonical `${0}` through `${63}` syntax''
                  else and_then (ok_or (parse_usize digits)
                      (RegexError label (lit ''capture reference is outside `${0}` through `${63}`'')))
                    (\<lambda>capture.
                    if capture > 63
                    then replacement_error label ''capture reference is outside `${0}` through `${63}`''
                    else parse_replacement_from label (parts @ [Capture capture]) [] rest))
           else replacement_error label
             ''only `$$` and `${0}` through `${63}` are allowed after `$`'')"
  by pat_completeness auto
termination
  by (relation "measure (\<lambda>(label, parts, pending, s). length s)") (auto dest!: split_name_length)

definition parse_replacement :: "rstr \<Rightarrow> rstr \<Rightarrow> (PromptError, ReplacementPart list) res" where
  "parse_replacement label replacement = parse_replacement_from label [] [] replacement"

section \<open>Budgets\<close>

record TransformBudget =
  scanned_bytes :: nat
  budget_matches :: nat

definition budget_charge :: "TransformBudget \<Rightarrow> nat \<Rightarrow> (PromptError, TransformBudget) res" where
  "budget_charge self bytes =
    (let too_large = PayloadTooLarge (lit ''regex.cumulativeScan'') MAX_CUMULATIVE_SCAN_BYTES in
     and_then (ok_or (checked_add_usize (scanned_bytes self) bytes) too_large) (\<lambda>n.
     if n > MAX_CUMULATIVE_SCAN_BYTES then Inl too_large else Inr (self\<lparr>scanned_bytes := n\<rparr>)))"

definition budget_charge_match :: "TransformBudget \<Rightarrow> (PromptError, TransformBudget) res" where
  "budget_charge_match self =
    (let too_many = TooManyItems (lit ''regex.cumulativeMatches'') MAX_CUMULATIVE_MATCHES in
     and_then (ok_or (checked_add_usize (budget_matches self) 1) too_many) (\<lambda>n.
     if n > MAX_CUMULATIVE_MATCHES then Inl too_many else Inr (self\<lparr>budget_matches := n\<rparr>)))"

section \<open>Rules\<close>

record 'rx CompiledRule =
  cr_label :: rstr
  cr_regex :: 'rx
  cr_replacement :: "ReplacementPart list"
  cr_global :: bool
  cr_matches :: nat

record 'rx CompiledTransformPipeline =
  pipe_rules :: "'rx CompiledRule list"
  pipe_budget :: TransformBudget

definition append_output :: "rstr \<Rightarrow> rstr \<Rightarrow> (PromptError, rstr) res" where
  "append_output out value =
    (let too_large = PayloadTooLarge (lit ''regex.output'') MAX_TEXT_BYTES in
     and_then (ok_or (checked_add_usize (str_len out) (str_len value)) too_large) (\<lambda>next_len.
     if next_len > MAX_TEXT_BYTES then Inl too_large else Inr (out @ value)))"

fun expand_part :: "rstr \<Rightarrow> capture \<Rightarrow> rstr \<Rightarrow> ReplacementPart \<Rightarrow> (PromptError, rstr) res" where
  "expand_part input captures out (Literal value) = append_output out value"
| "expand_part input captures out Dollar = append_output out [36]"
| "expand_part input captures out (Capture index) =
    (case capture_get captures index of
       None \<Rightarrow> Inr out
     | Some (a, b) \<Rightarrow> and_then (slice input a b) (append_output out))"

definition expand_replacement ::
  "rstr \<Rightarrow> rstr \<Rightarrow> ReplacementPart list \<Rightarrow> capture \<Rightarrow> (PromptError, rstr) res" where
  "expand_replacement input out replacement captures =
    try_fold (expand_part input captures) out replacement"

record rule_run =
  run_output :: rstr
  run_copied_until :: nat
  run_match_count :: nat
  run_rule_matches :: nat
  run_budget :: TransformBudget

text \<open>The body of the loop of \<open>apply_rule\<close>.\<close>

definition apply_match ::
  "rstr \<Rightarrow> ReplacementPart list \<Rightarrow> rstr \<Rightarrow> rule_run \<Rightarrow> capture \<Rightarrow> (PromptError, rule_run) res" where
  "apply_match label replacement input st captures =
    (let too_many = TooManyItems (lit ''regex.'' @ label @ lit ''.matches'') MAX_MATCHES_PER_RULE in
     and_then (budget_charge_match (run_budget st)) (\<lambda>budget.
     and_then (ok_or (checked_add_usize (run_match_count st) 1) too_many) (\<lambda>match_count.
     if match_count > MAX_MATCHES_PER_RULE then Inl too_many
     else and_then (ok_or (checked_add_usize (run_rule_matches st) 1) too_many) (\<lambda>rule_matches.
     if rule_matches > MAX_MATCHES_PER_RULE then Inl too_many
     else and_then (ok_or (capture_get captures 0)
         (RegexError label (lit ''regex engine returned a capture without the whole match'')))
       (\<lambda>(start, finish).
     and_then (slice input (run_copied_until st) start) (\<lambda>gap.
     and_then (append_output (run_output st) gap) (\<lambda>out.
     and_then (expand_replacement input out replacement captures) (\<lambda>out.
     Inr \<lparr>run_output = out, run_copied_until = finish, run_match_count = match_count,
          run_rule_matches = rule_matches, run_budget = budget\<rparr>))))))))"

definition apply_rule ::
  "'rx regex_engine \<Rightarrow> rstr \<Rightarrow> 'rx \<Rightarrow> ReplacementPart list \<Rightarrow> bool \<Rightarrow> rstr \<Rightarrow> nat \<Rightarrow> TransformBudget \<Rightarrow>
    (PromptError, rstr \<times> nat \<times> TransformBudget) res" where
  "apply_rule rxe label regex replacement global input rule_matches budget =
    (let all = captures_iter rxe regex input;
         found = (if global then all else take 1 all) in
     and_then (try_fold (apply_match label replacement input)
       \<lparr>run_output = [], run_copied_until = 0, run_match_count = 0,
        run_rule_matches = rule_matches, run_budget = budget\<rparr> found) (\<lambda>st.
     and_then (slice input (run_copied_until st) (length input)) (\<lambda>rest.
     and_then (append_output (run_output st) rest) (\<lambda>out.
     Inr (out, run_rule_matches st, run_budget st)))))"

definition pipeline_rule ::
  "'rx regex_engine \<Rightarrow> TransformTarget \<Rightarrow> 'rx CompiledRule list \<Rightarrow> nat \<times> RegexRule \<Rightarrow>
    (PromptError, 'rx CompiledRule list) res" where
  "pipeline_rule rxe target rules entry =
    (let (index, rule) = entry in
     if \<not> rule_enabled rule \<or> rule_target rule \<noteq> target then Inr rules
     else let label = rule_label index (rule_name rule) in
       and_then (compile_regex rxe label (rule_pattern rule) (rule_flags rule)) (\<lambda>regex.
       and_then (parse_replacement label (rule_replacement rule)) (\<lambda>replacement.
       Inr (rules @ [\<lparr>cr_label = label, cr_regex = regex, cr_replacement = replacement,
         cr_global = global_flag (rule_flags rule), cr_matches = 0\<rparr>]))))"

definition pipeline_new ::
  "'rx regex_engine \<Rightarrow> PromptPreset \<Rightarrow> TransformTarget \<Rightarrow>
    (PromptError, 'rx CompiledTransformPipeline) res" where
  "pipeline_new rxe preset target =
    and_then (validate_rule_table preset) (\<lambda>_.
    and_then (try_fold (pipeline_rule rxe target) [] (enumerate 0 (regex_rules (advanced preset))))
      (\<lambda>rules. Inr \<lparr>pipe_rules = rules, pipe_budget = \<lparr>scanned_bytes = 0, budget_matches = 0\<rparr>\<rparr>))"

text \<open>One pass of the loop of \<open>apply\<close>: the text, the rules already run, and the budget.\<close>

definition pipeline_step ::
  "'rx regex_engine \<Rightarrow> rstr \<times> 'rx CompiledRule list \<times> TransformBudget \<Rightarrow> 'rx CompiledRule \<Rightarrow>
    (PromptError, rstr \<times> 'rx CompiledRule list \<times> TransformBudget) res" where
  "pipeline_step rxe st rule =
    (let (current, ran_rules, budget) = st in
     and_then (budget_charge budget (str_len current)) (\<lambda>budget.
     and_then (apply_rule rxe (cr_label rule) (cr_regex rule) (cr_replacement rule) (cr_global rule)
       current (cr_matches rule) budget) (\<lambda>(out, n, budget).
     Inr (out, ran_rules @ [rule\<lparr>cr_matches := n\<rparr>], budget))))"

definition pipeline_apply ::
  "'rx regex_engine \<Rightarrow> 'rx CompiledTransformPipeline \<Rightarrow> rstr \<Rightarrow>
    (PromptError, 'rx CompiledTransformPipeline \<times> rstr) res" where
  "pipeline_apply rxe self input =
    and_then (ensure_text_size (lit ''regex.input'') (str_len input)) (\<lambda>_.
    and_then (try_fold (pipeline_step rxe) (input, [], pipe_budget self) (pipe_rules self))
      (\<lambda>(out, rules, budget). Inr (\<lparr>pipe_rules = rules, pipe_budget = budget\<rparr>, out)))"

definition apply_text_transforms ::
  "'rx regex_engine \<Rightarrow> PromptPreset \<Rightarrow> TransformTarget \<Rightarrow> rstr \<Rightarrow> (PromptError, rstr) res" where
  "apply_text_transforms rxe preset target input =
    and_then (pipeline_new rxe preset target) (\<lambda>p.
    and_then (pipeline_apply rxe p input) (\<lambda>(_, out). Inr out))"

definition validate_regex_contract :: "'rx regex_engine \<Rightarrow> PromptPreset \<Rightarrow> (PromptError, unit) res" where
  "validate_regex_contract rxe preset =
    and_then (validate_rule_table preset) (\<lambda>_.
    try_fold (\<lambda>_ (index, rule).
      let label = rule_label index (rule_name rule) in
      and_then (compile_regex rxe label (rule_pattern rule) (rule_flags rule)) (\<lambda>_.
      and_then (parse_replacement label (rule_replacement rule)) (\<lambda>_. Inr ())))
      () (enumerate 0 (regex_rules (advanced preset))))"

section \<open>Replacement strings round-trip\<close>

primrec unparse_part :: "ReplacementPart \<Rightarrow> rstr" where
  "unparse_part (Literal s) = s"
| "unparse_part Dollar = [36, 36]"
| "unparse_part (Capture n) = [36, 123] @ nat_str n @ [125]"

abbreviation unparse_parts :: "ReplacementPart list \<Rightarrow> rstr" where
  "unparse_parts parts \<equiv> concat (map unparse_part parts)"

lemma unparse_push_literal [simp]:
  "unparse_parts (push_literal pending parts) = unparse_parts parts @ pending"
  by (simp add: push_literal_def)

text \<open>A digit string without a leading zero is the decimal form of its value.\<close>

definition digits_value :: "rstr \<Rightarrow> nat" where
  "digits_value ds = foldl (\<lambda>n c. 10 * n + (c - 48)) 0 ds"

lemma digits_value_snoc: "digits_value (ds @ [c]) = 10 * digits_value ds + (c - 48)"
  by (simp add: digits_value_def)

lemma nat_str_digits:
  "ds \<noteq> [] \<Longrightarrow> list_all is_ascii_digit ds \<Longrightarrow> length ds = 1 \<or> hd ds \<noteq> 48 \<Longrightarrow>
    nat_str (digits_value ds) = ds \<and> (hd ds \<noteq> 48 \<longrightarrow> 0 < digits_value ds)"
proof (induction ds rule: rev_induct)
  case (snoc c ds)
  have c: "48 \<le> c" "c \<le> 57" using snoc.prems(2) by (simp_all add: is_ascii_digit_def)
  show ?case
  proof (cases "ds = []")
    case True
    have "c - 48 < 10" using c by linarith
    with c True show ?thesis
      by (simp add: digits_value_def nat_str.simps [of "c - 48"])
  next
    case False
    then have hd: "hd ds \<noteq> 48" using snoc.prems(3) by (cases ds) auto
    then have IH: "nat_str (digits_value ds) = ds" "0 < digits_value ds"
      using snoc.IH snoc.prems(2) False by auto
    let ?n = "10 * digits_value ds + (c - 48)"
    have "c - 48 < 10" using c by linarith
    moreover have "(10 * m + e) div 10 = m \<and> (10 * m + e) mod 10 = e" if "e < 10" for m e :: nat
      using that by simp
    ultimately have "\<not> ?n < 10" "?n div 10 = digits_value ds" "?n mod 10 = c - 48"
      using IH(2) by (simp_all del: add_diff_assoc)
    then have "nat_str ?n = nat_str (digits_value ds) @ [48 + (c - 48)]"
      by (subst nat_str.simps) simp
    with IH c hd show ?thesis by (simp add: digits_value_snoc)
  qed
qed simp

lemma parse_usize_digits: "parse_usize ds = Some n \<Longrightarrow> n = digits_value ds"
  by (auto simp: parse_usize_def digits_value_def Let_def split: if_splits)

lemma parse_replacement_from_unparse:
  "parse_replacement_from label parts pending s = Inr ps \<Longrightarrow> \<forall>n. Capture n \<in> set parts \<longrightarrow> n \<le> 63 \<Longrightarrow>
    unparse_parts ps = unparse_parts parts @ pending @ s \<and> (\<forall>n. Capture n \<in> set ps \<longrightarrow> n \<le> 63)"
proof (induction label parts pending s rule: parse_replacement_from.induct)
  case (1 label parts pending)
  then show ?case by (auto simp: push_literal_def split: if_splits)
next
  case (2 label parts pending c cs)
  show ?case
  proof (cases "c = 36")
    case False
    with 2(1) [OF False] "2.prems" show ?thesis by simp
  next
    case True
    let ?parts = "push_literal pending parts"
    have caps: "\<forall>n. Capture n \<in> set ?parts \<longrightarrow> n \<le> 63"
      using "2.prems"(2) by (auto simp: push_literal_def)
    obtain d ds where cs: "cs = d # ds"
      using "2.prems"(1) True by (cases cs) (simp_all add: replacement_error_def Let_def)
    show ?thesis
    proof (cases "d = 36")
      case d: True
      have "parse_replacement_from label (?parts @ [Dollar]) [] ds = Inr ps"
        using "2.prems"(1) True cs d by (simp add: Let_def)
      with 2(2) [OF _ refl cs d] True caps cs d show ?thesis by auto
    next
      case False
      with "2.prems"(1) True cs have d: "d = 123" by (auto simp: Let_def replacement_error_def split: if_splits)
      from "2.prems"(1) True cs d obtain digits rest n where r: "split_name ds = Some (digits, rest)"
          "digits \<noteq> []" "list_all is_ascii_digit digits" "\<not> (length digits > 1 \<and> hd digits = 48)"
          "parse_usize digits = Some n" "\<not> n > 63"
          "parse_replacement_from label (?parts @ [Capture n]) [] rest = Inr ps"
        by (auto simp: Let_def replacement_error_def split: option.splits if_splits)
      have "length digits = 1 \<or> hd digits \<noteq> 48" using r(2,4) by (cases digits) auto
      then have "nat_str n = digits"
        using nat_str_digits [OF r(2,3)] parse_usize_digits [OF r(5)] by simp
      moreover have "unparse_parts ps = unparse_parts (?parts @ [Capture n]) @ [] @ rest \<and>
          (\<forall>n. Capture n \<in> set ps \<longrightarrow> n \<le> 63)"
        by (rule 2(3) [OF _ refl cs False d r(1) refl _ _ r(6) r(7)])
          (use True r caps in auto)
      ultimately show ?thesis
        using True cs d split_name_Some [OF r(1)] by simp
    qed
  qed
qed

section \<open>Applying a rule\<close>

text \<open>
  What the regular expression crate documents of \<open>captures_iter\<close>: every match has its whole span,
  matches do not overlap and come from left to right, and groups lie within the text.
\<close>

definition group_ok :: "rstr \<Rightarrow> (nat \<times> nat) option \<Rightarrow> bool" where
  "group_ok s g = (case g of None \<Rightarrow> True | Some (a, b) \<Rightarrow> a \<le> b \<and> b \<le> length s)"

fun captures_from :: "rstr \<Rightarrow> nat \<Rightarrow> capture list \<Rightarrow> bool" where
  "captures_from s k [] = True"
| "captures_from s k (c # cs) =
    (case capture_get c 0 of
       None \<Rightarrow> False
     | Some (a, b) \<Rightarrow> k \<le> a \<and> a \<le> b \<and> b \<le> length s \<and> list_all (group_ok s) c \<and> captures_from s b cs)"

definition regex_contract :: "'rx regex_engine \<Rightarrow> bool" where
  "regex_contract rxe \<longleftrightarrow> (\<forall>rx s. captures_from s 0 (captures_iter rxe rx s))"

text \<open>The reference: copy the text between matches and expand the replacement at each.\<close>

fun part_text :: "rstr \<Rightarrow> capture \<Rightarrow> ReplacementPart \<Rightarrow> rstr" where
  "part_text s c (Literal v) = v"
| "part_text s c Dollar = [36]"
| "part_text s c (Capture i) =
    (case capture_get c i of None \<Rightarrow> [] | Some (a, b) \<Rightarrow> take (b - a) (drop a s))"

definition expansion :: "rstr \<Rightarrow> ReplacementPart list \<Rightarrow> capture \<Rightarrow> rstr" where
  "expansion s parts c = concat (map (part_text s c) parts)"

fun replaced :: "rstr \<Rightarrow> ReplacementPart list \<Rightarrow> nat \<Rightarrow> capture list \<Rightarrow> rstr" where
  "replaced s parts k [] = drop k s"
| "replaced s parts k (c # cs) =
    (case capture_get c 0 of
       None \<Rightarrow> []
     | Some (a, b) \<Rightarrow> take (a - k) (drop k s) @ expansion s parts c @ replaced s parts b cs)"

definition transform_error :: "PromptError \<Rightarrow> bool" where
  "transform_error e \<longleftrightarrow> (\<exists>f n. e = TooManyItems f n) \<or> (\<exists>f n. e = PayloadTooLarge f n)"

lemma append_output_outcome:
  "outcome transform_error (\<lambda>r. r = out @ v \<and> str_len r \<le> MAX_TEXT_BYTES) (append_output out v)"
  by (simp add: append_output_def Let_def checked_add_def transform_error_def)

lemma expand_part_outcome:
  assumes "list_all (group_ok s) c" and "str_len out \<le> MAX_TEXT_BYTES"
  shows "outcome transform_error (\<lambda>r. r = out @ part_text s c p \<and> str_len r \<le> MAX_TEXT_BYTES)
    (expand_part s c out p)"
proof (cases p)
  case (Capture i)
  show ?thesis
  proof (cases "capture_get c i")
    case (Some g)
    then have "group_ok s (Some g)"
      using assms(1) by (auto simp: capture_get_def list_all_length split: if_splits)
    then obtain a b where "g = (a, b)" "a \<le> b" "b \<le> length s" by (auto simp: group_ok_def)
    with Capture Some append_output_outcome show ?thesis by (simp add: slice_def)
  qed (use Capture assms(2) in simp)
qed (use append_output_outcome in auto)

lemma expand_replacement_outcome:
  assumes "list_all (group_ok s) c" and "str_len out \<le> MAX_TEXT_BYTES"
  shows "outcome transform_error (\<lambda>r. r = out @ expansion s parts c \<and> str_len r \<le> MAX_TEXT_BYTES)
    (expand_replacement s out parts c)"
  unfolding expand_replacement_def
proof (rule outcome_try_fold [where I = "\<lambda>pre r. r = out @ expansion s pre c \<and> str_len r \<le> MAX_TEXT_BYTES"])
  fix pre p u
  assume u: "u = out @ expansion s pre c \<and> str_len u \<le> MAX_TEXT_BYTES"
  show "outcome transform_error (\<lambda>r. r = out @ expansion s (pre @ [p]) c \<and> str_len r \<le> MAX_TEXT_BYTES)
      (expand_part s c u p)"
    by (rule outcome_mono [OF expand_part_outcome [OF assms(1)]]) (use u in \<open>auto simp: expansion_def\<close>)
qed (use assms(2) in \<open>simp add: expansion_def\<close>)

definition budget_ok :: "TransformBudget \<Rightarrow> bool" where
  "budget_ok b \<longleftrightarrow>
    scanned_bytes b \<le> MAX_CUMULATIVE_SCAN_BYTES \<and> budget_matches b \<le> MAX_CUMULATIVE_MATCHES"

interpretation scan_budget: meter budget_charge "\<lambda>n. n" scanned_bytes "\<lambda>_. MAX_CUMULATIVE_SCAN_BYTES"
  by unfold_locales (auto simp: budget_charge_def checked_add_def Let_def split: if_splits)

interpretation match_budget: meter "\<lambda>b _. budget_charge_match b" "\<lambda>_. 1" budget_matches
    "\<lambda>_. MAX_CUMULATIVE_MATCHES"
  by unfold_locales (auto simp: budget_charge_match_def checked_add_def Let_def split: if_splits)

lemma budget_charge_outcome:
  "budget_ok b \<Longrightarrow> outcome transform_error budget_ok (budget_charge b n)"
  "budget_ok b \<Longrightarrow> outcome transform_error budget_ok (budget_charge_match b)"
  by (auto simp: budget_ok_def budget_charge_def budget_charge_match_def Let_def checked_add_def
      transform_error_def)

lemma apply_match_outcome:
  assumes "capture_get c 0 = Some (a, b)" and "run_copied_until st \<le> a" and "a \<le> b" and "b \<le> length s"
    and "list_all (group_ok s) c" and "budget_ok (run_budget st)"
  shows "outcome transform_error
    (\<lambda>st'. run_output st' = run_output st @ take (a - run_copied_until st) (drop (run_copied_until st) s) @
        expansion s parts c \<and> str_len (run_output st') \<le> MAX_TEXT_BYTES \<and>
      run_copied_until st' = b \<and> budget_ok (run_budget st'))
    (apply_match label parts s st c)"
proof -
  have "slice s (run_copied_until st) a = Inr (take (a - run_copied_until st) (drop (run_copied_until st) s))"
    using assms(2-4) by (simp add: slice_def)
  then show ?thesis
    unfolding apply_match_def Let_def
    by (intro outcome_and_then [OF budget_charge_outcome(2) [OF assms(6)]])
      (auto simp: assms(1) checked_add_def transform_error_def
        intro!: outcome_and_then [OF append_output_outcome]
          outcome_and_then [OF expand_replacement_outcome [OF assms(5)]])
qed

lemma apply_matches_outcome:
  "captures_from s (run_copied_until st) cs \<Longrightarrow> run_copied_until st \<le> length s \<Longrightarrow>
    budget_ok (run_budget st) \<Longrightarrow> outcome transform_error
    (\<lambda>st'. run_output st' @ drop (run_copied_until st') s =
        run_output st @ replaced s parts (run_copied_until st) cs \<and>
      run_copied_until st' \<le> length s \<and> budget_ok (run_budget st'))
    (try_fold (apply_match label parts s) st cs)"
proof (induction cs arbitrary: st)
  case (Cons c cs)
  then obtain a b where ab: "capture_get c 0 = Some (a, b)" "run_copied_until st \<le> a" "a \<le> b"
      "b \<le> length s" "list_all (group_ok s) c" "captures_from s b cs"
    by (auto split: option.splits)
  show ?case
    unfolding try_fold.simps
  proof (rule outcome_and_then [OF apply_match_outcome [OF ab(1-5) Cons.prems(3)]], elim conjE)
    fix st' :: rule_run
    assume st': "run_output st' = run_output st @
        take (a - run_copied_until st) (drop (run_copied_until st) s) @ expansion s parts c"
      "run_copied_until st' = b" "budget_ok (run_budget st')"
    show "outcome transform_error
        (\<lambda>st'. run_output st' @ drop (run_copied_until st') s =
            run_output st @ replaced s parts (run_copied_until st) (c # cs) \<and>
          run_copied_until st' \<le> length s \<and> budget_ok (run_budget st'))
        (try_fold (apply_match label parts s) st' cs)"
      by (rule outcome_mono [OF Cons.IH]) (use st' ab in auto)
  qed
qed simp

lemma captures_from_take: "captures_from s k cs \<Longrightarrow> captures_from s k (take n cs)"
  by (induction s k cs arbitrary: n rule: captures_from.induct)
    (auto simp: take_Cons' split: option.splits)

lemma apply_rule_outcome:
  assumes "regex_contract rxe" and "budget_ok budget"
  shows "outcome transform_error
    (\<lambda>(out, n, budget'). out = replaced s parts 0
        (if global then captures_iter rxe rx s else take 1 (captures_iter rxe rx s)) \<and>
      str_len out \<le> MAX_TEXT_BYTES \<and> budget_ok budget')
    (apply_rule rxe label rx parts global s n0 budget)"
proof -
  let ?cs = "if global then captures_iter rxe rx s else take 1 (captures_iter rxe rx s)"
  let ?st = "\<lparr>run_output = [], run_copied_until = 0, run_match_count = 0,
        run_rule_matches = n0, run_budget = budget\<rparr>"
  have "captures_from s (run_copied_until ?st) ?cs"
    using assms(1) captures_from_take [of s 0 _ 1] by (simp add: regex_contract_def)
  from apply_matches_outcome [OF this] assms(2)
  have "outcome transform_error
      (\<lambda>st'. run_output st' @ drop (run_copied_until st') s = replaced s parts 0 ?cs \<and>
        run_copied_until st' \<le> length s \<and> budget_ok (run_budget st'))
      (try_fold (apply_match label parts s) ?st ?cs)"
    by simp
  then show ?thesis
    unfolding apply_rule_def Let_def
    by (rule outcome_and_then)
      (auto simp: slice_def intro!: outcome_and_then [OF append_output_outcome])
qed

section \<open>Pipelines\<close>

text \<open>The effect of a rule, without its counters and limits.\<close>

definition rule_result :: "'rx regex_engine \<Rightarrow> rstr \<Rightarrow> 'rx CompiledRule \<Rightarrow> rstr" where
  "rule_result rxe s r = replaced s (cr_replacement r) 0
    (if cr_global r then captures_iter rxe (cr_regex r) s else take 1 (captures_iter rxe (cr_regex r) s))"

abbreviation clear_matches :: "'rx CompiledRule \<Rightarrow> 'rx CompiledRule" where
  "clear_matches r \<equiv> r\<lparr>cr_matches := 0\<rparr>"

lemma rule_result_clear [simp]: "rule_result rxe s (clear_matches r) = rule_result rxe s r"
  by (simp add: rule_result_def)

lemma rule_results_clear:
  "map clear_matches rs = map clear_matches qs \<Longrightarrow>
    foldl (rule_result rxe) s rs = foldl (rule_result rxe) s qs"
proof -
  have "foldl (rule_result rxe) s xs = foldl (rule_result rxe) s (map clear_matches xs)" for xs s
    by (induction xs arbitrary: s) simp_all
  then show "map clear_matches rs = map clear_matches qs \<Longrightarrow> ?thesis" by metis
qed

definition pipe_state :: "'rx regex_engine \<Rightarrow> rstr \<Rightarrow> 'rx CompiledRule list \<Rightarrow>
    rstr \<times> 'rx CompiledRule list \<times> TransformBudget \<Rightarrow> bool" where
  "pipe_state rxe input rules st \<longleftrightarrow> (case st of (cur, ran_rules, b) \<Rightarrow>
    cur = foldl (rule_result rxe) input rules \<and> str_len cur \<le> MAX_TEXT_BYTES \<and>
    map clear_matches ran_rules = map clear_matches rules \<and> budget_ok b)"

lemma pipeline_step_outcome:
  assumes "regex_contract rxe" and "pipe_state rxe input rules st"
  shows "outcome transform_error (pipe_state rxe input (rules @ [rule])) (pipeline_step rxe st rule)"
  using assms(2) unfolding pipeline_step_def pipe_state_def Let_def
  by (cases st) (auto intro!: outcome_and_then [OF budget_charge_outcome(1)]
      outcome_and_then [OF apply_rule_outcome [OF assms(1)]] simp: rule_result_def)

lemma pipeline_apply_outcome:
  assumes "regex_contract rxe" and "budget_ok (pipe_budget p)"
  shows "outcome transform_error
    (\<lambda>(p', out). out = foldl (rule_result rxe) input (pipe_rules p) \<and>
      map clear_matches (pipe_rules p') = map clear_matches (pipe_rules p) \<and>
      budget_ok (pipe_budget p') \<and> str_len out \<le> MAX_TEXT_BYTES)
    (pipeline_apply rxe p input)"
proof (cases "str_len input \<le> MAX_TEXT_BYTES")
  case True
  have "outcome transform_error (pipe_state rxe input (pipe_rules p))
      (try_fold (pipeline_step rxe) (input, [], pipe_budget p) (pipe_rules p))"
    by (intro outcome_try_fold pipeline_step_outcome [OF assms(1)])
      (use assms(2) True in \<open>simp_all add: pipe_state_def\<close>)
  with True show ?thesis
    by (auto simp: pipeline_apply_def ensure_text_size_def pipe_state_def intro: outcome_and_then)
qed (simp add: pipeline_apply_def ensure_text_size_def transform_error_def)

lemma pipeline_new_budget: "pipeline_new rxe preset target = Inr p \<Longrightarrow> budget_ok (pipe_budget p)"
  by (auto simp: pipeline_new_def budget_ok_def)

text \<open>Without an enabled rule for the target the pipeline is empty.\<close>

lemma pipeline_new_disabled:
  assumes "list_all (\<lambda>r. \<not> (rule_enabled r \<and> rule_target r = target)) (regex_rules (advanced preset))"
    and "pipeline_new rxe preset target = Inr p"
  shows "pipe_rules p = []"
proof -
  have "rule \<in> set (regex_rules (advanced preset)) \<Longrightarrow>
      pipeline_rule rxe target rules (i, rule) = Inr rules" for rules i rule
    using assms(1) by (auto simp: pipeline_rule_def list_all_iff)
  then have "try_fold (pipeline_rule rxe target) [] (enumerate n rs) = Inr []"
    if "set rs \<subseteq> set (regex_rules (advanced preset))" for n rs
    using that by (induction rs arbitrary: n) auto
  with assms(2) show ?thesis by (auto simp: pipeline_new_def)
qed

lemma pipeline_apply_empty:
  "pipe_rules p = [] \<Longrightarrow> str_len input \<le> MAX_TEXT_BYTES \<Longrightarrow> pipeline_apply rxe p input = Inr (p, input)"
  by (simp add: pipeline_apply_def ensure_text_size_def)

end
