(* ===== verification/Prompt_Validate.thy ===== *)
theory Prompt_Validate
  imports Prompt_Regex
begin

text \<open>
  Validation of a preset (\<open>validate.rs\<close>): labels, authored text and its total, blocks, sampling
  parameters, default variables, references and regular expression rules.
\<close>

abbreviation (input) "MAX_BLOCKS \<equiv> 256 :: nat"
abbreviation (input) "MAX_FIELD_TEXT_BYTES \<equiv> 262144 :: nat"
abbreviation (input) "MAX_AUTHORED_TEXT_BYTES \<equiv> 2097152 :: nat"
abbreviation (input) "MAX_VARIABLES \<equiv> 256 :: nat"
abbreviation (input) "MAX_VARIABLE_VALUE_BYTES \<equiv> 262144 :: nat"
abbreviation (input) "MAX_REFERENCES \<equiv> 32 :: nat"
abbreviation (input) "MAX_REGEX_RULES \<equiv> 128 :: nat"
abbreviation (input) "MAX_ACTIVE_REGEX_RULES \<equiv> 64 :: nat"
abbreviation (input) "MAX_REGEX_PATTERN_BYTES \<equiv> 16384 :: nat"
abbreviation (input) "MAX_REGEX_REPLACEMENT_BYTES \<equiv> 65536 :: nat"

section \<open>Fields\<close>

definition validate_label :: "rstr \<Rightarrow> rstr \<Rightarrow> (PromptError, unit) res" where
  "validate_label field value =
    (if trim value = [] \<or> str_len value > 128 \<or> has_nul value
     then Inl (invalid field ''must be 1-128 bytes after trimming and contain no NUL'')
     else Inr ())"

definition validate_reference_id :: "rstr \<Rightarrow> rstr \<Rightarrow> bool \<Rightarrow> (PromptError, unit) res" where
  "validate_reference_id field value require_letter_first =
    (let first_is_valid = (case value of
           [] \<Rightarrow> False
         | c # _ \<Rightarrow> if require_letter_first then is_ascii_alphabetic c else is_ascii_alphanumeric c) in
     if value = [] \<or> str_len value > 64 \<or> \<not> first_is_valid \<or> contains_str (lit ''..'') value \<or>
       \<not> list_all (\<lambda>c. is_ascii_alphanumeric c \<or> c \<in> set (lit ''_.-'')) value
     then Inl (InvalidField field
       (lit ''must be a safe 1-64 byte ASCII identifier without '' @ [39] @ lit ''..'' @ [39]))
     else Inr ())"

definition add_authored :: "nat \<Rightarrow> nat \<Rightarrow> (PromptError, nat) res" where
  "add_authored sum_bytes value =
    (let too_large = PayloadTooLarge (lit ''authored prompt text'') MAX_AUTHORED_TEXT_BYTES in
     and_then (ok_or (checked_add_usize sum_bytes value) too_large) (\<lambda>sum_bytes.
     if sum_bytes > MAX_AUTHORED_TEXT_BYTES then Inl too_large else Inr sum_bytes))"

definition validate_authored_text :: "rstr \<Rightarrow> rstr \<Rightarrow> bool \<Rightarrow> nat \<Rightarrow> (PromptError, nat) res" where
  "validate_authored_text field value allow_empty authored_bytes =
    (if \<not> allow_empty \<and> trim value = [] \<or> has_nul value
     then Inl (invalid field ''must be non-empty and contain no NUL'')
     else if str_len value > MAX_FIELD_TEXT_BYTES
     then Inl (PayloadTooLarge field MAX_FIELD_TEXT_BYTES)
     else add_authored authored_bytes (str_len value))"

definition validate_authored_template :: "rstr \<Rightarrow> rstr \<Rightarrow> nat \<Rightarrow> (PromptError, nat) res" where
  "validate_authored_template field prompt authored_bytes =
    and_then (validate_authored_text field prompt False authored_bytes) (\<lambda>authored_bytes.
    and_then (validate_template_syntax prompt field) (\<lambda>_. Inr authored_bytes))"

definition block_field :: "nat \<Rightarrow> string \<Rightarrow> rstr" where
  "block_field index tail = lit ''blocks['' @ nat_str index @ lit '']'' @ lit tail"

primrec validate_content_format :: "ContentFormat \<Rightarrow> nat \<Rightarrow> nat \<Rightarrow> (PromptError, nat) res" where
  "validate_content_format Plain index authored_bytes = Inr authored_bytes"
| "validate_content_format (Custom template) index authored_bytes =
    (let field = block_field index ''.format.template'' in
     and_then (validate_authored_text field template False authored_bytes) (\<lambda>authored_bytes.
     and_then (validate_template_syntax template field) (\<lambda>variables.
     if length (filter (\<lambda>name. name = lit ''value'') variables) \<noteq> 1
     then Inl (invalid field ''custom content format must contain ${value} exactly once'')
     else Inr authored_bytes)))"

section \<open>Blocks\<close>

record block_scan =
  authored_bytes :: nat
  active_chat_blocks :: nat
  cache_blocks :: nat
  enabled_main_seen :: bool
  enabled_global_note_seen :: bool

primrec special_seen :: "RawPromptSpecial \<Rightarrow> block_scan \<Rightarrow> bool" where
  "special_seen Main st = enabled_main_seen st"
| "special_seen GlobalNote st = enabled_global_note_seen st"

primrec mark_special :: "RawPromptSpecial \<Rightarrow> block_scan \<Rightarrow> block_scan" where
  "mark_special Main st = st\<lparr>enabled_main_seen := True\<rparr>"
| "mark_special GlobalNote st = st\<lparr>enabled_global_note_seen := True\<rparr>"

definition set_authored :: "block_scan \<Rightarrow> (PromptError, nat) res \<Rightarrow> (PromptError, block_scan) res" where
  "set_authored st r = and_then r (\<lambda>n. Inr (st\<lparr>authored_bytes := n\<rparr>))"

text \<open>The \<open>match\<close> on the block in the loop of \<open>validate_preset\<close>.\<close>

primrec validate_block :: "nat \<Rightarrow> block_scan \<Rightarrow> PromptBlock \<Rightarrow> (PromptError, block_scan) res" where
  "validate_block index st (Raw name en role special prompt) =
    and_then (set_authored st
      (validate_authored_template (block_field index ''.prompt'') prompt (authored_bytes st))) (\<lambda>st.
    case special of
      None \<Rightarrow> Inr st
    | Some sp \<Rightarrow>
        if role \<noteq> PromptSystem
        then Inl (invalid (block_field index ''.role'') ''special raw prompts must use the system role'')
        else if en then
          (if special_seen sp st
           then Inl (invalid (block_field index ''.special'')
              ''an enabled raw special may appear only once'')
           else Inr (mark_special sp st))
        else Inr st)"
| "validate_block index st (FinalInsertion name en role prompt) =
    set_authored st (validate_authored_template (block_field index ''.prompt'') prompt (authored_bytes st))"
| "validate_block index st (ChatMl name en role prompt) =
    set_authored st (validate_authored_template (block_field index ''.prompt'') prompt (authored_bytes st))"
| "validate_block index st (Chat name en selection) =
    (case sel_end selection of
       Index e \<Rightarrow>
         if sel_start selection \<ge> e
         then Inl (invalid (block_field index ''.selection'')
            ''chat range must be a non-empty half-open interval [start, end)'')
         else Inr st
     | EndOfChat \<Rightarrow> Inr st)"
| "validate_block index st (Persona name en role format) =
    set_authored st (validate_content_format format index (authored_bytes st))"
| "validate_block index st (CharacterDescription name en role format) =
    set_authored st (validate_content_format format index (authored_bytes st))"
| "validate_block index st (Lorebook name en role format) =
    set_authored st (validate_content_format format index (authored_bytes st))"
| "validate_block index st (LongTermMemory name en role format) =
    set_authored st (validate_content_format format index (authored_bytes st))"
| "validate_block index st (AuthorNote name en role default_prompt format) =
    and_then (case default_prompt of
        None \<Rightarrow> Inr st
      | Some prompt \<Rightarrow> set_authored st
          (validate_authored_template (block_field index ''.defaultPrompt'') prompt (authored_bytes st)))
      (\<lambda>st. set_authored st (validate_content_format format index (authored_bytes st)))"
| "validate_block index st (CachePointBlock name en depth role) =
    (let st = st\<lparr>cache_blocks := cache_blocks st + 1\<rparr> in
     if depth = 0 \<or> depth > 16
     then Inl (invalid (block_field index ''.depth'') ''cache depth must be in 1..=16'')
     else Inr st)"

definition is_chat_block :: "PromptBlock \<Rightarrow> bool" where
  "is_chat_block block = (case block of Chat _ _ _ \<Rightarrow> True | _ \<Rightarrow> False)"

definition validate_block_step :: "block_scan \<Rightarrow> nat \<times> PromptBlock \<Rightarrow> (PromptError, block_scan) res" where
  "validate_block_step st entry =
    (let (index, block) = entry in
     and_then (validate_label (block_field index ''.name'') (block_name block)) (\<lambda>_.
     let st = (if block_enabled block \<and> is_chat_block block
               then st\<lparr>active_chat_blocks := active_chat_blocks st + 1\<rparr> else st) in
     validate_block index st block))"

section \<open>Settings\<close>

definition int_str :: "int \<Rightarrow> rstr" where
  "int_str i = (if i < 0 then 45 # nat_str (nat (- i)) else nat_str (nat i))"

text \<open>The bounds of the source are whole numbers, whose \<open>f64\<close> display is the integer.\<close>

definition validate_float ::
  "string \<Rightarrow> f64 option \<Rightarrow> int \<Rightarrow> int \<Rightarrow> bool \<Rightarrow> (PromptError, unit) res" where
  "validate_float field value lo hi exclusive_min =
    (let bad = (case value of
           None \<Rightarrow> False
         | Some (Finite x) \<Rightarrow>
             x < real_of_int lo \<or> x > real_of_int hi \<or> exclusive_min \<and> x = real_of_int lo
         | Some _ \<Rightarrow> True) in
     if bad then Inl (InvalidField (lit field)
       (lit ''must be a finite value in the supported range '' @ int_str lo @ lit ''..='' @ int_str hi))
     else Inr ())"

definition validate_sampling :: "PromptSampling \<Rightarrow> (PromptError, unit) res" where
  "validate_sampling s =
    and_then (validate_float ''temperature'' (temperature s) 0 10 False) (\<lambda>_.
    if top_k s = Some 0 then Inl (invalid (lit ''topK'') ''must be greater than zero'')
    else and_then (validate_float ''minP'' (min_p s) 0 1 False) (\<lambda>_.
    and_then (validate_float ''topA'' (top_a s) 0 1 False) (\<lambda>_.
    and_then (validate_float ''repetitionPenalty'' (repetition_penalty s) 0 2 True) (\<lambda>_.
    and_then (validate_float ''topP'' (top_p s) 0 1 False) (\<lambda>_.
    and_then (validate_float ''presencePenalty'' (presence_penalty s) (- 2) 2 False) (\<lambda>_.
    and_then (validate_float ''frequencyPenalty'' (frequency_penalty s) (- 2) 2 False) (\<lambda>_.
    if length (stop_sequences s) > 16 then Inl (TooManyItems (lit ''stopSequences'') 16)
    else try_fold (\<lambda>_ sequence.
      if sequence = [] \<or> str_len sequence > 256 \<or> has_nul sequence
      then Inl (invalid (lit ''stopSequences'') ''entries must be 1-256 bytes and contain no NUL'')
      else Inr ()) () (stop_sequences s))))))))"

definition validate_synthetic ::
  "nat \<Rightarrow> string \<times> SyntheticMessage option \<Rightarrow> (PromptError, nat) res" where
  "validate_synthetic authored entry =
    (case snd entry of
       None \<Rightarrow> Inr authored
     | Some message \<Rightarrow>
         validate_authored_template (lit (fst entry)) (syn_template message) authored)"

definition validate_default_variable ::
  "nat \<times> nat \<Rightarrow> rstr \<times> rstr \<Rightarrow> (PromptError, nat \<times> nat) res" where
  "validate_default_variable st entry =
    (let (variable_bytes, authored) = st; (name, value) = entry;
         field = lit ''defaultVariables.'' @ name in
     if \<not> validate_variable_name name \<or> name = lit ''value''
     then Inl (invalid (lit ''defaultVariables'') ''invalid or reserved variable name'')
     else if has_nul value then Inl (invalid field ''must contain no NUL'')
     else if str_len value > MAX_VARIABLE_VALUE_BYTES
     then Inl (PayloadTooLarge field MAX_VARIABLE_VALUE_BYTES)
     else and_then (ok_or (checked_add_usize variable_bytes (str_len value))
         (PayloadTooLarge (lit ''defaultVariables'') MAX_AUTHORED_TEXT_BYTES)) (\<lambda>variable_bytes.
     and_then (add_authored authored (str_len value)) (\<lambda>authored. Inr (variable_bytes, authored))))"

definition validate_template_settings :: "PromptPreset \<Rightarrow> nat \<Rightarrow> (PromptError, nat) res" where
  "validate_template_settings preset authored =
    (let s = template_settings (advanced preset) in
     and_then (try_fold validate_synthetic authored
       [(''advanced.template.preamble'', preamble s), (''advanced.template.epilogue'', epilogue s)])
       (\<lambda>authored.
     if length (default_variables s) > MAX_VARIABLES
     then Inl (TooManyItems (lit ''defaultVariables'') MAX_VARIABLES)
     else and_then (try_fold validate_default_variable (0, authored) (default_variables s))
       (\<lambda>(variable_bytes, authored).
     if variable_bytes > MAX_AUTHORED_TEXT_BYTES
     then Inl (PayloadTooLarge (lit ''defaultVariables'') MAX_AUTHORED_TEXT_BYTES)
     else Inr authored)))"

definition validate_tool :: "rstr set \<Rightarrow> ToolReference \<Rightarrow> (PromptError, rstr set) res" where
  "validate_tool ids reference =
    and_then (validate_reference_id (lit ''toolId'') (tool_id reference) True) (\<lambda>_.
    if tool_id reference \<in> ids then Inl (invalid (lit ''tools'') ''duplicate tool reference'')
    else Inr (insert (tool_id reference) ids))"

definition is_lower_hex :: "uchar \<Rightarrow> bool" where
  "is_lower_hex c \<longleftrightarrow> is_ascii_digit c \<or> 97 \<le> c \<and> c \<le> 102"

definition validate_module ::
  "(rstr \<times> rstr) set \<Rightarrow> ModuleReference \<Rightarrow> (PromptError, (rstr \<times> rstr) set) res" where
  "validate_module ids reference =
    and_then (validate_reference_id (lit ''moduleId'') (module_id reference) True) (\<lambda>_.
    and_then (validate_reference_id (lit ''module.version'') (module_version reference) False) (\<lambda>_.
    if str_len (digest_sha256 reference) \<noteq> 64 \<or> \<not> list_all is_lower_hex (digest_sha256 reference)
    then Inl (invalid (lit ''module.digestSha256'') ''must be 64 lowercase hexadecimal characters'')
    else let key = (module_id reference, module_version reference) in
      if key \<in> ids then Inl (invalid (lit ''modules'') ''duplicate module reference'')
      else Inr (insert key ids)))"

definition validate_references :: "PromptPreset \<Rightarrow> (PromptError, unit) res" where
  "validate_references preset =
    (let adv = advanced preset in
     if length (tools adv) > MAX_REFERENCES then Inl (TooManyItems (lit ''tools'') MAX_REFERENCES)
     else if length (modules adv) > MAX_REFERENCES
     then Inl (TooManyItems (lit ''modules'') MAX_REFERENCES)
     else and_then (try_fold validate_tool {} (tools adv)) (\<lambda>_.
       and_then (try_fold validate_module {} (modules adv)) (\<lambda>_. Inr ())))"

definition validate_regex_rule ::
  "rstr set \<times> nat \<Rightarrow> nat \<times> RegexRule \<Rightarrow> (PromptError, rstr set \<times> nat) res" where
  "validate_regex_rule st entry =
    (let (names, authored) = st; (index, rule) = entry;
         field = (\<lambda>tail. lit ''regex['' @ nat_str index @ lit '']'' @ lit tail) in
     and_then (validate_label (field ''.name'') (rule_name rule)) (\<lambda>_.
     if rule_name rule \<in> names then Inl (invalid (lit ''regex'') ''duplicate rule name'')
     else if rule_pattern rule = [] \<or> str_len (rule_pattern rule) > MAX_REGEX_PATTERN_BYTES
     then Inl (invalid (field ''.pattern'') ''must be 1-16384 bytes'')
     else if str_len (rule_replacement rule) > MAX_REGEX_REPLACEMENT_BYTES
     then Inl (PayloadTooLarge (field ''.replacement'') MAX_REGEX_REPLACEMENT_BYTES)
     else and_then (add_authored authored (str_len (rule_pattern rule))) (\<lambda>authored.
       and_then (add_authored authored (str_len (rule_replacement rule))) (\<lambda>authored.
       Inr (insert (rule_name rule) names, authored)))))"

definition validate_regex_rules ::
  "'rx regex_engine \<Rightarrow> PromptPreset \<Rightarrow> nat \<Rightarrow> (PromptError, nat) res" where
  "validate_regex_rules rxe preset authored =
    (let rules = regex_rules (advanced preset) in
     if length rules > MAX_REGEX_RULES then Inl (TooManyItems (lit ''regex'') MAX_REGEX_RULES)
     else if length (filter rule_enabled rules) > MAX_ACTIVE_REGEX_RULES
     then Inl (TooManyItems (lit ''active regex rules'') MAX_ACTIVE_REGEX_RULES)
     else and_then (try_fold validate_regex_rule ({}, authored) (enumerate 0 rules)) (\<lambda>(_, authored).
       and_then (validate_regex_contract rxe preset) (\<lambda>_. Inr authored)))"

section \<open>Presets\<close>

definition validate_preset :: "'rx regex_engine \<Rightarrow> PromptPreset \<Rightarrow> (PromptError, unit) res" where
  "validate_preset rxe preset =
    and_then (validate_label (lit ''name'') (preset_name preset)) (\<lambda>_.
    if length (blocks preset) > MAX_BLOCKS then Inl (TooManyItems (lit ''blocks'') MAX_BLOCKS)
    else if blocks preset = [] then Inl (invalid (lit ''blocks'') ''at least one block is required'')
    else and_then (try_fold validate_block_step
      \<lparr>authored_bytes = 0, active_chat_blocks = 0, cache_blocks = 0, enabled_main_seen = False,
       enabled_global_note_seen = False\<rparr> (enumerate 0 (blocks preset))) (\<lambda>st.
    if active_chat_blocks st > 1 then Inl (TooManyItems (lit ''active chat blocks'') 1)
    else if cache_blocks st > 16 then Inl (TooManyItems (lit ''cache-point blocks'') 16)
    else and_then (validate_sampling (sampling preset)) (\<lambda>_.
    and_then (validate_template_settings preset (authored_bytes st)) (\<lambda>authored.
    and_then (validate_references preset) (\<lambda>_.
    and_then (validate_regex_rules rxe preset authored) (\<lambda>authored.
    if authored > MAX_AUTHORED_TEXT_BYTES
    then Inl (PayloadTooLarge (lit ''authored prompt text'') MAX_AUTHORED_TEXT_BYTES)
    else Inr ()))))))"

end
