(* ===== verification/Prompt_Compile.thy ===== *)
theory Prompt_Compile
  imports Prompt_Validate
begin

text \<open>
  Compilation of a preset and its runtime input into provider messages (\<open>compile.rs\<close>): runtime
  checks, the message accumulator, the blocks, cache points, request transforms, and the capacity
  checks and sampling overlay that precede a provider request. \<open>compile_prompt_request\<close> itself, which
  awaits the token counter and calls the provider adapter, is not modelled.
\<close>

abbreviation (input) "MAX_COMPILED_MESSAGES \<equiv> 10000 :: nat"
abbreviation (input) "MAX_COMPILED_MESSAGE_BYTES \<equiv> 4194304 :: nat"
abbreviation (input) "MAX_AVAILABLE_REFERENCES \<equiv> 256 :: nat"
abbreviation (input) "MAX_PERSONA_INPUT_BYTES \<equiv> 65536 :: nat"
abbreviation (input) "MAX_LONG_TERM_MEMORY_INPUT_BYTES \<equiv> 1048576 :: nat"

section \<open>Data\<close>

datatype PromptBindingMode = Classic | ModelPreset bool

record PromptCompileInput =
  history :: "ChatMessage list"
  persona :: rstr
  character_description :: rstr
  author_note :: "rstr option"
  lorebook :: rstr
  long_term_memory :: rstr
  final_insertion :: rstr
  variables :: "(rstr, rstr) btree"
  available_tool_ids :: "rstr list"
  available_modules :: "ModuleReference list"
  binding_mode :: PromptBindingMode

record ModelCapacity =
  max_context_tokens :: nat
  capacity_output_tokens :: nat

record TokenCount =
  approximate :: nat
  exact :: "nat option"

datatype MessageSource =
    Preamble
  | Block nat PromptBlockKind
  | History nat nat
  | Epilogue

record CompiledPrompt =
  messages :: "ChatMessage list"
  source_map :: "MessageSource list"
  cache_points :: "CachePoint list"
  active_tools :: "ToolReference list"
  active_modules :: "ModuleReference list"
  prompt_sampling :: "PromptSampling option"
  token_count :: TokenCount

record PendingCachePoint =
  pending_block_index :: nat
  pending_depth :: nat
  pending_role :: PromptRole

record CompileState =
  st_messages :: "ChatMessage list"
  st_source_map :: "MessageSource list"
  st_cache_points :: "CachePoint list"
  st_pending :: "PendingCachePoint list"
  st_message_bytes :: nat
  conversation_started :: bool

definition CompileState_default :: CompileState where
  "CompileState_default = \<lparr>st_messages = [], st_source_map = [], st_cache_points = [],
    st_pending = [], st_message_bytes = 0, conversation_started = False\<rparr>"

section \<open>Runtime checks\<close>

definition validate_message_content :: "rstr \<Rightarrow> (PromptError, unit) res" where
  "validate_message_content content =
    (let field = lit ''compiled message.content'' in
     if trim content = [] then Inl (invalid field ''must not be empty'')
     else if has_nul content then Inl (invalid field ''must not contain NUL'')
     else if str_len content > MAX_COMPILED_MESSAGE_BYTES
     then Inl (PayloadTooLarge field MAX_COMPILED_MESSAGE_BYTES)
     else Inr ())"

definition validate_runtime_variable :: "nat \<Rightarrow> rstr \<times> rstr \<Rightarrow> (PromptError, nat) res" where
  "validate_runtime_variable variable_bytes entry =
    (let (name, value) = entry; all_field = lit ''runtime variables'';
         field = lit ''runtime variables.'' @ name;
         too_large = PayloadTooLarge all_field MAX_AUTHORED_TEXT_BYTES in
     if \<not> validate_variable_name name \<or> name = lit ''value''
     then Inl (invalid all_field ''invalid or reserved variable name'')
     else if has_nul value then Inl (invalid field ''must contain no NUL'')
     else if str_len value > MAX_VARIABLE_VALUE_BYTES
     then Inl (PayloadTooLarge field MAX_VARIABLE_VALUE_BYTES)
     else and_then (ok_or (checked_add_usize variable_bytes (str_len value)) too_large) (\<lambda>n.
       if n > MAX_AUTHORED_TEXT_BYTES then Inl too_large else Inr n))"

definition validate_runtime_input :: "PromptCompileInput \<Rightarrow> (PromptError, unit) res" where
  "validate_runtime_input input =
    (if str_len (persona input) > MAX_PERSONA_INPUT_BYTES
     then Inl (PayloadTooLarge (lit ''persona'') MAX_PERSONA_INPUT_BYTES)
     else if has_nul (persona input) then Inl (invalid (lit ''persona'') ''must contain no NUL'')
     else if str_len (long_term_memory input) > MAX_LONG_TERM_MEMORY_INPUT_BYTES
     then Inl (PayloadTooLarge (lit ''longTermMemory'') MAX_LONG_TERM_MEMORY_INPUT_BYTES)
     else if has_nul (long_term_memory input)
     then Inl (invalid (lit ''longTermMemory'') ''must contain no NUL'')
     else if length (variables input) > MAX_VARIABLES
     then Inl (TooManyItems (lit ''runtime variables'') MAX_VARIABLES)
     else and_then (try_fold validate_runtime_variable 0 (variables input)) (\<lambda>_.
     if length (available_tool_ids input) > MAX_AVAILABLE_REFERENCES
     then Inl (TooManyItems (lit ''available tool references'') MAX_AVAILABLE_REFERENCES)
     else if length (available_modules input) > MAX_AVAILABLE_REFERENCES
     then Inl (TooManyItems (lit ''available module references'') MAX_AVAILABLE_REFERENCES)
     else Inr ()))"

definition module_available :: "PromptCompileInput \<Rightarrow> ModuleReference \<Rightarrow> bool" where
  "module_available input reference =
    list_ex (\<lambda>available. module_id available = module_id reference \<and>
      module_version available = module_version reference \<and>
      digest_sha256 available = digest_sha256 reference \<and> module_enabled available)
      (available_modules input)"

definition validate_runtime_references ::
  "PromptPreset \<Rightarrow> PromptCompileInput \<Rightarrow> (PromptError, unit) res" where
  "validate_runtime_references preset input =
    and_then (try_fold (\<lambda>_ reference.
      if tool_id reference \<notin> set (available_tool_ids input)
      then Inl (InvalidField (lit ''advanced.tools'')
        (lit ''active tool is unavailable: '' @ tool_id reference))
      else Inr ()) () (filter tool_enabled (tools (advanced preset)))) (\<lambda>_.
    try_fold (\<lambda>_ reference.
      if \<not> module_available input reference
      then Inl (InvalidField (lit ''advanced.modules'')
        (lit ''active pinned module is unavailable: '' @ module_id reference @ lit ''@'' @
         module_version reference))
      else Inr ()) () (filter module_enabled (modules (advanced preset))))"

definition merged_variables ::
  "PromptPreset \<Rightarrow> PromptCompileInput \<Rightarrow> (PromptError, (rstr, rstr) btree) res" where
  "merged_variables preset input =
    (let vars = bt_extend (default_variables (template_settings (advanced preset))) (variables input);
         too_large = PayloadTooLarge (lit ''merged variables'') MAX_AUTHORED_TEXT_BYTES in
     if length vars > MAX_VARIABLES then Inl (TooManyItems (lit ''merged variables'') MAX_VARIABLES)
     else and_then (try_fold (\<lambda>n value. ok_or (checked_add_usize n (str_len value)) too_large)
       0 (map snd vars)) (\<lambda>total_bytes.
     if total_bytes > MAX_AUTHORED_TEXT_BYTES then Inl too_large else Inr vars))"

section \<open>The message accumulator\<close>

definition CompileState_push ::
  "CompileState \<Rightarrow> ChatMessage \<Rightarrow> MessageSource \<Rightarrow> (PromptError, CompileState) res" where
  "CompileState_push self message source =
    (let field = lit ''compiled messages'';
         too_large = PayloadTooLarge field MAX_COMPILED_MESSAGE_BYTES in
     and_then (validate_message_content (msg_content message)) (\<lambda>_.
     if length (st_messages self) \<ge> MAX_COMPILED_MESSAGES
     then Inl (TooManyItems field MAX_COMPILED_MESSAGES)
     else if msg_role message = System \<and> conversation_started self
     then Inl (invalid (lit ''compiled messages.role'') ''system messages must precede the conversation'')
     else and_then (ok_or (checked_add_usize (st_message_bytes self) (str_len (msg_content message)))
         too_large) (\<lambda>n.
     if n > MAX_COMPILED_MESSAGE_BYTES then Inl too_large
     else Inr (self\<lparr>conversation_started := conversation_started self \<or> msg_role message \<noteq> System,
       st_message_bytes := n, st_messages := st_messages self @ [message],
       st_source_map := st_source_map self @ [source]\<rparr>))))"

definition push_text ::
  "CompileState \<Rightarrow> PromptRole \<Rightarrow> rstr \<Rightarrow> MessageSource \<Rightarrow> (PromptError, CompileState) res" where
  "push_text self role content source =
    CompileState_push self \<lparr>msg_role = role_of role, msg_content = content\<rparr> source"

definition push_dynamic_content ::
  "CompileState \<Rightarrow> PromptRole \<Rightarrow> ContentFormat \<Rightarrow> rstr \<Rightarrow> (rstr, rstr) btree \<Rightarrow> MessageSource \<Rightarrow>
    (PromptError, CompileState) res" where
  "push_dynamic_content state role format source_value vars source =
    (if source_value = [] then Inr state
     else and_then (render_content format source_value vars) (\<lambda>content.
       push_text state role content source))"

definition resolve_cache_point ::
  "ChatMessage list \<Rightarrow> nat set \<times> CachePoint list \<Rightarrow> PendingCachePoint \<Rightarrow>
    (PromptError, nat set \<times> CachePoint list) res" where
  "resolve_cache_point msgs st pending =
    (let (targets, points) = st; index = pending_block_index pending; depth = pending_depth pending in
     if depth = 0 \<or> depth > 16 \<or> depth > length msgs
     then Inl (InvalidField (block_field index ''.depth'')
       (lit ''cache depth must be in 1..=16 and address one of the '' @ nat_str (length msgs) @
        lit '' final messages''))
     else let message_index = length msgs - depth in
       if message_index \<in> targets
       then Inl (invalid (block_field index ''.depth'')
         ''multiple cache points must not address the same final message'')
       else and_then (index_or Panicked msgs message_index) (\<lambda>message.
         if msg_role message \<noteq> role_of (pending_role pending)
         then Inl (invalid (block_field index ''.role'')
           ''cache-point role must match the addressed final message'')
         else Inr (insert message_index targets,
           points @ [\<lparr>cp_block_index = index, cp_message_index = message_index, cp_depth = depth,
             cp_role = pending_role pending\<rparr>])))"

definition resolve_cache_points :: "CompileState \<Rightarrow> (PromptError, CompileState) res" where
  "resolve_cache_points self =
    and_then (try_fold (resolve_cache_point (st_messages self)) ({}, st_cache_points self)
      (st_pending self)) (\<lambda>(_, points). Inr (self\<lparr>st_cache_points := points\<rparr>))"

section \<open>Blocks\<close>

record block_state =
  bs_state :: CompileState
  main_seen :: bool
  global_note_seen :: bool

definition lift_state ::
  "block_state \<Rightarrow> (PromptError, CompileState) res \<Rightarrow> (PromptError, block_state) res" where
  "lift_state bs r = and_then r (\<lambda>st. Inr (bs\<lparr>bs_state := st\<rparr>))"

definition check_special ::
  "nat \<Rightarrow> PromptRole \<Rightarrow> RawPromptSpecial option \<Rightarrow> block_state \<Rightarrow> (PromptError, block_state) res" where
  "check_special block_index role special bs =
    (case special of
       None \<Rightarrow> Inr bs
     | Some sp \<Rightarrow>
         if role \<noteq> PromptSystem
         then Inl (invalid (block_field block_index ''.role'') ''special raw prompts must use the system role'')
         else if (case sp of Main \<Rightarrow> main_seen bs | GlobalNote \<Rightarrow> global_note_seen bs)
         then Inl (invalid (block_field block_index ''.special'') ''an enabled raw special may appear only once'')
         else Inr (case sp of Main \<Rightarrow> bs\<lparr>main_seen := True\<rparr> | GlobalNote \<Rightarrow> bs\<lparr>global_note_seen := True\<rparr>))"

definition push_history ::
  "PromptCompileInput \<Rightarrow> nat \<Rightarrow> CompileState \<Rightarrow> nat \<Rightarrow> (PromptError, CompileState) res" where
  "push_history input block_index st history_index =
    and_then (index_or Panicked (history input) history_index) (\<lambda>message.
    CompileState_push st message (History block_index history_index))"

definition compile_chat ::
  "PromptCompileInput \<Rightarrow> nat \<Rightarrow> ChatSelection \<Rightarrow> CompileState \<Rightarrow> (PromptError, CompileState) res" where
  "compile_chat input block_index selection st =
    (let finish = (case sel_end selection of Index e \<Rightarrow> e | EndOfChat \<Rightarrow> length (history input)) in
     if sel_start selection \<ge> finish \<or> finish > length (history input)
     then Inl (InvalidField (block_field block_index ''.selection'')
       (lit ''history range must be a non-empty half-open interval within 0..'' @
        nat_str (length (history input))))
     else try_fold (push_history input block_index) st [sel_start selection..<finish])"

text \<open>The \<open>match\<close> on an enabled block in the loop of \<open>compile_prompt\<close>.\<close>

primrec compile_block ::
  "PromptCompileInput \<Rightarrow> (rstr, rstr) btree \<Rightarrow> nat \<Rightarrow> block_state \<Rightarrow> PromptBlock \<Rightarrow>
    (PromptError, block_state) res" where
  "compile_block input vars i bs (Raw name en role special prompt) =
    and_then (check_special i role special bs) (\<lambda>bs.
    and_then (render_template prompt vars) (\<lambda>content.
    lift_state bs (push_text (bs_state bs) role content (Block i RawKind))))"
| "compile_block input vars i bs (Chat name en selection) =
    lift_state bs (compile_chat input i selection (bs_state bs))"
| "compile_block input vars i bs (Persona name en role format) =
    lift_state bs (push_dynamic_content (bs_state bs) role format (persona input) vars
      (Block i PersonaKind))"
| "compile_block input vars i bs (CharacterDescription name en role format) =
    lift_state bs (push_dynamic_content (bs_state bs) role format (character_description input) vars
      (Block i CharacterDescriptionKind))"
| "compile_block input vars i bs (AuthorNote name en role default_prompt format) =
    and_then (case author_note input of
        Some value \<Rightarrow> Inr value
      | None \<Rightarrow> (case default_prompt of
            Some prompt \<Rightarrow> render_template prompt vars
          | None \<Rightarrow> Inr [])) (\<lambda>value.
    lift_state bs (push_dynamic_content (bs_state bs) role format value vars (Block i AuthorNoteKind)))"
| "compile_block input vars i bs (Lorebook name en role format) =
    lift_state bs (push_dynamic_content (bs_state bs) role format (lorebook input) vars
      (Block i LorebookKind))"
| "compile_block input vars i bs (LongTermMemory name en role format) =
    lift_state bs (push_dynamic_content (bs_state bs) role format (long_term_memory input) vars
      (Block i LongTermMemoryKind))"
| "compile_block input vars i bs (FinalInsertion name en role prompt) =
    and_then (if final_insertion input = [] then render_template prompt vars
              else Inr (final_insertion input)) (\<lambda>content.
    lift_state bs (push_text (bs_state bs) role content (Block i FinalInsertionKind)))"
| "compile_block input vars i bs (ChatMl name en role prompt) =
    and_then (render_template prompt vars) (\<lambda>content.
    lift_state bs (push_text (bs_state bs) role content (Block i ChatMlKind)))"
| "compile_block input vars i bs (CachePointBlock name en depth role) =
    Inr (bs\<lparr>bs_state := (bs_state bs)\<lparr>st_pending := st_pending (bs_state bs) @
      [\<lparr>pending_block_index = i, pending_depth = depth, pending_role = role\<rparr>]\<rparr>\<rparr>)"

definition compile_block_step ::
  "PromptCompileInput \<Rightarrow> (rstr, rstr) btree \<Rightarrow> block_state \<Rightarrow> nat \<times> PromptBlock \<Rightarrow>
    (PromptError, block_state) res" where
  "compile_block_step input vars bs entry =
    (let (block_index, block) = entry in
     if \<not> block_enabled block then Inr bs else compile_block input vars block_index bs block)"

definition push_synthetic ::
  "(rstr, rstr) btree \<Rightarrow> SyntheticMessage option \<Rightarrow> MessageSource \<Rightarrow> CompileState \<Rightarrow>
    (PromptError, CompileState) res" where
  "push_synthetic vars message source st =
    (case message of
       None \<Rightarrow> Inr st
     | Some m \<Rightarrow> and_then (render_template (syn_template m) vars) (\<lambda>content.
         push_text st (syn_role m) content source))"

section \<open>Request transforms\<close>

definition transform_message ::
  "'rx regex_engine \<Rightarrow> 'rx CompiledTransformPipeline \<times> ChatMessage list \<times> nat \<Rightarrow> ChatMessage \<Rightarrow>
    (PromptError, 'rx CompiledTransformPipeline \<times> ChatMessage list \<times> nat) res" where
  "transform_message rxe st message =
    (let (pipe, out, transformed_bytes) = st;
         too_large = PayloadTooLarge (lit ''compiled messages'') MAX_COMPILED_MESSAGE_BYTES in
     and_then (pipeline_apply rxe pipe (msg_content message)) (\<lambda>(pipe, content).
     and_then (validate_message_content content) (\<lambda>_.
     and_then (ok_or (checked_add_usize transformed_bytes (str_len content)) too_large) (\<lambda>n.
     if n > MAX_COMPILED_MESSAGE_BYTES then Inl too_large
     else Inr (pipe, out @ [message\<lparr>msg_content := content\<rparr>], n)))))"

definition transform_messages ::
  "'rx regex_engine \<Rightarrow> PromptPreset \<Rightarrow> ChatMessage list \<Rightarrow> (PromptError, ChatMessage list) res" where
  "transform_messages rxe preset msgs =
    and_then (pipeline_new rxe preset Request) (\<lambda>pipe.
    and_then (try_fold (transform_message rxe) (pipe, [], 0) msgs) (\<lambda>(_, out, _). Inr out))"

definition approximate_tokens :: "ChatMessage list \<Rightarrow> TokenCount" where
  "approximate_tokens msgs =
    (let characters = (\<Sum>m\<leftarrow>msgs. length (msg_content m)) in
     \<lparr>approximate = (characters + 3) div 4, exact = None\<rparr>)"

definition bound_sampling :: "PromptBindingMode \<Rightarrow> PromptSampling \<Rightarrow> PromptSampling option" where
  "bound_sampling mode s =
    (case mode of Classic \<Rightarrow> Some s | ModelPreset True \<Rightarrow> Some s | ModelPreset False \<Rightarrow> None)"

section \<open>Compilation\<close>

text \<open>The messages of a preset before the request transforms, with cache points resolved.\<close>

definition collect_messages ::
  "PromptPreset \<Rightarrow> PromptCompileInput \<Rightarrow> (rstr, rstr) btree \<Rightarrow> (PromptError, CompileState) res" where
  "collect_messages preset input vars =
    (let ts = template_settings (advanced preset) in
     and_then (push_synthetic vars (preamble ts) Preamble CompileState_default) (\<lambda>st.
     and_then (try_fold (compile_block_step input vars)
       \<lparr>bs_state = st, main_seen = False, global_note_seen = False\<rparr> (enumerate 0 (blocks preset))) (\<lambda>bs.
     and_then (push_synthetic vars (epilogue ts) Epilogue (bs_state bs)) (\<lambda>st.
     if st_messages st = []
     then Inl (invalid (lit ''compiled messages'') ''at least one message is required'')
     else resolve_cache_points st))))"

definition compile_prompt ::
  "'rx regex_engine \<Rightarrow> PromptPreset \<Rightarrow> PromptCompileInput \<Rightarrow> (PromptError, CompiledPrompt) res" where
  "compile_prompt rxe preset input =
    and_then (validate_preset rxe preset) (\<lambda>_.
    and_then (validate_runtime_input input) (\<lambda>_.
    and_then (validate_runtime_references preset input) (\<lambda>_.
    and_then (merged_variables preset input) (\<lambda>vars.
    and_then (collect_messages preset input vars) (\<lambda>st.
    and_then (transform_messages rxe preset (st_messages st)) (\<lambda>msgs.
    Inr \<lparr>messages = msgs, source_map = st_source_map st, cache_points = st_cache_points st,
         active_tools = filter tool_enabled (tools (advanced preset)),
         active_modules = filter module_enabled (modules (advanced preset)),
         prompt_sampling = bound_sampling (binding_mode input) (sampling preset),
         token_count = approximate_tokens msgs\<rparr>))))))"

section \<open>Capacity and sampling overlay\<close>

definition validate_capacity :: "ModelCapacity \<Rightarrow> (PromptError, unit) res" where
  "validate_capacity capacity =
    (if max_context_tokens capacity = 0
     then Inl (invalid (lit ''model.capacity.maxContextTokens'') ''must be greater than zero'')
     else if capacity_output_tokens capacity = 0 \<or>
       capacity_output_tokens capacity > max_context_tokens capacity
     then Inl (invalid (lit ''model.capacity.maxOutputTokens'')
       ''must be greater than zero and no larger than max context tokens'')
     else Inr ())"

definition validate_context_capacity :: "nat \<Rightarrow> ModelCapacity \<Rightarrow> (PromptError, unit) res" where
  "validate_context_capacity input_tokens capacity =
    and_then (ok_or (checked_add_usize input_tokens (capacity_output_tokens capacity))
        (invalid (lit ''model.capacity'') ''input plus output token count overflowed'')) (\<lambda>required.
    if required > max_context_tokens capacity
    then Inl (InvalidField (lit ''model.capacity.maxContextTokens'')
      (lit ''exact input ('' @ nat_str input_tokens @ lit '') plus max output ('' @
       nat_str (capacity_output_tokens capacity) @ lit '') exceeds context capacity ('' @
       nat_str (max_context_tokens capacity) @ lit '')''))
    else Inr ())"

text \<open>The sampling fields of the provider's \<open>GenerationOptions\<close>.\<close>

record GenerationOptions =
  gen_temperature :: "f64 option"
  gen_max_output_tokens :: "nat option"
  gen_top_p :: "f64 option"
  gen_top_k :: "nat option"
  gen_presence_penalty :: "f64 option"
  gen_frequency_penalty :: "f64 option"
  gen_stop_sequences :: "rstr list"
  gen_seed :: "int option"

definition or_else :: "'a option \<Rightarrow> 'a option \<Rightarrow> 'a option" where
  "or_else new old = (case new of None \<Rightarrow> old | Some v \<Rightarrow> Some v)"

definition overlay_sampling :: "GenerationOptions \<Rightarrow> PromptSampling \<Rightarrow> GenerationOptions" where
  "overlay_sampling generation s =
    generation\<lparr>gen_temperature := or_else (temperature s) (gen_temperature generation),
      gen_top_k := or_else (top_k s) (gen_top_k generation),
      gen_top_p := or_else (top_p s) (gen_top_p generation),
      gen_presence_penalty := or_else (presence_penalty s) (gen_presence_penalty generation),
      gen_frequency_penalty := or_else (frequency_penalty s) (gen_frequency_penalty generation),
      gen_stop_sequences := (if stop_sequences s \<noteq> [] then stop_sequences s
        else gen_stop_sequences generation),
      gen_seed := or_else (sampling_seed s) (gen_seed generation)\<rparr>"

end
