(* ===== verification/Prompt_Correct.thy ===== *)
theory Prompt_Correct
  imports Prompt_Compile
begin

text \<open>
  Correctness of prompt compilation. The reference is a pure description of the messages a preset
  and its input denote, block by block; the accumulator, the cache points and the request transforms
  are shown to compute it or to fail with a declared error, never by a panic.
\<close>

abbreviation no_panic :: "PromptError \<Rightarrow> bool" where
  "no_panic e \<equiv> e \<noteq> Panicked"

section \<open>The intended messages\<close>

definition rendered :: "(rstr, rstr) btree \<Rightarrow> rstr \<Rightarrow> rstr" where
  "rendered vars template = (case render_template template vars of Inl _ \<Rightarrow> [] | Inr s \<Rightarrow> s)"

definition formatted :: "(rstr, rstr) btree \<Rightarrow> ContentFormat \<Rightarrow> rstr \<Rightarrow> rstr" where
  "formatted vars format value = (case render_content format value vars of Inl _ \<Rightarrow> [] | Inr s \<Rightarrow> s)"

definition text_message :: "PromptRole \<Rightarrow> rstr \<Rightarrow> ChatMessage" where
  "text_message role text = \<lparr>msg_role = role_of role, msg_content = text\<rparr>"

type_synonym sourced = "ChatMessage \<times> MessageSource"

definition dynamic_output ::
  "(rstr, rstr) btree \<Rightarrow> PromptRole \<Rightarrow> ContentFormat \<Rightarrow> rstr \<Rightarrow> MessageSource \<Rightarrow> sourced list" where
  "dynamic_output vars role format value src =
    (if value = [] then [] else [(text_message role (formatted vars format value), src)])"

primrec block_output :: "PromptCompileInput \<Rightarrow> (rstr, rstr) btree \<Rightarrow> nat \<Rightarrow> PromptBlock \<Rightarrow> sourced list" where
  "block_output input vars i (Raw name en role special prompt) =
    [(text_message role (rendered vars prompt), Block i RawKind)]"
| "block_output input vars i (Chat name en selection) =
    map (\<lambda>h. (history input ! h, History i h))
      [sel_start selection..<(case sel_end selection of Index e \<Rightarrow> e | EndOfChat \<Rightarrow> length (history input))]"
| "block_output input vars i (Persona name en role format) =
    dynamic_output vars role format (persona input) (Block i PersonaKind)"
| "block_output input vars i (CharacterDescription name en role format) =
    dynamic_output vars role format (character_description input) (Block i CharacterDescriptionKind)"
| "block_output input vars i (AuthorNote name en role default_prompt format) =
    dynamic_output vars role format
      (case author_note input of Some note \<Rightarrow> note
        | None \<Rightarrow> (case default_prompt of Some prompt \<Rightarrow> rendered vars prompt | None \<Rightarrow> []))
      (Block i AuthorNoteKind)"
| "block_output input vars i (Lorebook name en role format) =
    dynamic_output vars role format (lorebook input) (Block i LorebookKind)"
| "block_output input vars i (LongTermMemory name en role format) =
    dynamic_output vars role format (long_term_memory input) (Block i LongTermMemoryKind)"
| "block_output input vars i (FinalInsertion name en role prompt) =
    [(text_message role (if final_insertion input = [] then rendered vars prompt else final_insertion input),
      Block i FinalInsertionKind)]"
| "block_output input vars i (ChatMl name en role prompt) =
    [(text_message role (rendered vars prompt), Block i ChatMlKind)]"
| "block_output input vars i (CachePointBlock name en depth role) = []"

fun block_pending :: "nat \<Rightarrow> PromptBlock \<Rightarrow> PendingCachePoint list" where
  "block_pending i (CachePointBlock name en depth role) =
    [\<lparr>pending_block_index = i, pending_depth = depth, pending_role = role\<rparr>]"
| "block_pending i _ = []"

definition enabled_blocks :: "PromptPreset \<Rightarrow> (nat \<times> PromptBlock) list" where
  "enabled_blocks preset = filter (\<lambda>(i, b). block_enabled b) (enumerate 0 (blocks preset))"

definition synthetic_output ::
  "(rstr, rstr) btree \<Rightarrow> SyntheticMessage option \<Rightarrow> MessageSource \<Rightarrow> sourced list" where
  "synthetic_output vars m src =
    (case m of None \<Rightarrow> [] | Some m \<Rightarrow> [(text_message (syn_role m) (rendered vars (syn_template m)), src)])"

definition intended_messages ::
  "PromptPreset \<Rightarrow> PromptCompileInput \<Rightarrow> (rstr, rstr) btree \<Rightarrow> sourced list" where
  "intended_messages preset input vars =
    (let ts = template_settings (advanced preset) in
     synthetic_output vars (preamble ts) Preamble @
     concat (map (\<lambda>(i, b). block_output input vars i b) (enabled_blocks preset)) @
     synthetic_output vars (epilogue ts) Epilogue)"

definition intended_cache_points :: "PromptPreset \<Rightarrow> PendingCachePoint list" where
  "intended_cache_points preset = concat (map (\<lambda>(i, b). block_pending i b) (enabled_blocks preset))"

section \<open>Rendering does not panic\<close>

lemma render_from_no_panic: "outcome no_panic (\<lambda>_. True) (render_from lookup out pending s)"
proof (induction lookup out pending s rule: render_from.induct)
  case (2 lookup out pending c cs)
  then show ?case
    by (auto simp: append_rendered_eq ok_or_def split: option.split)
qed (simp add: append_rendered_eq)

lemma render_template_outcome:
  "outcome no_panic (\<lambda>s. s = rendered vars t) (render_template t vars)"
  using render_from_no_panic [of "lookup_variable vars None" "[]" "[]" t]
  by (cases "render_template t vars")
    (auto simp: rendered_def render_template_def render_with_reserved_def)

lemma render_content_outcome:
  "outcome no_panic (\<lambda>s. s = formatted vars f v) (render_content f v vars)"
proof (cases f)
  case (Custom t)
  then show ?thesis
    using render_from_no_panic [of "lookup_variable vars (Some (lit ''value'', v))" "[]" "[]" t]
    by (cases "render_content f v vars") (auto simp: formatted_def render_with_reserved_def)
qed (simp add: formatted_def)

section \<open>The accumulator\<close>

definition content_ok :: "rstr \<Rightarrow> bool" where
  "content_ok s \<longleftrightarrow> trim s \<noteq> [] \<and> \<not> has_nul s"

definition message_bytes :: "ChatMessage list \<Rightarrow> nat" where
  "message_bytes ms = (\<Sum>m\<leftarrow>ms. str_len (msg_content m))"

text \<open>What a provider may rely on: usable contents, bounded sizes, and system messages first.\<close>

definition messages_ok :: "ChatMessage list \<Rightarrow> bool" where
  "messages_ok ms \<longleftrightarrow>
    length ms \<le> MAX_COMPILED_MESSAGES \<and> message_bytes ms \<le> MAX_COMPILED_MESSAGE_BYTES \<and>
    list_all (\<lambda>m. content_ok (msg_content m)) ms \<and>
    sorted_wrt (\<lambda>a b. msg_role b = System \<longrightarrow> msg_role a = System) ms"

definition state_inv :: "sourced list \<Rightarrow> CompileState \<Rightarrow> bool" where
  "state_inv out st \<longleftrightarrow> st_messages st = map fst out \<and> st_source_map st = map snd out \<and>
    st_cache_points st = [] \<and> messages_ok (st_messages st) \<and>
    st_message_bytes st = message_bytes (st_messages st) \<and>
    (conversation_started st \<longleftrightarrow> (\<exists>m\<in>set (st_messages st). msg_role m \<noteq> System))"

definition state_step :: "sourced list \<Rightarrow> PendingCachePoint list \<Rightarrow> CompileState \<Rightarrow> bool" where
  "state_step out pending st \<longleftrightarrow> state_inv out st \<and> st_pending st = pending"

lemma validate_message_content_outcome:
  "outcome no_panic (\<lambda>_. content_ok s \<and> str_len s \<le> MAX_COMPILED_MESSAGE_BYTES) (validate_message_content s)"
  by (simp add: validate_message_content_def content_ok_def Let_def)

lemma message_bytes_simps [simp]:
  "message_bytes [] = 0" "message_bytes (ms @ [m]) = message_bytes ms + str_len (msg_content m)"
  by (simp_all add: message_bytes_def)

lemma CompileState_push_outcome:
  assumes "state_step out pending st"
  shows "outcome no_panic (state_step (out @ [(m, src)]) pending) (CompileState_push st m src)"
  unfolding CompileState_push_def Let_def
  by (rule outcome_and_then [OF validate_message_content_outcome])
    (use assms in \<open>auto simp: state_step_def state_inv_def messages_ok_def sorted_wrt_append checked_add_def
      split: option.splits\<close>)

lemma push_text_outcome:
  "state_step out pending st \<Longrightarrow>
    outcome no_panic (state_step (out @ [(text_message role s, src)]) pending) (push_text st role s src)"
  unfolding push_text_def text_message_def by (rule CompileState_push_outcome)

lemma push_dynamic_content_outcome:
  assumes "state_step out pending st"
  shows "outcome no_panic (state_step (out @ dynamic_output vars role f v src) pending)
    (push_dynamic_content st role f v vars src)"
proof (cases "v = []")
  case True
  with assms show ?thesis by (simp add: push_dynamic_content_def dynamic_output_def)
next
  case False
  with push_text_outcome [OF assms] show ?thesis
    by (auto simp: push_dynamic_content_def dynamic_output_def
        intro!: outcome_and_then [OF render_content_outcome])
qed

lemma compile_chat_outcome:
  assumes "state_step out pending st"
  shows "outcome no_panic (state_step (out @ block_output input vars i (Chat name en sel)) pending)
    (compile_chat input i sel st)"
proof -
  let ?n = "case sel_end sel of Index e \<Rightarrow> e | EndOfChat \<Rightarrow> length (history input)"
  have "outcome no_panic (state_step (out @ map (\<lambda>h. (history input ! h, History i h)) [sel_start sel..<?n]) pending)
      (try_fold (push_history input i) st [sel_start sel..<?n])" if n: "?n \<le> length (history input)"
  proof (rule outcome_try_fold
      [where I = "\<lambda>hs. state_step (out @ map (\<lambda>h. (history input ! h, History i h)) hs) pending"])
    fix hs h u
    assume u: "state_step (out @ map (\<lambda>h. (history input ! h, History i h)) hs) pending u"
      and h: "h \<in> set [sel_start sel..<?n]"
    have "h < length (history input)" using h n by auto
    with CompileState_push_outcome [OF u]
    show "outcome no_panic (state_step (out @ map (\<lambda>h. (history input ! h, History i h)) (hs @ [h])) pending)
        (push_history input i u h)"
      by (simp add: push_history_def)
  qed (use assms in simp)
  then show ?thesis by (simp add: compile_chat_def Let_def del: upt_Suc)
qed

section \<open>Blocks\<close>

lemma lift_state_outcome:
  "outcome E P r \<Longrightarrow> outcome E (\<lambda>bs'. P (bs_state bs')) (lift_state bs r)"
  by (cases r) (simp_all add: lift_state_def)

lemma check_special_outcome: "outcome no_panic (\<lambda>bs'. bs_state bs' = bs_state bs) (check_special i role special bs)"
  by (simp add: check_special_def split: option.split RawPromptSpecial.split)

lemma compile_block_outcome:
  assumes "state_step out pending (bs_state bs)"
  shows "outcome no_panic (\<lambda>bs'. state_step (out @ block_output input vars i block)
      (pending @ block_pending i block) (bs_state bs'))
    (compile_block input vars i bs block)"
proof (cases block)
  case (Raw name en role special prompt)
  then show ?thesis using assms
    by (auto intro!: outcome_and_then [OF check_special_outcome] outcome_and_then [OF render_template_outcome]
        lift_state_outcome [OF push_text_outcome])
next
  case (AuthorNote name en role default_prompt format)
  have "outcome no_panic (\<lambda>v. v = (case author_note input of Some note \<Rightarrow> note
        | None \<Rightarrow> (case default_prompt of Some prompt \<Rightarrow> rendered vars prompt | None \<Rightarrow> [])))
      (case author_note input of Some value \<Rightarrow> Inr value
        | None \<Rightarrow> (case default_prompt of Some prompt \<Rightarrow> render_template prompt vars | None \<Rightarrow> Inr []))"
    using render_template_outcome by (auto split: option.split)
  then show ?thesis
    unfolding AuthorNote compile_block.simps
    by (rule outcome_and_then) (use assms in \<open>auto intro: lift_state_outcome [OF push_dynamic_content_outcome]\<close>)
next
  case (FinalInsertion name en role prompt)
  then show ?thesis using assms
    by (auto intro!: outcome_and_then [OF render_template_outcome] lift_state_outcome [OF push_text_outcome])
next
  case (ChatMl name en role prompt)
  then show ?thesis using assms
    by (auto intro!: outcome_and_then [OF render_template_outcome] lift_state_outcome [OF push_text_outcome])
next
  case (Chat name en sel)
  then show ?thesis
    using lift_state_outcome [OF compile_chat_outcome [OF assms]] by simp
next
  case (CachePointBlock name en depth role)
  then show ?thesis using assms by (auto simp: state_step_def state_inv_def)
qed (use assms in \<open>auto intro!: lift_state_outcome [OF push_dynamic_content_outcome]\<close>)

lemma compile_blocks_outcome:
  assumes "state_step out [] (bs_state bs)"
  shows "outcome no_panic (\<lambda>bs'. state_step
      (out @ concat (map (\<lambda>(i, b). block_output input vars i b) (filter (\<lambda>(i, b). block_enabled b) es)))
      (concat (map (\<lambda>(i, b). block_pending i b) (filter (\<lambda>(i, b). block_enabled b) es))) (bs_state bs'))
    (try_fold (compile_block_step input vars) bs es)"
proof (rule outcome_try_fold, goal_cases)
  case 1
  with assms show ?case by simp
next
  case (2 pre e u)
  obtain i b where e: "e = (i, b)" by (cases e)
  show ?case
  proof (cases "block_enabled b")
    case True
    with 2(1) compile_block_outcome [OF 2(1), of input vars i b] show ?thesis
      by (simp add: e compile_block_step_def)
  qed (use 2(1) in \<open>simp add: e compile_block_step_def\<close>)
qed

lemma push_synthetic_outcome:
  "state_step out pending st \<Longrightarrow>
    outcome no_panic (state_step (out @ synthetic_output vars m src) pending) (push_synthetic vars m src st)"
  by (auto simp: push_synthetic_def synthetic_output_def split: option.split
      intro!: outcome_and_then [OF render_template_outcome] push_text_outcome)

section \<open>Cache points\<close>

definition resolved :: "ChatMessage list \<Rightarrow> PendingCachePoint \<Rightarrow> CachePoint" where
  "resolved ms p = \<lparr>cp_block_index = pending_block_index p, cp_message_index = length ms - pending_depth p,
    cp_depth = pending_depth p, cp_role = pending_role p\<rparr>"

definition cache_point_ok :: "ChatMessage list \<Rightarrow> CachePoint \<Rightarrow> bool" where
  "cache_point_ok ms cp \<longleftrightarrow> 1 \<le> cp_depth cp \<and> cp_depth cp \<le> 16 \<and> cp_depth cp \<le> length ms \<and>
    cp_message_index cp = length ms - cp_depth cp \<and>
    msg_role (ms ! cp_message_index cp) = role_of (cp_role cp)"

definition cache_points_ok :: "ChatMessage list \<Rightarrow> PendingCachePoint list \<Rightarrow> CachePoint list \<Rightarrow> bool" where
  "cache_points_ok ms pending cps \<longleftrightarrow> cps = map (resolved ms) pending \<and>
    list_all (cache_point_ok ms) cps \<and> distinct (map cp_message_index cps)"

lemma resolve_cache_point_outcome:
  assumes "targets = cp_message_index ` set cps" and "cache_points_ok ms pre cps"
  shows "outcome no_panic (\<lambda>(targets', cps'). targets' = cp_message_index ` set cps' \<and>
      cache_points_ok ms (pre @ [p]) cps') (resolve_cache_point ms (targets, cps) p)"
  using assms
  by (auto simp: resolve_cache_point_def cache_points_ok_def cache_point_ok_def resolved_def Let_def index_or_def
      image_image)

lemma resolve_cache_points_outcome:
  assumes "state_step out pending st"
  shows "outcome no_panic (\<lambda>st'. st_messages st' = map fst out \<and> st_source_map st' = map snd out \<and>
      messages_ok (map fst out) \<and> cache_points_ok (map fst out) pending (st_cache_points st'))
    (resolve_cache_points st)"
proof -
  have st: "st_messages st = map fst out" "st_source_map st = map snd out" "st_cache_points st = []"
    "messages_ok (map fst out)" "st_pending st = pending"
    using assms by (auto simp: state_step_def state_inv_def)
  have "outcome no_panic (\<lambda>(targets, cps). targets = cp_message_index ` set cps \<and>
      cache_points_ok (map fst out) pending cps)
    (try_fold (resolve_cache_point (map fst out)) ({}, []) pending)"
  proof (rule outcome_try_fold [where I = "\<lambda>pre (targets, cps). targets = cp_message_index ` set cps \<and>
      cache_points_ok (map fst out) pre cps"])
    fix pre p u
    assume "case u of (targets, cps) \<Rightarrow> targets = cp_message_index ` set cps \<and>
      cache_points_ok (map fst out) pre cps"
    then show "outcome no_panic (\<lambda>(targets, cps). targets = cp_message_index ` set cps \<and>
        cache_points_ok (map fst out) (pre @ [p]) cps) (resolve_cache_point (map fst out) u p)"
      using resolve_cache_point_outcome by (cases u) blast
  qed (simp add: cache_points_ok_def)
  then show ?thesis
    unfolding resolve_cache_points_def st by (rule outcome_and_then) (auto simp: st)
qed

lemma collect_messages_outcome:
  "outcome no_panic (\<lambda>st. let out = intended_messages preset input vars in
      out \<noteq> [] \<and> st_messages st = map fst out \<and> st_source_map st = map snd out \<and>
      messages_ok (map fst out) \<and>
      cache_points_ok (map fst out) (intended_cache_points preset) (st_cache_points st))
    (collect_messages preset input vars)"
proof -
  have start: "state_step [] [] CompileState_default"
    by (simp add: state_step_def state_inv_def CompileState_default_def messages_ok_def)
  show ?thesis
    unfolding collect_messages_def Let_def
  proof (rule outcome_and_then [OF push_synthetic_outcome [OF start]],
      rule outcome_and_then [OF compile_blocks_outcome], simp,
      rule outcome_and_then [OF push_synthetic_outcome], assumption, goal_cases)
    case (1 st bs st')
    then have "st_messages st' = map fst (intended_messages preset input vars)"
      by (auto simp: state_step_def state_inv_def intended_messages_def enabled_blocks_def Let_def)
    with resolve_cache_points_outcome [OF 1(3)] show ?case
      by (auto simp: intended_messages_def intended_cache_points_def enabled_blocks_def Let_def)
  qed
qed

section \<open>Request transforms\<close>

definition transformed :: "'rx regex_engine \<Rightarrow> 'rx CompiledRule list \<Rightarrow> ChatMessage \<Rightarrow> ChatMessage" where
  "transformed rxe rules m = m\<lparr>msg_content := foldl (rule_result rxe) (msg_content m) rules\<rparr>"

lemma transformed_role [simp]: "msg_role (transformed rxe rules m) = msg_role m"
  by (simp add: transformed_def)

definition contents_ok :: "ChatMessage list \<Rightarrow> bool" where
  "contents_ok ms \<longleftrightarrow> list_all (\<lambda>m. content_ok (msg_content m)) ms \<and>
    message_bytes ms \<le> MAX_COMPILED_MESSAGE_BYTES"

definition transform_state ::
  "'rx regex_engine \<Rightarrow> 'rx CompiledRule list \<Rightarrow> ChatMessage list \<Rightarrow>
    'rx CompiledTransformPipeline \<times> ChatMessage list \<times> nat \<Rightarrow> bool" where
  "transform_state rxe rules ms st \<longleftrightarrow> (case st of (pipe, out, n) \<Rightarrow>
    budget_ok (pipe_budget pipe) \<and> map clear_matches (pipe_rules pipe) = map clear_matches rules \<and>
    out = map (transformed rxe rules) ms \<and> n = message_bytes out \<and> contents_ok out)"

lemma outcome_weaken: "outcome E P r \<Longrightarrow> (\<And>e. E e \<Longrightarrow> F e) \<Longrightarrow> outcome F P r"
  by (cases r) simp_all

lemma transform_message_outcome:
  assumes "regex_contract rxe" and "transform_state rxe rules ms st"
  shows "outcome no_panic (transform_state rxe rules (ms @ [m])) (transform_message rxe st m)"
proof -
  obtain pipe out n where st: "st = (pipe, out, n)" by (cases st)
  have pipe: "budget_ok (pipe_budget pipe)" "map clear_matches (pipe_rules pipe) = map clear_matches rules"
    "out = map (transformed rxe rules) ms" "n = message_bytes out" "contents_ok out"
    using assms(2) by (auto simp: transform_state_def st)
  have run: "outcome no_panic (\<lambda>(p', c). c = foldl (rule_result rxe) (msg_content m) (pipe_rules pipe) \<and>
      map clear_matches (pipe_rules p') = map clear_matches (pipe_rules pipe) \<and>
      budget_ok (pipe_budget p')) (pipeline_apply rxe pipe (msg_content m))"
    by (rule outcome_mono [OF outcome_weaken [OF pipeline_apply_outcome [OF assms(1) pipe(1)]]])
      (auto simp: transform_error_def)
  show ?thesis
    unfolding transform_message_def st Let_def prod.case
  proof (rule outcome_and_then [OF run], clarify,
      rule outcome_and_then [OF validate_message_content_outcome])
    fix pipe' :: "'a CompiledTransformPipeline" and content
    let ?c = "foldl (rule_result rxe) (msg_content m) (pipe_rules pipe)"
    assume "map clear_matches (pipe_rules pipe') = map clear_matches (pipe_rules pipe)"
      "budget_ok (pipe_budget pipe')" "content_ok ?c \<and> str_len ?c \<le> MAX_COMPILED_MESSAGE_BYTES"
    then show "outcome no_panic (transform_state rxe rules (ms @ [m]))
        (and_then (ok_or (checked_add_usize n (str_len ?c))
            (PayloadTooLarge (lit ''compiled messages'') MAX_COMPILED_MESSAGE_BYTES)) (\<lambda>n.
          if MAX_COMPILED_MESSAGE_BYTES < n
          then Inl (PayloadTooLarge (lit ''compiled messages'') MAX_COMPILED_MESSAGE_BYTES)
          else Inr (pipe', out @ [m\<lparr>msg_content := ?c\<rparr>], n)))"
      using pipe rule_results_clear [OF pipe(2), of rxe "msg_content m"]
      by (auto simp: transform_state_def contents_ok_def transformed_def ok_or_def checked_add_def)
  qed
qed

lemma compile_regex_no_panic: "outcome no_panic (\<lambda>_. True) (compile_regex rxe label pattern flags)"
  by (auto simp: compile_regex_def Let_def ok_or_def split: option.split)

lemma parse_replacement_no_panic: "outcome no_panic (\<lambda>_. True) (parse_replacement_from label parts pending s)"
  by (induction label parts pending s rule: parse_replacement_from.induct)
    (auto simp: Let_def replacement_error_def ok_or_def split: option.split list.split)

lemma pipeline_new_outcome: "outcome no_panic (\<lambda>p. budget_ok (pipe_budget p)) (pipeline_new rxe preset target)"
proof -
  have "outcome no_panic (\<lambda>_. True) (validate_rule_table preset)"
    by (auto simp: validate_rule_table_def Let_def intro!: outcome_try_fold)
  moreover have "outcome no_panic (\<lambda>_. True) (pipeline_rule rxe target rules entry)" for rules entry
    using compile_regex_no_panic parse_replacement_no_panic
    by (cases entry) (auto simp: pipeline_rule_def parse_replacement_def Let_def
        intro!: outcome_and_then [OF compile_regex_no_panic] outcome_and_then [OF parse_replacement_no_panic])
  ultimately show ?thesis
    unfolding pipeline_new_def
    by (auto intro!: outcome_and_then outcome_try_fold simp: budget_ok_def)
qed

lemma transform_messages_outcome:
  assumes "regex_contract rxe"
  shows "outcome no_panic (\<lambda>out. \<exists>pipe. pipeline_new rxe preset Request = Inr pipe \<and>
      out = map (transformed rxe (pipe_rules pipe)) ms \<and> contents_ok out)
    (transform_messages rxe preset ms)"
proof (cases "pipeline_new rxe preset Request")
  case (Inl e)
  with pipeline_new_outcome [of rxe preset Request] show ?thesis by (simp add: transform_messages_def)
next
  case (Inr pipe)
  have "budget_ok (pipe_budget pipe)" using pipeline_new_outcome [of rxe preset Request] Inr by simp
  then have "outcome no_panic (transform_state rxe (pipe_rules pipe) ms)
      (try_fold (transform_message rxe) (pipe, [], 0) ms)"
    by (intro outcome_try_fold transform_message_outcome [OF assms])
      (simp_all add: transform_state_def contents_ok_def)
  with Inr show ?thesis
    by (auto simp: transform_messages_def transform_state_def intro!: outcome_and_then)
qed

end
