(* ===== verification/Prompt_Wellformed.thy ===== *)
theory Prompt_Wellformed
  imports Prompt_Correct
begin

text \<open>
  What validation of a preset guarantees: well-formed templates, a bounded total of authored text,
  at most one active chat block, unique special prompts, distinct references and rule names.
\<close>

section \<open>Loops and checks that do not panic\<close>

lemma outcome_eq: "outcome E P r \<Longrightarrow> outcome E (\<lambda>x. r = Inr x \<and> P x) r"
  by (cases r) simp_all

lemma try_fold_no_panic:
  "(\<And>s x. x \<in> set xs \<Longrightarrow> outcome no_panic (\<lambda>_. True) (f s x)) \<Longrightarrow> outcome no_panic (\<lambda>_. True) (try_fold f s xs)"
  by (rule outcome_try_fold [where I = "\<lambda>_ _. True"]) auto

lemma validate_template_no_panic: "outcome no_panic (\<lambda>_. True) (validate_template_from field vs s)"
  by (induction field vs s rule: validate_template_from.induct) (auto split: option.split)

lemma validate_template_outcome:
  "outcome no_panic (\<lambda>vs. \<exists>gs. template_segments t gs \<and> vs = segment_vars gs) (validate_template_syntax t field)"
  using validate_template_no_panic [of field "[]" t]
  by (cases "validate_template_syntax t field")
    (auto simp: validate_template_syntax_def dest: validate_template_segments)

lemma validate_label_outcome:
  "outcome no_panic (\<lambda>_. content_ok s \<and> str_len s \<le> 128) (validate_label field s)"
  by (simp add: validate_label_def content_ok_def)

section \<open>Authored text\<close>

interpretation authored_meter: meter add_authored "\<lambda>n. n" "\<lambda>n. n" "\<lambda>_. MAX_AUTHORED_TEXT_BYTES"
  by unfold_locales (auto simp: add_authored_def checked_add_def Let_def split: if_splits)

definition text_bytes :: "rstr list \<Rightarrow> nat" where
  "text_bytes ts = (\<Sum>t\<leftarrow>ts. str_len t)"

lemma text_bytes_simps [simp]:
  "text_bytes [] = 0" "text_bytes (t # ts) = str_len t + text_bytes ts"
  "text_bytes (ts @ us) = text_bytes ts + text_bytes us"
  by (simp_all add: text_bytes_def)

definition authored :: "nat \<Rightarrow> rstr list \<Rightarrow> nat \<Rightarrow> bool" where
  "authored n ts m \<longleftrightarrow> m = n + text_bytes ts \<and> m \<le> MAX_AUTHORED_TEXT_BYTES"

definition template_ok :: "rstr \<Rightarrow> bool" where
  "template_ok t \<longleftrightarrow> content_ok t \<and> str_len t \<le> MAX_FIELD_TEXT_BYTES \<and> (\<exists>gs. template_segments t gs)"

lemma add_authored_outcome: "outcome no_panic (authored n [t]) (add_authored n (str_len t))"
  by (simp add: add_authored_def authored_def checked_add_def Let_def)

lemma validate_authored_text_outcome:
  "outcome no_panic (\<lambda>m. authored n [t] m \<and> (\<not> allow_empty \<longrightarrow> content_ok t) \<and> str_len t \<le> MAX_FIELD_TEXT_BYTES)
    (validate_authored_text field t allow_empty n)"
  using add_authored_outcome [of n t]
  by (cases "add_authored n (str_len t)") (auto simp: validate_authored_text_def content_ok_def)

lemma validate_authored_template_outcome:
  "outcome no_panic (\<lambda>m. authored n [t] m \<and> template_ok t) (validate_authored_template field t n)"
  unfolding validate_authored_template_def
  by (rule outcome_and_then [OF validate_authored_text_outcome],
      rule outcome_and_then [OF validate_template_outcome]) (auto simp: template_ok_def)

text \<open>A custom format is a template with exactly one \<open>value\<close> slot.\<close>

primrec format_ok :: "ContentFormat \<Rightarrow> bool" where
  "format_ok Plain = True"
| "format_ok (Custom t) = (template_ok t \<and>
    (\<exists>gs. template_segments t gs \<and> length (filter (\<lambda>n. n = lit ''value'') (segment_vars gs)) = 1))"

primrec format_texts :: "ContentFormat \<Rightarrow> rstr list" where
  "format_texts Plain = []"
| "format_texts (Custom t) = [t]"

lemma validate_content_format_outcome:
  "n \<le> MAX_AUTHORED_TEXT_BYTES \<Longrightarrow>
    outcome no_panic (\<lambda>m. authored n (format_texts f) m \<and> format_ok f) (validate_content_format f i n)"
proof (cases f)
  case (Custom t)
  then show ?thesis
    by (auto simp: Let_def template_ok_def intro!: outcome_and_then [OF validate_authored_text_outcome]
        outcome_and_then [OF validate_template_outcome])
qed (simp add: authored_def)

section \<open>Blocks\<close>

primrec block_texts :: "PromptBlock \<Rightarrow> rstr list" where
  "block_texts (Raw n e r s p) = [p]"
| "block_texts (Chat n e s) = []"
| "block_texts (Persona n e r f) = format_texts f"
| "block_texts (CharacterDescription n e r f) = format_texts f"
| "block_texts (AuthorNote n e r d f) = (case d of None \<Rightarrow> [] | Some p \<Rightarrow> [p]) @ format_texts f"
| "block_texts (Lorebook n e r f) = format_texts f"
| "block_texts (LongTermMemory n e r f) = format_texts f"
| "block_texts (FinalInsertion n e r p) = [p]"
| "block_texts (ChatMl n e r p) = [p]"
| "block_texts (CachePointBlock n e d r) = []"

primrec block_ok :: "PromptBlock \<Rightarrow> bool" where
  "block_ok (Raw n e r s p) = (template_ok p \<and> (s \<noteq> None \<longrightarrow> r = PromptSystem))"
| "block_ok (Chat n e s) = (case sel_end s of Index j \<Rightarrow> sel_start s < j | EndOfChat \<Rightarrow> True)"
| "block_ok (Persona n e r f) = format_ok f"
| "block_ok (CharacterDescription n e r f) = format_ok f"
| "block_ok (AuthorNote n e r d f) = ((case d of None \<Rightarrow> True | Some p \<Rightarrow> template_ok p) \<and> format_ok f)"
| "block_ok (Lorebook n e r f) = format_ok f"
| "block_ok (LongTermMemory n e r f) = format_ok f"
| "block_ok (FinalInsertion n e r p) = template_ok p"
| "block_ok (ChatMl n e r p) = template_ok p"
| "block_ok (CachePointBlock n e d r) = (1 \<le> d \<and> d \<le> 16)"

fun active_special :: "RawPromptSpecial \<Rightarrow> PromptBlock \<Rightarrow> bool" where
  "active_special sp (Raw n e r s p) = (e \<and> s = Some sp)"
| "active_special sp _ = False"

fun is_cache_block :: "PromptBlock \<Rightarrow> bool" where
  "is_cache_block (CachePointBlock n e d r) = True"
| "is_cache_block _ = False"

definition active_chat :: "PromptBlock \<Rightarrow> bool" where
  "active_chat b \<longleftrightarrow> block_enabled b \<and> is_chat_block b"

abbreviation count_blocks :: "(PromptBlock \<Rightarrow> bool) \<Rightarrow> PromptBlock list \<Rightarrow> nat" where
  "count_blocks p bs \<equiv> length (filter p bs)"

definition scan_inv :: "PromptBlock list \<Rightarrow> block_scan \<Rightarrow> bool" where
  "scan_inv bs st \<longleftrightarrow> authored 0 (concat (map block_texts bs)) (authored_bytes st) \<and>
    active_chat_blocks st = count_blocks active_chat bs \<and>
    cache_blocks st = count_blocks is_cache_block bs \<and>
    (\<forall>sp. count_blocks (active_special sp) bs = (if special_seen sp st then 1 else 0)) \<and>
    list_all (\<lambda>b. block_ok b \<and> content_ok (block_name b) \<and> str_len (block_name b) \<le> 128) bs"

definition block_scanned :: "PromptBlock \<Rightarrow> block_scan \<Rightarrow> block_scan \<Rightarrow> bool" where
  "block_scanned b st st' \<longleftrightarrow> block_ok b \<and> authored (authored_bytes st) (block_texts b) (authored_bytes st') \<and>
    active_chat_blocks st' = active_chat_blocks st \<and>
    cache_blocks st' = cache_blocks st + (if is_cache_block b then 1 else 0) \<and>
    (\<forall>sp. (active_special sp b \<longrightarrow> \<not> special_seen sp st) \<and>
      (special_seen sp st' \<longleftrightarrow> special_seen sp st \<or> active_special sp b))"

lemma set_authored_outcome:
  "outcome E P r \<Longrightarrow> outcome E (\<lambda>st'. \<exists>m. P m \<and> st' = st\<lparr>authored_bytes := m\<rparr>) (set_authored st r)"
  by (cases r) (auto simp: set_authored_def)

lemma special_seen_authored [simp]: "special_seen sp (st\<lparr>authored_bytes := m\<rparr>) = special_seen sp st"
  by (cases sp) simp_all

lemma special_seen_cache [simp]: "special_seen sp (st\<lparr>cache_blocks := m\<rparr>) = special_seen sp st"
  by (cases sp) simp_all

lemma special_seen_mark [simp]: "special_seen sp (mark_special sq st) \<longleftrightarrow> sp = sq \<or> special_seen sp st"
  by (cases sp; cases sq) simp_all

lemma mark_special_simps [simp]:
  "authored_bytes (mark_special sp st) = authored_bytes st"
  "active_chat_blocks (mark_special sp st) = active_chat_blocks st"
  "cache_blocks (mark_special sp st) = cache_blocks st"
  by (cases sp; simp)+

lemmas scan_template = set_authored_outcome [OF validate_authored_template_outcome]
lemmas scan_format = set_authored_outcome [OF validate_content_format_outcome]

lemma validate_block_outcome:
  assumes "authored_bytes st \<le> MAX_AUTHORED_TEXT_BYTES"
  shows "outcome no_panic (block_scanned b st) (validate_block i st b)"
proof (cases b)
  case (Raw n e r s p)
  show ?thesis
    unfolding Raw validate_block.simps
    by (rule outcome_and_then [OF scan_template])
      (auto simp: block_scanned_def split: option.split)
next
  case (AuthorNote n e r d f)
  have "outcome no_panic (\<lambda>st'. \<exists>m. (authored (authored_bytes st) (case d of None \<Rightarrow> [] | Some p \<Rightarrow> [p]) m \<and>
        (case d of None \<Rightarrow> True | Some p \<Rightarrow> template_ok p)) \<and> st' = st\<lparr>authored_bytes := m\<rparr>)
      (case d of None \<Rightarrow> Inr st | Some prompt \<Rightarrow> set_authored st
        (validate_authored_template (block_field i ''.defaultPrompt'') prompt (authored_bytes st)))"
    using scan_template assms by (auto simp: authored_def split: option.split intro: exI [of _ "authored_bytes st"])
  then show ?thesis
    unfolding AuthorNote validate_block.simps
    by (rule outcome_and_then, elim exE conjE, intro outcome_mono [OF scan_format])
      (auto simp: block_scanned_def authored_def split: option.splits)
next
  case (Chat n e s)
  with assms show ?thesis by (auto simp: block_scanned_def authored_def split: ChatEnd.split)
next
  case (CachePointBlock n e d r)
  with assms show ?thesis by (auto simp: block_scanned_def authored_def Let_def)
qed (use assms in \<open>auto simp: block_scanned_def intro: outcome_mono [OF scan_template] outcome_mono [OF scan_format]\<close>)

lemma validate_block_step_outcome:
  assumes "scan_inv bs st"
  shows "outcome no_panic (scan_inv (bs @ [b])) (validate_block_step st (i, b))"
proof -
  let ?st = "if block_enabled b \<and> is_chat_block b
    then st\<lparr>active_chat_blocks := active_chat_blocks st + 1\<rparr> else st"
  have seen: "special_seen sp ?st = special_seen sp st" for sp by (cases sp) simp_all
  have "authored_bytes ?st \<le> MAX_AUTHORED_TEXT_BYTES" using assms by (simp add: scan_inv_def authored_def)
  note step = validate_block_outcome [OF this]
  show ?thesis
    unfolding validate_block_step_def Let_def prod.case
  proof (rule outcome_and_then [OF validate_label_outcome], rule outcome_mono [OF step])
    fix st' :: block_scan
    assume "content_ok (block_name b) \<and> str_len (block_name b) \<le> 128" "block_scanned b ?st st'"
    moreover have "count_blocks (active_special sp) (bs @ [b]) = (if special_seen sp st' then 1 else 0)" for sp
      using assms calculation(2) seen [of sp] by (auto simp: scan_inv_def block_scanned_def)
    ultimately show "scan_inv (bs @ [b]) st'"
      using assms unfolding scan_inv_def block_scanned_def
      by (auto simp: authored_def active_chat_def)
  qed
qed

lemma validate_blocks_outcome:
  "outcome no_panic (scan_inv (map snd es))
    (try_fold validate_block_step \<lparr>authored_bytes = 0, active_chat_blocks = 0, cache_blocks = 0,
      enabled_main_seen = False, enabled_global_note_seen = False\<rparr> es)"
proof (rule outcome_try_fold [where I = "\<lambda>pre. scan_inv (map snd pre)"], goal_cases)
  case 1
  have "\<not> special_seen sp \<lparr>authored_bytes = 0, active_chat_blocks = 0, cache_blocks = 0,
      enabled_main_seen = False, enabled_global_note_seen = False\<rparr>" for sp
    by (cases sp) simp_all
  then show ?case by (simp add: scan_inv_def authored_def)
next
  case (2 pre e u)
  then show ?case using validate_block_step_outcome by (cases e) simp
qed

section \<open>Settings, references and rules\<close>

definition synthetic_texts :: "SyntheticMessage option \<Rightarrow> rstr list" where
  "synthetic_texts m = (case m of None \<Rightarrow> [] | Some m \<Rightarrow> [syn_template m])"

lemma validate_synthetic_outcome:
  "n \<le> MAX_AUTHORED_TEXT_BYTES \<Longrightarrow>
    outcome no_panic (\<lambda>m. authored n (synthetic_texts (snd e)) m \<and> list_all template_ok (synthetic_texts (snd e)))
      (validate_synthetic n e)"
  using validate_authored_template_outcome
  by (auto simp: validate_synthetic_def synthetic_texts_def authored_def split: option.split)

lemma validate_default_variable_outcome:
  "outcome no_panic (\<lambda>st'. authored (snd st) [snd e] (snd st') \<and> validate_variable_name (fst e) \<and>
      fst e \<noteq> lit ''value'') (validate_default_variable st e)"
  using add_authored_outcome [of "snd st" "snd e"]
  by (cases "add_authored (snd st) (str_len (snd e))")
    (auto simp: validate_default_variable_def Let_def case_prod_beta checked_add_def ok_or_def)

lemma validate_template_settings_outcome:
  assumes "n \<le> MAX_AUTHORED_TEXT_BYTES"
  shows "outcome no_panic (\<lambda>m. let s = template_settings (advanced preset) in
      authored n (synthetic_texts (preamble s) @ synthetic_texts (epilogue s) @ map snd (default_variables s)) m \<and>
      list_all template_ok (synthetic_texts (preamble s) @ synthetic_texts (epilogue s)) \<and>
      length (default_variables s) \<le> MAX_VARIABLES \<and>
      list_all (\<lambda>(v, _). validate_variable_name v \<and> v \<noteq> lit ''value'') (default_variables s))
    (validate_template_settings preset n)"
proof -
  let ?s = "template_settings (advanced preset)"
  let ?es = "[(''advanced.template.preamble'', preamble ?s), (''advanced.template.epilogue'', epilogue ?s)]"
  have syn: "outcome no_panic (\<lambda>m. authored n (concat (map (synthetic_texts \<circ> snd) es)) m \<and>
      list_all template_ok (concat (map (synthetic_texts \<circ> snd) es))) (try_fold validate_synthetic n es)" for es
  proof (rule outcome_try_fold [where I = "\<lambda>es m. authored n (concat (map (synthetic_texts \<circ> snd) es)) m \<and>
      list_all template_ok (concat (map (synthetic_texts \<circ> snd) es))"], goal_cases)
    case (2 pre x u)
    then show ?case by (intro outcome_mono [OF validate_synthetic_outcome]) (auto simp: authored_def)
  qed (use assms in \<open>simp add: authored_def\<close>)
  have vars: "outcome no_panic (\<lambda>st. authored m (map snd vs) (snd st) \<and>
      list_all (\<lambda>(v, _). validate_variable_name v \<and> v \<noteq> lit ''value'') vs)
      (try_fold validate_default_variable (k, m) vs)" if "m \<le> MAX_AUTHORED_TEXT_BYTES" for vs m k
  proof (rule outcome_try_fold [where I = "\<lambda>vs st. authored m (map snd vs) (snd st) \<and>
      list_all (\<lambda>(v, _). validate_variable_name v \<and> v \<noteq> lit ''value'') vs"], goal_cases)
    case (2 pre x u)
    then show ?case by (intro outcome_mono [OF validate_default_variable_outcome]) (auto simp: authored_def)
  qed (use that in \<open>simp add: authored_def\<close>)
  show ?thesis
    unfolding validate_template_settings_def Let_def
    by (rule outcome_and_then [OF syn [of ?es]])
      (auto intro!: outcome_and_then [OF vars] simp: authored_def)
qed

definition references_ok :: "PromptPreset \<Rightarrow> bool" where
  "references_ok preset \<longleftrightarrow> (let adv = advanced preset in
    distinct (map tool_id (tools adv)) \<and>
    distinct (map (\<lambda>m. (module_id m, module_version m)) (modules adv)) \<and>
    list_all (\<lambda>m. str_len (digest_sha256 m) = 64 \<and> list_all is_lower_hex (digest_sha256 m)) (modules adv))"

lemma validate_reference_id_no_panic: "outcome no_panic (\<lambda>_. True) (validate_reference_id f v b)"
  by (simp add: validate_reference_id_def Let_def)

lemma validate_references_outcome: "outcome no_panic (\<lambda>_. references_ok preset) (validate_references preset)"
proof -
  have t: "outcome no_panic (\<lambda>ids. ids = tool_id ` set ts \<and> distinct (map tool_id ts)) (try_fold validate_tool {} ts)" for ts :: "ToolReference list"
  proof (rule outcome_try_fold [where I = "\<lambda>ts ids. ids = tool_id ` set ts \<and> distinct (map tool_id ts)"])
    fix pre :: "ToolReference list" and x u
    assume "u = tool_id ` set pre \<and> distinct (map tool_id pre)"
    then show "outcome no_panic (\<lambda>ids. ids = tool_id ` set (pre @ [x]) \<and> distinct (map tool_id (pre @ [x])))
        (validate_tool u x)"
      unfolding validate_tool_def by (intro outcome_and_then [OF validate_reference_id_no_panic]) auto
  qed simp
  let ?k = "\<lambda>m. (module_id m, module_version m)"
  let ?d = "list_all (\<lambda>m. str_len (digest_sha256 m) = 64 \<and> list_all is_lower_hex (digest_sha256 m))"
  have m: "outcome no_panic (\<lambda>ids. ids = ?k ` set ms \<and> distinct (map ?k ms) \<and> ?d ms)
      (try_fold validate_module {} ms)" for ms :: "ModuleReference list"
  proof (rule outcome_try_fold [where I = "\<lambda>ms ids. ids = ?k ` set ms \<and> distinct (map ?k ms) \<and> ?d ms"])
    fix pre :: "ModuleReference list" and x u
    assume "u = ?k ` set pre \<and> distinct (map ?k pre) \<and> ?d pre"
    then show "outcome no_panic (\<lambda>ids. ids = ?k ` set (pre @ [x]) \<and> distinct (map ?k (pre @ [x])) \<and> ?d (pre @ [x]))
        (validate_module u x)"
      unfolding validate_module_def Let_def
      by (intro outcome_and_then [OF validate_reference_id_no_panic]) auto
  qed simp
  show ?thesis
    unfolding validate_references_def Let_def
    by (auto simp: references_ok_def Let_def intro!: outcome_and_then [OF t] outcome_and_then [OF m])
qed

definition rule_texts :: "RegexRule \<Rightarrow> rstr list" where
  "rule_texts r = [rule_pattern r, rule_replacement r]"

text \<open>Every rule compiles and its replacement parses, whether it is enabled or not.\<close>

definition rules_ok :: "'rx regex_engine \<Rightarrow> RegexRule list \<Rightarrow> bool" where
  "rules_ok rxe rules \<longleftrightarrow> length rules \<le> MAX_REGEX_RULES \<and>
    length (filter rule_enabled rules) \<le> MAX_ACTIVE_REGEX_RULES \<and> distinct (map rule_name rules) \<and>
    list_all (\<lambda>(i, r). let label = rule_label i (rule_name r) in
      is_ok (compile_regex rxe label (rule_pattern r) (rule_flags r)) \<and>
      is_ok (parse_replacement label (rule_replacement r))) (enumerate 0 rules)"

lemma validate_regex_rule_outcome:
  assumes "fst st = rule_name ` set pre" and "distinct (map rule_name pre)" and "snd e = r"
    and "authored n (concat (map rule_texts pre)) (snd st)"
  shows "outcome no_panic (\<lambda>st'. fst st' = rule_name ` set (pre @ [r]) \<and> distinct (map rule_name (pre @ [r])) \<and>
      authored n (concat (map rule_texts (pre @ [r]))) (snd st')) (validate_regex_rule st e)"
proof -
  obtain names k i where st: "st = (names, k)" "e = (i, r)" using assms(3) by (cases st; cases e) auto
  show ?thesis
    unfolding validate_regex_rule_def st Let_def prod.case
    by (rule outcome_and_then [OF validate_label_outcome])
      (use assms st in \<open>auto intro!: outcome_and_then [OF add_authored_outcome]
        simp: authored_def rule_texts_def\<close>)
qed

lemma validate_rule_table_no_panic: "outcome no_panic (\<lambda>_. True) (validate_rule_table preset)"
  by (auto simp: validate_rule_table_def Let_def intro!: try_fold_no_panic)

lemma validate_regex_contract_outcome:
  "outcome no_panic (\<lambda>_. list_all (\<lambda>(i, r). let label = rule_label i (rule_name r) in
      is_ok (compile_regex rxe label (rule_pattern r) (rule_flags r)) \<and>
      is_ok (parse_replacement label (rule_replacement r))) (enumerate 0 (regex_rules (advanced preset))))
    (validate_regex_contract rxe preset)"
  unfolding validate_regex_contract_def
proof (rule outcome_and_then [OF validate_rule_table_no_panic], rule outcome_try_fold, goal_cases)
  case (2 u pre x v)
  then show ?case
    by (cases x) (auto simp: Let_def parse_replacement_def is_ok_iff
        intro!: outcome_and_then [OF outcome_eq [OF compile_regex_no_panic]]
          outcome_and_then [OF outcome_eq [OF parse_replacement_no_panic]])
qed simp

lemma validate_regex_rules_outcome:
  assumes "n \<le> MAX_AUTHORED_TEXT_BYTES"
  shows "outcome no_panic (\<lambda>m. authored n (concat (map rule_texts (regex_rules (advanced preset)))) m \<and>
      rules_ok rxe (regex_rules (advanced preset))) (validate_regex_rules rxe preset n)"
proof -
  let ?I = "\<lambda>es st. fst st = rule_name ` set (map snd es) \<and> distinct (map rule_name (map snd es)) \<and>
    authored n (concat (map rule_texts (map snd es))) (snd st)"
  let ?rs = "regex_rules (advanced preset)"
  have "outcome no_panic (?I es) (try_fold validate_regex_rule ({}, n) es)" for es
  proof (rule outcome_try_fold [where I = ?I], goal_cases)
    case (2 pre x u)
    then show ?case using validate_regex_rule_outcome [of u "map snd pre" x "snd x" n] by simp
  qed (use assms in \<open>simp add: authored_def\<close>)
  note run = this [of "enumerate 0 ?rs"]
  show ?thesis
    unfolding validate_regex_rules_def Let_def
    by (auto simp: rules_ok_def intro!: outcome_and_then [OF run]
        outcome_and_then [OF validate_regex_contract_outcome])
qed

section \<open>Presets\<close>

definition preset_texts :: "PromptPreset \<Rightarrow> rstr list" where
  "preset_texts preset = (let s = template_settings (advanced preset) in
    concat (map block_texts (blocks preset)) @ synthetic_texts (preamble s) @ synthetic_texts (epilogue s) @
    map snd (default_variables s) @ concat (map rule_texts (regex_rules (advanced preset))))"

definition preset_ok :: "'rx regex_engine \<Rightarrow> PromptPreset \<Rightarrow> bool" where
  "preset_ok rxe preset \<longleftrightarrow> (let s = template_settings (advanced preset) in
    blocks preset \<noteq> [] \<and> length (blocks preset) \<le> MAX_BLOCKS \<and>
    text_bytes (preset_texts preset) \<le> MAX_AUTHORED_TEXT_BYTES \<and>
    list_all block_ok (blocks preset) \<and>
    count_blocks active_chat (blocks preset) \<le> 1 \<and> count_blocks is_cache_block (blocks preset) \<le> 16 \<and>
    (\<forall>sp. count_blocks (active_special sp) (blocks preset) \<le> 1) \<and>
    list_all template_ok (synthetic_texts (preamble s) @ synthetic_texts (epilogue s)) \<and>
    length (default_variables s) \<le> MAX_VARIABLES \<and>
    list_all (\<lambda>(v, _). validate_variable_name v \<and> v \<noteq> lit ''value'') (default_variables s) \<and>
    references_ok preset \<and> rules_ok rxe (regex_rules (advanced preset)))"

lemma validate_float_no_panic: "outcome no_panic (\<lambda>_. True) (validate_float f v lo hi b)"
  by (simp add: validate_float_def Let_def)

lemma validate_sampling_no_panic: "outcome no_panic (\<lambda>_. True) (validate_sampling s)"
  unfolding validate_sampling_def
  by (intro outcome_and_then [OF validate_float_no_panic]) (auto intro!: outcome_and_then [OF validate_float_no_panic]
      try_fold_no_panic)

lemma preset_okI:
  assumes "blocks preset \<noteq> []" and "length (blocks preset) \<le> MAX_BLOCKS"
    and "scan_inv (map snd (enumerate 0 (blocks preset))) st" and "active_chat_blocks st \<le> 1" and "cache_blocks st \<le> 16"
    and "let s = template_settings (advanced preset) in
      authored (authored_bytes st)
        (synthetic_texts (preamble s) @ synthetic_texts (epilogue s) @ map snd (default_variables s)) m \<and>
      list_all template_ok (synthetic_texts (preamble s) @ synthetic_texts (epilogue s)) \<and>
      length (default_variables s) \<le> MAX_VARIABLES \<and>
      list_all (\<lambda>(v, _). validate_variable_name v \<and> v \<noteq> lit ''value'') (default_variables s)"
    and "references_ok preset"
    and "authored m (concat (map rule_texts (regex_rules (advanced preset)))) k \<and>
      rules_ok rxe (regex_rules (advanced preset))"
  shows "preset_ok rxe preset"
proof -
  have "count_blocks (active_special sp) (blocks preset) \<le> 1" for sp
    using assms(3) by (simp add: scan_inv_def)
  moreover have "list_all block_ok (blocks preset)"
    using assms(3) by (auto simp: scan_inv_def list_all_iff)
  moreover have "text_bytes (preset_texts preset) \<le> MAX_AUTHORED_TEXT_BYTES"
    using assms(3,6,8) by (auto simp: scan_inv_def authored_def preset_texts_def Let_def)
  ultimately show ?thesis
    using assms by (simp add: preset_ok_def scan_inv_def Let_def)
qed

lemma validate_preset_outcome: "outcome no_panic (\<lambda>_. preset_ok rxe preset) (validate_preset rxe preset)"
  unfolding validate_preset_def
proof (rule outcome_and_then [OF validate_label_outcome], goal_cases)
  case (1 u)
  consider "length (blocks preset) > MAX_BLOCKS" | "length (blocks preset) \<le> MAX_BLOCKS" "blocks preset = []"
    | "length (blocks preset) \<le> MAX_BLOCKS" "blocks preset \<noteq> []"
    by linarith
  then show ?case
  proof cases
    case 3
    have len: "\<not> MAX_BLOCKS < length (blocks preset)" using 3(1) by simp
    show ?thesis
      unfolding if_not_P [OF len] if_not_P [OF 3(2)]
    proof (rule outcome_and_then [OF validate_blocks_outcome])
      fix st
      assume st: "scan_inv (map snd (enumerate 0 (blocks preset))) st"
      then have n: "authored_bytes st \<le> MAX_AUTHORED_TEXT_BYTES" by (simp add: scan_inv_def authored_def)
      show "outcome no_panic (\<lambda>_. preset_ok rxe preset)
          (if 1 < active_chat_blocks st then Inl (TooManyItems (lit ''active chat blocks'') 1)
           else if 16 < cache_blocks st then Inl (TooManyItems (lit ''cache-point blocks'') 16)
           else and_then (validate_sampling (sampling preset)) (\<lambda>_.
             and_then (validate_template_settings preset (authored_bytes st)) (\<lambda>m.
             and_then (validate_references preset) (\<lambda>_.
             and_then (validate_regex_rules rxe preset m) (\<lambda>k.
             if k > MAX_AUTHORED_TEXT_BYTES
             then Inl (PayloadTooLarge (lit ''authored prompt text'') MAX_AUTHORED_TEXT_BYTES)
             else Inr ())))))"
        using preset_okI [OF 3(2,1) st] n
        by (auto intro!: outcome_and_then [OF validate_sampling_no_panic]
            outcome_and_then [OF validate_template_settings_outcome]
            outcome_and_then [OF validate_references_outcome]
            outcome_and_then [OF validate_regex_rules_outcome] simp: authored_def Let_def)
    qed
  qed simp_all
qed

end
