(* ===== verification/Prompt_Import.thy ===== *)
theory Prompt_Import
  imports Prompt_Wellformed
begin

text \<open>
  Import and export of presets (\<open>import.rs\<close>): the bounded reader that refuses duplicate keys, the
  versioned envelope, and the removal of local authority from portable data. The JSON text parser
  and the derived decoding of a preset's fields are parameters.
\<close>

abbreviation (input) "MAX_IMPORT_BYTES \<equiv> 2097152 :: nat"
abbreviation (input) "MAX_JSON_DEPTH \<equiv> 16 :: nat"
abbreviation (input) "MAX_JSON_NODES \<equiv> 16384 :: nat"
abbreviation (input) "IMPORT_FORMAT \<equiv> lit ''lorepia.prompt-preset''"
abbreviation (input) "IMPORT_SCHEMA_VERSION \<equiv> 1 :: nat"

section \<open>The bounded reader\<close>

definition ParseBudget_charge :: "nat \<Rightarrow> nat \<Rightarrow> (PromptError, nat) res" where
  "ParseBudget_charge nodes depth =
    (if depth > MAX_JSON_DEPTH then Inl Json
     else and_then (ok_or (checked_add_usize nodes 1) Json) (\<lambda>nodes.
       if nodes > MAX_JSON_NODES then Inl Json else Inr nodes))"

fun unique_value :: "nat \<Rightarrow> nat \<Rightarrow> json \<Rightarrow> (PromptError, json \<times> nat) res"
  and visit_seq :: "nat \<Rightarrow> nat \<Rightarrow> json list \<Rightarrow> json list \<Rightarrow> (PromptError, json list \<times> nat) res"
  and visit_map :: "nat \<Rightarrow> nat \<Rightarrow> (rstr, json) btree \<Rightarrow> (rstr \<times> json) list \<Rightarrow>
    (PromptError, (rstr, json) btree \<times> nat) res" where
  "unique_value depth nodes (JArray vs) =
    and_then (ParseBudget_charge nodes depth) (\<lambda>nodes.
    and_then (visit_seq (depth + 1) nodes [] vs) (\<lambda>(values, nodes). Inr (JArray values, nodes)))"
| "unique_value depth nodes (JObject ms) =
    and_then (ParseBudget_charge nodes depth) (\<lambda>nodes.
    and_then (visit_map (depth + 1) nodes [] ms) (\<lambda>(values, nodes). Inr (JObject values, nodes)))"
| "unique_value depth nodes (JFloat x) =
    and_then (ParseBudget_charge nodes depth) (\<lambda>nodes.
    if is_finite x then Inr (JFloat x, nodes) else Inl Json)"
| "unique_value depth nodes v =
    and_then (ParseBudget_charge nodes depth) (\<lambda>nodes. Inr (v, nodes))"
| "visit_seq depth nodes values [] = Inr (values, nodes)"
| "visit_seq depth nodes values (v # vs) =
    and_then (unique_value depth nodes v) (\<lambda>(value, nodes).
    visit_seq depth nodes (values @ [value]) vs)"
| "visit_map depth nodes values [] = Inr (values, nodes)"
| "visit_map depth nodes values ((key, v) # ms) =
    (if map_of values key \<noteq> None then Inl Json
     else and_then (unique_value depth nodes v) (\<lambda>(value, nodes).
       visit_map depth nodes (bt_insert key value values) ms))"

definition UniqueValue_deserialize :: "json \<Rightarrow> (PromptError, json) res" where
  "UniqueValue_deserialize doc = and_then (unique_value 1 0 doc) (\<lambda>(value, nodes). Inr value)"

section \<open>Presets from portable data\<close>

definition disable_tool :: "ToolReference \<Rightarrow> ToolReference" where
  "disable_tool r = r\<lparr>tool_enabled := False\<rparr>"

definition disable_module :: "ModuleReference \<Rightarrow> ModuleReference" where
  "disable_module r = r\<lparr>module_enabled := False\<rparr>"

definition disable_rule :: "RegexRule \<Rightarrow> RegexRule" where
  "disable_rule r = r\<lparr>rule_enabled := False\<rparr>"

definition disable_authority :: "PromptPreset \<Rightarrow> PromptPreset" where
  "disable_authority preset = preset\<lparr>advanced := (advanced preset)\<lparr>
    tools := map disable_tool (tools (advanced preset)),
    modules := map disable_module (modules (advanced preset)),
    regex_rules := map disable_rule (regex_rules (advanced preset))\<rparr>\<rparr>"

text \<open>
  The codec: \<open>parse_json\<close> reads a document (\<open>None\<close> on a syntax error), \<open>decode_wire\<close> is the derived
  decoding of the wire form of a preset, \<open>encode_preset\<close> the derived encoding of the envelope.
\<close>

record prompt_codec =
  parse_json :: "byte list \<Rightarrow> json option"
  decode_wire :: "json \<Rightarrow> PromptPreset option"
  encode_preset :: "rstr \<Rightarrow> nat \<Rightarrow> PromptPreset \<Rightarrow> byte list option"

definition PromptPreset_deserialize :: "prompt_codec \<Rightarrow> json \<Rightarrow> PromptPreset option" where
  "PromptPreset_deserialize codec value = map_option disable_authority (decode_wire codec value)"

abbreviation closed_schema :: PromptError where
  "closed_schema \<equiv> Import (lit ''prompt import does not match the closed schema'')"

definition decode_v1 :: "prompt_codec \<Rightarrow> json \<Rightarrow> (PromptError, PromptPreset) res" where
  "decode_v1 codec value = ok_or (PromptPreset_deserialize codec value) closed_schema"

definition decode_versioned_envelope :: "prompt_codec \<Rightarrow> json \<Rightarrow> (PromptError, PromptPreset) res" where
  "decode_versioned_envelope codec value =
    (case value of
       JObject envelope \<Rightarrow>
         if length envelope \<noteq> 3 \<or> map_of envelope (lit ''format'') = None \<or>
           map_of envelope (lit ''schemaVersion'') = None \<or> map_of envelope (lit ''preset'') = None
         then Inl closed_schema
         else and_then (ok_or (Option.bind (map_of envelope (lit ''format'')) json_str) closed_schema) (\<lambda>format.
           if format \<noteq> IMPORT_FORMAT then Inl (Import (lit ''unsupported prompt import format''))
           else and_then (ok_or (Option.bind (Option.bind (map_of envelope (lit ''schemaVersion'')) json_u64)
               (\<lambda>v. if v < 2 ^ 32 then Some v else None)) closed_schema) (\<lambda>schema_version.
           and_then (ok_or (map_of envelope (lit ''preset'')) closed_schema) (\<lambda>preset.
           if schema_version = 1 then decode_v1 codec preset
           else Inl (Import (lit ''unsupported schema version '' @ nat_str schema_version @
             lit ''; expected '' @ nat_str IMPORT_SCHEMA_VERSION)))))
     | _ \<Rightarrow> Inl closed_schema)"

definition import_preset ::
  "'rx regex_engine \<Rightarrow> prompt_codec \<Rightarrow> byte list \<Rightarrow> (PromptError, PromptPreset) res" where
  "import_preset rxe codec bytes =
    (if length bytes > MAX_IMPORT_BYTES then Inl (PayloadTooLarge (lit ''prompt import'') MAX_IMPORT_BYTES)
     else and_then (ok_or (parse_json codec bytes) Json) (\<lambda>doc.
       and_then (UniqueValue_deserialize doc) (\<lambda>value.
       and_then (decode_versioned_envelope codec value) (\<lambda>preset.
       let preset = disable_authority preset in
       and_then (validate_preset rxe preset) (\<lambda>_. Inr preset)))))"

definition export_preset ::
  "'rx regex_engine \<Rightarrow> prompt_codec \<Rightarrow> PromptPreset \<Rightarrow> (PromptError, byte list) res" where
  "export_preset rxe codec preset =
    and_then (validate_preset rxe preset) (\<lambda>_.
    and_then (ok_or (encode_preset codec IMPORT_FORMAT IMPORT_SCHEMA_VERSION preset) Json) (\<lambda>bytes.
    if length bytes > MAX_IMPORT_BYTES
    then Inl (PayloadTooLarge (lit ''prompt export'') MAX_IMPORT_BYTES) else Inr bytes))"

section \<open>The reader accepts exactly bounded documents without repeated keys\<close>

lemma charge_eq:
  "n \<le> MAX_JSON_NODES \<Longrightarrow> ParseBudget_charge n d =
    (if d \<le> MAX_JSON_DEPTH \<and> n < MAX_JSON_NODES then Inr (n + 1) else Inl Json)"
  by (simp add: ParseBudget_charge_def checked_add_def)

definition fits :: "nat \<Rightarrow> json list \<Rightarrow> bool" where
  "fits d vs \<longleftrightarrow> (\<forall>v\<in>set vs. json_unique v \<and> d + json_depth v \<le> Suc MAX_JSON_DEPTH)"

definition value_members :: "(rstr, json) btree \<Rightarrow> (rstr \<times> json) list \<Rightarrow> (rstr, json) btree" where
  "value_members acc ms = foldl (\<lambda>m (k, v). bt_insert k v m) acc (map (\<lambda>m. (fst m, json_value (snd m))) ms)"

lemma value_members_Cons: "value_members acc ((k, v) # ms) = value_members (bt_insert k (json_value v) acc) ms"
  by (simp add: value_members_def)

lemma reader_exact:
  "n \<le> MAX_JSON_NODES \<Longrightarrow> unique_value d n t =
    (if fits d [t] \<and> n + json_nodes t \<le> MAX_JSON_NODES then Inr (json_value t, n + json_nodes t) else Inl Json)"
  "n \<le> MAX_JSON_NODES \<Longrightarrow> visit_seq d n acc vs =
    (if fits d vs \<and> n + (\<Sum>v\<leftarrow>vs. json_nodes v) \<le> MAX_JSON_NODES
     then Inr (acc @ map json_value vs, n + (\<Sum>v\<leftarrow>vs. json_nodes v)) else Inl Json)"
  "n \<le> MAX_JSON_NODES \<Longrightarrow> bt_wf ac \<Longrightarrow> visit_map d n ac ms =
    (if distinct (map fst ms) \<and> (\<forall>k\<in>fst ` set ms. map_of ac k = None) \<and> fits d (map snd ms) \<and>
        n + (\<Sum>m\<leftarrow>ms. json_nodes (snd m)) \<le> MAX_JSON_NODES
     then Inr (value_members ac ms, n + (\<Sum>m\<leftarrow>ms. json_nodes (snd m))) else Inl Json)"
proof (induction d n t and d n acc vs and d n ac ms rule: unique_value_visit_seq_visit_map.induct)
  case (1 depth nodes vs)
  then show ?case by (auto simp: charge_eq fits_def add_foldr_max_le)
next
  case (2 depth nodes ms)
  then show ?case by (auto simp: charge_eq fits_def add_foldr_max_le value_members_def)
next
  case (8 depth nodes ac key v ms)
  show ?case
  proof (cases "map_of ac key = None \<and> fits depth [v] \<and> nodes + json_nodes v \<le> MAX_JSON_NODES")
    case True
    let ?acc = "bt_insert key (json_value v) ac"
    have v: "unique_value depth nodes v = Inr (json_value v, nodes + json_nodes v)"
      using 8(1) "8.prems"(1) True by simp
    have wf: "bt_wf ?acc" by (rule bt_wf_insert [OF "8.prems"(2)])
    have fresh: "map_of ?acc k = None \<longleftrightarrow> k \<noteq> key \<and> map_of ac k = None" for k
      by (simp add: bt_get_insert [OF "8.prems"(2)])
    have "visit_map depth nodes ac ((key, v) # ms) = visit_map depth (nodes + json_nodes v) ?acc ms"
      using True v by simp
    also have "\<dots> = (if distinct (map fst ms) \<and> (\<forall>k\<in>fst ` set ms. map_of ?acc k = None) \<and>
          fits depth (map snd ms) \<and> nodes + json_nodes v + (\<Sum>m\<leftarrow>ms. json_nodes (snd m)) \<le> MAX_JSON_NODES
        then Inr (value_members ?acc ms, nodes + json_nodes v + (\<Sum>m\<leftarrow>ms. json_nodes (snd m))) else Inl Json)"
      using 8(2) [OF _ v refl] True wf by simp
    finally show ?thesis
      unfolding fresh using True by (auto simp: value_members_Cons fits_def add.assoc)
  next
    case False
    with 8(1) "8.prems"(1) show ?thesis by (auto simp: fits_def)
  qed
qed (auto simp: charge_eq fits_def value_members_def)

end
