(* ===== verification/Prompt_Properties.thy ===== *)
theory Prompt_Properties
  imports Prompt_Import
begin

text \<open>
  The properties of the prompt crate, each with an instance on a small concrete preset. The concrete
  regular expression engine searches for literal text.
\<close>

section \<open>Compilation as a whole\<close>

lemma validate_runtime_input_no_panic: "outcome no_panic (\<lambda>_. True) (validate_runtime_input input)"
proof -
  have "outcome no_panic (\<lambda>_. True) (validate_runtime_variable n e)" for n e
    by (simp add: validate_runtime_variable_def Let_def case_prod_beta ok_or_def split: option.split)
  then show ?thesis
    by (auto simp: validate_runtime_input_def intro!: outcome_and_then [OF try_fold_no_panic])
qed

lemma validate_runtime_references_outcome:
  "outcome no_panic (\<lambda>_. tool_id ` set (filter tool_enabled (tools (advanced preset))) \<subseteq> set (available_tool_ids input) \<and>
      list_all (module_available input) (filter module_enabled (modules (advanced preset))))
    (validate_runtime_references preset input)"
  unfolding validate_runtime_references_def
proof (rule outcome_and_then [OF outcome_try_fold [where I = "\<lambda>ts _. tool_id ` set ts \<subseteq> set (available_tool_ids input)"]],
    simp, simp, rule outcome_mono [OF outcome_try_fold [where I = "\<lambda>ms _. list_all (module_available input) ms"]])
qed auto

lemma merged_variables_no_panic: "outcome no_panic (\<lambda>vars. merged_variables preset input = Inr vars) (merged_variables preset input)"
proof -
  have "outcome no_panic (\<lambda>_. True) (merged_variables preset input)"
    by (auto simp: merged_variables_def Let_def intro!: outcome_and_then [OF try_fold_no_panic] split: option.split)
  from outcome_eq [OF this] show ?thesis by (rule outcome_mono) simp
qed

definition compiled_ok ::
  "'rx regex_engine \<Rightarrow> PromptPreset \<Rightarrow> PromptCompileInput \<Rightarrow> CompiledPrompt \<Rightarrow> bool" where
  "compiled_ok rxe preset input p \<longleftrightarrow>
    preset_ok rxe preset \<and>
    tool_id ` set (active_tools p) \<subseteq> set (available_tool_ids input) \<and>
    list_all (module_available input) (active_modules p) \<and>
    active_tools p = filter tool_enabled (tools (advanced preset)) \<and>
    active_modules p = filter module_enabled (modules (advanced preset)) \<and>
    prompt_sampling p = bound_sampling (binding_mode input) (sampling preset) \<and>
    token_count p = approximate_tokens (messages p) \<and>
    (\<exists>vars pipe. merged_variables preset input = Inr vars \<and> pipeline_new rxe preset Request = Inr pipe \<and>
      (let out = intended_messages preset input vars in
        out \<noteq> [] \<and> messages_ok (map fst out) \<and>
        messages p = map (transformed rxe (pipe_rules pipe)) (map fst out) \<and> source_map p = map snd out \<and>
        contents_ok (messages p) \<and>
        cache_points_ok (map fst out) (intended_cache_points preset) (cache_points p)))"

lemma compile_prompt_outcome:
  assumes "regex_contract rxe"
  shows "outcome no_panic (compiled_ok rxe preset input) (compile_prompt rxe preset input)"
  unfolding compile_prompt_def
  by (rule outcome_and_then [OF validate_preset_outcome],
      rule outcome_and_then [OF validate_runtime_input_no_panic],
      rule outcome_and_then [OF validate_runtime_references_outcome],
      rule outcome_and_then [OF merged_variables_no_panic],
      rule outcome_and_then [OF collect_messages_outcome],
      rule outcome_and_then [OF transform_messages_outcome [OF assms]])
    (auto simp: compiled_ok_def Let_def)

lemma cache_points_ok_transformed:
  "cache_points_ok (map (transformed rxe rules) ms) pending cps = cache_points_ok ms pending cps"
proof -
  have "cache_point_ok (map (transformed rxe rules) ms) = cache_point_ok ms"
    by (auto simp: cache_point_ok_def fun_eq_iff)
  moreover have "resolved (map (transformed rxe rules) ms) = resolved ms"
    by (simp add: fun_eq_iff resolved_def)
  ultimately show ?thesis by (simp add: cache_points_ok_def)
qed

lemma compiled_ok_messages:
  fixes rxe :: "'rx regex_engine"
  assumes "compiled_ok rxe preset input p"
  shows "messages_ok (messages p)" and "messages p \<noteq> []" and "length (source_map p) = length (messages p)"
    and "cache_points_ok (messages p) (intended_cache_points preset) (cache_points p)"
proof -
  obtain vars and pipe :: "'rx CompiledTransformPipeline" where "let out = intended_messages preset input vars in
      out \<noteq> [] \<and> messages_ok (map fst out) \<and>
      messages p = map (transformed rxe (pipe_rules pipe)) (map fst out) \<and> source_map p = map snd out \<and>
      contents_ok (messages p) \<and>
      cache_points_ok (map fst out) (intended_cache_points preset) (cache_points p)"
    using assms unfolding compiled_ok_def by blast
  then have v: "intended_messages preset input vars \<noteq> []"
      "messages_ok (map fst (intended_messages preset input vars))"
      "messages p = map (transformed rxe (pipe_rules pipe)) (map fst (intended_messages preset input vars))"
      "source_map p = map snd (intended_messages preset input vars)" "contents_ok (messages p)"
      "cache_points_ok (map fst (intended_messages preset input vars)) (intended_cache_points preset) (cache_points p)"
    unfolding Let_def by blast+
  show "messages p \<noteq> []" "length (source_map p) = length (messages p)"
    using v(1) by (simp_all add: v(3,4))
  show "messages_ok (messages p)"
    using v(2,5) by (simp add: messages_ok_def contents_ok_def v(3) sorted_wrt_map comp_def)
  show "cache_points_ok (messages p) (intended_cache_points preset) (cache_points p)"
    unfolding v(3) cache_points_ok_transformed by (rule v(6))
qed

section \<open>A concrete preset\<close>

definition find_from :: "nat \<Rightarrow> rstr \<Rightarrow> rstr \<Rightarrow> nat list" where
  "find_from k needle hay = filter (\<lambda>i. take (length needle) (drop i hay) = needle) [k..<length hay]"

text \<open>The first occurrence of a non-empty literal: one match, its whole span.\<close>

definition literal_engine :: "rstr regex_engine" where
  "literal_engine = \<lparr>regex_build = (\<lambda>p flags. Some p), captures_len = (\<lambda>rx. 1),
    captures_iter = (\<lambda>rx s. case find_from 0 rx s of [] \<Rightarrow> [] | i # _ \<Rightarrow> [[Some (i, i + length rx)]])\<rparr>"

lemma literal_contract: "regex_contract literal_engine"
proof -
  have "i + length rx \<le> length s" if "find_from 0 rx s = i # is" for i "is" rx s
  proof -
    have "i \<in> set (find_from 0 rx s)" using that by simp
    then have rx: "take (length rx) (drop i s) = rx" and "i < length s" by (auto simp: find_from_def)
    have "length (take (length rx) (drop i s)) = length rx" by (simp only: rx)
    with \<open>i < length s\<close> show ?thesis by (simp add: min_def split: if_splits)
  qed
  then show ?thesis
    by (auto simp: regex_contract_def literal_engine_def capture_get_def group_ok_def split: list.split)
qed

definition demo_flags :: RegexFlags where
  "demo_flags = \<lparr>global_flag = False, case_insensitive = False, multi_line = False, unicode_flag = False,
    dot_matches_new_line = False\<rparr>"

definition demo_preset :: PromptPreset where
  "demo_preset = \<lparr>preset_name = lit ''demo'',
    blocks = [Raw (lit ''main'') True PromptSystem (Some Main) (lit ''You are ${char}.''),
      Chat (lit ''chat'') True \<lparr>sel_start = 0, sel_end = EndOfChat\<rparr>,
      CachePointBlock (lit ''cache'') True 1 PromptUser],
    sampling = \<lparr>temperature = None, top_k = None, min_p = None, top_a = None, repetition_penalty = None,
      top_p = None, presence_penalty = None, frequency_penalty = None, stop_sequences = [], sampling_seed = None\<rparr>,
    advanced = \<lparr>template_settings = \<lparr>preamble = None, epilogue = None,
        default_variables = [(lit ''char'', lit ''Lore'')]\<rparr>,
      tools = [], regex_rules = [\<lparr>rule_name = lit ''r'', rule_enabled = True, rule_target = Request,
        rule_pattern = lit ''cat'', rule_replacement = lit ''dog'', rule_flags = demo_flags\<rparr>],
      modules = []\<rparr>\<rparr>"

definition demo_input :: PromptCompileInput where
  "demo_input = \<lparr>history = [\<lparr>msg_role = User, msg_content = lit ''a cat''\<rparr>], persona = [],
    character_description = [], author_note = None, lorebook = [], long_term_memory = [],
    final_insertion = [], variables = [], available_tool_ids = [], available_modules = [],
    binding_mode = Classic\<rparr>"

named_theorems prompt_eval \<open>definitions unfolded to evaluate prompt compilation on concrete data\<close>

lemmas prompt_eval_text [prompt_eval] = lit_def Let_def str_len_def utf8_width_def checked_add_def
  validate_label_def trim_def is_whitespace_def has_nul_def validate_authored_template_def
  validate_authored_text_def add_authored_def validate_template_syntax_def opens_variable_def
  split_name_def validate_variable_name_def is_ascii_alphabetic_def is_ascii_alphanumeric_def
  is_ascii_digit_def append_rendered_def lookup_variable_def render_with_reserved_def
  render_template_def

lemmas prompt_eval_preset [prompt_eval] = validate_preset_def validate_block_step_def set_authored_def
  is_chat_block_def validate_sampling_def validate_float_def validate_template_settings_def
  validate_synthetic_def validate_default_variable_def validate_references_def
  validate_regex_rules_def validate_regex_rule_def validate_regex_contract_def validate_rule_table_def
  compile_regex_def parse_replacement_def rule_label_def push_literal_def

lemmas prompt_eval_compile [prompt_eval] = compile_prompt_def validate_runtime_input_def
  validate_runtime_references_def merged_variables_def bt_extend_def collect_messages_def
  push_synthetic_def compile_block_step_def check_special_def lift_state_def push_text_def
  CompileState_push_def CompileState_default_def validate_message_content_def compile_chat_def
  push_history_def index_or_def resolve_cache_points_def resolve_cache_point_def
  transform_messages_def transform_message_def pipeline_new_def pipeline_rule_def pipeline_apply_def
  pipeline_step_def ensure_text_size_def budget_charge_def budget_charge_match_def apply_rule_def
  apply_match_def capture_get_def slice_def append_output_def expand_replacement_def
  bound_sampling_def approximate_tokens_def literal_engine_def find_from_def

text \<open>Evaluate the first step of a sequence before the rest of it.\<close>

lemma demo_preset_valid: "validate_preset literal_engine demo_preset = Inr ()"
  by (simp add: prompt_eval demo_preset_def demo_flags_def cong: and_then_weak_cong)

lemma demo_preset_compiles:
  "\<exists>p. compile_prompt literal_engine demo_preset demo_input = Inr p \<and>
    messages p = [\<lparr>msg_role = System, msg_content = lit ''You are Lore.''\<rparr>,
      \<lparr>msg_role = User, msg_content = lit ''a dog''\<rparr>] \<and>
    source_map p = [Block 0 RawKind, History 1 0] \<and>
    cache_points p = [\<lparr>cp_block_index = 2, cp_message_index = 1, cp_depth = 1, cp_role = PromptUser\<rparr>]"
  by (simp add: prompt_eval demo_preset_def demo_input_def demo_flags_def cong: and_then_weak_cong)

section \<open>Compilation\<close>

text \<open>
  C14. A compiled prompt is what its preset and input denote: the messages of the preamble, of the
  enabled blocks in order and of the epilogue, each rewritten by the active request rules, with the
  source of each; a runtime variable overrides the preset's default of the same name.
\<close>

theorem compile_prompt_denotes:
  fixes rxe :: "'rx regex_engine"
  assumes "regex_contract rxe" and "compile_prompt rxe preset input = Inr p"
    and "bt_wf (default_variables (template_settings (advanced preset)))" and "bt_wf (variables input)"
  shows "\<exists>vars pipe. map_of vars =
      map_of (default_variables (template_settings (advanced preset))) ++ map_of (variables input) \<and>
    pipeline_new rxe preset Request = Inr pipe \<and>
    messages p = map (transformed rxe (pipe_rules pipe)) (map fst (intended_messages preset input vars)) \<and>
    source_map p = map snd (intended_messages preset input vars)"
proof -
  have "compiled_ok rxe preset input p" using compile_prompt_outcome [OF assms(1), of preset input] assms(2) by simp
  then obtain vars and pipe :: "'rx CompiledTransformPipeline" where v: "merged_variables preset input = Inr vars"
      "pipeline_new rxe preset Request = Inr pipe"
      "let out = intended_messages preset input vars in
        out \<noteq> [] \<and> messages_ok (map fst out) \<and>
        messages p = map (transformed rxe (pipe_rules pipe)) (map fst out) \<and> source_map p = map snd out \<and>
        contents_ok (messages p) \<and>
        cache_points_ok (map fst out) (intended_cache_points preset) (cache_points p)"
    unfolding compiled_ok_def by blast
  have "map_of vars = map_of (default_variables (template_settings (advanced preset))) ++ map_of (variables input)"
    using v(1) bt_extend_wf_get [OF assms(3,4)] by (auto simp: merged_variables_def Let_def split: if_splits)
  with v(2,3) show ?thesis unfolding Let_def by blast
qed

theorem compile_prompt_denotes_witness:
  "\<exists>p vars. compile_prompt literal_engine demo_preset demo_input = Inr p \<and>
    msg_content (messages p ! 1) = lit ''a dog'' \<and>
    source_map p = map snd (intended_messages demo_preset demo_input vars)"
proof -
  from demo_preset_compiles obtain p where p: "compile_prompt literal_engine demo_preset demo_input = Inr p"
      "messages p = [\<lparr>msg_role = System, msg_content = lit ''You are Lore.''\<rparr>,
        \<lparr>msg_role = User, msg_content = lit ''a dog''\<rparr>]"
    by blast
  from compile_prompt_denotes [OF literal_contract p(1)]
  have "\<exists>vars. source_map p = map snd (intended_messages demo_preset demo_input vars)"
    by (auto simp: demo_preset_def demo_input_def)
  with p show ?thesis by auto
qed

text \<open>
  C15. A compiled prompt is fit for a provider: it has a message, one source per message, at most ten
  thousand messages and four MiB of text, no blank content and no NUL, system messages before all
  others; and its cache points are those of the enabled cache blocks, at distinct messages within the
  last sixteen, each of the declared role.
\<close>

theorem compiled_prompt_well_formed:
  assumes "regex_contract rxe" and "compile_prompt rxe preset input = Inr p"
  shows "messages p \<noteq> [] \<and> length (source_map p) = length (messages p) \<and> messages_ok (messages p) \<and>
    cache_points_ok (messages p) (intended_cache_points preset) (cache_points p)"
proof -
  have "compiled_ok rxe preset input p" using compile_prompt_outcome [OF assms(1), of preset input] assms(2) by simp
  from compiled_ok_messages [OF this] show ?thesis by blast
qed

theorem compiled_prompt_well_formed_witness:
  "\<exists>p. compile_prompt literal_engine demo_preset demo_input = Inr p \<and> messages_ok (messages p) \<and>
    cache_points_ok (messages p) (intended_cache_points demo_preset) (cache_points p) \<and>
    length (cache_points p) = 1"
proof -
  from demo_preset_compiles obtain p where p: "compile_prompt literal_engine demo_preset demo_input = Inr p"
      "length (cache_points p) = 1"
    by auto
  from compiled_prompt_well_formed [OF literal_contract p(1)] p show ?thesis by blast
qed

text \<open>
  C16. Compilation never panics: no history or message index is out of range, no slice of a matched
  text is invalid, whatever the preset and the input.
\<close>

theorem compile_prompt_never_panics:
  assumes "regex_contract rxe"
  shows "compile_prompt rxe preset input \<noteq> Inl Panicked"
  using compile_prompt_outcome [OF assms, of preset input] by auto

theorem compile_prompt_never_panics_witness:
  "compile_prompt literal_engine demo_preset (demo_input\<lparr>history := []\<rparr>) \<noteq> Inl Panicked"
  by (rule compile_prompt_never_panics [OF literal_contract])

section \<open>Templates\<close>

lemma substituted_append: "substituted lookup (g1 @ g2) = substituted lookup g1 @ substituted lookup g2"
  by (simp add: substituted_def)

lemma substituted_cong:
  "(\<And>n. n \<in> set (segment_vars gs) \<Longrightarrow> lookup n = lookup' n) \<Longrightarrow> substituted lookup gs = substituted lookup' gs"
proof (induction gs)
  case (Cons g gs)
  then show ?case by (cases g) (auto simp: substituted_def)
qed (simp add: substituted_def)

lemma segment_vars_split:
  assumes "length (filter (\<lambda>n. n = x) (segment_vars gs)) = 1"
  shows "\<exists>g1 g2. gs = g1 @ Var x # g2 \<and> x \<notin> set (segment_vars g1) \<and> x \<notin> set (segment_vars g2)"
  using assms
proof (induction gs)
  case (Cons g gs)
  show ?case
  proof (cases "g = Var x")
    case True
    with Cons.prems have "x \<notin> set (segment_vars gs)" by (auto simp: filter_empty_conv)
    with True show ?thesis by (intro exI [of _ "[]"] exI [of _ gs]) simp
  next
    case False
    with Cons.prems have "length (filter (\<lambda>n. n = x) (segment_vars gs)) = 1" by (cases g) auto
    with Cons.IH obtain g1 g2 where "gs = g1 @ Var x # g2" "x \<notin> set (segment_vars g1)" "x \<notin> set (segment_vars g2)"
      by blast
    moreover from this False have "x \<notin> set (segment_vars (g # g1))" by (cases g) auto
    ultimately show ?thesis by (intro exI [of _ "g # g1"] exI [of _ g2]) simp
  qed
qed simp

lemma render_content_substituted:
  assumes "template_segments t gs" and "render_content (Custom t) v vars = Inr s"
  shows "s = substituted (lookup_variable vars (Some (lit ''value'', v))) gs"
  using render_from_result [OF assms(1), of "lookup_variable vars (Some (lit ''value'', v))" "[]" "[]"] assms(2)
  by (auto simp: render_result_def render_with_reserved_def Let_def split: if_splits)

text \<open>
  C17. A custom format that passed validation has one slot for runtime text: the result is a fixed
  prefix, the text itself and a fixed suffix, whatever the text contains. Runtime text gains no
  variable expansion.
\<close>

theorem custom_format_single_slot:
  assumes "validate_content_format (Custom t) i n = Inr m"
  shows "\<exists>before after. \<forall>v s. render_content (Custom t) v vars = Inr s \<longrightarrow> s = before @ v @ after"
proof -
  let ?lk = "\<lambda>v. lookup_variable vars (Some (lit ''value'', v))"
  from assms obtain vs where vs: "validate_template_syntax t (block_field i ''.format.template'') = Inr vs"
      "length (filter (\<lambda>n. n = lit ''value'') vs) = 1"
    by (auto simp: Let_def split: if_splits)
  from validate_template_segments [OF vs(1) [unfolded validate_template_syntax_def]] obtain gs
    where gs: "template_segments t gs" "vs = segment_vars gs" by auto
  obtain g1 g2 where g: "gs = g1 @ Var (lit ''value'') # g2" "lit ''value'' \<notin> set (segment_vars g1)"
      "lit ''value'' \<notin> set (segment_vars g2)"
    using segment_vars_split vs(2) gs(2) by blast
  have fixed: "substituted (?lk v) g1 = substituted (?lk []) g1" "substituted (?lk v) g2 = substituted (?lk []) g2" for v
    by (rule substituted_cong; use g in \<open>auto simp: lookup_variable_def\<close>)+
  have "s = substituted (?lk []) g1 @ v @ substituted (?lk []) g2"
    if "render_content (Custom t) v vars = Inr s" for v s
  proof -
    have "s = substituted (?lk v) gs" by (rule render_content_substituted [OF gs(1) that])
    also have "\<dots> = substituted (?lk v) g1 @ v @ substituted (?lk v) g2"
      by (simp add: g(1) substituted_append) (simp add: substituted_def lookup_variable_def)
    finally show ?thesis by (simp only: fixed [of v])
  qed
  then show ?thesis by blast
qed

theorem custom_format_single_slot_witness:
  "let t = lit ''<${value}|${char}>''; vars = [(lit ''char'', lit ''Lore'')] in
    (\<exists>m. validate_content_format (Custom t) 0 0 = Inr m) \<and>
    render_content (Custom t) (lit ''${char}'') vars = Inr (lit ''<${char}|Lore>'') \<and>
    (\<exists>before after. \<forall>v s. render_content (Custom t) v vars = Inr s \<longrightarrow> s = before @ v @ after)"
proof -
  let ?t = "lit ''<${value}|${char}>''" and ?vars = "[(lit ''char'', lit ''Lore'')]"
  have valid: "validate_content_format (Custom ?t) 0 0 = Inr 18"
    by (simp add: prompt_eval cong: and_then_weak_cong)
  have "render_content (Custom ?t) (lit ''${char}'') ?vars = Inr (lit ''<${char}|Lore>'')"
    by (simp add: prompt_eval cong: and_then_weak_cong)
  with valid custom_format_single_slot [OF valid, of ?vars] show ?thesis
    unfolding Let_def by (intro conjI exI [of _ 18])
qed

end
