(* ===== verification/Prompt_Contracts.thy ===== *)
theory Prompt_Contracts
  imports Prompt_Properties
begin

text \<open>
  Further properties of the prompt crate: template rendering, replacement strings, transforms,
  validation, portable presets and the capacity check.
\<close>

section \<open>Templates and replacements\<close>

text \<open>
  C18. A validated template is its segments, and rendering it is one left-to-right substitution: it
  succeeds exactly when every variable is bound and the result fits, and otherwise fails for an
  unbound variable or for its size.
\<close>

theorem template_renders_segments:
  assumes "validate_template_syntax t field = Inr vs"
  shows "\<exists>gs. concat (map unparse gs) = t \<and> segment_vars gs = vs \<and>
    (\<forall>vars. let r = render_template t vars; s = substituted (map_of vars) gs in
      if all_bound (map_of vars) gs \<and> str_len s \<le> MAX_RENDERED_TEXT_BYTES then r = Inr s
      else r = Inl rendered_too_large \<or> (\<exists>n\<in>set vs. map_of vars n = None \<and> r = Inl (UnknownVariable n)))"
proof -
  obtain gs where gs: "template_segments t gs" "vs = segment_vars gs"
    using validate_template_segments [OF assms [unfolded validate_template_syntax_def]] by auto
  have "lookup_variable vars None = map_of vars" for vars
    by (simp add: fun_eq_iff lookup_variable_def)
  then have "render_result (map_of vars) [] gs (render_template t vars)" for vars
    using render_from_result [OF gs(1), of "map_of vars" "[]" "[]"]
    by (simp add: render_template_def render_with_reserved_def)
  with gs template_segments_unparse [OF gs(1)] show ?thesis
    by (intro exI [of _ gs]) (simp add: render_result_def Let_def)
qed

theorem template_renders_segments_witness:
  "\<exists>gs. concat (map unparse gs) = lit ''a ${b}'' \<and> segment_vars gs = [lit ''b''] \<and>
    render_template (lit ''a ${b}'') [(lit ''b'', lit ''c'')] = Inr (lit ''a c'')"
proof -
  have "validate_template_syntax (lit ''a ${b}'') [] = Inr [lit ''b'']"
    "render_template (lit ''a ${b}'') [(lit ''b'', lit ''c'')] = Inr (lit ''a c'')"
    by (simp_all add: prompt_eval cong: and_then_weak_cong)
  with template_renders_segments [OF this(1)] show ?thesis by blast
qed

text \<open>
  Parsing a replacement string loses nothing: printing the parts gives the string back, and no
  capture group above 63 is ever referred to.
\<close>

theorem replacement_roundtrip:
  assumes "parse_replacement label s = Inr parts"
  shows "unparse_parts parts = s \<and> (\<forall>n. Capture n \<in> set parts \<longrightarrow> n \<le> 63)"
  using parse_replacement_from_unparse [OF assms [unfolded parse_replacement_def]] by simp

theorem replacement_roundtrip_witness:
  "parse_replacement [] (lit ''a$$${12}'') = Inr [Literal (lit ''a''), Dollar, Capture 12] \<and>
    unparse_parts [Literal (lit ''a''), Dollar, Capture 12] = lit ''a$$${12}''"
proof -
  have p: "parse_replacement [] (lit ''a$$${12}'') = Inr [Literal (lit ''a''), Dollar, Capture 12]"
    by (simp add: prompt_eval parse_usize_def cong: and_then_weak_cong)
  from replacement_roundtrip [OF p] p show ?thesis by blast
qed

section \<open>Transforms\<close>

definition compiled_from_rule :: "'rx regex_engine \<Rightarrow> nat \<times> RegexRule \<Rightarrow> 'rx CompiledRule \<Rightarrow> bool" where
  "compiled_from_rule rxe entry cr \<longleftrightarrow> (let rule = snd entry in
    regex_build rxe (rule_pattern rule) (rule_flags rule) = Some (cr_regex cr) \<and>
    unparse_parts (cr_replacement cr) = rule_replacement rule \<and>
    cr_global cr = global_flag (rule_flags rule))"

definition active_rules :: "PromptPreset \<Rightarrow> TransformTarget \<Rightarrow> (nat \<times> RegexRule) list" where
  "active_rules preset target = filter (\<lambda>(i, r). rule_enabled r \<and> rule_target r = target)
    (enumerate 0 (regex_rules (advanced preset)))"

lemma pipeline_rule_compiles:
  assumes "pipeline_rule rxe target rs entry = Inr rs'"
  shows "if rule_enabled (snd entry) \<and> rule_target (snd entry) = target
    then \<exists>cr. rs' = rs @ [cr] \<and> compiled_from_rule rxe entry cr else rs' = rs"
proof (cases "rule_enabled (snd entry) \<and> rule_target (snd entry) = target")
  case True
  obtain i r where e: "entry = (i, r)" by (cases entry)
  let ?l = "rule_label i (rule_name r)"
  from assms True obtain rx parts where rx: "compile_regex rxe ?l (rule_pattern r) (rule_flags r) = Inr rx"
      "parse_replacement ?l (rule_replacement r) = Inr parts"
      "rs' = rs @ [\<lparr>cr_label = ?l, cr_regex = rx, cr_replacement = parts,
        cr_global = global_flag (rule_flags r), cr_matches = 0\<rparr>]"
    by (auto simp: pipeline_rule_def e Let_def)
  have "regex_build rxe (rule_pattern r) (rule_flags r) = Some rx"
    using rx(1) by (auto simp: compile_regex_def split: if_splits)
  moreover have "unparse_parts parts = rule_replacement r"
    using parse_replacement_from_unparse [OF rx(2) [unfolded parse_replacement_def]] by simp
  ultimately show ?thesis using True rx(3) by (simp add: compiled_from_rule_def e)
next
  case False
  obtain i r where "entry = (i, r)" by (cases entry)
  with False assms show ?thesis by (auto simp: pipeline_rule_def)
qed

lemma pipeline_new_compiles:
  assumes "pipeline_new rxe preset target = Inr pipe"
  shows "list_all2 (compiled_from_rule rxe) (active_rules preset target) (pipe_rules pipe)"
proof -
  have "try_fold (pipeline_rule rxe target) [] (enumerate 0 (regex_rules (advanced preset))) = Inr (pipe_rules pipe)"
    using assms by (auto simp: pipeline_new_def)
  then show ?thesis
    unfolding active_rules_def
  proof (rule try_fold_invariant [where I = "\<lambda>es rs. list_all2 (compiled_from_rule rxe)
      (filter (\<lambda>(i, r). rule_enabled r \<and> rule_target r = target) es) rs"])
    fix pre x and u u' :: "'a CompiledRule list"
    assume "list_all2 (compiled_from_rule rxe) (filter (\<lambda>(i, r). rule_enabled r \<and> rule_target r = target) pre) u"
      "pipeline_rule rxe target u x = Inr u'"
    with pipeline_rule_compiles [OF this(2)]
    show "list_all2 (compiled_from_rule rxe) (filter (\<lambda>(i, r). rule_enabled r \<and> rule_target r = target) (pre @ [x])) u'"
      by (cases x) (auto simp: list_all2_appendI split: if_splits)
  qed simp
qed

text \<open>
  The rules that a transform of one target needs: the table is within its limits, and every enabled
  rule of the target has a pattern the engine builds, with at most 63 groups, and a replacement that parses.
\<close>

definition rule_usable :: "'rx regex_engine \<Rightarrow> nat \<times> RegexRule \<Rightarrow> bool" where
  "rule_usable rxe entry \<longleftrightarrow> (let (i, rule) = entry in
    (\<exists>rx. regex_build rxe (rule_pattern rule) (rule_flags rule) = Some rx \<and> captures_len rxe rx \<le> 64) \<and>
    is_ok (parse_replacement (rule_label i (rule_name rule)) (rule_replacement rule)))"

definition rule_text_fits :: "RegexRule \<Rightarrow> bool" where
  "rule_text_fits r \<longleftrightarrow>
    str_len (rule_pattern r) \<le> MAX_PATTERN_BYTES \<and> str_len (rule_replacement r) \<le> MAX_REPLACEMENT_BYTES"

definition rule_table_fits :: "RegexRule list \<Rightarrow> bool" where
  "rule_table_fits rules \<longleftrightarrow> length rules \<le> MAX_RULES \<and> length (filter rule_enabled rules) \<le> MAX_ACTIVE_RULES \<and>
    list_all rule_text_fits rules"

definition rules_usable :: "'rx regex_engine \<Rightarrow> PromptPreset \<Rightarrow> TransformTarget \<Rightarrow> bool" where
  "rules_usable rxe preset target \<longleftrightarrow> rule_table_fits (regex_rules (advanced preset)) \<and>
    list_all (rule_usable rxe) (active_rules preset target)"

definition rule_error :: "PromptError \<Rightarrow> bool" where
  "rule_error e \<longleftrightarrow> transform_error e \<or> (\<exists>label reason. e = RegexError label reason)"

lemma validate_rule_table_exact:
  "outcome (\<lambda>e. rule_error e \<and> \<not> rule_table_fits (regex_rules (advanced preset)))
    (\<lambda>_. rule_table_fits (regex_rules (advanced preset))) (validate_rule_table preset)"
proof -
  let ?rules = "regex_rules (advanced preset)"
  let ?step = "\<lambda>_ (index, rule).
       if str_len (rule_pattern rule) > MAX_PATTERN_BYTES
       then Inl (PayloadTooLarge (lit ''advanced.regex['' @ nat_str index @ lit ''].pattern'') MAX_PATTERN_BYTES)
       else if str_len (rule_replacement rule) > MAX_REPLACEMENT_BYTES
       then Inl (PayloadTooLarge (lit ''advanced.regex['' @ nat_str index @ lit ''].replacement'') MAX_REPLACEMENT_BYTES)
       else Inr ()"
  have "outcome (\<lambda>e. rule_error e \<and> \<not> list_all rule_text_fits (map snd es)) (\<lambda>_. list_all rule_text_fits (map snd es))
      (try_fold ?step () es)" for es
    by (rule outcome_try_fold [where I = "\<lambda>es _. list_all rule_text_fits (map snd es)"])
      (force simp: rule_error_def transform_error_def rule_text_fits_def list_all_iff)+
  from this [of "enumerate 0 ?rules"] show ?thesis
    by (cases "rule_table_fits ?rules")
      (auto simp: validate_rule_table_def Let_def rule_table_fits_def rule_error_def transform_error_def)
qed

lemma parse_replacement_outcome:
  "outcome rule_error (\<lambda>_. True) (parse_replacement_from label parts pending s)"
  by (induction label parts pending s rule: parse_replacement_from.induct)
    (auto simp: Let_def replacement_error_def rule_error_def ok_or_def split: option.split list.split)

lemma pipeline_rule_exact:
  "outcome (\<lambda>e. rule_error e \<and> rule_enabled (snd entry) \<and> rule_target (snd entry) = target \<and> \<not> rule_usable rxe entry)
    (\<lambda>_. rule_enabled (snd entry) \<and> rule_target (snd entry) = target \<longrightarrow> rule_usable rxe entry)
    (pipeline_rule rxe target rs entry)"
proof -
  obtain i r where e: "entry = (i, r)" by (cases entry)
  let ?l = "rule_label i (rule_name r)"
  consider e where "parse_replacement ?l (rule_replacement r) = Inl e" "rule_error e"
    | parts where "parse_replacement ?l (rule_replacement r) = Inr parts"
    using parse_replacement_outcome [of ?l "[]" "[]" "rule_replacement r"]
    by (cases "parse_replacement ?l (rule_replacement r)") (auto simp: parse_replacement_def)
  then show ?thesis
    by cases (auto simp: e pipeline_rule_def rule_usable_def compile_regex_def Let_def rule_error_def ok_or_def
        split: option.splits)
qed

lemma pipeline_new_exact:
  "outcome (\<lambda>e. rule_error e \<and> \<not> rules_usable rxe preset target) (\<lambda>_. rules_usable rxe preset target)
    (pipeline_new rxe preset target)"
proof -
  let ?es = "enumerate 0 (regex_rules (advanced preset))"
  let ?active = "\<lambda>e. rule_enabled (snd e) \<and> rule_target (snd e) = target"
  have "outcome (\<lambda>e. rule_error e \<and> (\<exists>x\<in>set ?es. ?active x \<and> \<not> rule_usable rxe x))
      (\<lambda>_. \<forall>x\<in>set ?es. ?active x \<longrightarrow> rule_usable rxe x) (try_fold (pipeline_rule rxe target) [] ?es)"
  proof (rule outcome_try_fold [where I = "\<lambda>es _. \<forall>x\<in>set es. ?active x \<longrightarrow> rule_usable rxe x"], goal_cases)
    case (2 pre x u)
    then show ?case using pipeline_rule_exact [of x target rxe u] by (cases "pipeline_rule rxe target u x") auto
  qed simp
  moreover have "list_all (rule_usable rxe) (active_rules preset target) \<longleftrightarrow>
      (\<forall>x\<in>set ?es. ?active x \<longrightarrow> rule_usable rxe x)"
    by (auto simp: active_rules_def list_all_iff)
  ultimately show ?thesis
    using validate_rule_table_exact [of preset] unfolding pipeline_new_def rules_usable_def
    by (cases "validate_rule_table preset"; cases "try_fold (pipeline_rule rxe target) [] ?es") auto
qed

lemma compile_regex_ok: "is_ok (compile_regex rxe label pattern flags) \<longleftrightarrow>
    (\<exists>rx. regex_build rxe pattern flags = Some rx \<and> captures_len rxe rx \<le> 64)"
  by (cases "regex_build rxe pattern flags") (auto simp: compile_regex_def)

lemma validated_rules_usable:
  assumes "validate_preset rxe preset = Inr ()"
  shows "rules_usable rxe preset target"
proof -
  from assms have contract: "validate_regex_contract rxe preset = Inr ()"
    by (auto simp: validate_preset_def validate_regex_rules_def Let_def split: if_splits)
  then have "validate_rule_table preset = Inr ()" by (auto simp: validate_regex_contract_def)
  with validate_rule_table_exact [of preset] have "rule_table_fits (regex_rules (advanced preset))" by simp
  moreover have "list_all (rule_usable rxe) (enumerate 0 (regex_rules (advanced preset)))"
    using validate_regex_contract_outcome [of rxe preset] contract
    by (auto simp: list_all_iff rule_usable_def compile_regex_ok Let_def)
  ultimately show ?thesis by (auto simp: rules_usable_def active_rules_def list_all_iff)
qed

text \<open>
  C20. Transforming a text works on every preset that passes validation, and more generally whenever the rule
  table is within its limits and the enabled rules of the target have patterns the engine builds and
  replacements that parse. Then it applies exactly the enabled rules of the target, in order, each as a plain
  replacement of its matches, and fails only for a declared size or match limit. On any other preset it is
  refused with a table limit or a regex error. The regex engine is assumed to report matches in order, one
  after the other, with the groups inside the text.
\<close>

theorem transforms_equal_reference:
  fixes rxe :: "'rx regex_engine"
  assumes "regex_contract rxe"
  shows "(validate_preset rxe preset = Inr () \<longrightarrow> rules_usable rxe preset target) \<and>
    (if rules_usable rxe preset target
     then \<exists>rules. list_all2 (compiled_from_rule rxe) (active_rules preset target) rules \<and>
       outcome transform_error (\<lambda>out. out = foldl (rule_result rxe) input rules \<and> str_len out \<le> MAX_TEXT_BYTES)
         (apply_text_transforms rxe preset target input)
     else \<exists>e. rule_error e \<and> apply_text_transforms rxe preset target input = Inl e)"
proof (cases "pipeline_new rxe preset target")
  case (Inl e)
  with pipeline_new_exact [of rxe preset target] validated_rules_usable [of rxe preset target] show ?thesis
    by (auto simp: apply_text_transforms_def)
next
  case (Inr pipe)
  have "budget_ok (pipe_budget pipe)" using pipeline_new_budget [OF Inr] .
  note run = pipeline_apply_outcome [OF assms this, of input]
  have "outcome transform_error (\<lambda>out. out = foldl (rule_result rxe) input (pipe_rules pipe) \<and> str_len out \<le> MAX_TEXT_BYTES)
      (apply_text_transforms rxe preset target input)"
    unfolding apply_text_transforms_def Inr and_then.simps
    by (rule outcome_and_then [OF run]) auto
  with pipeline_new_compiles [OF Inr] pipeline_new_exact [of rxe preset target] Inr show ?thesis by auto
qed

theorem transforms_equal_reference_witness:
  "rules_usable literal_engine demo_preset Request \<and>
    apply_text_transforms literal_engine demo_preset Request (lit ''a cat'') = Inr (lit ''a dog'') \<and>
    (\<exists>rules. list_all2 (compiled_from_rule literal_engine) (active_rules demo_preset Request) rules \<and>
      lit ''a dog'' = foldl (rule_result literal_engine) (lit ''a cat'') rules)"
proof -
  have "apply_text_transforms literal_engine demo_preset Request (lit ''a cat'') = Inr (lit ''a dog'')"
    by (simp add: prompt_eval apply_text_transforms_def demo_preset_def demo_flags_def cong: and_then_weak_cong)
  with transforms_equal_reference [OF literal_contract, of demo_preset Request "lit ''a cat''"] demo_preset_valid
  show ?thesis by auto
qed

section \<open>Validation\<close>

text \<open>
  C21. A preset that passes validation is well-formed: every template parses, at most one chat block
  and one prompt of each special kind are active, references and rule names are distinct, every rule
  compiles, and all authored text together is within two MiB.
\<close>

theorem validated_preset_well_formed:
  assumes "validate_preset rxe preset = Inr ()"
  shows "preset_ok rxe preset"
  using validate_preset_outcome [of rxe preset] assms by simp

theorem validated_preset_well_formed_witness:
  "validate_preset literal_engine demo_preset = Inr () \<and> preset_ok literal_engine demo_preset"
  using demo_preset_valid validated_preset_well_formed [OF demo_preset_valid] by blast

text \<open>
  C22. The reader of portable documents accepts exactly those of depth at most 16 and at most 16384
  values in which no object repeats a key and every number is finite, and reads them unchanged.
\<close>

theorem unique_reader_exact:
  "UniqueValue_deserialize doc =
    (if json_unique doc \<and> json_depth doc \<le> MAX_JSON_DEPTH \<and> json_nodes doc \<le> MAX_JSON_NODES
     then Inr (json_value doc) else Inl Json)"
  using reader_exact(1) [of 0 1 doc] by (auto simp: UniqueValue_deserialize_def fits_def)

section \<open>Portable presets\<close>

lemma disable_authority_simps [simp]:
  "filter tool_enabled (tools (advanced (disable_authority p))) = []"
  "filter module_enabled (modules (advanced (disable_authority p))) = []"
  "filter rule_enabled (regex_rules (advanced (disable_authority p))) = []"
  by (simp_all add: disable_authority_def disable_tool_def disable_module_def disable_rule_def filter_map comp_def)

lemma import_preset_facts:
  assumes "import_preset rxe codec bytes = Inr preset"
  shows "validate_preset rxe preset = Inr ()" and "\<exists>q. preset = disable_authority q"
  using assms by (auto simp: import_preset_def Let_def split: if_splits)

text \<open>
  C23. An imported preset carries no authority: whatever the bytes, it compiles with no active tool
  and no active module, and its messages are sent as its blocks denote them, untouched by its rules.
\<close>

theorem imported_preset_inert:
  fixes rxe :: "'rx regex_engine"
  assumes "regex_contract rxe" and "import_preset rxe codec bytes = Inr preset"
    and "compile_prompt rxe preset input = Inr p"
  shows "active_tools p = [] \<and> active_modules p = [] \<and>
    (\<exists>vars. messages p = map fst (intended_messages preset input vars))"
proof -
  obtain q where q: "preset = disable_authority q" using import_preset_facts(2) [OF assms(2)] by blast
  have ok: "compiled_ok rxe preset input p" using compile_prompt_outcome [OF assms(1), of preset input] assms(3) by simp
  then have none: "active_tools p = []" "active_modules p = []" by (auto simp: compiled_ok_def q)
  obtain vars and pipe :: "'rx CompiledTransformPipeline" where v: "pipeline_new rxe preset Request = Inr pipe"
      "let out = intended_messages preset input vars in
        out \<noteq> [] \<and> messages_ok (map fst out) \<and>
        messages p = map (transformed rxe (pipe_rules pipe)) (map fst out) \<and> source_map p = map snd out \<and>
        contents_ok (messages p) \<and>
        cache_points_ok (map fst out) (intended_cache_points preset) (cache_points p)"
    using ok unfolding compiled_ok_def by blast
  have "list_all (\<lambda>r. \<not> (rule_enabled r \<and> rule_target r = Request)) (regex_rules (advanced preset))"
    using disable_authority_simps(3) [of q] unfolding filter_empty_conv list_all_iff q by blast
  from pipeline_new_disabled [OF this v(1)] have "transformed rxe (pipe_rules pipe) = id"
    by (simp add: fun_eq_iff transformed_def)
  with v(2) have "messages p = map fst (intended_messages preset input vars)" by (simp add: Let_def)
  with none show ?thesis by blast
qed

definition portable_codec :: prompt_codec where
  "portable_codec = \<lparr>parse_json = (\<lambda>bytes. Some (JObject [(lit ''format'', JString IMPORT_FORMAT),
      (lit ''schemaVersion'', JInt 1), (lit ''preset'', JNull)])),
    decode_wire = (\<lambda>v. Some demo_preset), encode_preset = (\<lambda>f v p. None)\<rparr>"

lemma portable_import: "import_preset literal_engine portable_codec [] = Inr (disable_authority demo_preset)"
proof -
  have "validate_preset literal_engine (disable_authority demo_preset) = Inr ()"
    by (simp add: prompt_eval disable_authority_def disable_rule_def demo_preset_def demo_flags_def
        cong: and_then_weak_cong)
  moreover have "disable_authority (disable_authority p) = disable_authority p" for p
    by (simp add: disable_authority_def disable_tool_def disable_module_def disable_rule_def comp_def)
  ultimately show ?thesis
    by (simp add: import_preset_def portable_codec_def UniqueValue_deserialize_def ParseBudget_charge_def
        checked_add_def decode_versioned_envelope_def decode_v1_def PromptPreset_deserialize_def lit_def Let_def
        cong: and_then_weak_cong)
qed

theorem imported_preset_inert_witness:
  "\<exists>preset p. import_preset literal_engine portable_codec [] = Inr preset \<and>
    compile_prompt literal_engine preset demo_input = Inr p \<and> active_tools p = [] \<and>
    msg_content (messages p ! 1) = lit ''a cat''"
proof -
  have "\<exists>p. compile_prompt literal_engine (disable_authority demo_preset) demo_input = Inr p \<and>
      msg_content (messages p ! 1) = lit ''a cat''"
    by (simp add: prompt_eval disable_authority_def disable_rule_def demo_preset_def demo_input_def demo_flags_def
        cong: and_then_weak_cong)
  then obtain p where p: "compile_prompt literal_engine (disable_authority demo_preset) demo_input = Inr p"
      "msg_content (messages p ! 1) = lit ''a cat''" by blast
  from imported_preset_inert [OF literal_contract portable_import p(1)] p portable_import show ?thesis by blast
qed

section \<open>Capacity\<close>

text \<open>
  For a capacity that passes its own check, the context check accepts exactly the token counts
  that leave room for the output; the sum cannot wrap.
\<close>

theorem context_capacity_exact:
  assumes "max_context_tokens c < 2 ^ 32" and "validate_capacity c = Inr ()"
  shows "validate_context_capacity n c = Inr () \<longleftrightarrow> n + capacity_output_tokens c \<le> max_context_tokens c"
  using assms by (auto simp: validate_context_capacity_def checked_add_def ok_or_def)

theorem context_capacity_exact_witness:
  "let c = \<lparr>max_context_tokens = 100, capacity_output_tokens = 40\<rparr> in
    validate_context_capacity 60 c = Inr () \<and> validate_context_capacity 61 c \<noteq> Inr ()"
proof -
  let ?c = "\<lparr>max_context_tokens = 100, capacity_output_tokens = 40\<rparr>"
  have "validate_capacity ?c = Inr ()" by (simp add: validate_capacity_def)
  from context_capacity_exact [OF _ this] show ?thesis by simp
qed

section \<open>Refusals\<close>

text \<open>The three limits of a compiled prompt as a whole.\<close>

definition whole_prompt_error :: "PromptError \<Rightarrow> bool" where
  "whole_prompt_error e \<longleftrightarrow>
    e = TooManyItems (lit ''compiled messages'') MAX_COMPILED_MESSAGES \<or>
    e = PayloadTooLarge (lit ''compiled messages'') MAX_COMPILED_MESSAGE_BYTES \<or>
    e = invalid (lit ''compiled messages.role'') ''system messages must precede the conversation''"

lemma plain_block_admitted:
  assumes "str_len text \<le> 65536 \<and> \<not> has_nul text \<and> (text = [] \<or> trim text \<noteq> [])"
  shows "outcome whole_prompt_error (\<lambda>st'. st_messages st' = st_messages st @
      (if text = [] then [] else [\<lparr>msg_role = role_of role, msg_content = text\<rparr>]))
    (push_dynamic_content st role Plain text vars source)"
  using assms
  by (auto simp: push_dynamic_content_def push_text_def CompileState_push_def validate_message_content_def Let_def
      whole_prompt_error_def ok_or_def split: option.split)

lemma and_then_Inl_last: "and_then m (\<lambda>x. and_then (f x) (\<lambda>y. Inr (g x y))) = Inl e \<Longrightarrow> and_then m f = Inl e"
  by (cases m; cases "f (projr m)") simp_all

lemma compile_prompt_refusal:
  assumes "validate_runtime_input (input\<lparr>persona := p, long_term_memory := m\<rparr>) =
      validate_runtime_input (input\<lparr>persona := [], long_term_memory := []\<rparr>)"
    and "compile_prompt rxe preset (input\<lparr>persona := p, long_term_memory := m\<rparr>) = Inl e"
  shows "compile_prompt rxe preset (input\<lparr>persona := [], long_term_memory := []\<rparr>) = Inl e \<or>
    (\<exists>vars. merged_variables preset input = Inr vars \<and>
      and_then (collect_messages preset (input\<lparr>persona := p, long_term_memory := m\<rparr>) vars)
        (\<lambda>st. transform_messages rxe preset (st_messages st)) = Inl e)"
proof -
  have same: "validate_runtime_references preset (input\<lparr>persona := q, long_term_memory := n\<rparr>) =
      validate_runtime_references preset input"
      "merged_variables preset (input\<lparr>persona := q, long_term_memory := n\<rparr>) = merged_variables preset input" for q n
    by (simp_all add: validate_runtime_references_def module_available_def merged_variables_def)
  from assms(2) show ?thesis
    unfolding compile_prompt_def same assms(1)
    by (cases "validate_preset rxe preset";
        cases "validate_runtime_input (input\<lparr>persona := [], long_term_memory := []\<rparr>)";
        cases "validate_runtime_references preset input"; cases "merged_variables preset input")
      (auto dest: and_then_Inl_last)
qed

end
