(* ===== verification/Persona_Model.thy ===== *)
theory Persona_Model
  imports Ordered_Map Metering
begin

text \<open>
  The persona crate: identifiers (\<open>id.rs\<close>), the catalog and its operations (\<open>catalog.rs\<close>), and its
  stored form (\<open>storage.rs\<close>). Every operation checks before it writes, so a refused operation
  leaves the catalog as it was and the model returns only the error. The JSON codec is a parameter.
\<close>

abbreviation (input) "MAX_PERSONAS \<equiv> 256 :: nat"
abbreviation (input) "MAX_CHARACTER_POLICIES \<equiv> 4096 :: nat"
abbreviation (input) "MAX_PERSONA_LABEL_BYTES \<equiv> 256 :: nat"
abbreviation (input) "MAX_PERSONA_PROMPT_BYTES \<equiv> 65536 :: nat"
abbreviation (input) "MAX_TOTAL_PERSONA_PROMPT_BYTES \<equiv> 4194304 :: nat"
abbreviation (input) "MAX_PERSONA_STATE_BYTES \<equiv> 16777216 :: nat"
abbreviation (input) "MAX_PERSONA_ID_BYTES \<equiv> 64 :: nat"
abbreviation (input) "MAX_CHARACTER_CARD_ID_BYTES \<equiv> 128 :: nat"
abbreviation (input) "MAX_CHAT_ID_BYTES \<equiv> 64 :: nat"

section \<open>Errors and identifiers\<close>

text \<open>\<open>PersonaPanic\<close> stands for a Rust panic; it is not a variant of the source.\<close>

datatype PersonaError =
    InvalidField rstr rstr
  | TooManyItems rstr nat
  | PayloadTooLarge rstr nat
  | AlreadyExists string rstr
  | NotFound string rstr
  | RevisionConflict rstr nat nat
  | PersonaInUse rstr rstr
  | BindingMismatch string rstr rstr
  | RevisionOverflow
  | State rstr
  | PersonaJson
  | PersonaPanic

type_synonym PersonaId = rstr
type_synonym CharacterCardId = rstr
type_synonym ChatId = rstr

definition validate_id :: "string \<Rightarrow> rstr \<Rightarrow> nat \<Rightarrow> (PersonaError, unit) res" where
  "validate_id field value max_bytes =
    (if value = [] \<or> str_len value > max_bytes
     then Inl (InvalidField (lit field) (lit ''must be 1-'' @ nat_str max_bytes @ lit '' bytes''))
     else if \<not> list_all (\<lambda>c. is_ascii_alphanumeric c \<or> c \<in> set (lit ''-_.'')) value
     then Inl (InvalidField (lit field)
       (lit ''must contain only ASCII letters, digits, hyphen, underscore, or period''))
     else Inr ())"

definition PersonaId_parse :: "rstr \<Rightarrow> (PersonaError, PersonaId) res" where
  "PersonaId_parse value = and_then (validate_id ''personaId'' value MAX_PERSONA_ID_BYTES) (\<lambda>_. Inr value)"

definition CharacterCardId_parse :: "rstr \<Rightarrow> (PersonaError, CharacterCardId) res" where
  "CharacterCardId_parse value =
    and_then (validate_id ''characterCardId'' value MAX_CHARACTER_CARD_ID_BYTES) (\<lambda>_. Inr value)"

definition ChatId_parse :: "rstr \<Rightarrow> (PersonaError, ChatId) res" where
  "ChatId_parse value = and_then (validate_id ''chatId'' value MAX_CHAT_ID_BYTES) (\<lambda>_. Inr value)"

section \<open>Drafts and records\<close>

definition validate_label :: "rstr \<Rightarrow> (PersonaError, unit) res" where
  "validate_label label =
    (if label = [] \<or> str_len label > MAX_PERSONA_LABEL_BYTES
     then Inl (InvalidField (lit ''label'') (lit ''must be 1-'' @ nat_str MAX_PERSONA_LABEL_BYTES @ lit '' bytes''))
     else if trim label \<noteq> label
     then Inl (InvalidField (lit ''label'') (lit ''must not start or end with whitespace''))
     else if list_ex is_control label
     then Inl (InvalidField (lit ''label'') (lit ''must contain no control characters''))
     else Inr ())"

definition validate_prompt_text :: "rstr \<Rightarrow> (PersonaError, unit) res" where
  "validate_prompt_text prompt_text =
    (if trim prompt_text = []
     then Inl (InvalidField (lit ''promptText'') (lit ''must not be empty or whitespace-only''))
     else if str_len prompt_text > MAX_PERSONA_PROMPT_BYTES
     then Inl (PayloadTooLarge (lit ''promptText'') MAX_PERSONA_PROMPT_BYTES)
     else if list_ex (\<lambda>c. is_control c \<and> \<not> (c = 10 \<or> c = 13 \<or> c = 9)) prompt_text
     then Inl (InvalidField (lit ''promptText'')
       (lit ''must contain no control characters other than newline or tab''))
     else Inr ())"

record PersonaDraft =
  draft_label :: rstr
  draft_prompt_text :: rstr

definition PersonaDraft_new :: "rstr \<Rightarrow> rstr \<Rightarrow> (PersonaError, PersonaDraft) res" where
  "PersonaDraft_new label prompt_text =
    and_then (validate_label label) (\<lambda>_.
    and_then (validate_prompt_text prompt_text) (\<lambda>_.
    Inr \<lparr>draft_label = label, draft_prompt_text = prompt_text\<rparr>))"

record PersonaRecord =
  rec_id :: PersonaId
  rec_revision :: nat
  rec_label :: rstr
  rec_prompt_text :: rstr

record PersonaSnapshot =
  snap_id :: PersonaId
  snap_revision :: nat
  snap_label :: rstr
  snap_prompt_text :: rstr

definition snapshot :: "PersonaRecord \<Rightarrow> PersonaSnapshot" where
  "snapshot self = \<lparr>snap_id = rec_id self, snap_revision = rec_revision self, snap_label = rec_label self,
    snap_prompt_text = rec_prompt_text self\<rparr>"

section \<open>The catalog\<close>

datatype PersonaChoice = UseDefault | ChooseSpecific PersonaId | ChooseNoPersona

datatype CharacterPersonaPolicy = InheritGlobal | PolicySpecific PersonaId | PolicyNoPersona

datatype PersonaSelectionSource = Explicit | CharacterDefault | GlobalDefault

datatype StoredCharacterPolicy = StoredSpecific PersonaId | StoredNoPersona

record ResolvedPersona =
  res_source :: PersonaSelectionSource
  res_snapshot :: PersonaSnapshot

record PersonaPlayBinding =
  binding_chat_id :: ChatId
  binding_character_card_id :: CharacterCardId
  binding_persona :: "ResolvedPersona option"

record PersonaCatalog =
  generation :: nat
  personas :: "(PersonaId, PersonaRecord) btree"
  global_default :: "PersonaId option"
  character_policies :: "(CharacterCardId, StoredCharacterPolicy) btree"
  total_prompt_bytes :: nat

definition PersonaCatalog_new :: PersonaCatalog where
  "PersonaCatalog_new = \<lparr>generation = 0, personas = [], global_default = None,
    character_policies = [], total_prompt_bytes = 0\<rparr>"

definition character_policy :: "PersonaCatalog \<Rightarrow> CharacterCardId \<Rightarrow> CharacterPersonaPolicy" where
  "character_policy self character_id =
    (case map_of (character_policies self) character_id of
       Some (StoredSpecific i) \<Rightarrow> PolicySpecific i
     | Some StoredNoPersona \<Rightarrow> PolicyNoPersona
     | None \<Rightarrow> InheritGlobal)"

definition checked_total_after_replace :: "nat \<Rightarrow> nat \<Rightarrow> nat \<Rightarrow> (PersonaError, nat) res" where
  "checked_total_after_replace current old new =
    (let too_large = PayloadTooLarge (lit ''total persona prompt text'') MAX_TOTAL_PERSONA_PROMPT_BYTES in
     and_then (ok_or (Option.bind (checked_sub current old) (\<lambda>remaining. checked_add_usize remaining new))
       too_large) (\<lambda>sum_bytes.
     if sum_bytes > MAX_TOTAL_PERSONA_PROMPT_BYTES then Inl too_large else Inr sum_bytes))"

definition next_generation :: "nat \<Rightarrow> (PersonaError, nat) res" where
  "next_generation current = ok_or (checked_add 64 current 1) RevisionOverflow"

definition require_persona :: "PersonaCatalog \<Rightarrow> PersonaId \<Rightarrow> (PersonaError, PersonaRecord) res" where
  "require_persona self i = ok_or (map_of (personas self) i) (NotFound ''persona'' i)"

definition add_persona ::
  "PersonaCatalog \<Rightarrow> PersonaId \<Rightarrow> PersonaDraft \<Rightarrow> (PersonaError, PersonaCatalog \<times> PersonaRecord) res" where
  "add_persona self i draft =
    (if map_of (personas self) i \<noteq> None then Inl (AlreadyExists ''persona'' i)
     else if length (personas self) \<ge> MAX_PERSONAS then Inl (TooManyItems (lit ''personas'') MAX_PERSONAS)
     else and_then (checked_total_after_replace (total_prompt_bytes self) 0 (str_len (draft_prompt_text draft))) (\<lambda>n.
       and_then (next_generation (generation self)) (\<lambda>g.
       let r = \<lparr>rec_id = i, rec_revision = 1, rec_label = draft_label draft,
         rec_prompt_text = draft_prompt_text draft\<rparr> in
       Inr (self\<lparr>personas := bt_insert i r (personas self), total_prompt_bytes := n, generation := g\<rparr>, r))))"

definition update_persona ::
  "PersonaCatalog \<Rightarrow> PersonaId \<Rightarrow> nat \<Rightarrow> PersonaDraft \<Rightarrow> (PersonaError, PersonaCatalog \<times> PersonaRecord) res" where
  "update_persona self i expected_revision draft =
    and_then (ok_or (map_of (personas self) i) (NotFound ''persona'' i)) (\<lambda>current.
    if rec_revision current \<noteq> expected_revision
    then Inl (RevisionConflict i expected_revision (rec_revision current))
    else and_then (ok_or (checked_add 64 (rec_revision current) 1) RevisionOverflow) (\<lambda>rev.
      and_then (checked_total_after_replace (total_prompt_bytes self) (str_len (rec_prompt_text current))
        (str_len (draft_prompt_text draft))) (\<lambda>n.
      and_then (next_generation (generation self)) (\<lambda>g.
      let r = \<lparr>rec_id = i, rec_revision = rev, rec_label = draft_label draft,
        rec_prompt_text = draft_prompt_text draft\<rparr> in
      Inr (self\<lparr>personas := bt_insert i r (personas self), total_prompt_bytes := n, generation := g\<rparr>, r)))))"

definition remove_persona ::
  "PersonaCatalog \<Rightarrow> PersonaId \<Rightarrow> nat \<Rightarrow> (PersonaError, PersonaCatalog \<times> PersonaRecord) res" where
  "remove_persona self i expected_revision =
    and_then (ok_or (map_of (personas self) i) (NotFound ''persona'' i)) (\<lambda>current.
    if rec_revision current \<noteq> expected_revision
    then Inl (RevisionConflict i expected_revision (rec_revision current))
    else if global_default self = Some i then Inl (PersonaInUse i (lit ''the global default''))
    else case List.find (\<lambda>(_, policy). policy = StoredSpecific i) (character_policies self) of
      Some (character_id, _) \<Rightarrow> Inl (PersonaInUse i (lit ''character policy '' @ character_id))
    | None \<Rightarrow>
        and_then (next_generation (generation self)) (\<lambda>g.
        and_then (ok_or (map_of (personas self) i) PersonaPanic) (\<lambda>removed.
        and_then (ok_or (checked_sub (total_prompt_bytes self) (str_len (rec_prompt_text removed))) PersonaPanic) (\<lambda>n.
        Inr (self\<lparr>personas := bt_remove i (personas self), total_prompt_bytes := n, generation := g\<rparr>, removed)))))"

definition set_global_default :: "PersonaCatalog \<Rightarrow> PersonaId option \<Rightarrow> (PersonaError, PersonaCatalog) res" where
  "set_global_default self persona_id =
    and_then (case persona_id of None \<Rightarrow> Inr () | Some i \<Rightarrow> and_then (require_persona self i) (\<lambda>_. Inr ())) (\<lambda>_.
    if global_default self = persona_id then Inr self
    else and_then (next_generation (generation self)) (\<lambda>g.
      Inr (self\<lparr>global_default := persona_id, generation := g\<rparr>)))"

definition set_character_policy ::
  "PersonaCatalog \<Rightarrow> CharacterCardId \<Rightarrow> CharacterPersonaPolicy \<Rightarrow> (PersonaError, PersonaCatalog) res" where
  "set_character_policy self character_id policy =
    and_then (case policy of
        InheritGlobal \<Rightarrow> Inr None
      | PolicySpecific i \<Rightarrow> and_then (require_persona self i) (\<lambda>_. Inr (Some (StoredSpecific i)))
      | PolicyNoPersona \<Rightarrow> Inr (Some StoredNoPersona)) (\<lambda>stored.
    if stored = map_of (character_policies self) character_id then Inr self
    else if stored \<noteq> None \<and> map_of (character_policies self) character_id = None \<and>
      length (character_policies self) \<ge> MAX_CHARACTER_POLICIES
    then Inl (TooManyItems (lit ''character policies'') MAX_CHARACTER_POLICIES)
    else and_then (next_generation (generation self)) (\<lambda>g.
      Inr (self\<lparr>character_policies := (case stored of
          Some s \<Rightarrow> bt_insert character_id s (character_policies self)
        | None \<Rightarrow> bt_remove character_id (character_policies self)), generation := g\<rparr>)))"

section \<open>Play\<close>

definition resolve_persona ::
  "PersonaCatalog \<Rightarrow> PersonaId \<Rightarrow> PersonaSelectionSource \<Rightarrow> (PersonaError, ResolvedPersona) res" where
  "resolve_persona self i src =
    and_then (require_persona self i) (\<lambda>r. Inr \<lparr>res_source = src, res_snapshot = snapshot r\<rparr>)"

definition resolve_for_play ::
  "PersonaCatalog \<Rightarrow> ChatId \<Rightarrow> CharacterCardId \<Rightarrow> PersonaChoice \<Rightarrow> (PersonaError, PersonaPlayBinding) res" where
  "resolve_for_play self chat_id character_card_id choice =
    and_then (case choice of
        ChooseSpecific i \<Rightarrow> and_then (resolve_persona self i Explicit) (\<lambda>p. Inr (Some p))
      | ChooseNoPersona \<Rightarrow> Inr None
      | UseDefault \<Rightarrow>
          (case map_of (character_policies self) character_card_id of
             Some (StoredSpecific i) \<Rightarrow> and_then (resolve_persona self i CharacterDefault) (\<lambda>p. Inr (Some p))
           | Some StoredNoPersona \<Rightarrow> Inr None
           | None \<Rightarrow>
               (case global_default self of
                  None \<Rightarrow> Inr None
                | Some i \<Rightarrow> and_then (resolve_persona self i GlobalDefault) (\<lambda>p. Inr (Some p))))) (\<lambda>resolved.
    Inr \<lparr>binding_chat_id = chat_id, binding_character_card_id = character_card_id,
      binding_persona = resolved\<rparr>)"

definition binding_prompt_text :: "PersonaPlayBinding \<Rightarrow> rstr option" where
  "binding_prompt_text self = map_option (\<lambda>r. snap_prompt_text (res_snapshot r)) (binding_persona self)"

text \<open>The new persona input of \<open>apply_to_prompt_input\<close>; the other inputs are left alone.\<close>

definition apply_to_prompt_input ::
  "PersonaPlayBinding \<Rightarrow> ChatId \<Rightarrow> CharacterCardId \<Rightarrow> rstr \<Rightarrow> (PersonaError, rstr) res" where
  "apply_to_prompt_input self expected_chat_id expected_character_card_id input_persona =
    (if binding_chat_id self \<noteq> expected_chat_id
     then Inl (BindingMismatch ''chatId'' expected_chat_id (binding_chat_id self))
     else if binding_character_card_id self \<noteq> expected_character_card_id
     then Inl (BindingMismatch ''characterCardId'' expected_character_card_id (binding_character_card_id self))
     else Inr (case binding_prompt_text self of Some prompt_text \<Rightarrow> prompt_text | None \<Rightarrow> []))"

section \<open>Storage\<close>

record PersonaWire =
  wire_id :: rstr
  wire_revision :: nat
  wire_label :: rstr
  wire_prompt_text :: rstr

record CharacterPolicyWire =
  wire_character_card_id :: rstr
  wire_policy :: StoredCharacterPolicy

record CatalogWire =
  wire_generation :: nat
  wire_personas :: "PersonaWire list"
  wire_global_default :: "rstr option"
  wire_policies :: "CharacterPolicyWire list"

definition PersonaWire_validate :: "PersonaWire \<Rightarrow> (PersonaError, unit) res" where
  "PersonaWire_validate self =
    (if wire_revision self = 0 then Inl (State (lit ''persona revision must be at least 1''))
     else and_then (validate_label (wire_label self)) (\<lambda>_. validate_prompt_text (wire_prompt_text self)))"

definition PersonaWire_deserialize :: "PersonaWire \<Rightarrow> (PersonaError, PersonaWire) res" where
  "PersonaWire_deserialize w = and_then (PersonaId_parse (wire_id w)) (\<lambda>_. Inr w)"

definition StoredPolicyWire_deserialize :: "StoredCharacterPolicy \<Rightarrow> (PersonaError, unit) res" where
  "StoredPolicyWire_deserialize policy =
    (case policy of
       StoredSpecific i \<Rightarrow> and_then (PersonaId_parse i) (\<lambda>_. Inr ())
     | StoredNoPersona \<Rightarrow> Inr ())"

definition CharacterPolicyWire_deserialize :: "CharacterPolicyWire \<Rightarrow> (PersonaError, CharacterPolicyWire) res" where
  "CharacterPolicyWire_deserialize w =
    and_then (CharacterCardId_parse (wire_character_card_id w)) (\<lambda>_.
    and_then (StoredPolicyWire_deserialize (wire_policy w)) (\<lambda>_. Inr w))"

text \<open>
  \<open>BoundedVecVisitor::visit_seq\<close>: at most \<open>limit\<close> items within a byte budget. Every failure inside
  a decoder is reported as a JSON error.
\<close>

fun visit_bounded ::
  "nat \<Rightarrow> nat \<Rightarrow> ('t \<Rightarrow> (PersonaError, 't) res) \<Rightarrow> ('t \<Rightarrow> (PersonaError, unit) res) \<Rightarrow> ('t \<Rightarrow> nat) \<Rightarrow>
    't list \<Rightarrow> nat \<Rightarrow> 't list \<Rightarrow> (PersonaError, 't list) res" where
  "visit_bounded limit max_budget decode validate cost vals budget [] = Inr vals"
| "visit_bounded limit max_budget decode validate cost vals budget (x # xs) =
    (if length vals < limit then
       and_then (map_err (\<lambda>_. PersonaJson) (decode x)) (\<lambda>value.
       and_then (map_err (\<lambda>_. PersonaJson) (validate value)) (\<lambda>_.
       and_then (ok_or (checked_add_usize budget (cost value)) PersonaJson) (\<lambda>budget.
       if budget > max_budget then Inl PersonaJson
       else visit_bounded limit max_budget decode validate cost (vals @ [value]) budget xs)))
     else Inl PersonaJson)"

definition CatalogWire_deserialize :: "CatalogWire \<Rightarrow> (PersonaError, CatalogWire) res" where
  "CatalogWire_deserialize w =
    and_then (visit_bounded MAX_PERSONAS MAX_TOTAL_PERSONA_PROMPT_BYTES PersonaWire_deserialize
      PersonaWire_validate (\<lambda>p. str_len (wire_prompt_text p)) [] 0 (wire_personas w)) (\<lambda>ps.
    and_then (case wire_global_default w of
        None \<Rightarrow> Inr ()
      | Some i \<Rightarrow> map_err (\<lambda>_. PersonaJson) (and_then (PersonaId_parse i) (\<lambda>_. Inr ()))) (\<lambda>_.
    and_then (visit_bounded MAX_CHARACTER_POLICIES (2 ^ 64 - 1) CharacterPolicyWire_deserialize
      (\<lambda>_. Inr ()) (\<lambda>_. 0) [] 0 (wire_policies w)) (\<lambda>cs.
    Inr (w\<lparr>wire_personas := ps, wire_policies := cs\<rparr>))))"

definition restore_persona ::
  "(PersonaId, PersonaRecord) btree \<times> nat \<Rightarrow> PersonaWire \<Rightarrow>
    (PersonaError, (PersonaId, PersonaRecord) btree \<times> nat) res" where
  "restore_persona st persona =
    (let (ps, total_bytes) = st;
         too_large = PayloadTooLarge (lit ''total persona prompt text'') MAX_TOTAL_PERSONA_PROMPT_BYTES in
     if wire_revision persona = 0 then Inl (State (lit ''persona revision must be at least 1''))
     else and_then (PersonaDraft_new (wire_label persona) (wire_prompt_text persona)) (\<lambda>draft.
       and_then (ok_or (checked_add_usize total_bytes (str_len (draft_prompt_text draft))) too_large) (\<lambda>total_bytes.
       if total_bytes > MAX_TOTAL_PERSONA_PROMPT_BYTES then Inl too_large
       else let i = wire_id persona;
         r = \<lparr>rec_id = i, rec_revision = wire_revision persona, rec_label = draft_label draft,
              rec_prompt_text = draft_prompt_text draft\<rparr> in
         if map_of ps i \<noteq> None then Inl (AlreadyExists ''persona'' i)
         else Inr (bt_insert i r ps, total_bytes))))"

definition restore_policy ::
  "(PersonaId, PersonaRecord) btree \<Rightarrow> (CharacterCardId, StoredCharacterPolicy) btree \<Rightarrow> CharacterPolicyWire \<Rightarrow>
    (PersonaError, (CharacterCardId, StoredCharacterPolicy) btree) res" where
  "restore_policy ps policies entry =
    and_then (case wire_policy entry of
        StoredSpecific i \<Rightarrow>
          if map_of ps i = None then Inl (NotFound ''character policy persona'' i)
          else Inr (StoredSpecific i)
      | StoredNoPersona \<Rightarrow> Inr StoredNoPersona) (\<lambda>stored.
    let character_id = wire_character_card_id entry in
    if map_of policies character_id \<noteq> None then Inl (AlreadyExists ''character policy'' character_id)
    else Inr (bt_insert character_id stored policies))"

definition restore_v1 :: "CatalogWire \<Rightarrow> (PersonaError, PersonaCatalog) res" where
  "restore_v1 wire =
    (if length (wire_personas wire) > MAX_PERSONAS then Inl (TooManyItems (lit ''personas'') MAX_PERSONAS)
     else if length (wire_policies wire) > MAX_CHARACTER_POLICIES
     then Inl (TooManyItems (lit ''character policies'') MAX_CHARACTER_POLICIES)
     else and_then (try_fold restore_persona ([], 0) (wire_personas wire)) (\<lambda>(ps, total_bytes).
       and_then (case wire_global_default wire of
           Some i \<Rightarrow> if map_of ps i = None then Inl (NotFound ''global default persona'' i) else Inr ()
         | None \<Rightarrow> Inr ()) (\<lambda>_.
       and_then (try_fold (restore_policy ps) [] (wire_policies wire)) (\<lambda>policies.
       Inr \<lparr>generation = wire_generation wire, personas = ps, global_default = wire_global_default wire,
         character_policies = policies, total_prompt_bytes = total_bytes\<rparr>))))"

definition catalog_wire :: "PersonaCatalog \<Rightarrow> CatalogWire" where
  "catalog_wire catalog = \<lparr>wire_generation = generation catalog,
    wire_personas = map (\<lambda>(_, r). \<lparr>wire_id = rec_id r, wire_revision = rec_revision r,
      wire_label = rec_label r, wire_prompt_text = rec_prompt_text r\<rparr>) (personas catalog),
    wire_global_default = global_default catalog,
    wire_policies = map (\<lambda>(c, p). \<lparr>wire_character_card_id = c, wire_policy = p\<rparr>) (character_policies catalog)\<rparr>"

text \<open>The JSON codec: the envelope with the raw text of its state, and the fields of the state.\<close>

record 'raw persona_codec =
  encode_state :: "rstr \<Rightarrow> nat \<Rightarrow> CatalogWire \<Rightarrow> byte list option"
  decode_state_envelope :: "byte list \<Rightarrow> (rstr \<times> nat \<times> 'raw) option"
  decode_state :: "'raw \<Rightarrow> CatalogWire option"

abbreviation (input) "PERSONA_STATE_FORMAT \<equiv> lit ''lorepia.persona-state''"
abbreviation (input) "PERSONA_STATE_SCHEMA_VERSION \<equiv> 1 :: nat"

definition serialize_state :: "'raw persona_codec \<Rightarrow> PersonaCatalog \<Rightarrow> (PersonaError, byte list) res" where
  "serialize_state codec catalog =
    and_then (ok_or (encode_state codec PERSONA_STATE_FORMAT PERSONA_STATE_SCHEMA_VERSION (catalog_wire catalog))
      PersonaJson) (\<lambda>bytes.
    if length bytes > MAX_PERSONA_STATE_BYTES
    then Inl (PayloadTooLarge (lit ''persona state'') MAX_PERSONA_STATE_BYTES) else Inr bytes)"

definition deserialize_state :: "'raw persona_codec \<Rightarrow> byte list \<Rightarrow> (PersonaError, PersonaCatalog) res" where
  "deserialize_state codec bytes =
    (if length bytes > MAX_PERSONA_STATE_BYTES
     then Inl (PayloadTooLarge (lit ''persona state'') MAX_PERSONA_STATE_BYTES)
     else and_then (ok_or (decode_state_envelope codec bytes) PersonaJson) (\<lambda>(format, version, raw).
       if format \<noteq> PERSONA_STATE_FORMAT then Inl (State (lit ''unsupported persona state format''))
       else if version = 1
       then and_then (ok_or (decode_state codec raw) PersonaJson) (\<lambda>w.
         and_then (CatalogWire_deserialize w) restore_v1)
       else Inl (State (lit ''unsupported schema version '' @ nat_str version @ lit ''; expected '' @
         nat_str PERSONA_STATE_SCHEMA_VERSION))))"

end
