(* ===== verification/Persona_Correct.thy ===== *)
theory Persona_Correct
  imports Persona_Model
begin

text \<open>
  Correctness of the persona catalog: its invariant, an abstract specification over plain maps that
  the operations refine, and the stored form.
\<close>

section \<open>The invariant\<close>

definition persona_id_ok :: "rstr \<Rightarrow> bool" where
  "persona_id_ok i \<longleftrightarrow> PersonaId_parse i = Inr i"

definition card_id_ok :: "rstr \<Rightarrow> bool" where
  "card_id_ok i \<longleftrightarrow> CharacterCardId_parse i = Inr i"

definition draft_ok :: "PersonaDraft \<Rightarrow> bool" where
  "draft_ok d \<longleftrightarrow> PersonaDraft_new (draft_label d) (draft_prompt_text d) = Inr d"

definition record_ok :: "PersonaId \<Rightarrow> PersonaRecord \<Rightarrow> bool" where
  "record_ok i r \<longleftrightarrow> rec_id r = i \<and> persona_id_ok i \<and> 1 \<le> rec_revision r \<and>
    validate_label (rec_label r) = Inr () \<and> validate_prompt_text (rec_prompt_text r) = Inr ()"

definition policy_ok :: "(PersonaId, PersonaRecord) btree \<Rightarrow> CharacterCardId \<Rightarrow> StoredCharacterPolicy \<Rightarrow> bool" where
  "policy_ok ps c p \<longleftrightarrow> card_id_ok c \<and>
    (case p of StoredSpecific i \<Rightarrow> map_of ps i \<noteq> None | StoredNoPersona \<Rightarrow> True)"

abbreviation prompt_bytes :: "(PersonaId, PersonaRecord) btree \<Rightarrow> nat" where
  "prompt_bytes ps \<equiv> (\<Sum>(i, r)\<leftarrow>ps. str_len (rec_prompt_text r))"

definition catalog_inv :: "PersonaCatalog \<Rightarrow> bool" where
  "catalog_inv c \<longleftrightarrow> bt_wf (personas c) \<and> bt_wf (character_policies c) \<and>
    length (personas c) \<le> MAX_PERSONAS \<and> length (character_policies c) \<le> MAX_CHARACTER_POLICIES \<and>
    (\<forall>i r. map_of (personas c) i = Some r \<longrightarrow> record_ok i r) \<and>
    total_prompt_bytes c = prompt_bytes (personas c) \<and>
    total_prompt_bytes c \<le> MAX_TOTAL_PERSONA_PROMPT_BYTES \<and>
    (\<forall>i. global_default c = Some i \<longrightarrow> map_of (personas c) i \<noteq> None) \<and>
    (\<forall>k p. map_of (character_policies c) k = Some p \<longrightarrow> policy_ok (personas c) k p)"

lemma catalog_inv_new: "catalog_inv PersonaCatalog_new"
  by (simp add: catalog_inv_def PersonaCatalog_new_def)

section \<open>The specification\<close>

text \<open>Personas, the default and the policies as maps; the operations as map updates.\<close>

record persona_view =
  view_personas :: "PersonaId \<rightharpoonup> PersonaRecord"
  view_default :: "PersonaId option"
  view_policies :: "CharacterCardId \<rightharpoonup> StoredCharacterPolicy"

definition view :: "PersonaCatalog \<Rightarrow> persona_view" where
  "view c = \<lparr>view_personas = map_of (personas c), view_default = global_default c,
    view_policies = map_of (character_policies c)\<rparr>"

datatype persona_op =
    Add PersonaId PersonaDraft
  | Update PersonaId nat PersonaDraft
  | Remove PersonaId nat
  | SetDefault "PersonaId option"
  | SetPolicy CharacterCardId CharacterPersonaPolicy

primrec run_op :: "PersonaCatalog \<Rightarrow> persona_op \<Rightarrow> (PersonaError, PersonaCatalog) res" where
  "run_op c (Add i d) = and_then (add_persona c i d) (\<lambda>(c', r). Inr c')"
| "run_op c (Update i n d) = and_then (update_persona c i n d) (\<lambda>(c', r). Inr c')"
| "run_op c (Remove i n) = and_then (remove_persona c i n) (\<lambda>(c', r). Inr c')"
| "run_op c (SetDefault p) = set_global_default c p"
| "run_op c (SetPolicy k p) = set_character_policy c k p"

text \<open>Arguments that the types of the interface allow: parsed identifiers and validated drafts.\<close>

primrec op_ok :: "persona_op \<Rightarrow> bool" where
  "op_ok (Add i d) = (persona_id_ok i \<and> draft_ok d)"
| "op_ok (Update i n d) = (persona_id_ok i \<and> draft_ok d)"
| "op_ok (Remove i n) = persona_id_ok i"
| "op_ok (SetDefault p) = True"
| "op_ok (SetPolicy k p) = card_id_ok k"

definition draft_record :: "PersonaId \<Rightarrow> nat \<Rightarrow> PersonaDraft \<Rightarrow> PersonaRecord" where
  "draft_record i n d = \<lparr>rec_id = i, rec_revision = n, rec_label = draft_label d,
    rec_prompt_text = draft_prompt_text d\<rparr>"

primrec stored_policy :: "CharacterPersonaPolicy \<Rightarrow> StoredCharacterPolicy option" where
  "stored_policy InheritGlobal = None"
| "stored_policy (PolicySpecific i) = Some (StoredSpecific i)"
| "stored_policy PolicyNoPersona = Some StoredNoPersona"

primrec spec_effect :: "persona_op \<Rightarrow> persona_view \<Rightarrow> persona_view" where
  "spec_effect (Add i d) v = v\<lparr>view_personas := (view_personas v)(i \<mapsto> draft_record i 1 d)\<rparr>"
| "spec_effect (Update i n d) v = v\<lparr>view_personas := (view_personas v)(i \<mapsto> draft_record i (n + 1) d)\<rparr>"
| "spec_effect (Remove i n) v = v\<lparr>view_personas := (view_personas v)(i := None)\<rparr>"
| "spec_effect (SetDefault p) v = v\<lparr>view_default := p\<rparr>"
| "spec_effect (SetPolicy k p) v = v\<lparr>view_policies := (view_policies v)(k := stored_policy p)\<rparr>"

definition view_bytes :: "persona_view \<Rightarrow> nat" where
  "view_bytes v = (\<Sum>i\<in>dom (view_personas v). str_len (rec_prompt_text (the (view_personas v i))))"

text \<open>When an operation is allowed: references exist, revisions match, and the result fits.\<close>

primrec spec_allows :: "persona_op \<Rightarrow> persona_view \<Rightarrow> bool" where
  "spec_allows (Add i d) v \<longleftrightarrow> view_personas v i = None"
| "spec_allows (Update i n d) v \<longleftrightarrow> (\<exists>r. view_personas v i = Some r \<and> rec_revision r = n)"
| "spec_allows (Remove i n) v \<longleftrightarrow> (\<exists>r. view_personas v i = Some r \<and> rec_revision r = n) \<and>
    view_default v \<noteq> Some i \<and> StoredSpecific i \<notin> ran (view_policies v)"
| "spec_allows (SetDefault p) v \<longleftrightarrow> (\<forall>i. p = Some i \<longrightarrow> view_personas v i \<noteq> None)"
| "spec_allows (SetPolicy k p) v \<longleftrightarrow> (\<forall>i. p = PolicySpecific i \<longrightarrow> view_personas v i \<noteq> None)"

definition view_fits :: "persona_view \<Rightarrow> bool" where
  "view_fits v \<longleftrightarrow> card (dom (view_personas v)) \<le> MAX_PERSONAS \<and>
    card (dom (view_policies v)) \<le> MAX_CHARACTER_POLICIES \<and>
    view_bytes v \<le> MAX_TOTAL_PERSONA_PROMPT_BYTES"

definition counters_ok :: "PersonaCatalog \<Rightarrow> persona_op \<Rightarrow> bool" where
  "counters_ok c op \<longleftrightarrow> (spec_effect op (view c) = view c \<or> generation c + 1 < 2 ^ 64) \<and>
    (case op of Update i n d \<Rightarrow> n + 1 < 2 ^ 64 | _ \<Rightarrow> True)"

text \<open>
  \<open>refines c op r\<close>: the result \<open>r\<close> of an operation on \<open>c\<close> is the specified effect exactly when the
  specification allows it and the result fits, and a declared error otherwise.
\<close>

definition refines :: "PersonaCatalog \<Rightarrow> persona_op \<Rightarrow> (PersonaError, PersonaCatalog) res \<Rightarrow> bool" where
  "refines c op r \<longleftrightarrow>
    (if spec_allows op (view c) \<and> view_fits (spec_effect op (view c)) \<and> counters_ok c op
     then \<exists>c'. r = Inr c' \<and> view c' = spec_effect op (view c) \<and> catalog_inv c'
     else \<exists>e. r = Inl e \<and> e \<noteq> PersonaPanic)"

lemma refines_refused:
  "\<not> spec_allows op (view c) \<Longrightarrow> \<exists>e. r = Inl e \<and> e \<noteq> PersonaPanic \<Longrightarrow> refines c op r"
  by (simp add: refines_def)

section \<open>The view\<close>

lemma view_simps [simp]:
  "view_personas (view c) = map_of (personas c)" "view_default (view c) = global_default c"
  "view_policies (view c) = map_of (character_policies c)"
  by (simp_all add: view_def)

lemma view_bytes_eq: "bt_wf (personas c) \<Longrightarrow> view_bytes (view c) = prompt_bytes (personas c)"
  by (simp add: view_bytes_def bt.weight_entries)

lemma view_fits_iff:
  "bt_wf (personas c) \<Longrightarrow> bt_wf (character_policies c) \<Longrightarrow> view_fits (view c) \<longleftrightarrow>
    length (personas c) \<le> MAX_PERSONAS \<and> length (character_policies c) \<le> MAX_CHARACTER_POLICIES \<and>
    prompt_bytes (personas c) \<le> MAX_TOTAL_PERSONA_PROMPT_BYTES"
  by (simp add: view_fits_def view_bytes_eq bt.length_entries)

lemma draft_record_ok: "persona_id_ok i \<Longrightarrow> draft_ok d \<Longrightarrow> 1 \<le> n \<Longrightarrow> record_ok i (draft_record i n d)"
  by (auto simp: record_ok_def draft_ok_def draft_record_def PersonaDraft_new_def)

lemma next_generation_eq:
  "next_generation g = (if g + 1 < 2 ^ 64 then Inr (g + 1) else Inl RevisionOverflow)"
  by (simp add: next_generation_def checked_add_def)

lemma checked_total_eq:
  "old \<le> b \<Longrightarrow> b - old + new < 2 ^ 64 \<Longrightarrow> checked_total_after_replace b old new =
    (if b - old + new \<le> MAX_TOTAL_PERSONA_PROMPT_BYTES then Inr (b - old + new)
     else Inl (PayloadTooLarge (lit ''total persona prompt text'') MAX_TOTAL_PERSONA_PROMPT_BYTES))"
  by (simp add: checked_total_after_replace_def checked_sub_def checked_add_def Let_def)

lemma draft_bytes: "draft_ok d \<Longrightarrow> str_len (draft_prompt_text d) \<le> MAX_PERSONA_PROMPT_BYTES"
  by (auto simp: draft_ok_def PersonaDraft_new_def validate_prompt_text_def split: if_splits)

definition with_personas :: "PersonaCatalog \<Rightarrow> (PersonaId, PersonaRecord) btree \<Rightarrow> PersonaCatalog" where
  "with_personas c ps = c\<lparr>personas := ps, total_prompt_bytes := prompt_bytes ps, generation := generation c + 1\<rparr>"

lemma policy_ok_mono:
  "policy_ok ps k p \<Longrightarrow> (\<And>i. p = StoredSpecific i \<Longrightarrow> map_of ps i \<noteq> None \<Longrightarrow> map_of qs i \<noteq> None) \<Longrightarrow> policy_ok qs k p"
  by (auto simp: policy_ok_def split: StoredCharacterPolicy.splits)

lemma catalog_inv_insert:
  assumes inv: "catalog_inv c" and r: "record_ok i r"
    and fits: "view_fits (view (with_personas c (bt_insert i r (personas c))))"
  shows "catalog_inv (with_personas c (bt_insert i r (personas c)))"
proof -
  let ?ps = "bt_insert i r (personas c)"
  have wf: "bt_wf (personas c)" "bt_wf (character_policies c)" using inv by (simp_all add: catalog_inv_def)
  have get: "map_of ?ps = (map_of (personas c))(i \<mapsto> r)" by (rule bt_get_insert [OF wf(1)])
  have "policy_ok ?ps k p" if "map_of (character_policies c) k = Some p" for k p
  proof -
    have "policy_ok (personas c) k p" using inv that by (simp add: catalog_inv_def)
    then show ?thesis by (rule policy_ok_mono) (simp add: get)
  qed
  moreover have "bt_wf ?ps" by (rule bt_wf_insert [OF wf(1)])
  ultimately show ?thesis
    using inv r fits view_fits_iff [of "with_personas c ?ps"]
    by (auto simp: catalog_inv_def with_personas_def get)
qed

lemma view_with_insert:
  "bt_wf (personas c) \<Longrightarrow> view (with_personas c (bt_insert i r (personas c))) =
    (view c)\<lparr>view_personas := (map_of (personas c))(i \<mapsto> r)\<rparr>"
  by (simp add: view_def with_personas_def bt_get_insert)

section \<open>Operations refine the specification\<close>

lemma add_refines:
  assumes inv: "catalog_inv c" and ok: "op_ok (Add i d)"
  shows "refines c (Add i d) (run_op c (Add i d))"
proof (cases "map_of (personas c) i")
  case None
  let ?r = "draft_record i 1 d" and ?l = "str_len (draft_prompt_text d)"
  let ?c = "with_personas c (bt_insert i ?r (personas c))"
  have wf: "bt_wf (personas c)" "bt_wf (character_policies c)"
    and tot: "total_prompt_bytes c = prompt_bytes (personas c)" "prompt_bytes (personas c) \<le> MAX_TOTAL_PERSONA_PROMPT_BYTES"
    and pol: "length (character_policies c) \<le> MAX_CHARACTER_POLICIES"
    using inv by (simp_all add: catalog_inv_def)
  have sum: "prompt_bytes (bt_insert i ?r (personas c)) = prompt_bytes (personas c) + ?l"
    using bt.weight_ins [OF wf(1), where k = i and v = ?r and f = "\<lambda>i r. str_len (rec_prompt_text r)"] None by (simp add: draft_record_def)
  have len: "length (bt_insert i ?r (personas c)) = Suc (length (personas c))"
    using bt.length_ins [OF wf(1), of i ?r] None by simp
  have view: "spec_effect (Add i d) (view c) = view ?c" by (simp add: view_with_insert [OF wf(1)])
  have change: "view ?c \<noteq> view c"
    using None by (auto simp: view_with_insert [OF wf(1)] dest!: arg_cong [of _ _ view_personas] dest: fun_cong [of _ _ i])
  have fits: "view_fits (view ?c) \<longleftrightarrow> length (personas c) < MAX_PERSONAS \<and>
      prompt_bytes (personas c) + ?l \<le> MAX_TOTAL_PERSONA_PROMPT_BYTES"
    using view_fits_iff [of ?c] wf pol sum len by (auto simp: with_personas_def bt_wf_insert)
  have inv': "view_fits (view ?c) \<Longrightarrow> catalog_inv ?c"
    using catalog_inv_insert [OF inv draft_record_ok] ok by simp
  have bound: "prompt_bytes (personas c) + ?l < 2 ^ 64" using tot draft_bytes [of d] ok by simp
  note total = checked_total_eq [of 0 "prompt_bytes (personas c)" ?l]
  have "c\<lparr>personas := bt_insert i \<lparr>rec_id = i, rec_revision = 1, rec_label = draft_label d,
        rec_prompt_text = draft_prompt_text d\<rparr> (personas c),
      total_prompt_bytes := prompt_bytes (personas c) + ?l, generation := generation c + 1\<rparr> = ?c"
    unfolding with_personas_def sum by (simp add: draft_record_def)
  then have run: "run_op c (Add i d) = (if length (personas c) < MAX_PERSONAS then
      if prompt_bytes (personas c) + ?l \<le> MAX_TOTAL_PERSONA_PROMPT_BYTES then
        if generation c + 1 < 2 ^ 64 then Inr ?c else Inl RevisionOverflow
      else Inl (PayloadTooLarge (lit ''total persona prompt text'') MAX_TOTAL_PERSONA_PROMPT_BYTES)
      else Inl (TooManyItems (lit ''personas'') MAX_PERSONAS))"
    using bound None by (simp add: add_persona_def next_generation_eq total tot(1) Let_def)
  show ?thesis
    using inv' fits None change unfolding refines_def view counters_ok_def run by auto
next
  case (Some r)
  then show ?thesis by (simp add: refines_def add_persona_def)
qed

lemma update_refines:
  assumes inv: "catalog_inv c" and ok: "op_ok (Update i n d)"
  shows "refines c (Update i n d) (run_op c (Update i n d))"
proof (cases "\<exists>r. map_of (personas c) i = Some r \<and> rec_revision r = n")
  case True
  then obtain old where old: "map_of (personas c) i = Some old" "rec_revision old = n" by blast
  let ?r = "draft_record i (n + 1) d" and ?l = "str_len (draft_prompt_text d)" and ?o = "str_len (rec_prompt_text old)"
  let ?c = "with_personas c (bt_insert i ?r (personas c))"
  have wf: "bt_wf (personas c)" "bt_wf (character_policies c)"
    and tot: "total_prompt_bytes c = prompt_bytes (personas c)" "prompt_bytes (personas c) \<le> MAX_TOTAL_PERSONA_PROMPT_BYTES"
    and bounds: "length (character_policies c) \<le> MAX_CHARACTER_POLICIES" "length (personas c) \<le> MAX_PERSONAS"
    using inv by (simp_all add: catalog_inv_def)
  have "prompt_bytes (bt_insert i ?r (personas c)) + ?o = prompt_bytes (personas c) + ?l"
    using bt.weight_ins [OF wf(1), where k = i and v = ?r and f = "\<lambda>i r. str_len (rec_prompt_text r)"] old
    by (simp add: draft_record_def)
  moreover have le: "?o \<le> prompt_bytes (personas c)"
    using bt.weight_del [OF wf(1) old(1), where f = "\<lambda>i r. str_len (rec_prompt_text r)"] by simp
  ultimately have sum: "prompt_bytes (bt_insert i ?r (personas c)) = prompt_bytes (personas c) - ?o + ?l" by simp
  have len: "length (bt_insert i ?r (personas c)) = length (personas c)"
    using bt.length_ins [OF wf(1), of i ?r] old by simp
  have view: "spec_effect (Update i n d) (view c) = view ?c" by (simp add: view_with_insert [OF wf(1)])
  have "rec_revision ?r \<noteq> rec_revision old" using old(2) by (simp add: draft_record_def)
  then have "?r \<noteq> old" by metis
  then have change: "view ?c \<noteq> view c"
    using old(1) by (auto simp: view_with_insert [OF wf(1)] dest!: arg_cong [of _ _ view_personas] dest: fun_cong [of _ _ i])
  have fits: "view_fits (view ?c) \<longleftrightarrow> prompt_bytes (personas c) - ?o + ?l \<le> MAX_TOTAL_PERSONA_PROMPT_BYTES"
    using view_fits_iff [of ?c] wf bounds sum len by (auto simp: with_personas_def bt_wf_insert)
  have inv': "view_fits (view ?c) \<Longrightarrow> catalog_inv ?c"
    using catalog_inv_insert [OF inv draft_record_ok] ok by simp
  have bound: "prompt_bytes (personas c) - ?o + ?l < 2 ^ 64" using tot draft_bytes [of d] ok by simp
  note total = checked_total_eq [OF le bound]
  have "c\<lparr>personas := bt_insert i \<lparr>rec_id = i, rec_revision = n + 1, rec_label = draft_label d,
        rec_prompt_text = draft_prompt_text d\<rparr> (personas c),
      total_prompt_bytes := prompt_bytes (personas c) - ?o + ?l, generation := generation c + 1\<rparr> = ?c"
    unfolding with_personas_def sum by (simp add: draft_record_def)
  then have run: "run_op c (Update i n d) = (if n + 1 < 2 ^ 64 then
      if prompt_bytes (personas c) - ?o + ?l \<le> MAX_TOTAL_PERSONA_PROMPT_BYTES then
        if generation c + 1 < 2 ^ 64 then Inr ?c else Inl RevisionOverflow
      else Inl (PayloadTooLarge (lit ''total persona prompt text'') MAX_TOTAL_PERSONA_PROMPT_BYTES)
      else Inl RevisionOverflow)"
    using old by (simp add: update_persona_def next_generation_eq total tot(1) Let_def checked_add_def)
  show ?thesis
    using inv' fits old change unfolding refines_def view counters_ok_def run by auto
next
  case False
  then have "\<exists>e. run_op c (Update i n d) = Inl e \<and> e \<noteq> PersonaPanic"
    by (cases "map_of (personas c) i") (auto simp: update_persona_def)
  with False show ?thesis by (intro refines_refused) auto
qed

lemma catalog_inv_remove:
  assumes inv: "catalog_inv c" and free: "global_default c \<noteq> Some i" "StoredSpecific i \<notin> ran (map_of (character_policies c))"
    and some: "map_of (personas c) i = Some r"
  shows "catalog_inv (with_personas c (bt_remove i (personas c)))"
    and "view_fits (view (with_personas c (bt_remove i (personas c))))"
proof -
  let ?ps = "bt_remove i (personas c)"
  have wf: "bt_wf (personas c)" "bt_wf (character_policies c)" using inv by (simp_all add: catalog_inv_def)
  have get: "map_of ?ps = (map_of (personas c))(i := None)" by (rule bt_get_remove)
  have "policy_ok ?ps k p" if "map_of (character_policies c) k = Some p" for k p
  proof -
    have "policy_ok (personas c) k p" using inv that by (simp add: catalog_inv_def)
    moreover have "p \<noteq> StoredSpecific i" using free(2) that by (auto simp: ran_def)
    ultimately show ?thesis by (auto intro: policy_ok_mono simp: get)
  qed
  moreover have "prompt_bytes ?ps \<le> prompt_bytes (personas c)" "length ?ps \<le> length (personas c)"
    using bt.weight_del [OF wf(1) some, where f = "\<lambda>i r. str_len (rec_prompt_text r)"]
      bt.length_del [OF wf(1), of i] by simp_all
  moreover have "bt_wf ?ps" by (rule bt_wf_remove [OF wf(1)])
  ultimately show "catalog_inv (with_personas c ?ps)" "view_fits (view (with_personas c ?ps))"
    using inv free(1) view_fits_iff [of "with_personas c ?ps"]
    by (auto simp: catalog_inv_def with_personas_def get)
qed

lemma find_policy:
  "List.find (\<lambda>(_, policy). policy = StoredSpecific i) ps = None \<longleftrightarrow> StoredSpecific i \<notin> snd ` set ps"
  by (auto simp: find_None_iff image_iff Bex_def)

lemma remove_refines:
  assumes inv: "catalog_inv c" and ok: "op_ok (Remove i n)"
  shows "refines c (Remove i n) (run_op c (Remove i n))"
proof (cases "\<exists>r. map_of (personas c) i = Some r \<and> rec_revision r = n")
  case True
  then obtain old where old: "map_of (personas c) i = Some old" "rec_revision old = n" by blast
  let ?ps = "bt_remove i (personas c)"
  let ?c = "with_personas c ?ps"
  have wf: "bt_wf (personas c)" "bt_wf (character_policies c)"
    and tot: "total_prompt_bytes c = prompt_bytes (personas c)"
    using inv by (simp_all add: catalog_inv_def)
  have used: "ran (map_of (character_policies c)) = snd ` set (character_policies c)"
    by (rule ran_distinct [OF bt.distinct_keys [OF wf(2)]])
  have sum: "prompt_bytes ?ps = prompt_bytes (personas c) - str_len (rec_prompt_text old)"
    and le: "str_len (rec_prompt_text old) \<le> prompt_bytes (personas c)"
    using bt.weight_del [OF wf(1) old(1), where f = "\<lambda>i r. str_len (rec_prompt_text r)"] by simp_all
  have view: "spec_effect (Remove i n) (view c) = view ?c" by (simp add: view_def with_personas_def bt_get_remove)
  have change: "view ?c \<noteq> view c"
    using old(1) by (auto simp: view_def with_personas_def bt_get_remove dest!: arg_cong [of _ _ view_personas] dest: fun_cong [of _ _ i])
  have "c\<lparr>personas := ?ps, total_prompt_bytes := prompt_bytes (personas c) - str_len (rec_prompt_text old),
      generation := generation c + 1\<rparr> = ?c"
    unfolding with_personas_def sum ..
  then have run: "global_default c \<noteq> Some i \<Longrightarrow> StoredSpecific i \<notin> ran (map_of (character_policies c)) \<Longrightarrow>
      run_op c (Remove i n) = (if generation c + 1 < 2 ^ 64 then Inr ?c else Inl RevisionOverflow)"
    using old le find_policy [of i "character_policies c"] used
    by (auto simp: remove_persona_def next_generation_eq tot checked_sub_def)
  have refused: "global_default c = Some i \<or> StoredSpecific i \<in> ran (map_of (character_policies c)) \<Longrightarrow>
      \<exists>e. run_op c (Remove i n) = Inl e \<and> e \<noteq> PersonaPanic"
    using old find_policy [of i "character_policies c"] used
    by (auto simp: remove_persona_def split: option.split)
  show ?thesis
  proof (cases "global_default c \<noteq> Some i \<and> StoredSpecific i \<notin> ran (map_of (character_policies c))")
    case True
    with catalog_inv_remove [OF inv _ _ old(1)] old change show ?thesis
      unfolding refines_def view counters_ok_def by (simp add: run del: run_op.simps)
  next
    case False
    with refused show ?thesis by (intro refines_refused) auto
  qed
next
  case False
  then have "\<exists>e. run_op c (Remove i n) = Inl e \<and> e \<noteq> PersonaPanic"
    by (cases "map_of (personas c) i") (auto simp: remove_persona_def)
  with False show ?thesis by (intro refines_refused) auto
qed

lemma set_default_refines:
  assumes inv: "catalog_inv c"
  shows "refines c (SetDefault p) (run_op c (SetDefault p))"
proof (cases "spec_allows (SetDefault p) (view c)")
  case True
  let ?c = "c\<lparr>global_default := p, generation := generation c + 1\<rparr>"
  have view: "view ?c = spec_effect (SetDefault p) (view c)" by (simp add: view_def)
  have inv': "catalog_inv ?c" using inv True by (auto simp: catalog_inv_def)
  have fits: "view_fits (view ?c)" using inv view_fits_iff [of ?c] by (simp add: catalog_inv_def)
  have same: "view ?c = view c \<longleftrightarrow> global_default c = p" by (auto simp: view_def)
  have run: "run_op c (SetDefault p) = (if global_default c = p then Inr c
      else if generation c + 1 < 2 ^ 64 then Inr ?c else Inl RevisionOverflow)"
    using True by (cases p) (auto simp: set_global_default_def require_persona_def next_generation_eq)
  show ?thesis
    using True inv inv' fits same unfolding refines_def counters_ok_def run
    by (auto simp: view [symmetric] simp del: spec_effect.simps)
next
  case False
  then show ?thesis
    by (intro refines_refused) (auto simp: set_global_default_def require_persona_def)
qed

lemma catalog_inv_policies:
  assumes "catalog_inv c" and "bt_wf ps" and "length ps \<le> MAX_CHARACTER_POLICIES"
    and "\<And>k p. map_of ps k = Some p \<Longrightarrow> policy_ok (personas c) k p"
  shows "catalog_inv (c\<lparr>character_policies := ps, generation := g\<rparr>)"
  using assms by (simp add: catalog_inv_def)

lemma set_policy_refines:
  assumes inv: "catalog_inv c" and ok: "op_ok (SetPolicy k p)"
  shows "refines c (SetPolicy k p) (run_op c (SetPolicy k p))"
proof (cases "spec_allows (SetPolicy k p) (view c)")
  case True
  let ?pol = "character_policies c"
  let ?new = "case stored_policy p of Some s \<Rightarrow> bt_insert k s ?pol | None \<Rightarrow> bt_remove k ?pol"
  let ?c = "c\<lparr>character_policies := ?new, generation := generation c + 1\<rparr>"
  have wf: "bt_wf ?pol" and len: "length ?pol \<le> MAX_CHARACTER_POLICIES"
    and pol: "\<And>k p. map_of ?pol k = Some p \<Longrightarrow> policy_ok (personas c) k p"
    using inv by (simp_all add: catalog_inv_def)
  have get: "map_of ?new = (map_of ?pol)(k := stored_policy p)"
    by (simp add: bt_get_insert [OF wf] bt_get_remove split: option.split)
  have wf': "bt_wf ?new" by (simp add: bt_wf_insert [OF wf] bt_wf_remove [OF wf] split: option.split)
  have full: "length ?new \<le> MAX_CHARACTER_POLICIES \<longleftrightarrow>
      \<not> (stored_policy p \<noteq> None \<and> map_of ?pol k = None \<and> length ?pol \<ge> MAX_CHARACTER_POLICIES)"
    using len bt.length_ins [OF wf, of k] bt.length_del [OF wf, of k] by (auto split: option.split)
  have "policy_ok (personas c) k s" if "stored_policy p = Some s" for s
    using True ok that by (cases p) (auto simp: policy_ok_def)
  then have ok': "policy_ok (personas c) k' s" if "map_of ?new k' = Some s" for k' s
    using that pol by (auto simp: get split: if_splits)
  have inv': "length ?new \<le> MAX_CHARACTER_POLICIES \<Longrightarrow> catalog_inv ?c"
    using catalog_inv_policies [OF inv wf' _ ok'] by simp
  have view: "view ?c = spec_effect (SetPolicy k p) (view c)" using get by (simp add: view_def)
  have fits: "view_fits (view ?c) \<longleftrightarrow> length ?new \<le> MAX_CHARACTER_POLICIES"
    using inv wf' view_fits_iff [of ?c] by (simp add: catalog_inv_def)
  have same: "view ?c = view c \<longleftrightarrow> stored_policy p = map_of ?pol k"
    unfolding view by (auto simp: view_def fun_eq_iff dest: fun_cong [of _ _ k])
  have "(case p of InheritGlobal \<Rightarrow> Inr None
      | PolicySpecific i \<Rightarrow> and_then (require_persona c i) (\<lambda>_. Inr (Some (StoredSpecific i)))
      | PolicyNoPersona \<Rightarrow> Inr (Some StoredNoPersona)) = Inr (stored_policy p)"
    using True by (cases p) (auto simp: require_persona_def)
  then have run: "run_op c (SetPolicy k p) = (if stored_policy p = map_of ?pol k then Inr c
      else if length ?new \<le> MAX_CHARACTER_POLICIES then
        if generation c + 1 < 2 ^ 64 then Inr ?c else Inl RevisionOverflow
      else Inl (TooManyItems (lit ''character policies'') MAX_CHARACTER_POLICIES))"
    unfolding full by (simp add: set_character_policy_def next_generation_eq)
  have unchanged: "stored_policy p = map_of ?pol k \<Longrightarrow> length ?new \<le> MAX_CHARACTER_POLICIES"
    using full by auto
  show ?thesis
    using True inv inv' fits same unchanged unfolding refines_def counters_ok_def run
    by (auto simp: view [symmetric] simp del: spec_effect.simps)
next
  case False
  then show ?thesis
    by (intro refines_refused) (auto simp: set_character_policy_def require_persona_def)
qed

lemma run_op_refines: "catalog_inv c \<Longrightarrow> op_ok op \<Longrightarrow> refines c op (run_op c op)"
  by (cases op) (auto intro: add_refines update_refines remove_refines set_default_refines set_policy_refines
      simp del: run_op.simps)

section \<open>Reachable catalogs\<close>

text \<open>
  Catalogs in use: a new one, one restored from storage, and whatever a sequence of successful
  operations makes of these.
\<close>

inductive catalog_reachable :: "'raw persona_codec \<Rightarrow> PersonaCatalog \<Rightarrow> bool" for codec where
  new: "catalog_reachable codec PersonaCatalog_new"
| restored: "deserialize_state codec bytes = Inr c \<Longrightarrow> catalog_reachable codec c"
| op: "catalog_reachable codec c \<Longrightarrow> op_ok op \<Longrightarrow> run_op c op = Inr c' \<Longrightarrow> catalog_reachable codec c'"

subsection \<open>Restoring\<close>

lemma map_err_eq_Inr [simp]: "map_err f r = Inr x \<longleftrightarrow> r = Inr x"
  by (cases r) simp_all

lemma visit_bounded_Inr:
  assumes "\<And>x y. decode x = Inr y \<Longrightarrow> y = x"
  shows "visit_bounded limit max_budget decode validate cost vals budget xs = Inr ys \<Longrightarrow>
    ys = vals @ xs \<and> (\<forall>x\<in>set xs. decode x = Inr x \<and> validate x = Inr ())"
proof (induction xs arbitrary: vals budget)
  case (Cons x xs)
  from Cons.prems obtain y b where y: "decode x = Inr y" "validate y = Inr ()"
      "visit_bounded limit max_budget decode validate cost (vals @ [y]) b xs = Inr ys"
    by (auto split: if_splits)
  have "y = x" by (rule assms [OF y(1)])
  with Cons.IH [OF y(3)] y(1,2) show ?case by simp
qed simp

lemma PersonaId_parse_eq: "PersonaId_parse i = Inr j \<Longrightarrow> j = i"
  by (auto simp: PersonaId_parse_def)

lemma persona_id_okI: "PersonaId_parse i = Inr j \<Longrightarrow> persona_id_ok i"
  using PersonaId_parse_eq [of i j] by (simp add: persona_id_ok_def)

lemma card_id_okI: "CharacterCardId_parse i = Inr j \<Longrightarrow> card_id_ok i"
  by (auto simp: card_id_ok_def CharacterCardId_parse_def)

definition personas_ok :: "(PersonaId, PersonaRecord) btree \<Rightarrow> nat \<Rightarrow> bool" where
  "personas_ok ps n \<longleftrightarrow> bt_wf ps \<and> (\<forall>i r. map_of ps i = Some r \<longrightarrow> record_ok i r) \<and>
    n = prompt_bytes ps \<and> n \<le> MAX_TOTAL_PERSONA_PROMPT_BYTES"

lemma restore_persona_ok:
  assumes "restore_persona (ps, n) w = Inr (ps', n')" and "personas_ok ps n" and "persona_id_ok (wire_id w)"
  shows "personas_ok ps' n' \<and> length ps' = Suc (length ps)"
proof -
  let ?r = "\<lparr>rec_id = wire_id w, rec_revision = wire_revision w, rec_label = wire_label w,
    rec_prompt_text = wire_prompt_text w\<rparr>"
  have facts: "map_of ps (wire_id w) = None" "ps' = bt_insert (wire_id w) ?r ps"
      "n' = n + str_len (wire_prompt_text w)" "n' \<le> MAX_TOTAL_PERSONA_PROMPT_BYTES" "wire_revision w \<noteq> 0"
      "validate_label (wire_label w) = Inr ()" "validate_prompt_text (wire_prompt_text w) = Inr ()"
    using assms(1) by (auto simp: restore_persona_def PersonaDraft_new_def Let_def split: if_splits)
  have wf: "bt_wf ps" using assms(2) by (simp add: personas_ok_def)
  have "record_ok (wire_id w) ?r" using facts assms(3) by (simp add: record_ok_def)
  then have "record_ok i r" if "map_of ps' i = Some r" for i r
    using that assms(2) by (auto simp: facts(2) bt_get_insert [OF wf] personas_ok_def split: if_splits)
  moreover have "prompt_bytes ps' = n'"
    using bt.weight_ins [OF wf, where k = "wire_id w" and v = ?r and f = "\<lambda>i r. str_len (rec_prompt_text r)"]
      facts(1) assms(2) by (simp add: facts(2,3) personas_ok_def)
  ultimately show ?thesis
    using wf facts bt.length_ins [OF wf, of "wire_id w" ?r] by (simp add: personas_ok_def bt_wf_insert)
qed

lemma restore_personas_ok:
  assumes "try_fold restore_persona ([], 0) ws = Inr (ps, n)" and "\<forall>w\<in>set ws. persona_id_ok (wire_id w)"
  shows "personas_ok ps n \<and> length ps = length ws"
proof -
  have "case (ps, n) of (ps, n) \<Rightarrow> personas_ok ps n \<and> length ps = length ws"
  proof (rule try_fold_invariant [OF assms(1), where I = "\<lambda>ws (ps, n). personas_ok ps n \<and> length ps = length ws"])
    fix pre :: "PersonaWire list" and x u u'
    assume "case u of (ps, n) \<Rightarrow> personas_ok ps n \<and> length ps = length pre" "x \<in> set ws" "restore_persona u x = Inr u'"
    then show "case u' of (ps, n) \<Rightarrow> personas_ok ps n \<and> length ps = length (pre @ [x])"
      using restore_persona_ok assms(2) by (cases u; cases u') fastforce
  qed (simp add: personas_ok_def)
  then show ?thesis by simp
qed

lemma restore_policies_ok:
  assumes "try_fold (restore_policy ps) [] ws = Inr pol" and "\<forall>w\<in>set ws. card_id_ok (wire_character_card_id w)"
  shows "bt_wf pol \<and> length pol = length ws \<and> (\<forall>k p. map_of pol k = Some p \<longrightarrow> policy_ok ps k p)"
proof (rule try_fold_invariant [OF assms(1), where I = "\<lambda>ws pol. bt_wf pol \<and> length pol = length ws \<and>
    (\<forall>k p. map_of pol k = Some p \<longrightarrow> policy_ok ps k p)"])
  fix pre :: "CharacterPolicyWire list" and x u u'
  assume u: "bt_wf u \<and> length u = length pre \<and> (\<forall>k p. map_of u k = Some p \<longrightarrow> policy_ok ps k p)"
    and x: "x \<in> set ws" and run: "restore_policy ps u x = Inr u'"
  have wf: "bt_wf u" using u by blast
  have new: "map_of u (wire_character_card_id x) = None" "u' = bt_insert (wire_character_card_id x) (wire_policy x) u"
      "\<forall>i. wire_policy x = StoredSpecific i \<longrightarrow> map_of ps i \<noteq> None"
    using run by (auto simp: restore_policy_def Let_def split: StoredCharacterPolicy.splits if_splits)
  have "policy_ok ps (wire_character_card_id x) (wire_policy x)"
    using new(3) x assms(2) by (auto simp: policy_ok_def split: StoredCharacterPolicy.split)
  then show "bt_wf u' \<and> length u' = length (pre @ [x]) \<and> (\<forall>k p. map_of u' k = Some p \<longrightarrow> policy_ok ps k p)"
    using u new bt.length_ins [OF wf, of "wire_character_card_id x" "wire_policy x"]
    by (auto simp: bt_wf_insert bt_get_insert [OF wf] split: if_splits)
qed simp

lemma restored_inv:
  assumes "deserialize_state codec bytes = Inr c"
  shows "catalog_inv c"
proof -
  obtain w w' where w: "CatalogWire_deserialize w = Inr w'" "restore_v1 w' = Inr c"
    using assms by (auto simp: deserialize_state_def split: if_splits)
  have ids: "\<forall>p\<in>set (wire_personas w'). persona_id_ok (wire_id p)"
    using w(1) visit_bounded_Inr [where decode = PersonaWire_deserialize]
    by (fastforce simp: CatalogWire_deserialize_def PersonaWire_deserialize_def intro: persona_id_okI)
  have cards: "\<forall>p\<in>set (wire_policies w'). card_id_ok (wire_character_card_id p)"
    using w(1) visit_bounded_Inr [where decode = CharacterPolicyWire_deserialize]
    by (fastforce simp: CatalogWire_deserialize_def CharacterPolicyWire_deserialize_def intro: card_id_okI)
  obtain ps n pol where r: "try_fold restore_persona ([], 0) (wire_personas w') = Inr (ps, n)"
      "try_fold (restore_policy ps) [] (wire_policies w') = Inr pol"
      "\<forall>i. wire_global_default w' = Some i \<longrightarrow> map_of ps i \<noteq> None"
      "length (wire_personas w') \<le> MAX_PERSONAS" "length (wire_policies w') \<le> MAX_CHARACTER_POLICIES"
      "c = \<lparr>generation = wire_generation w', personas = ps, global_default = wire_global_default w',
         character_policies = pol, total_prompt_bytes = n\<rparr>"
    using w(2) by (auto simp: restore_v1_def split: if_splits option.splits)
  from restore_personas_ok [OF r(1) ids] restore_policies_ok [OF r(2) cards] r show ?thesis
    by (simp add: catalog_inv_def personas_ok_def)
qed

lemma run_op_inv: "catalog_inv c \<Longrightarrow> op_ok op \<Longrightarrow> run_op c op = Inr c' \<Longrightarrow> catalog_inv c'"
  using run_op_refines [of c op] by (auto simp: refines_def split: if_splits)

lemma reachable_inv: "catalog_reachable codec c \<Longrightarrow> catalog_inv c"
  by (induction rule: catalog_reachable.induct) (auto intro: catalog_inv_new restored_inv run_op_inv)

subsection \<open>Storing and restoring\<close>

lemma bt_insert_last: "\<forall>k'\<in>fst ` set m. k' < k \<Longrightarrow> bt_insert k v m = m @ [(k, v)]"
  by (induction m) auto

lemma bt_wf_snoc: "bt_wf (m @ [(k, v)]) \<longleftrightarrow> bt_wf m \<and> (\<forall>k'\<in>fst ` set m. k' < k)"
  by (auto simp: bt_wf_def sorted_wrt_append)

abbreviation persona_wire :: "PersonaId \<times> PersonaRecord \<Rightarrow> PersonaWire" where
  "persona_wire \<equiv> \<lambda>(_, r). \<lparr>wire_id = rec_id r, wire_revision = rec_revision r,
    wire_label = rec_label r, wire_prompt_text = rec_prompt_text r\<rparr>"

abbreviation policy_wire :: "CharacterCardId \<times> StoredCharacterPolicy \<Rightarrow> CharacterPolicyWire" where
  "policy_wire \<equiv> \<lambda>(c, p). \<lparr>wire_character_card_id = c, wire_policy = p\<rparr>"

lemma restore_personas_wire:
  "bt_wf ps \<Longrightarrow> \<forall>(i, r)\<in>set ps. record_ok i r \<Longrightarrow> prompt_bytes ps \<le> MAX_TOTAL_PERSONA_PROMPT_BYTES \<Longrightarrow>
    try_fold restore_persona ([], 0) (map persona_wire ps) = Inr (ps, prompt_bytes ps)"
proof (induction ps rule: rev_induct)
  case (snoc e ps)
  obtain i r where e: "e = (i, r)" by (cases e)
  have wf: "bt_wf ps" "\<forall>k\<in>fst ` set ps. k < i" using snoc.prems(1) by (simp_all add: e bt_wf_snoc)
  then have "map_of ps i = None" by (auto simp: map_of_eq_None_iff)
  moreover have "record_ok i r" using snoc.prems(2) by (simp add: e)
  ultimately have "restore_persona (ps, prompt_bytes ps) (persona_wire e) = Inr (ps @ [e], prompt_bytes (ps @ [e]))"
    using snoc.prems(3) bt_insert_last [OF wf(2)]
    by (simp add: e restore_persona_def record_ok_def PersonaDraft_new_def checked_add_def Let_def)
  moreover have "try_fold restore_persona ([], 0) (map persona_wire ps) = Inr (ps, prompt_bytes ps)"
    by (rule snoc.IH) (use wf snoc.prems in \<open>auto simp: e\<close>)
  ultimately show ?case by (simp add: try_fold_append)
qed simp

lemma restore_policies_wire:
  "bt_wf pol \<Longrightarrow> \<forall>(k, p)\<in>set pol. policy_ok ps k p \<Longrightarrow>
    try_fold (restore_policy ps) [] (map policy_wire pol) = Inr pol"
proof (induction pol rule: rev_induct)
  case (snoc e pol)
  obtain k p where e: "e = (k, p)" by (cases e)
  have wf: "bt_wf pol" "\<forall>j\<in>fst ` set pol. j < k" using snoc.prems(1) by (simp_all add: e bt_wf_snoc)
  then have "map_of pol k = None" by (auto simp: map_of_eq_None_iff)
  moreover have "policy_ok ps k p" using snoc.prems(2) by (simp add: e)
  ultimately have "restore_policy ps pol (policy_wire e) = Inr (pol @ [e])"
    using bt_insert_last [OF wf(2)]
    by (auto simp: e restore_policy_def policy_ok_def split: StoredCharacterPolicy.splits)
  with snoc wf show ?case by (simp add: try_fold_append e)
qed simp

lemma visit_bounded_accepts:
  "\<forall>x\<in>set xs. decode x = Inr x \<and> validate x = Inr () \<Longrightarrow> length vals + length xs \<le> limit \<Longrightarrow>
    budget + (\<Sum>x\<leftarrow>xs. cost x) \<le> max_budget \<Longrightarrow> max_budget < 2 ^ 64 \<Longrightarrow>
    visit_bounded limit max_budget decode validate cost vals budget xs = Inr (vals @ xs)"
  by (induction xs arbitrary: vals budget) (auto simp: checked_add_def)

lemma bt_all: "bt_wf m \<Longrightarrow> (\<forall>k v. map_of m k = Some v \<longrightarrow> P k v) \<longleftrightarrow> (\<forall>(k, v)\<in>set m. P k v)"
  using bt.in_entries_iff [of m] by fastforce

lemma policy_persona_id:
  "catalog_inv c \<Longrightarrow> policy_ok (personas c) k (StoredSpecific i) \<Longrightarrow> persona_id_ok i"
  by (auto simp: catalog_inv_def policy_ok_def record_ok_def)

lemma persona_wire_bytes: "(\<Sum>w\<leftarrow>map persona_wire ps. str_len (wire_prompt_text w)) = prompt_bytes ps"
  by (induction ps) auto

lemma wire_deserializes:
  assumes inv: "catalog_inv c"
  shows "CatalogWire_deserialize (catalog_wire c) = Inr (catalog_wire c)"
proof -
  have wf: "bt_wf (personas c)" "bt_wf (character_policies c)" using inv by (simp_all add: catalog_inv_def)
  have recs: "\<forall>(i, r)\<in>set (personas c). record_ok i r"
    and pols: "\<forall>(k, p)\<in>set (character_policies c). policy_ok (personas c) k p"
    using inv bt_all [OF wf(1)] bt_all [OF wf(2)] by (simp_all add: catalog_inv_def)
  have p: "PersonaWire_deserialize w = Inr w \<and> PersonaWire_validate w = Inr ()"
    if "w \<in> set (map persona_wire (personas c))" for w
    using that recs by (fastforce simp: PersonaWire_deserialize_def PersonaWire_validate_def record_ok_def persona_id_ok_def)
  have q: "CharacterPolicyWire_deserialize w = Inr w" if "w \<in> set (map policy_wire (character_policies c))" for w
  proof -
    obtain k s where "w = policy_wire (k, s)" "policy_ok (personas c) k s" using \<open>w \<in> _\<close> pols by auto
    then show ?thesis
      using policy_persona_id [OF inv, of k]
      by (auto simp: CharacterPolicyWire_deserialize_def StoredPolicyWire_deserialize_def policy_ok_def card_id_ok_def
          persona_id_ok_def split: StoredCharacterPolicy.splits)
  qed
  have d: "\<forall>i. global_default c = Some i \<longrightarrow> persona_id_ok i"
    using inv by (auto simp: catalog_inv_def record_ok_def)
  have "visit_bounded MAX_PERSONAS MAX_TOTAL_PERSONA_PROMPT_BYTES PersonaWire_deserialize PersonaWire_validate
      (\<lambda>p. str_len (wire_prompt_text p)) [] 0 (map persona_wire (personas c)) = Inr (map persona_wire (personas c))"
    using visit_bounded_accepts [of "map persona_wire (personas c)" PersonaWire_deserialize PersonaWire_validate "[]"
        MAX_PERSONAS 0 "\<lambda>p. str_len (wire_prompt_text p)" MAX_TOTAL_PERSONA_PROMPT_BYTES] p inv persona_wire_bytes [of "personas c"]
    by (simp add: catalog_inv_def)
  moreover have "visit_bounded MAX_CHARACTER_POLICIES (2 ^ 64 - 1) CharacterPolicyWire_deserialize (\<lambda>_. Inr ())
      (\<lambda>_. 0) [] 0 (map policy_wire (character_policies c)) = Inr (map policy_wire (character_policies c))"
    using visit_bounded_accepts [of "map policy_wire (character_policies c)" CharacterPolicyWire_deserialize "\<lambda>_. Inr ()" "[]"
        MAX_CHARACTER_POLICIES 0 "\<lambda>_. 0" "2 ^ 64 - 1"] q inv
    by (simp add: catalog_inv_def comp_def)
  ultimately show ?thesis
    using d by (auto simp: CatalogWire_deserialize_def catalog_wire_def persona_id_ok_def split: option.split)
qed

lemma wire_restores:
  assumes inv: "catalog_inv c"
  shows "restore_v1 (catalog_wire c) = Inr c"
proof -
  have wf: "bt_wf (personas c)" "bt_wf (character_policies c)" using inv by (simp_all add: catalog_inv_def)
  have "\<forall>(i, r)\<in>set (personas c). record_ok i r" "\<forall>(k, p)\<in>set (character_policies c). policy_ok (personas c) k p"
    using inv bt_all [OF wf(1)] bt_all [OF wf(2)] by (simp_all add: catalog_inv_def)
  with restore_personas_wire [OF wf(1)] restore_policies_wire [OF wf(2)] inv show ?thesis
    by (auto simp: restore_v1_def catalog_wire_def catalog_inv_def split: option.split)
qed

end
