(* ===== verification/Persona_Properties.thy ===== *)
theory Persona_Properties
  imports Persona_Correct
begin

text \<open>
  The properties of the persona catalog, each with a small catalog on which it is evaluated.
\<close>

section \<open>Sequences of operations\<close>

text \<open>A refused operation leaves the catalog as it was.\<close>

definition attempt :: "PersonaCatalog \<Rightarrow> persona_op \<Rightarrow> PersonaCatalog" where
  "attempt c op = (case run_op c op of Inr c' \<Rightarrow> c' | Inl _ \<Rightarrow> c)"

abbreviation attempts :: "PersonaCatalog \<Rightarrow> persona_op list \<Rightarrow> PersonaCatalog" where
  "attempts \<equiv> foldl attempt"

lemma attempt_cases:
  obtains "attempt c op = c" | "run_op c op = Inr (attempt c op)"
  by (cases "run_op c op") (auto simp: attempt_def)

lemma attempt_inv: "catalog_inv c \<Longrightarrow> op_ok op \<Longrightarrow> catalog_inv (attempt c op)"
  by (cases rule: attempt_cases [of c op]) (auto dest: run_op_inv)

lemma run_op_view:
  "catalog_inv c \<Longrightarrow> op_ok op \<Longrightarrow> run_op c op = Inr c' \<Longrightarrow>
    spec_allows op (view c) \<and> view c' = spec_effect op (view c)"
  using run_op_refines [of c op] by (auto simp: refines_def split: if_splits)

text \<open>Only \<open>Remove i\<close> takes persona \<open>i\<close> away; any other operation keeps its revision or raises it.\<close>

primrec removes :: "PersonaId \<Rightarrow> persona_op \<Rightarrow> bool" where
  "removes i (Add j d) = False"
| "removes i (Update j n d) = False"
| "removes i (Remove j n) = (i = j)"
| "removes i (SetDefault p) = False"
| "removes i (SetPolicy k p) = False"

lemma effect_revision:
  assumes "spec_allows op v" and "\<not> removes i op" and "view_personas v i = Some r"
  shows "\<exists>r'. view_personas (spec_effect op v) i = Some r' \<and> rec_revision r \<le> rec_revision r'"
  using assms by (cases op) (auto simp: draft_record_def)

text \<open>Some step of the run removed persona \<open>i\<close>; a refused removal does not count.\<close>

primrec removed_during :: "PersonaId \<Rightarrow> PersonaCatalog \<Rightarrow> persona_op list \<Rightarrow> bool" where
  "removed_during i c [] \<longleftrightarrow> False"
| "removed_during i c (op # ops) \<longleftrightarrow>
    removes i op \<and> is_ok (run_op c op) \<or> removed_during i (attempt c op) ops"

lemma attempt_revision:
  assumes "catalog_inv c" and "op_ok op" and "\<not> (removes i op \<and> is_ok (run_op c op))" and "map_of (personas c) i = Some r"
  shows "\<exists>r'. map_of (personas (attempt c op)) i = Some r' \<and> rec_revision r \<le> rec_revision r'"
proof (cases rule: attempt_cases [of c op])
  case 2
  then have "spec_allows op (view c)" "view (attempt c op) = spec_effect op (view c)"
    using run_op_view [OF assms(1,2)] by blast+
  moreover have "\<not> removes i op" using 2 assms(3) by (auto simp: is_ok_iff)
  ultimately show ?thesis using effect_revision [of op "view c" i r] assms(4) by (metis view_simps(1))
qed (use assms in auto)

lemma attempts_revision:
  "catalog_inv c \<Longrightarrow> list_all op_ok ops \<Longrightarrow> \<not> removed_during i c ops \<Longrightarrow>
    map_of (personas c) i = Some r \<Longrightarrow>
    \<exists>r'. map_of (personas (attempts c ops)) i = Some r' \<and> rec_revision r \<le> rec_revision r'"
proof (induction ops arbitrary: c r)
  case (Cons op ops)
  then obtain r1 where r1: "map_of (personas (attempt c op)) i = Some r1" "rec_revision r \<le> rec_revision r1"
    using attempt_revision [of c op i r] by auto
  then show ?case
    using Cons.IH [OF _ _ _ r1(1)] Cons.prems attempt_inv [of c op] by fastforce
qed simp

section \<open>A small catalog\<close>

definition demo_draft :: PersonaDraft where
  "demo_draft = \<lparr>draft_label = lit ''Alice'', draft_prompt_text = lit ''I am Alice.''\<rparr>"

definition demo_catalog :: PersonaCatalog where
  "demo_catalog = attempts PersonaCatalog_new
    [Add (lit ''alice'') demo_draft, SetDefault (Some (lit ''alice'')), SetPolicy (lit ''card'') PolicyNoPersona]"

definition demo_codec :: "unit persona_codec" where
  "demo_codec = \<lparr>encode_state = (\<lambda>format version w.
      if format = PERSONA_STATE_FORMAT \<and> version = 1 \<and> w = catalog_wire demo_catalog then Some [123] else None),
    decode_state_envelope = (\<lambda>bytes. if bytes = [123] then Some (PERSONA_STATE_FORMAT, 1, ()) else None),
    decode_state = (\<lambda>_. Some (catalog_wire demo_catalog))\<rparr>"

lemmas persona_eval = lit_def PersonaId_parse_def CharacterCardId_parse_def validate_id_def PersonaDraft_new_def
  validate_label_def validate_prompt_text_def trim_def is_whitespace_def is_control_def str_len_def utf8_width_def
  is_ascii_alphanumeric_def is_ascii_alphabetic_def is_ascii_digit_def

lemma demo_ids: "persona_id_ok (lit ''alice'')" "card_id_ok (lit ''card'')" "draft_ok demo_draft"
  by (simp_all add: persona_id_ok_def card_id_ok_def draft_ok_def demo_draft_def persona_eval)

lemma demo_catalog_eq:
  "demo_catalog = \<lparr>generation = 3,
    personas = [(lit ''alice'', \<lparr>rec_id = lit ''alice'', rec_revision = 1, rec_label = lit ''Alice'',
      rec_prompt_text = lit ''I am Alice.''\<rparr>)],
    global_default = Some (lit ''alice''), character_policies = [(lit ''card'', StoredNoPersona)],
    total_prompt_bytes = 11\<rparr>"
  by (simp add: demo_catalog_def attempt_def demo_draft_def PersonaCatalog_new_def add_persona_def
      set_global_default_def set_character_policy_def require_persona_def checked_total_after_replace_def
      next_generation_def checked_add_def checked_sub_def persona_eval Let_def)

lemma reachable_attempt:
  "catalog_reachable codec c \<Longrightarrow> op_ok op \<Longrightarrow> catalog_reachable codec (attempt c op)"
  by (cases rule: attempt_cases [of c op]) (auto intro: catalog_reachable.op)

lemma demo_catalog_reachable: "catalog_reachable codec demo_catalog"
  by (auto simp: demo_catalog_def demo_ids intro!: reachable_attempt catalog_reachable.new)

section \<open>Properties\<close>

text \<open>
  C25. On every reachable catalog, an operation has the effect the specification gives it on plain
  maps exactly when the specification allows it (the persona exists or does not, the expected
  revision is the current one, a removed persona is neither the default nor in a policy), the result
  is within the limits on personas, policies and prompt bytes, and the counters do not overflow;
  otherwise it is refused with a declared error, never with a panic. The result keeps the invariant.
\<close>

theorem catalog_refines_specification:
  assumes "catalog_reachable codec c" and "op_ok op"
  shows "refines c op (run_op c op)"
  by (rule run_op_refines [OF reachable_inv [OF assms(1)] assms(2)])

theorem catalog_refines_specification_witness:
  "refines demo_catalog (Remove (lit ''alice'') 1) (run_op demo_catalog (Remove (lit ''alice'') 1)) \<and>
    run_op demo_catalog (Remove (lit ''alice'') 1) = Inl (PersonaInUse (lit ''alice'') (lit ''the global default''))"
  using catalog_refines_specification [OF demo_catalog_reachable [of demo_codec], of "Remove (lit ''alice'') 1"] demo_ids
  by (simp add: demo_catalog_eq remove_persona_def)

text \<open>
  C26. A catalog in use is well formed: personas and policies are sorted maps within their limits,
  every record is validated and filed under its own identifier, the byte total is the sum over the
  personas, and the default and every policy refer to personas that exist.
\<close>

theorem reachable_catalog_well_formed:
  assumes "catalog_reachable codec c"
  shows "catalog_inv c"
  by (rule reachable_inv [OF assms])

theorem reachable_catalog_well_formed_witness: "catalog_inv demo_catalog \<and> length (personas demo_catalog) = 1"
  using reachable_catalog_well_formed [OF demo_catalog_reachable [of demo_codec]] by (simp add: demo_catalog_eq)

text \<open>The persona a choice means: an explicit one, else the character's policy, else the default.\<close>

definition intended_persona ::
  "PersonaCatalog \<Rightarrow> CharacterCardId \<Rightarrow> PersonaChoice \<Rightarrow> (PersonaSelectionSource \<times> PersonaId) option" where
  "intended_persona c character choice =
    (case (choice, character_policy c character) of
       (ChooseSpecific i, _) \<Rightarrow> Some (Explicit, i)
     | (ChooseNoPersona, _) \<Rightarrow> None
     | (UseDefault, PolicySpecific i) \<Rightarrow> Some (CharacterDefault, i)
     | (UseDefault, PolicyNoPersona) \<Rightarrow> None
     | (UseDefault, InheritGlobal) \<Rightarrow> map_option (Pair GlobalDefault) (global_default c))"

text \<open>
  C27. Resolving a persona for play always binds the chat and the character to the persona the choice
  means, as a snapshot of its current record; the only way to fail is an explicit choice of a
  persona that does not exist, so a default never dangles.
\<close>

theorem resolve_for_play_total:
  assumes "catalog_reachable codec c"
  shows "resolve_for_play c chat character choice =
    (case choice of
       ChooseSpecific i \<Rightarrow>
         (if map_of (personas c) i = None then Inl (NotFound ''persona'' i)
          else Inr \<lparr>binding_chat_id = chat, binding_character_card_id = character,
            binding_persona = Some \<lparr>res_source = Explicit, res_snapshot = snapshot (the (map_of (personas c) i))\<rparr>\<rparr>)
     | _ \<Rightarrow> Inr \<lparr>binding_chat_id = chat, binding_character_card_id = character,
         binding_persona = map_option (\<lambda>(src, i). \<lparr>res_source = src,
           res_snapshot = snapshot (the (map_of (personas c) i))\<rparr>) (intended_persona c character choice)\<rparr>)"
proof -
  have "\<forall>i. global_default c = Some i \<longrightarrow> map_of (personas c) i \<noteq> None"
    and "\<forall>i. map_of (character_policies c) character = Some (StoredSpecific i) \<longrightarrow> map_of (personas c) i \<noteq> None"
    using reachable_inv [OF assms] by (simp add: catalog_inv_def) (use reachable_inv [OF assms] in \<open>fastforce simp: catalog_inv_def policy_ok_def\<close>)
  then show ?thesis
    by (auto simp: resolve_for_play_def resolve_persona_def require_persona_def intended_persona_def
        character_policy_def ok_or_def split: PersonaChoice.split option.split StoredCharacterPolicy.split)
qed

theorem resolve_for_play_total_witness:
  "resolve_for_play demo_catalog (lit ''chat'') (lit ''other'') UseDefault =
    Inr \<lparr>binding_chat_id = lit ''chat'', binding_character_card_id = lit ''other'',
      binding_persona = Some \<lparr>res_source = GlobalDefault, res_snapshot = \<lparr>snap_id = lit ''alice'',
        snap_revision = 1, snap_label = lit ''Alice'', snap_prompt_text = lit ''I am Alice.''\<rparr>\<rparr>\<rparr>"
  using resolve_for_play_total [OF demo_catalog_reachable [of demo_codec], of "lit ''chat''" "lit ''other''" UseDefault]
  by (simp add: demo_catalog_eq intended_persona_def character_policy_def snapshot_def lit_def)

text \<open>
  The codec reads back the envelope it wrote. This is what the JSON library documents of its
  serializer and deserializer for the same types.
\<close>

definition codec_faithful :: "'raw persona_codec \<Rightarrow> bool" where
  "codec_faithful codec \<longleftrightarrow> (\<forall>format version w bytes. encode_state codec format version w = Some bytes \<longrightarrow>
    (\<exists>raw. decode_state_envelope codec bytes = Some (format, version, raw) \<and> decode_state codec raw = Some w))"

text \<open>
  C28. What is stored is read back exactly: deserializing the bytes a reachable catalog was
  serialized to gives the same catalog, so no bound or check of the reader refuses what the
  operations and the writer accept.
\<close>

theorem persona_state_roundtrip:
  assumes "codec_faithful codec" and "catalog_reachable codec c" and "serialize_state codec c = Inr bytes"
  shows "deserialize_state codec bytes = Inr c"
proof -
  have enc: "encode_state codec PERSONA_STATE_FORMAT PERSONA_STATE_SCHEMA_VERSION (catalog_wire c) = Some bytes"
    and len: "length bytes \<le> MAX_PERSONA_STATE_BYTES"
    using assms(3) by (auto simp: serialize_state_def split: if_splits)
  obtain raw where "decode_state_envelope codec bytes = Some (PERSONA_STATE_FORMAT, 1, raw)"
      "decode_state codec raw = Some (catalog_wire c)"
    using assms(1) enc unfolding codec_faithful_def by blast
  with len wire_deserializes wire_restores reachable_inv [OF assms(2)] show ?thesis
    by (simp add: deserialize_state_def)
qed

theorem persona_state_roundtrip_witness:
  "serialize_state demo_codec demo_catalog = Inr [123] \<and> deserialize_state demo_codec [123] = Inr demo_catalog"
proof -
  have "codec_faithful demo_codec" by (simp add: codec_faithful_def demo_codec_def)
  moreover have "serialize_state demo_codec demo_catalog = Inr [123]"
    by (simp add: serialize_state_def demo_codec_def)
  ultimately show ?thesis using persona_state_roundtrip [OF _ demo_catalog_reachable] by blast
qed

text \<open>
  C29. No lost update: once an update against revision \<open>n\<close> of a persona has succeeded, a later
  update or removal against the same revision is refused with a revision conflict that names the
  current revision, whatever operations were attempted in between, refused removals of the persona
  included, as long as no removal of it succeeded.
\<close>

theorem stale_update_refused:
  assumes "catalog_reachable codec c" and "op_ok (Update i n d)" and "run_op c (Update i n d) = Inr c1"
    and "list_all op_ok ops" and "\<not> removed_during i c1 ops"
  shows "\<exists>m > n. map_option rec_revision (map_of (personas (attempts c1 ops)) i) = Some m \<and>
    run_op (attempts c1 ops) (Update i n d') = Inl (RevisionConflict i n m) \<and>
    run_op (attempts c1 ops) (Remove i n) = Inl (RevisionConflict i n m)"
proof -
  have inv: "catalog_inv c" by (rule reachable_inv [OF assms(1)])
  have "view c1 = spec_effect (Update i n d) (view c)" using run_op_view [OF inv assms(2,3)] by blast
  then have "map_of (personas c1) i = Some (draft_record i (n + 1) d)"
    by (metis fun_upd_same persona_view.select_convs(1) persona_view.surjective persona_view.update_convs(1)
        spec_effect.simps(2) view_simps(1))
  then obtain r where "map_of (personas (attempts c1 ops)) i = Some r" "n < rec_revision r"
    using attempts_revision [OF run_op_inv [OF inv assms(2,3)] assms(4,5)] by (fastforce simp: draft_record_def)
  then show ?thesis by (auto simp: update_persona_def remove_persona_def intro!: exI [of _ "rec_revision r"])
qed

theorem stale_update_refused_witness:
  "\<exists>c1. run_op demo_catalog (Update (lit ''alice'') 1 demo_draft) = Inr c1 \<and>
    \<not> removed_during (lit ''alice'') c1 [SetDefault None, Remove (lit ''alice'') 1] \<and>
    (\<exists>m > 1. run_op (attempts c1 [SetDefault None, Remove (lit ''alice'') 1]) (Remove (lit ''alice'') 1) =
      Inl (RevisionConflict (lit ''alice'') 1 m))"
proof -
  let ?ops = "[SetDefault None, Remove (lit ''alice'') 1]"
  have "\<exists>c1. run_op demo_catalog (Update (lit ''alice'') 1 demo_draft) = Inr c1 \<and> \<not> removed_during (lit ''alice'') c1 ?ops"
    by (simp add: demo_catalog_eq update_persona_def demo_draft_def checked_total_after_replace_def
        set_global_default_def remove_persona_def attempt_def is_ok_iff
        next_generation_def checked_add_def checked_sub_def persona_eval Let_def)
  with stale_update_refused [OF demo_catalog_reachable [of demo_codec], of "lit ''alice''" 1 demo_draft _ ?ops demo_draft]
    demo_ids show ?thesis by fastforce
qed

end
