(* ===== verification/Tool_Schema.thy ===== *)
theory Tool_Schema
  imports Json
begin

text \<open>
  The tool contract of the tool runtime: its errors (\<open>error.rs\<close>), the JSON limits and the canonical
  form of a document (\<open>json.rs\<close>), and tool definitions, calls and results with the closed schema
  language their arguments are checked against (\<open>schema.rs\<close>). The JSON library is a parameter.
\<close>

abbreviation (input) "MAX_TOOL_NAME_BYTES \<equiv> 64 :: nat"
abbreviation (input) "MAX_CALL_ID_BYTES \<equiv> 128 :: nat"
abbreviation (input) "MAX_DESCRIPTION_BYTES \<equiv> 4096 :: nat"
abbreviation (input) "MAX_INPUT_SCHEMA_BYTES \<equiv> 32768 :: nat"
abbreviation (input) "MAX_TOOL_ARGUMENT_BYTES \<equiv> 65536 :: nat"
abbreviation (input) "MAX_TOOL_OUTPUT_BYTES \<equiv> 65536 :: nat"
abbreviation (input) "MAX_JSON_DEPTH \<equiv> 16 :: nat"
abbreviation (input) "MAX_JSON_NODES \<equiv> 4096 :: nat"
abbreviation (input) "MAX_DEFINITION_DOCUMENT_BYTES \<equiv> MAX_INPUT_SCHEMA_BYTES + MAX_DESCRIPTION_BYTES + 1024"
abbreviation (input) "MAX_CALL_DOCUMENT_BYTES \<equiv> MAX_TOOL_ARGUMENT_BYTES + 1024"

datatype ToolRuntimeError =
    EmptyField string
  | FieldTooLong string nat
  | InvalidName string
  | InvalidJson
  | JsonTooLarge string nat
  | JsonTooDeep string nat
  | JsonTooManyNodes string nat
  | JsonMustBeObject string
  | InvalidInputSchema string
  | InvalidToolArguments string
  | PolicyDenied rstr
  | ApprovalRequired
  | InvalidApprovalLifetime
  | InvalidApprovalToken
  | ApprovalExpired
  | ApprovalReplay
  | ApprovalLedgerFull
  | InternalState
  | ToolNotRegistered rstr
  | DuplicateTool rstr
  | TooManyTools nat
  | InvalidExecutorCode
  | ExecutorFailed rstr
  | UnsupportedMcpTransport
  | InvalidMcpEndpoint string
  | ForbiddenMcpHost
  | InvalidCredentialReference

section \<open>Definitions, calls and results\<close>

record ToolDefinition =
  def_name :: rstr
  def_description :: rstr
  def_input_schema :: json

record ToolCall =
  call_id :: rstr
  call_name :: rstr
  call_arguments :: json

record ToolResult =
  result_call_id :: rstr
  result_is_error :: bool
  result_content :: json

text \<open>
  The JSON library: reading a document, its compact text, the text of a string and of a number, and
  the derived decoders of definitions and calls.
\<close>

record json_lib =
  from_slice :: "byte list \<Rightarrow> json option"
  to_vec :: "json \<Rightarrow> byte list option"
  string_text :: "rstr \<Rightarrow> byte list option"
  number_text :: "json \<Rightarrow> byte list"
  decode_definition :: "json \<Rightarrow> ToolDefinition option"
  decode_call :: "json \<Rightarrow> ToolCall option"

section \<open>Limits of a document\<close>

definition parse_json :: "json_lib \<Rightarrow> byte list \<Rightarrow> string \<Rightarrow> nat \<Rightarrow> (ToolRuntimeError, json) res" where
  "parse_json lib bytes field max_bytes =
    (if length bytes > max_bytes then Inl (JsonTooLarge field max_bytes)
     else ok_or (from_slice lib bytes) InvalidJson)"

text \<open>
  The stack of the limit check holds values with their depth; the head is its top, so that pushing
  a sequence leaves its last item on top.
\<close>

fun push_children :: "json \<Rightarrow> nat \<Rightarrow> (json \<times> nat) list \<Rightarrow> (json \<times> nat) list" where
  "push_children (JArray items) depth stack = rev (map (\<lambda>item. (item, depth + 1)) items) @ stack"
| "push_children (JObject members) depth stack = rev (map (\<lambda>(_, item). (item, depth + 1)) members) @ stack"
| "push_children _ depth stack = stack"

abbreviation stack_nodes :: "(json \<times> nat) list \<Rightarrow> nat" where
  "stack_nodes stack \<equiv> (\<Sum>e\<leftarrow>stack. json_nodes (fst e))"

lemma stack_nodes_push: "stack_nodes (push_children v d stack) + 1 = json_nodes v + stack_nodes stack"
  by (cases v) (auto simp: rev_map [symmetric] comp_def case_prod_beta sum_list_rev)

function limits_loop :: "string \<Rightarrow> nat \<Rightarrow> nat \<Rightarrow> nat \<Rightarrow> (json \<times> nat) list \<Rightarrow> (ToolRuntimeError, unit) res" where
  "limits_loop field max_depth max_nodes node_count [] = Inr ()"
| "limits_loop field max_depth max_nodes node_count ((node, depth) # stack) =
    and_then (ok_or (checked_add_usize node_count 1) (JsonTooManyNodes field max_nodes)) (\<lambda>node_count.
    if node_count > max_nodes then Inl (JsonTooManyNodes field max_nodes)
    else if depth > max_depth then Inl (JsonTooDeep field max_depth)
    else limits_loop field max_depth max_nodes node_count (push_children node depth stack))"
  by pat_completeness auto
termination
proof (relation "measure (\<lambda>(_, _, _, _, stack). stack_nodes stack)")
  fix field max_depth max_nodes node_count node depth stack x
  show "((field, max_depth, max_nodes, x, push_children node depth stack),
      (field, max_depth, max_nodes, node_count, (node, depth) # stack))
      \<in> measure (\<lambda>(_, _, _, _, stack). stack_nodes stack)"
    using stack_nodes_push [of node depth stack] by simp
qed simp

definition validate_json_limits ::
  "json_lib \<Rightarrow> json \<Rightarrow> string \<Rightarrow> nat \<Rightarrow> nat \<Rightarrow> nat \<Rightarrow> (ToolRuntimeError, unit) res" where
  "validate_json_limits lib v field max_bytes max_depth max_nodes =
    and_then (limits_loop field max_depth max_nodes 0 [(v, 1)]) (\<lambda>_.
    and_then (ok_or (to_vec lib v) InvalidJson) (\<lambda>serialized.
    if length serialized > max_bytes then Inl (JsonTooLarge field max_bytes) else Inr ()))"

section \<open>The canonical form\<close>

lemma in_enumerate: "(i, x) \<in> set (enumerate n xs) \<Longrightarrow> x \<in> set xs"
  by (auto simp: in_set_enumerate_eq)

lemma enumerate_items_nodes:
  "(i, v) \<in> set (enumerate n items) \<Longrightarrow> json_nodes v \<le> (\<Sum>v\<leftarrow>items. json_nodes v)"
  by (rule json_items_nodes [OF in_enumerate])

lemma enumerate_members_nodes:
  "(i, k, v) \<in> set (enumerate n (sort_key f ms)) \<Longrightarrow> json_nodes v \<le> (\<Sum>m\<leftarrow>ms. json_nodes (snd m))"
  using in_enumerate [of i "(k, v)" n "sort_key f ms"] json_members_nodes [of k v ms] by simp

function write_canonical :: "json_lib \<Rightarrow> json \<Rightarrow> byte list \<Rightarrow> (ToolRuntimeError, byte list) res" where
  "write_canonical lib JNull out = Inr (out @ as_bytes (lit ''null''))"
| "write_canonical lib (JBool b) out = Inr (out @ as_bytes (if b then lit ''true'' else lit ''false''))"
| "write_canonical lib (JInt i) out = Inr (out @ number_text lib (JInt i))"
| "write_canonical lib (JFloat x) out = Inr (out @ number_text lib (JFloat x))"
| "write_canonical lib (JString s) out =
    and_then (ok_or (string_text lib s) InvalidJson) (\<lambda>t. Inr (out @ t))"
| "write_canonical lib (JArray items) out =
    and_then (try_fold (\<lambda>out (index, item).
        write_canonical lib item (if index \<noteq> 0 then out @ [44] else out))
      (out @ [91]) (enumerate 0 items)) (\<lambda>out. Inr (out @ [93]))"
| "write_canonical lib (JObject object) out =
    and_then (try_fold (\<lambda>out (index, key, item).
        and_then (ok_or (string_text lib key) InvalidJson) (\<lambda>t.
        write_canonical lib item ((if index \<noteq> 0 then out @ [44] else out) @ t @ [58])))
      (out @ [123]) (enumerate 0 (sort_key fst object))) (\<lambda>out. Inr (out @ [125]))"
  by pat_completeness auto
termination
  by (relation "measure (\<lambda>(_, v, _). json_nodes v)")
    (auto dest!: enumerate_items_nodes enumerate_members_nodes simp: less_Suc_eq_le)

definition canonical_json :: "json_lib \<Rightarrow> json \<Rightarrow> (ToolRuntimeError, byte list) res" where
  "canonical_json lib v = write_canonical lib v []"

section \<open>Identifiers\<close>

text \<open>The checks are on bytes; a character outside ASCII has only bytes outside ASCII.\<close>

definition validate_ascii_identifier :: "rstr \<Rightarrow> string \<Rightarrow> nat \<Rightarrow> bool \<Rightarrow> (ToolRuntimeError, unit) res" where
  "validate_ascii_identifier v field max_bytes allow_colon =
    (if v = [] then Inl (EmptyField field)
     else if str_len v > max_bytes then Inl (FieldTooLong field max_bytes)
     else
       let first = hd v;
           first_is_valid = (if field = ''tool_name'' then is_ascii_alphabetic first else is_ascii_alphanumeric first);
           rest_is_valid = list_all (\<lambda>c. is_ascii_alphanumeric c \<or> c \<in> set (lit ''_.-'') \<or>
             allow_colon \<and> c = 58) (tl v) in
       if \<not> first_is_valid \<or> \<not> rest_is_valid \<or> contains_str (lit ''..'') v then Inl (InvalidName field)
       else Inr ())"

definition validate_tool_name :: "rstr \<Rightarrow> (ToolRuntimeError, unit) res" where
  "validate_tool_name name = validate_ascii_identifier name ''tool_name'' MAX_TOOL_NAME_BYTES False"

definition validate_call_id :: "rstr \<Rightarrow> (ToolRuntimeError, unit) res" where
  "validate_call_id i = validate_ascii_identifier i ''call_id'' MAX_CALL_ID_BYTES True"

section \<open>Schemas\<close>

abbreviation (input) schema_error :: "string \<Rightarrow> (ToolRuntimeError, 'a) res" where
  "schema_error reason \<equiv> Inl (InvalidInputSchema reason)"

text \<open>\<open>object.get(key)\<close>.\<close>

abbreviation (input) member :: "(rstr \<times> json) list \<Rightarrow> string \<Rightarrow> json option" where
  "member object key \<equiv> map_of object (lit key)"

definition value_matches_type :: "json \<Rightarrow> rstr \<Rightarrow> bool" where
  "value_matches_type v kind =
    (if kind = lit ''object'' then json_object v \<noteq> None
     else if kind = lit ''array'' then json_array v \<noteq> None
     else if kind = lit ''string'' then json_str v \<noteq> None
     else if kind = lit ''number'' then json_f64 v \<noteq> None
     else if kind = lit ''integer'' then json_i64 v \<noteq> None \<or> json_u64 v \<noteq> None
     else if kind = lit ''boolean'' then (case v of JBool _ \<Rightarrow> True | _ \<Rightarrow> False)
     else if kind = lit ''null'' then v = JNull
     else False)"

definition validate_irrelevant_keywords :: "(rstr \<times> json) list \<Rightarrow> string list \<Rightarrow> (ToolRuntimeError, unit) res" where
  "validate_irrelevant_keywords object relevant =
    (if list_ex (\<lambda>(key, _). key \<notin> lit ` set relevant) object
     then schema_error ''keyword is not valid for this schema type'' else Inr ())"

definition validate_schema_text :: "json \<Rightarrow> (ToolRuntimeError, unit) res" where
  "validate_schema_text v =
    and_then (ok_or (json_str v) (InvalidInputSchema ''schema text metadata must be a string'')) (\<lambda>s.
    if str_len s > MAX_DESCRIPTION_BYTES then schema_error ''schema text metadata is too long'' else Inr ())"

definition validate_argument_name :: "rstr \<Rightarrow> (ToolRuntimeError, unit) res" where
  "validate_argument_name name =
    (if name = [] \<or> str_len name > MAX_TOOL_NAME_BYTES then schema_error ''property name length is invalid''
     else if \<not> is_ascii_alphabetic (hd name) \<or>
       \<not> list_all (\<lambda>c. is_ascii_alphanumeric c \<or> c = 95) (tl name)
     then schema_error ''property name is not a safe identifier''
     else Inr ())"

definition json_u64_bound :: "json \<Rightarrow> (ToolRuntimeError, nat) res" where
  "json_u64_bound v = ok_or (json_u64 v) (InvalidInputSchema ''schema bound must be an unsigned integer'')"

definition number_as_f64 :: "json \<Rightarrow> (ToolRuntimeError, f64) res" where
  "number_as_f64 v =
    ok_or (case json_f64 v of Some x \<Rightarrow> if is_finite x then Some x else None | None \<Rightarrow> None)
      (InvalidInputSchema ''numeric bound must be finite'')"

text \<open>\<open>object.get(key).map(f).transpose()?\<close>.\<close>

definition member_with ::
  "(rstr \<times> json) list \<Rightarrow> string \<Rightarrow> (json \<Rightarrow> (ToolRuntimeError, 'a) res) \<Rightarrow> (ToolRuntimeError, 'a option) res" where
  "member_with object key f =
    (case member object key of None \<Rightarrow> Inr None | Some v \<Rightarrow> and_then (f v) (\<lambda>x. Inr (Some x)))"

definition validate_u64_bounds ::
  "(rstr \<times> json) list \<Rightarrow> string \<Rightarrow> string \<Rightarrow> nat \<Rightarrow> (ToolRuntimeError, unit) res" where
  "validate_u64_bounds object minimum_key maximum_key hard_max =
    and_then (member_with object minimum_key json_u64_bound) (\<lambda>minimum.
    and_then (member_with object maximum_key json_u64_bound) (\<lambda>maximum.
    let minimum = case_option 0 id minimum; maximum = case_option hard_max id maximum in
    if minimum > maximum \<or> maximum > hard_max then schema_error ''schema bounds are invalid'' else Inr ()))"

definition validate_string_schema :: "(rstr \<times> json) list \<Rightarrow> (ToolRuntimeError, unit) res" where
  "validate_string_schema object =
    and_then (validate_irrelevant_keywords object
      [''type'', ''title'', ''description'', ''minLength'', ''maxLength'', ''enum'', ''const'']) (\<lambda>_.
    validate_u64_bounds object ''minLength'' ''maxLength'' MAX_TOOL_ARGUMENT_BYTES)"

definition validate_number_schema :: "(rstr \<times> json) list \<Rightarrow> (ToolRuntimeError, unit) res" where
  "validate_number_schema object =
    and_then (validate_irrelevant_keywords object
      [''type'', ''title'', ''description'', ''minimum'', ''maximum'', ''enum'', ''const'']) (\<lambda>_.
    and_then (member_with object ''minimum'' number_as_f64) (\<lambda>minimum.
    and_then (member_with object ''maximum'' number_as_f64) (\<lambda>maximum.
    case (minimum, maximum) of
      (Some low, Some high) \<Rightarrow> if f64_less high low then schema_error ''minimum exceeds maximum'' else Inr ()
    | _ \<Rightarrow> Inr ())))"

text \<open>The entries of \<open>required\<close>: unique names of declared properties.\<close>

definition required_step :: "(rstr \<times> json) list \<Rightarrow> rstr list \<Rightarrow> json \<Rightarrow> (ToolRuntimeError, rstr list) res" where
  "required_step properties unique v =
    and_then (ok_or (json_str v) (InvalidInputSchema ''required entries must be strings'')) (\<lambda>name.
    if map_of properties name = None \<or> name \<in> set unique
    then schema_error ''required entries must be unique declared properties''
    else Inr (name # unique))"

definition validate_enum :: "(rstr \<times> json) list \<Rightarrow> rstr \<Rightarrow> (ToolRuntimeError, unit) res" where
  "validate_enum object kind =
    (case member object ''enum'' of
       None \<Rightarrow> Inr ()
     | Some v \<Rightarrow>
         and_then (ok_or (json_array v) (InvalidInputSchema ''enum must be an array'')) (\<lambda>vs.
         if vs = [] \<or> length vs > 128 then schema_error ''enum size is invalid''
         else if list_ex (\<lambda>v. \<not> value_matches_type v kind) vs then schema_error ''enum value has the wrong type''
         else Inr ()))"

abbreviation (input) "ALLOWED_KEYS \<equiv> [''type'', ''title'', ''description'', ''properties'', ''required'',
  ''additionalProperties'', ''items'', ''enum'', ''const'', ''minLength'', ''maxLength'', ''minimum'',
  ''maximum'', ''minItems'', ''maxItems'']"

abbreviation (input) "JSON_TYPES \<equiv> [''object'', ''array'', ''string'', ''number'', ''integer'', ''boolean'', ''null'']"

function validate_schema :: "json \<Rightarrow> bool \<Rightarrow> (ToolRuntimeError, unit) res"
  and validate_object_schema :: "(rstr \<times> json) list \<Rightarrow> (ToolRuntimeError, unit) res"
  and validate_array_schema :: "(rstr \<times> json) list \<Rightarrow> (ToolRuntimeError, unit) res" where
  "validate_schema schema is_root =
    and_then (ok_or (json_object schema) (InvalidInputSchema ''schema nodes must be objects'')) (\<lambda>object.
    if list_ex (\<lambda>(key, _). key \<notin> lit ` set ALLOWED_KEYS) object
    then schema_error ''unsupported or reference-based schema keyword''
    else and_then (ok_or (Option.bind (member object ''type'') json_str)
      (InvalidInputSchema ''every schema node requires one string type'')) (\<lambda>kind.
    if is_root \<and> kind \<noteq> lit ''object'' then schema_error ''root input schema must have object type''
    else if kind \<notin> lit ` set JSON_TYPES then schema_error ''unsupported JSON type''
    else and_then (case member object ''title'' of Some v \<Rightarrow> validate_schema_text v | None \<Rightarrow> Inr ()) (\<lambda>_.
    and_then (case member object ''description'' of Some v \<Rightarrow> validate_schema_text v | None \<Rightarrow> Inr ()) (\<lambda>_.
    and_then (validate_enum object kind) (\<lambda>_.
    if (case member object ''const'' of Some v \<Rightarrow> \<not> value_matches_type v kind | None \<Rightarrow> False)
    then schema_error ''const value has the wrong type''
    else if kind = lit ''object'' then validate_object_schema object
    else if kind = lit ''array'' then validate_array_schema object
    else if kind = lit ''string'' then validate_string_schema object
    else if kind = lit ''number'' \<or> kind = lit ''integer'' then validate_number_schema object
    else validate_irrelevant_keywords object [''type'', ''title'', ''description'', ''enum'', ''const''])))))"
| "validate_object_schema object =
    and_then (validate_irrelevant_keywords object [''type'', ''title'', ''description'', ''properties'',
      ''required'', ''additionalProperties'', ''enum'', ''const'']) (\<lambda>_.
    and_then (ok_or (Option.bind (member object ''properties'') json_object)
      (InvalidInputSchema ''object schema requires properties'')) (\<lambda>properties.
    if length properties > 128 then schema_error ''too many object properties''
    else and_then (try_fold (\<lambda>_ (name, child).
        and_then (validate_argument_name name) (\<lambda>_. validate_schema child False)) () properties) (\<lambda>_.
    and_then (ok_or (Option.bind (member object ''required'') json_array)
      (InvalidInputSchema ''object schema requires a required array'')) (\<lambda>required.
    and_then (try_fold (required_step properties) [] required) (\<lambda>_.
    if member object ''additionalProperties'' \<noteq> Some (JBool False)
    then schema_error ''additionalProperties must be false''
    else Inr ())))))"
| "validate_array_schema object =
    and_then (validate_irrelevant_keywords object [''type'', ''title'', ''description'', ''items'',
      ''minItems'', ''maxItems'', ''enum'', ''const'']) (\<lambda>_.
    and_then (ok_or (member object ''items'') (InvalidInputSchema ''array schema requires items'')) (\<lambda>items.
    and_then (validate_schema items False) (\<lambda>_.
    validate_u64_bounds object ''minItems'' ''maxItems'' MAX_JSON_NODES)))"
  by pat_completeness auto
termination
  by (relation "measure (\<lambda>x. case x of Inl (s, _) \<Rightarrow> 2 * json_nodes s + 1
      | Inr (Inl object) \<Rightarrow> 2 * json_nodes (JObject object) | Inr (Inr object) \<Rightarrow> 2 * json_nodes (JObject object))")
    (auto dest!: map_of_SomeD json_members_nodes simp: bind_eq_Some_conv)

declare validate_schema.simps [simp del] validate_object_schema.simps [simp del] validate_array_schema.simps [simp del]

section \<open>Values against schemas\<close>

abbreviation (input) argument_error :: "string \<Rightarrow> (ToolRuntimeError, 'a) res" where
  "argument_error reason \<equiv> Inl (InvalidToolArguments reason)"

text \<open>\<open>schema.get(key).and_then(Value::as_u64).unwrap_or(fallback)\<close>.\<close>

definition u64_or :: "(rstr \<times> json) list \<Rightarrow> string \<Rightarrow> nat \<Rightarrow> nat" where
  "u64_or schema key fallback = case_option fallback id (Option.bind (member schema key) json_u64)"

definition validate_string_value :: "json \<Rightarrow> (rstr \<times> json) list \<Rightarrow> (ToolRuntimeError, unit) res" where
  "validate_string_value v schema =
    and_then (ok_or (json_str v) (InvalidToolArguments ''expected string'')) (\<lambda>s.
    if u64_or schema ''minLength'' 0 \<le> length s \<and> length s \<le> u64_or schema ''maxLength'' MAX_TOOL_ARGUMENT_BYTES
    then Inr () else argument_error ''string length is outside schema bounds'')"

definition validate_number_value :: "json \<Rightarrow> (rstr \<times> json) list \<Rightarrow> (ToolRuntimeError, unit) res" where
  "validate_number_value v schema =
    and_then (ok_or (json_f64 v) (InvalidToolArguments ''expected number'')) (\<lambda>x.
    let minimum = Option.bind (member schema ''minimum'') json_f64;
        maximum = Option.bind (member schema ''maximum'') json_f64 in
    if (case minimum of Some low \<Rightarrow> f64_less x low | None \<Rightarrow> False) \<or>
       (case maximum of Some high \<Rightarrow> f64_less high x | None \<Rightarrow> False)
    then argument_error ''number is outside schema bounds'' else Inr ())"

function validate_value_against_schema :: "json \<Rightarrow> json \<Rightarrow> (ToolRuntimeError, unit) res"
  and validate_object_value :: "json \<Rightarrow> (rstr \<times> json) list \<Rightarrow> (ToolRuntimeError, unit) res"
  and validate_array_value :: "json \<Rightarrow> (rstr \<times> json) list \<Rightarrow> (ToolRuntimeError, unit) res" where
  "validate_value_against_schema v schema =
    and_then (ok_or (json_object schema) (InvalidInputSchema ''schema node must be an object'')) (\<lambda>object.
    and_then (ok_or (Option.bind (member object ''type'') json_str)
      (InvalidInputSchema ''schema node has no type'')) (\<lambda>kind.
    if \<not> value_matches_type v kind then argument_error ''value has the wrong type''
    else if (case member object ''const'' of Some expected \<Rightarrow> expected \<noteq> v | None \<Rightarrow> False)
    then argument_error ''const value does not match''
    else if (case Option.bind (member object ''enum'') json_array of Some vs \<Rightarrow> v \<notin> set vs | None \<Rightarrow> False)
    then argument_error ''value is not in enum''
    else if kind = lit ''object'' then validate_object_value v object
    else if kind = lit ''array'' then validate_array_value v object
    else if kind = lit ''string'' then validate_string_value v object
    else if kind = lit ''number'' \<or> kind = lit ''integer'' then validate_number_value v object
    else if kind = lit ''boolean'' \<or> kind = lit ''null'' then Inr ()
    else schema_error ''unsupported JSON type''))"
| "validate_object_value v schema =
    and_then (ok_or (json_object v) (InvalidToolArguments ''expected object'')) (\<lambda>members.
    and_then (ok_or (Option.bind (member schema ''properties'') json_object)
      (InvalidInputSchema ''properties missing'')) (\<lambda>properties.
    and_then (ok_or (Option.bind (member schema ''required'') json_array)
      (InvalidInputSchema ''required missing'')) (\<lambda>required.
    and_then (try_fold (\<lambda>_ name. if map_of members name = None
        then argument_error ''required property is missing'' else Inr ()) ()
      (List.map_filter json_str required)) (\<lambda>_.
    try_fold (\<lambda>_ (name, child).
      and_then (ok_or (map_of properties name) (InvalidToolArguments ''additional property is forbidden''))
        (\<lambda>child_schema. validate_value_against_schema child child_schema)) () members))))"
| "validate_array_value v schema =
    and_then (ok_or (json_array v) (InvalidToolArguments ''expected array'')) (\<lambda>vs.
    if u64_or schema ''minItems'' 0 \<le> length vs \<and> length vs \<le> u64_or schema ''maxItems'' MAX_JSON_NODES
    then and_then (ok_or (member schema ''items'') (InvalidInputSchema ''items missing'')) (\<lambda>item_schema.
      try_fold (\<lambda>_ v. validate_value_against_schema v item_schema) () vs)
    else argument_error ''array length is outside schema bounds'')"
  by pat_completeness auto
termination
  by (relation "measure (\<lambda>x. case x of Inl (v, _) \<Rightarrow> 2 * json_nodes v + 1
      | Inr (Inl (v, _)) \<Rightarrow> 2 * json_nodes v | Inr (Inr (v, _)) \<Rightarrow> 2 * json_nodes v)")
    (auto dest!: json_members_nodes json_items_nodes)

declare validate_value_against_schema.simps [simp del] validate_object_value.simps [simp del]
  validate_array_value.simps [simp del]

section \<open>Validation of the contract's values\<close>

definition ToolDefinition_validate :: "json_lib \<Rightarrow> ToolDefinition \<Rightarrow> (ToolRuntimeError, unit) res" where
  "ToolDefinition_validate lib self =
    and_then (validate_tool_name (def_name self)) (\<lambda>_.
    if trim (def_description self) = [] then Inl (EmptyField ''description'')
    else if str_len (def_description self) > MAX_DESCRIPTION_BYTES
    then Inl (FieldTooLong ''description'' MAX_DESCRIPTION_BYTES)
    else and_then (validate_json_limits lib (def_input_schema self) ''input_schema'' MAX_INPUT_SCHEMA_BYTES
      MAX_JSON_DEPTH MAX_JSON_NODES) (\<lambda>_.
    validate_schema (def_input_schema self) True))"

definition ToolDefinition_new :: "json_lib \<Rightarrow> rstr \<Rightarrow> rstr \<Rightarrow> json \<Rightarrow> (ToolRuntimeError, ToolDefinition) res" where
  "ToolDefinition_new lib name description input_schema =
    (let definition' = \<lparr>def_name = name, def_description = description, def_input_schema = input_schema\<rparr> in
     and_then (ToolDefinition_validate lib definition') (\<lambda>_. Inr definition'))"

definition ToolDefinition_from_json_slice :: "json_lib \<Rightarrow> byte list \<Rightarrow> (ToolRuntimeError, ToolDefinition) res" where
  "ToolDefinition_from_json_slice lib bytes =
    and_then (parse_json lib bytes ''tool_definition'' MAX_DEFINITION_DOCUMENT_BYTES) (\<lambda>v.
    and_then (ok_or (decode_definition lib v) InvalidJson) (\<lambda>d.
    and_then (ToolDefinition_validate lib d) (\<lambda>_. Inr d)))"

definition validate_arguments :: "json_lib \<Rightarrow> ToolDefinition \<Rightarrow> json \<Rightarrow> (ToolRuntimeError, unit) res" where
  "validate_arguments lib self arguments =
    and_then (validate_json_limits lib arguments ''arguments'' MAX_TOOL_ARGUMENT_BYTES MAX_JSON_DEPTH
      MAX_JSON_NODES) (\<lambda>_.
    if json_object arguments = None then Inl (JsonMustBeObject ''arguments'')
    else validate_value_against_schema arguments (def_input_schema self))"

definition ToolCall_validate :: "json_lib \<Rightarrow> ToolCall \<Rightarrow> (ToolRuntimeError, unit) res" where
  "ToolCall_validate lib self =
    and_then (validate_call_id (call_id self)) (\<lambda>_.
    and_then (validate_tool_name (call_name self)) (\<lambda>_.
    and_then (validate_json_limits lib (call_arguments self) ''arguments'' MAX_TOOL_ARGUMENT_BYTES
      MAX_JSON_DEPTH MAX_JSON_NODES) (\<lambda>_.
    if json_object (call_arguments self) = None then Inl (JsonMustBeObject ''arguments'') else Inr ())))"

definition ToolCall_new :: "json_lib \<Rightarrow> rstr \<Rightarrow> rstr \<Rightarrow> json \<Rightarrow> (ToolRuntimeError, ToolCall) res" where
  "ToolCall_new lib i name arguments =
    (let call = \<lparr>call_id = i, call_name = name, call_arguments = arguments\<rparr> in
     and_then (ToolCall_validate lib call) (\<lambda>_. Inr call))"

definition ToolCall_from_json_slice :: "json_lib \<Rightarrow> byte list \<Rightarrow> (ToolRuntimeError, ToolCall) res" where
  "ToolCall_from_json_slice lib bytes =
    and_then (parse_json lib bytes ''tool_call'' MAX_CALL_DOCUMENT_BYTES) (\<lambda>v.
    and_then (ok_or (decode_call lib v) InvalidJson) (\<lambda>call.
    and_then (ToolCall_validate lib call) (\<lambda>_. Inr call)))"

definition ToolResult_new :: "json_lib \<Rightarrow> rstr \<Rightarrow> bool \<Rightarrow> json \<Rightarrow> (ToolRuntimeError, ToolResult) res" where
  "ToolResult_new lib i is_error content =
    and_then (validate_call_id i) (\<lambda>_.
    and_then (validate_json_limits lib content ''tool_output'' MAX_TOOL_OUTPUT_BYTES MAX_JSON_DEPTH
      MAX_JSON_NODES) (\<lambda>_.
    Inr \<lparr>result_call_id = i, result_is_error = is_error, result_content = content\<rparr>))"

end
