(* ===== verification/Tool_Runtime.thy ===== *)
theory Tool_Runtime
  imports Tool_Schema
begin

text \<open>
  Approval and dispatch of tool calls: the authority that issues and consumes approval tokens and the
  allowlist (\<open>policy.rs\<close>), the registry that dispatches a call to its executor (\<open>registry.rs\<close>), and
  the configuration of remote servers (\<open>mcp.rs\<close>). The MAC, the URL parser and the executors are
  parameters. The lock of the ledger is held for a whole check, so calls are atomic steps; it is
  never poisoned, because nothing panics while it is held.
\<close>

abbreviation (input) "APPROVAL_VERSION \<equiv> 1 :: nat"
abbreviation (input) "MAX_APPROVAL_TTL_MS \<equiv> 120000 :: nat"
abbreviation (input) "MAX_CONSUMED_APPROVALS \<equiv> 4096 :: nat"
abbreviation (input) "MAX_REGISTERED_TOOLS \<equiv> 64 :: nat"
abbreviation (input) "MAX_MCP_SERVER_ID_BYTES \<equiv> 64 :: nat"
abbreviation (input) "MAX_MCP_ENDPOINT_BYTES \<equiv> 2048 :: nat"
abbreviation (input) "MAX_CREDENTIAL_REF_BYTES \<equiv> 128 :: nat"
abbreviation (input) "MAX_MCP_CONFIG_DOCUMENT_BYTES \<equiv> 4096 :: nat"

section \<open>Approval tokens\<close>

record ApprovalToken =
  tok_version :: nat
  tok_nonce :: nat
  tok_expires_at_unix_ms :: nat
  tok_signature :: rstr

record ApprovalAuthority =
  auth_key :: "byte list"
  next_nonce :: nat
  consumed :: "(nat, nat) btree"

text \<open>The MAC, HMAC-SHA256 in the source: a key and a message give 32 bytes.\<close>

type_synonym mac = "byte list \<Rightarrow> byte list \<Rightarrow> byte list"

definition ApprovalAuthority_new :: "byte list \<Rightarrow> (ToolRuntimeError, ApprovalAuthority) res" where
  "ApprovalAuthority_new key =
    (if list_all (\<lambda>b. b = 0) key then Inl InvalidApprovalToken
     else Inr \<lparr>auth_key = key, next_nonce = 1, consumed = []\<rparr>)"

definition be_bytes :: "nat \<Rightarrow> byte list" where
  "be_bytes v = rev (le_bytes 8 v)"

definition update_field :: "byte list \<Rightarrow> byte list \<Rightarrow> byte list" where
  "update_field message value = message @ be_bytes (length value) @ value"

text \<open>The message that \<open>mac\<close> feeds to the MAC.\<close>

definition mac_message :: "json_lib \<Rightarrow> ToolCall \<Rightarrow> nat \<Rightarrow> nat \<Rightarrow> (ToolRuntimeError, byte list) res" where
  "mac_message lib call nonce expires_at_unix_ms =
    (let m = as_bytes (lit ''lorepia-tool-approval-v1'') @ be_bytes nonce @ be_bytes expires_at_unix_ms;
         m = update_field m (as_bytes (call_id call));
         m = update_field m (as_bytes (call_name call)) in
     and_then (canonical_json lib (call_arguments call)) (\<lambda>arguments. Inr (update_field m arguments)))"

definition signature ::
  "json_lib \<Rightarrow> mac \<Rightarrow> ApprovalAuthority \<Rightarrow> ToolCall \<Rightarrow> nat \<Rightarrow> nat \<Rightarrow> (ToolRuntimeError, byte list) res" where
  "signature lib hmac self call nonce expires_at_unix_ms =
    and_then (mac_message lib call nonce expires_at_unix_ms) (\<lambda>m. Inr (hmac (auth_key self) m))"

definition hex_digit :: "nat \<Rightarrow> uchar" where
  "hex_digit n = lit ''0123456789abcdef'' ! n"

definition hex_encode :: "byte list \<Rightarrow> rstr" where
  "hex_encode bytes = concat (map (\<lambda>b. [hex_digit (unat b div 16), hex_digit (unat b mod 16)]) bytes)"

definition hex_nibble :: "uchar \<Rightarrow> nat option" where
  "hex_nibble b =
    (if 48 \<le> b \<and> b \<le> 57 then Some (b - 48)
     else if 97 \<le> b \<and> b \<le> 102 then Some (b - 97 + 10) else None)"

fun hex_pairs :: "rstr \<Rightarrow> byte list option" where
  "hex_pairs (a # b # rest) =
    (case (hex_nibble a, hex_nibble b) of
       (Some high, Some low) \<Rightarrow> map_option ((#) (word_of_nat (high * 16 + low))) (hex_pairs rest)
     | _ \<Rightarrow> None)"
| "hex_pairs [_] = None"
| "hex_pairs [] = Some []"

text \<open>A text of 64 bytes that is not all ASCII has a byte that is no hex digit.\<close>

definition hex_decode_32 :: "rstr \<Rightarrow> byte list option" where
  "hex_decode_32 input = (if str_len input \<noteq> 64 then None else hex_pairs input)"

definition issue_token ::
  "json_lib \<Rightarrow> mac \<Rightarrow> ApprovalAuthority \<Rightarrow> ToolCall \<Rightarrow> nat \<Rightarrow> nat \<Rightarrow>
    ApprovalAuthority \<times> (ToolRuntimeError, ApprovalToken) res" where
  "issue_token lib hmac self call now_unix_ms ttl_ms =
    (case and_then (ToolCall_validate lib call) (\<lambda>_.
        if ttl_ms = 0 \<or> ttl_ms > MAX_APPROVAL_TTL_MS then Inl InvalidApprovalLifetime
        else and_then (ok_or (checked_add 64 now_unix_ms ttl_ms) InvalidApprovalLifetime) (\<lambda>expires.
          and_then (ok_or (checked_add 64 (next_nonce self) 1) InternalState) (\<lambda>n. Inr (expires, n)))) of
       Inl e \<Rightarrow> (self, Inl e)
     | Inr (expires, n) \<Rightarrow>
         let nonce = next_nonce self; self = self\<lparr>next_nonce := n\<rparr> in
         (self, and_then (signature lib hmac self call nonce expires) (\<lambda>s.
           Inr \<lparr>tok_version = APPROVAL_VERSION, tok_nonce = nonce, tok_expires_at_unix_ms = expires,
             tok_signature = hex_encode s\<rparr>)))"

text \<open>The checks before the ledger is locked.\<close>

definition verify_token ::
  "json_lib \<Rightarrow> mac \<Rightarrow> ApprovalAuthority \<Rightarrow> ToolCall \<Rightarrow> ApprovalToken \<Rightarrow> nat \<Rightarrow> (ToolRuntimeError, unit) res" where
  "verify_token lib hmac self call token now_unix_ms =
    (if tok_version token \<noteq> APPROVAL_VERSION \<or> tok_expires_at_unix_ms token < now_unix_ms
     then if tok_expires_at_unix_ms token < now_unix_ms then Inl ApprovalExpired else Inl InvalidApprovalToken
     else if tok_expires_at_unix_ms token - now_unix_ms > MAX_APPROVAL_TTL_MS then Inl InvalidApprovalToken
     else and_then (ok_or (hex_decode_32 (tok_signature token)) InvalidApprovalToken) (\<lambda>supplied.
       and_then (mac_message lib call (tok_nonce token) (tok_expires_at_unix_ms token)) (\<lambda>m.
       if hmac (auth_key self) m = supplied then Inr () else Inl InvalidApprovalToken)))"

definition verify_and_consume ::
  "json_lib \<Rightarrow> mac \<Rightarrow> ApprovalAuthority \<Rightarrow> ToolCall \<Rightarrow> ApprovalToken \<Rightarrow> nat \<Rightarrow>
    ApprovalAuthority \<times> (ToolRuntimeError, unit) res" where
  "verify_and_consume lib hmac self call token now_unix_ms =
    (case verify_token lib hmac self call token now_unix_ms of
       Inl e \<Rightarrow> (self, Inl e)
     | Inr _ \<Rightarrow>
         let live = bt_retain (\<lambda>_ expires_at. expires_at \<ge> now_unix_ms) (consumed self);
             self = self\<lparr>consumed := live\<rparr> in
         if map_of live (tok_nonce token) \<noteq> None then (self, Inl ApprovalReplay)
         else if length live \<ge> MAX_CONSUMED_APPROVALS then (self, Inl ApprovalLedgerFull)
         else (self\<lparr>consumed := bt_insert (tok_nonce token) (tok_expires_at_unix_ms token) live\<rparr>, Inr ()))"

section \<open>Policy\<close>

record ToolPolicy =
  allowlist :: "rstr list"

definition deny_all :: ToolPolicy where
  "deny_all = \<lparr>allowlist = []\<rparr>"

definition allow_only :: "rstr list \<Rightarrow> (ToolRuntimeError, ToolPolicy) res" where
  "allow_only tool_names =
    and_then (try_fold (\<lambda>allowed tool_name. and_then (validate_tool_name tool_name) (\<lambda>_. Inr (tool_name # allowed)))
      [] tool_names) (\<lambda>allowed. Inr \<lparr>allowlist = allowed\<rparr>)"

definition is_allowlisted :: "ToolPolicy \<Rightarrow> rstr \<Rightarrow> bool" where
  "is_allowlisted self tool_name = (tool_name \<in> set (allowlist self))"

definition authorize ::
  "json_lib \<Rightarrow> mac \<Rightarrow> ToolPolicy \<Rightarrow> ApprovalAuthority \<Rightarrow> ToolCall \<Rightarrow> ApprovalToken option \<Rightarrow> nat \<Rightarrow>
    ApprovalAuthority \<times> (ToolRuntimeError, unit) res" where
  "authorize lib hmac self authority call token now_unix_ms =
    (if \<not> is_allowlisted self (call_name call) then (authority, Inl (PolicyDenied (call_name call)))
     else case token of
       None \<Rightarrow> (authority, Inl ApprovalRequired)
     | Some token \<Rightarrow> verify_and_consume lib hmac authority call token now_unix_ms)"

section \<open>Registry\<close>

record ExecutorOutput =
  out_is_error :: bool
  out_content :: json

definition validate_output :: "json_lib \<Rightarrow> json \<Rightarrow> bool \<Rightarrow> (ToolRuntimeError, ExecutorOutput) res" where
  "validate_output lib content is_error =
    and_then (ToolResult_new lib (lit ''validation'') is_error content) (\<lambda>_.
    Inr \<lparr>out_is_error = is_error, out_content = content\<rparr>)"

definition ExecutorOutput_success :: "json_lib \<Rightarrow> json \<Rightarrow> (ToolRuntimeError, ExecutorOutput) res" where
  "ExecutorOutput_success lib content = validate_output lib content False"

definition ExecutorOutput_failure :: "json_lib \<Rightarrow> json \<Rightarrow> (ToolRuntimeError, ExecutorOutput) res" where
  "ExecutorOutput_failure lib content = validate_output lib content True"

definition is_ascii_uppercase :: "uchar \<Rightarrow> bool" where
  "is_ascii_uppercase c \<longleftrightarrow> 65 \<le> c \<and> c \<le> 90"

definition ExecutorError_new :: "rstr \<Rightarrow> (ToolRuntimeError, rstr) res" where
  "ExecutorError_new code =
    (if code = [] \<or> str_len code > 64 \<or>
       \<not> list_all (\<lambda>(index, c). if index = 0 then is_ascii_uppercase c
           else is_ascii_uppercase c \<or> is_ascii_digit c \<or> c = 95) (enumerate 0 code)
     then Inl InvalidExecutorCode else Inr code)"

text \<open>
  An executor changes the world \<open>'w\<close> outside the runtime and answers with an output, or with the code
  of an error.
\<close>

type_synonym 'w executor = "'w \<Rightarrow> ToolCall \<Rightarrow> 'w \<times> (rstr, ExecutorOutput) res"

record 'w RegisteredTool =
  reg_definition :: ToolDefinition
  reg_executor :: "'w executor"

type_synonym 'w ToolRegistry = "(rstr, 'w RegisteredTool) btree"

definition register ::
  "json_lib \<Rightarrow> 'w ToolRegistry \<Rightarrow> ToolDefinition \<Rightarrow> 'w executor \<Rightarrow> (ToolRuntimeError, 'w ToolRegistry) res" where
  "register lib self definition' executor =
    and_then (ToolDefinition_validate lib definition') (\<lambda>_.
    if map_of self (def_name definition') \<noteq> None then Inl (DuplicateTool (def_name definition'))
    else if length self \<ge> MAX_REGISTERED_TOOLS then Inl (TooManyTools MAX_REGISTERED_TOOLS)
    else Inr (bt_insert (def_name definition')
      \<lparr>reg_definition = definition', reg_executor = executor\<rparr> self))"

definition execute ::
  "json_lib \<Rightarrow> mac \<Rightarrow> 'w ToolRegistry \<Rightarrow> ToolPolicy \<Rightarrow> ApprovalAuthority \<times> 'w \<Rightarrow> ToolCall \<Rightarrow>
    ApprovalToken option \<Rightarrow> nat \<Rightarrow> (ApprovalAuthority \<times> 'w) \<times> (ToolRuntimeError, ToolResult) res" where
  "execute lib hmac self policy st call approval now_unix_ms =
    (let (authority, w) = st in
     case and_then (ToolCall_validate lib call) (\<lambda>_.
        and_then (ok_or (map_of self (call_name call)) (ToolNotRegistered (call_name call))) (\<lambda>registered.
        and_then (validate_arguments lib (reg_definition registered) (call_arguments call)) (\<lambda>_.
        Inr registered))) of
       Inl e \<Rightarrow> (st, Inl e)
     | Inr registered \<Rightarrow>
         (case authorize lib hmac policy authority call approval now_unix_ms of
            (authority, Inl e) \<Rightarrow> ((authority, w), Inl e)
          | (authority, Inr _) \<Rightarrow>
              let (w, answer) = reg_executor registered w call in
              ((authority, w), and_then (map_err ExecutorFailed answer) (\<lambda>output.
                ToolResult_new lib (call_id call) (out_is_error output) (out_content output)))))"

section \<open>Remote servers\<close>

datatype McpTransport = StreamableHttp | Stdio

datatype Host = Domain rstr | IpAddress

text \<open>What the URL parser tells of a URL.\<close>

record url =
  url_scheme :: rstr
  url_cannot_be_a_base :: bool
  url_username :: rstr
  url_password :: "rstr option"
  url_query :: "rstr option"
  url_fragment :: "rstr option"
  url_host :: "Host option"

record RemoteMcpServerConfig =
  server_id :: rstr
  transport :: McpTransport
  endpoint_url :: rstr
  credential_ref :: rstr

definition safe_name :: "rstr \<Rightarrow> bool" where
  "safe_name v \<longleftrightarrow> is_ascii_alphabetic (hd v) \<and>
    list_all (\<lambda>c. is_ascii_alphanumeric c \<or> c \<in> set (lit ''_.-'')) (tl v) \<and> \<not> contains_str (lit ''..'') v"

definition CredentialRef_validate :: "rstr \<Rightarrow> (ToolRuntimeError, unit) res" where
  "CredentialRef_validate v =
    (if v = [] \<or> str_len v > MAX_CREDENTIAL_REF_BYTES then Inl InvalidCredentialReference
     else if \<not> safe_name v then Inl InvalidCredentialReference else Inr ())"

definition CredentialRef_new :: "rstr \<Rightarrow> (ToolRuntimeError, rstr) res" where
  "CredentialRef_new v = and_then (CredentialRef_validate v) (\<lambda>_. Inr v)"

definition validate_server_id :: "rstr \<Rightarrow> (ToolRuntimeError, unit) res" where
  "validate_server_id v =
    (if v = [] then Inl (EmptyField ''mcp_server_id'')
     else if str_len v > MAX_MCP_SERVER_ID_BYTES then Inl (FieldTooLong ''mcp_server_id'' MAX_MCP_SERVER_ID_BYTES)
     else if \<not> safe_name v then Inl (InvalidName ''mcp_server_id'') else Inr ())"

definition ascii_lowercase :: "uchar \<Rightarrow> uchar" where
  "ascii_lowercase c = (if is_ascii_uppercase c then c + 32 else c)"

text \<open>\<open>split('.')\<close>: the labels of a domain, one more than it has dots.\<close>

fun split_dots :: "rstr \<Rightarrow> rstr list" where
  "split_dots [] = [[]]"
| "split_dots (c # s) =
    (if c = 46 then [] # split_dots s
     else (c # hd (split_dots s)) # tl (split_dots s))"

abbreviation (input) "FORBIDDEN_SUFFIXES \<equiv> [''localhost'', ''.localhost'', ''.local'', ''.lan'',
  ''.internal'', ''.home'', ''.home.arpa'']"

definition validate_public_domain :: "rstr \<Rightarrow> (ToolRuntimeError, unit) res" where
  "validate_public_domain domain' =
    (let d = map ascii_lowercase domain' in
     if suffix [46] d \<or> str_len d > 253 \<or> 46 \<notin> set d then Inl ForbiddenMcpHost
     else if list_ex (\<lambda>s. d = dropWhile (\<lambda>c. c = 46) (lit s) \<or> suffix (lit s) d) FORBIDDEN_SUFFIXES
     then Inl ForbiddenMcpHost
     else try_fold (\<lambda>_ label.
       if label = [] \<or> str_len label > 63 \<or> prefix [45] label \<or> suffix [45] label \<or>
         \<not> list_all (\<lambda>c. is_ascii_alphanumeric c \<or> c = 45) label
       then Inl ForbiddenMcpHost else Inr ()) () (split_dots d))"

definition validate_endpoint :: "(rstr \<Rightarrow> url option) \<Rightarrow> rstr \<Rightarrow> (ToolRuntimeError, unit) res" where
  "validate_endpoint parse_url v =
    (if v = [] then Inl (EmptyField ''mcp_endpoint'')
     else if str_len v > MAX_MCP_ENDPOINT_BYTES then Inl (FieldTooLong ''mcp_endpoint'' MAX_MCP_ENDPOINT_BYTES)
     else and_then (ok_or (parse_url v) (InvalidMcpEndpoint ''URL parsing failed'')) (\<lambda>endpoint.
       if url_scheme endpoint \<noteq> lit ''https'' then Inl (InvalidMcpEndpoint ''HTTPS is required'')
       else if url_cannot_be_a_base endpoint then Inl (InvalidMcpEndpoint ''hierarchical URL is required'')
       else if url_username endpoint \<noteq> [] \<or> url_password endpoint \<noteq> None
       then Inl (InvalidMcpEndpoint ''userinfo credentials are forbidden'')
       else if url_query endpoint \<noteq> None \<or> url_fragment endpoint \<noteq> None
       then Inl (InvalidMcpEndpoint ''query and fragment are forbidden'')
       else case url_host endpoint of
         Some (Domain domain') \<Rightarrow> validate_public_domain domain'
       | Some IpAddress \<Rightarrow> Inl ForbiddenMcpHost
       | None \<Rightarrow> Inl (InvalidMcpEndpoint ''host is required'')))"

definition RemoteMcpServerConfig_validate ::
  "(rstr \<Rightarrow> url option) \<Rightarrow> RemoteMcpServerConfig \<Rightarrow> (ToolRuntimeError, unit) res" where
  "RemoteMcpServerConfig_validate parse_url self =
    and_then (validate_server_id (server_id self)) (\<lambda>_.
    if transport self \<noteq> StreamableHttp then Inl UnsupportedMcpTransport
    else and_then (CredentialRef_validate (credential_ref self)) (\<lambda>_.
    validate_endpoint parse_url (endpoint_url self)))"

definition RemoteMcpServerConfig_new ::
  "(rstr \<Rightarrow> url option) \<Rightarrow> rstr \<Rightarrow> rstr \<Rightarrow> rstr \<Rightarrow> (ToolRuntimeError, RemoteMcpServerConfig) res" where
  "RemoteMcpServerConfig_new parse_url i endpoint reference =
    (let config = \<lparr>server_id = i, transport = StreamableHttp, endpoint_url = endpoint, credential_ref = reference\<rparr> in
     and_then (RemoteMcpServerConfig_validate parse_url config) (\<lambda>_. Inr config))"

definition RemoteMcpServerConfig_from_json_slice ::
  "(rstr \<Rightarrow> url option) \<Rightarrow> (byte list \<Rightarrow> RemoteMcpServerConfig option) \<Rightarrow> byte list \<Rightarrow>
    (ToolRuntimeError, RemoteMcpServerConfig) res" where
  "RemoteMcpServerConfig_from_json_slice parse_url decode bytes =
    (if length bytes > MAX_MCP_CONFIG_DOCUMENT_BYTES
     then Inl (JsonTooLarge ''mcp_server_config'' MAX_MCP_CONFIG_DOCUMENT_BYTES)
     else and_then (ok_or (decode bytes) InvalidJson) (\<lambda>config.
       and_then (RemoteMcpServerConfig_validate parse_url config) (\<lambda>_. Inr config)))"

end
