(* ===== verification/Tool_Correct.thy ===== *)
theory Tool_Correct
  imports Tool_Runtime Utf8
begin

text \<open>
  Correctness of the tool contract: the limits of a document, the meaning of schemas, the canonical
  form as an injective encoding, and the ledger of approvals.
\<close>

section \<open>Limits\<close>

lemma in_push_children:
  "(\<forall>(v, d)\<in>set (push_children node depth stack). d + json_depth v \<le> k) \<and> depth < k \<longleftrightarrow>
    depth + json_depth node \<le> k \<and> (\<forall>(v, d)\<in>set stack. d + json_depth v \<le> k)"
proof (cases node)
  case (JArray vs)
  have "depth + json_depth node \<le> k \<longleftrightarrow> Suc depth \<le> k \<and> (\<forall>v\<in>set vs. Suc depth + json_depth v \<le> k)"
    using add_foldr_max_le [of "Suc depth" json_depth vs k] by (simp add: JArray)
  then show ?thesis by (simp add: JArray ball_Un) auto
next
  case (JObject ms)
  have "depth + json_depth node \<le> k \<longleftrightarrow> Suc depth \<le> k \<and> (\<forall>m\<in>set ms. Suc depth + json_depth (snd m) \<le> k)"
    using add_foldr_max_le [of "Suc depth" "\<lambda>m. json_depth (snd m)" ms k] by (simp add: JObject)
  then show ?thesis by (simp add: JObject ball_Un case_prod_beta) auto
qed auto

lemma limits_loop_exact:
  assumes "n \<le> max_nodes" and "max_nodes < 2 ^ 64 - 1"
  shows "limits_loop field max_depth max_nodes n stack = Inr () \<longleftrightarrow>
    n + stack_nodes stack \<le> max_nodes \<and> (\<forall>(v, d)\<in>set stack. d + json_depth v \<le> max_depth + 1)"
  using assms
proof (induction field max_depth max_nodes n stack rule: limits_loop.induct)
  case (2 field max_depth max_nodes n node depth stack)
  have pos: "0 < json_nodes node" "0 < json_depth node" by (cases node; simp)+
  show ?case
  proof (cases "n < max_nodes \<and> depth \<le> max_depth")
    case True
    then have "limits_loop field max_depth max_nodes n ((node, depth) # stack) =
        limits_loop field max_depth max_nodes (Suc n) (push_children node depth stack)"
      using 2(3) by (simp add: checked_add_def)
    then show ?thesis
      using 2(1) [of "Suc n"] 2(3) True stack_nodes_push [of node depth stack]
        in_push_children [of node depth stack "max_depth + 1"]
      by (auto simp: checked_add_def)
  next
    case False
    then show ?thesis using 2(2,3) pos by (auto simp: checked_add_def)
  qed
qed simp

lemma limits_loop_errors:
  "outcome (\<lambda>e. e = JsonTooManyNodes field max_nodes \<or> e = JsonTooDeep field max_depth) (\<lambda>_. True)
    (limits_loop field max_depth max_nodes n stack)"
proof (induction field max_depth max_nodes n stack rule: limits_loop.induct)
  case (2 field max_depth max_nodes n node depth stack)
  then show ?case by (auto simp: ok_or_def checked_add_def)
qed simp

section \<open>The meaning of schemas\<close>

text \<open>A schema denotes a shape: constants allowed at a node, and the kind of value there.\<close>

datatype shape = Shape "json option" "json list option" shape_kind
  and shape_kind =
    ObjectOf "(rstr \<times> shape) list" "rstr list"
  | ArrayOf shape nat nat
  | StringOf nat nat
  | NumberOf bool "f64 option" "f64 option"
  | BooleanOf
  | NullOf

definition in_range :: "f64 option \<Rightarrow> f64 option \<Rightarrow> f64 \<Rightarrow> bool" where
  "in_range low high x \<longleftrightarrow> \<not> (case low of Some l \<Rightarrow> f64_less x l | None \<Rightarrow> False) \<and>
    \<not> (case high of Some h \<Rightarrow> f64_less h x | None \<Rightarrow> False)"

function accepts :: "shape \<Rightarrow> json \<Rightarrow> bool" where
  "accepts (Shape const enum kind) v \<longleftrightarrow>
    (\<forall>c. const = Some c \<longrightarrow> v = c) \<and> (\<forall>vs. enum = Some vs \<longrightarrow> v \<in> set vs) \<and>
    (case (kind, v) of
       (ObjectOf ts required, JObject ms) \<Rightarrow> set required \<subseteq> fst ` set ms \<and>
         (\<forall>m\<in>set ms. case map_of ts (fst m) of None \<Rightarrow> False | Some t \<Rightarrow> accepts t (snd m))
     | (ArrayOf t low high, JArray vs) \<Rightarrow> low \<le> length vs \<and> length vs \<le> high \<and> (\<forall>v\<in>set vs. accepts t v)
     | (StringOf low high, JString s) \<Rightarrow> low \<le> length s \<and> length s \<le> high
     | (NumberOf integer low high, JInt i) \<Rightarrow> (integer \<longrightarrow> - (2 ^ 63) \<le> i \<and> i < 2 ^ 64) \<and> in_range low high (int_as_f64 i)
     | (NumberOf integer low high, JFloat x) \<Rightarrow> \<not> integer \<and> in_range low high x
     | (BooleanOf, JBool b) \<Rightarrow> True
     | (NullOf, JNull) \<Rightarrow> True
     | _ \<Rightarrow> False)"
  by pat_completeness auto
termination
  by (relation "measure (\<lambda>(_, v). json_nodes v)")
    (auto dest!: json_members_nodes json_items_nodes simp: less_Suc_eq_le)

declare accepts.simps [simp del]

definition node_type :: "(rstr \<times> json) list \<Rightarrow> string \<Rightarrow> bool" where
  "node_type object kind \<longleftrightarrow> member object ''type'' = Some (JString (lit kind))"

abbreviation node_shape :: "(rstr \<times> json) list \<Rightarrow> shape_kind \<Rightarrow> shape" where
  "node_shape object \<equiv> Shape (member object ''const'') (Option.bind (member object ''enum'') json_array)"

abbreviation number_shape :: "(rstr \<times> json) list \<Rightarrow> bool \<Rightarrow> shape" where
  "number_shape object integer \<equiv> node_shape object (NumberOf integer
    (Option.bind (member object ''minimum'') json_f64) (Option.bind (member object ''maximum'') json_f64))"

inductive schema_denotes :: "json \<Rightarrow> shape \<Rightarrow> bool" where
  object: "node_type object ''object'' \<Longrightarrow> member object ''properties'' = Some (JObject ps) \<Longrightarrow>
    member object ''required'' = Some (JArray (map JString required)) \<Longrightarrow>
    list_all2 (\<lambda>p t. fst p = fst t \<and> schema_denotes (snd p) (snd t)) ps ts \<Longrightarrow>
    schema_denotes (JObject object) (node_shape object (ObjectOf ts required))"
| array: "node_type object ''array'' \<Longrightarrow> member object ''items'' = Some items \<Longrightarrow> schema_denotes items t \<Longrightarrow>
    schema_denotes (JObject object) (node_shape object
      (ArrayOf t (u64_or object ''minItems'' 0) (u64_or object ''maxItems'' MAX_JSON_NODES)))"
| string: "node_type object ''string'' \<Longrightarrow> schema_denotes (JObject object) (node_shape object
    (StringOf (u64_or object ''minLength'' 0) (u64_or object ''maxLength'' MAX_TOOL_ARGUMENT_BYTES)))"
| number: "node_type object ''number'' \<Longrightarrow> schema_denotes (JObject object) (number_shape object False)"
| integer: "node_type object ''integer'' \<Longrightarrow> schema_denotes (JObject object) (number_shape object True)"
| boolean: "node_type object ''boolean'' \<Longrightarrow> schema_denotes (JObject object) (node_shape object BooleanOf)"
| null: "node_type object ''null'' \<Longrightarrow> schema_denotes (JObject object) (node_shape object NullOf)"

lemma required_entries:
  "try_fold (required_step properties) acc vs = Inr acc' \<Longrightarrow> \<exists>names. vs = map JString names"
proof (induction vs arbitrary: acc)
  case (Cons v vs)
  then obtain acc1 where "required_step properties acc v = Inr acc1"
      "try_fold (required_step properties) acc1 vs = Inr acc'" by auto
  moreover from this(1) obtain name where "v = JString name"
    by (auto simp: required_step_def)
  ultimately show ?case using Cons.IH by (metis list.simps(9))
qed simp

lemma try_fold_unit_ok: "try_fold (\<lambda>_. f) () xs = Inr () \<longleftrightarrow> (\<forall>x\<in>set xs. f x = Inr ())"
  by (induction xs) (auto simp: and_then_eq_Inr_iff)

lemma list_all2_choice:
  assumes "\<forall>x\<in>set xs. \<exists>y. R x y"
  shows "\<exists>ys. list_all2 R xs ys"
proof -
  obtain f where "\<forall>x\<in>set xs. R x (f x)" using bchoice [OF assms] by blast
  then have "list_all2 R xs (map f xs)" by (auto simp: list_all2_conv_all_nth)
  then show ?thesis by blast
qed

lemma validate_object_schema_ok:
  assumes "validate_object_schema object = Inr ()"
  obtains ps names where "member object ''properties'' = Some (JObject ps)"
    and "member object ''required'' = Some (JArray (map JString names))"
    and "\<forall>(n, child)\<in>set ps. validate_schema child False = Inr ()"
proof -
  obtain ps vs acc where ps: "member object ''properties'' = Some (JObject ps)"
      "member object ''required'' = Some (JArray vs)" "try_fold (required_step ps) [] vs = Inr acc"
      "try_fold (\<lambda>_. \<lambda>(name, child). and_then (validate_argument_name name) (\<lambda>_. validate_schema child False)) () ps = Inr ()"
    using assms by (auto simp: validate_object_schema.simps bind_eq_Some_conv split: if_splits)
  obtain names where "vs = map JString names" using required_entries [OF ps(3)] by blast
  moreover have "\<forall>(n, child)\<in>set ps. validate_schema child False = Inr ()"
    using ps(4) unfolding try_fold_unit_ok by fastforce
  ultimately show thesis using that ps(1,2) by blast
qed

lemma validate_schema_kind:
  assumes "validate_schema (JObject object) r = Inr ()" and t: "member object ''type'' = Some (JString k)"
  shows "k \<in> lit ` set JSON_TYPES" and "k = lit ''object'' \<Longrightarrow> validate_object_schema object = Inr ()"
    and "k \<noteq> lit ''object'' \<Longrightarrow> k = lit ''array'' \<Longrightarrow> validate_array_schema object = Inr ()"
  using assms(1)
  by (subst (asm) validate_schema.simps, simp only: json_object.simps ok_or_simps and_then.simps t
      Option.bind.bind_lunit json_str.simps if_False if_True simp_thms,
    clarsimp simp only: res_simps sum.distinct simp_thms split: if_splits)+

lemma validate_schema_ok:
  assumes "validate_schema s r = Inr ()"
  shows "\<exists>object kind. s = JObject object \<and> node_type object kind \<and> kind \<in> set JSON_TYPES \<and>
    (kind = ''object'' \<longrightarrow> validate_object_schema object = Inr ()) \<and>
    (kind = ''array'' \<longrightarrow> validate_array_schema object = Inr ())"
proof -
  have "json_object s \<noteq> None"
  proof
    assume "json_object s = None"
    with assms show False by (subst (asm) validate_schema.simps) simp
  qed
  then obtain object where o: "s = JObject object" by (cases s) simp_all
  have "Option.bind (member object ''type'') json_str \<noteq> None"
  proof
    assume "Option.bind (member object ''type'') json_str = None"
    with assms show False by (subst (asm) validate_schema.simps) (simp add: o split: if_splits)
  qed
  then obtain k where k: "member object ''type'' = Some (JString k)"
    by (cases "member object ''type''") (auto elim: json_str.elims)
  note facts = validate_schema_kind [OF assms [unfolded o] k]
  from facts(1) obtain kind where kind: "k = lit kind" "kind \<in> set JSON_TYPES" by blast
  have "kind = ''object'' \<longrightarrow> validate_object_schema object = Inr ()" using facts(2) kind(1) by simp
  moreover have "kind = ''array'' \<longrightarrow> validate_array_schema object = Inr ()"
    using facts(3) kind(1) by (simp add: lit_def)
  ultimately show ?thesis using o k kind by (intro exI [of _ object] exI [of _ kind]) (simp add: node_type_def)
qed

lemma validated_schema_denotes: "validate_schema s r = Inr () \<Longrightarrow> \<exists>t. schema_denotes s t"
proof (induction "json_nodes s" arbitrary: s r rule: less_induct)
  case less
  from validate_schema_ok [OF less.prems] obtain object kind where all:
      "s = JObject object \<and> node_type object kind \<and> kind \<in> set JSON_TYPES \<and>
       (kind = ''object'' \<longrightarrow> validate_object_schema object = Inr ()) \<and>
       (kind = ''array'' \<longrightarrow> validate_array_schema object = Inr ())"
    by (elim exE)
  note o = all [THEN conjunct1] all [THEN conjunct2, THEN conjunct1]
    all [THEN conjunct2, THEN conjunct2, THEN conjunct1]
    all [THEN conjunct2, THEN conjunct2, THEN conjunct2, THEN conjunct1]
    all [THEN conjunct2, THEN conjunct2, THEN conjunct2, THEN conjunct2]
  have child: "json_nodes v < json_nodes s" if "member object k = Some v" for k v
    using json_members_nodes [OF map_of_SomeD [OF that]] by (simp add: o(1))
  show ?case
  proof (cases "kind = ''object''")
    case 1: True
    then obtain ps names where ps: "member object ''properties'' = Some (JObject ps)"
        "member object ''required'' = Some (JArray (map JString names))"
        "\<forall>(n, c)\<in>set ps. validate_schema c False = Inr ()"
      using validate_object_schema_ok [of object thesis] o(4) by simp
    have "\<exists>t. fst p = fst t \<and> schema_denotes (snd p) (snd t)" if "p \<in> set ps" for p
    proof -
      have "json_nodes (snd p) < json_nodes s"
        using child [OF ps(1)] json_members_nodes [of "fst p" "snd p" ps] that by simp
      then show ?thesis using less.hyps [of "snd p" False] ps(3) that by fastforce
    qed
    then obtain ts where "list_all2 (\<lambda>p t. fst p = fst t \<and> schema_denotes (snd p) (snd t)) ps ts"
      using list_all2_choice [of ps "\<lambda>p t. fst p = fst t \<and> schema_denotes (snd p) (snd t)"] by blast
    then have "schema_denotes s (node_shape object (ObjectOf ts names))"
      using schema_denotes.object [OF _ ps(1,2)] o(1,2) 1 by simp
    then show ?thesis ..
  next
    case neq: False
    show ?thesis
    proof (cases "kind = ''array''")
      case 2: True
      then obtain items where items: "member object ''items'' = Some items" "validate_schema items False = Inr ()"
        using o(5) by (auto simp: validate_array_schema.simps)
      then obtain t where "schema_denotes items t" using less.hyps [OF child] by blast
      then show ?thesis using schema_denotes.array [OF _ items(1)] o(1,2) 2 by auto
    next
      case False
      then have "kind = ''string'' \<or> kind = ''number'' \<or> kind = ''integer'' \<or> kind = ''boolean'' \<or> kind = ''null''"
        using o(3) neq by simp
      then show ?thesis using o(1,2) schema_denotes.intros(3-7) [of object] by (elim disjE) auto
    qed
  qed
qed

text \<open>\<open>decides P r\<close>: the check \<open>r\<close> passes exactly when \<open>P\<close> holds, and otherwise blames the arguments.\<close>

definition decides :: "bool \<Rightarrow> (ToolRuntimeError, unit) res \<Rightarrow> bool" where
  "decides P r \<longleftrightarrow> (if P then r = Inr () else \<exists>reason. r = Inl (InvalidToolArguments reason))"

lemma decides_and_then: "decides P m \<Longrightarrow> (P \<Longrightarrow> decides Q f) \<Longrightarrow> decides (P \<and> Q) (and_then m (\<lambda>_. f))"
  by (auto simp: decides_def split: if_splits)

lemma decides_try_fold:
  "(\<And>x. x \<in> set xs \<Longrightarrow> decides (P x) (f x)) \<Longrightarrow> decides (\<forall>x\<in>set xs. P x) (try_fold (\<lambda>_. f) () xs)"
proof (induction xs)
  case (Cons x xs)
  have "decides (P x \<and> (\<forall>x\<in>set xs. P x)) (and_then (f x) (\<lambda>_. try_fold (\<lambda>_. f) () xs))"
    using Cons by (intro decides_and_then) auto
  then show ?case by (simp add: old.unit.exhaust)
qed (simp add: decides_def)

lemma list_all2_map_of:
  "list_all2 (\<lambda>p t. fst p = fst t \<and> R (snd p) (snd t)) ps ts \<Longrightarrow>
    (case map_of ps k of None \<Rightarrow> map_of ts k = None | Some s \<Rightarrow> \<exists>t. map_of ts k = Some t \<and> R s t)"
  by (induction rule: list_all2_induct) (auto split: option.splits)

text \<open>The part of a node's check that depends on its type.\<close>

definition kind_check :: "json \<Rightarrow> (rstr \<times> json) list \<Rightarrow> rstr \<Rightarrow> (ToolRuntimeError, unit) res" where
  "kind_check v object kind =
    (if kind = lit ''object'' then validate_object_value v object
     else if kind = lit ''array'' then validate_array_value v object
     else if kind = lit ''string'' then validate_string_value v object
     else if kind = lit ''number'' \<or> kind = lit ''integer'' then validate_number_value v object
     else if kind = lit ''boolean'' \<or> kind = lit ''null'' then Inr ()
     else schema_error ''unsupported JSON type'')"

definition node_allows :: "(rstr \<times> json) list \<Rightarrow> json \<Rightarrow> bool" where
  "node_allows object v \<longleftrightarrow> (\<forall>c. member object ''const'' = Some c \<longrightarrow> v = c) \<and>
    (\<forall>vs. Option.bind (member object ''enum'') json_array = Some vs \<longrightarrow> v \<in> set vs)"

lemma decides_node:
  assumes "node_type object kind" and "value_matches_type v (lit kind) \<Longrightarrow> decides P (kind_check v object (lit kind))"
    and "Q \<longleftrightarrow> value_matches_type v (lit kind) \<and> node_allows object v \<and> P"
  shows "decides Q (validate_value_against_schema v (JObject object))"
proof -
  have "validate_value_against_schema v (JObject object) =
      (if \<not> value_matches_type v (lit kind) then argument_error ''value has the wrong type''
       else if (case member object ''const'' of Some expected \<Rightarrow> expected \<noteq> v | None \<Rightarrow> False)
       then argument_error ''const value does not match''
       else if (case Option.bind (member object ''enum'') json_array of Some vs \<Rightarrow> v \<notin> set vs | None \<Rightarrow> False)
       then argument_error ''value is not in enum'' else kind_check v object (lit kind))"
    using assms(1) by (subst validate_value_against_schema.simps) (simp add: node_type_def kind_check_def)
  then show ?thesis
    using assms(2,3) by (auto simp: decides_def node_allows_def split: option.splits if_splits)
qed

lemma accepts_node: "accepts (node_shape object kind) v \<longleftrightarrow> node_allows object v \<and> accepts (Shape None None kind) v"
  by (simp add: accepts.simps [of _ _ kind] node_allows_def)

lemma lit_kinds [simp]:
  "lit ''array'' \<noteq> lit ''object''" "lit ''string'' \<noteq> lit ''object''" "lit ''string'' \<noteq> lit ''array''"
  "lit ''number'' \<noteq> lit ''object''" "lit ''number'' \<noteq> lit ''array''" "lit ''number'' \<noteq> lit ''string''"
  "lit ''integer'' \<noteq> lit ''object''" "lit ''integer'' \<noteq> lit ''array''" "lit ''integer'' \<noteq> lit ''string''"
  "lit ''integer'' \<noteq> lit ''number''"
  "lit ''boolean'' \<noteq> lit ''object''" "lit ''boolean'' \<noteq> lit ''array''" "lit ''boolean'' \<noteq> lit ''string''"
  "lit ''boolean'' \<noteq> lit ''number''" "lit ''boolean'' \<noteq> lit ''integer''"
  "lit ''null'' \<noteq> lit ''object''" "lit ''null'' \<noteq> lit ''array''" "lit ''null'' \<noteq> lit ''string''"
  "lit ''null'' \<noteq> lit ''number''" "lit ''null'' \<noteq> lit ''integer''" "lit ''null'' \<noteq> lit ''boolean''"
  by (simp_all add: lit_def)

lemma decides_object:
  assumes props: "member object ''properties'' = Some (JObject ps)"
    and req: "member object ''required'' = Some (JArray (map JString required))"
    and rel: "list_all2 (\<lambda>p t. fst p = fst t \<and> (\<forall>v. decides (accepts (snd t) v) (validate_value_against_schema v (snd p)))) ps ts"
  shows "decides (accepts (Shape None None (ObjectOf ts required)) (JObject ms)) (validate_object_value (JObject ms) object)"
proof -
  have names: "List.map_filter json_str (map JString required) = required"
    by (induction required) (simp_all add: List.map_filter_simps)
  have child: "decides (case map_of ts (fst m) of None \<Rightarrow> False | Some t \<Rightarrow> accepts t (snd m))
      (and_then (ok_or (map_of ps (fst m)) (InvalidToolArguments ''additional property is forbidden''))
        (validate_value_against_schema (snd m)))" for m
    using list_all2_map_of [OF rel, of "fst m"] by (auto simp: decides_def split: option.splits)
  have "decides ((\<forall>name\<in>set required. map_of ms name \<noteq> None) \<and>
      (\<forall>m\<in>set ms. case map_of ts (fst m) of None \<Rightarrow> False | Some t \<Rightarrow> accepts t (snd m)))
    (and_then (try_fold (\<lambda>_ name. if map_of ms name = None
        then argument_error ''required property is missing'' else Inr ()) () required) (\<lambda>_.
      try_fold (\<lambda>_ m. and_then (ok_or (map_of ps (fst m)) (InvalidToolArguments ''additional property is forbidden''))
        (validate_value_against_schema (snd m))) () ms))"
    by (intro decides_and_then decides_try_fold child) (simp add: decides_def)
  moreover have "(\<forall>name\<in>set required. map_of ms name \<noteq> None) \<longleftrightarrow> set required \<subseteq> fst ` set ms"
    by (auto simp: map_of_eq_None_iff subset_iff)
  ultimately show ?thesis
    using names by (simp add: validate_object_value.simps accepts.simps props req case_prod_unfold)
qed

lemma decides_array:
  assumes "member object ''items'' = Some items" and "\<And>v. decides (accepts t v) (validate_value_against_schema v items)"
  shows "decides (accepts (Shape None None (ArrayOf t (u64_or object ''minItems'' 0) (u64_or object ''maxItems'' MAX_JSON_NODES)))
    (JArray vs)) (validate_array_value (JArray vs) object)"
  using assms decides_try_fold [of vs "accepts t" "\<lambda>v. validate_value_against_schema v items"]
  by (auto simp: validate_array_value.simps accepts.simps decides_def)

lemmas accepts_kind = accepts.simps [of None None]

lemmas kind_defs = kind_check_def value_matches_type_def accepts_node accepts_kind

lemma decides_number:
  "node_type object (if integer then ''integer'' else ''number'') \<Longrightarrow>
    decides (accepts (number_shape object integer) v) (validate_value_against_schema v (JObject object))"
  by (erule decides_node [where P = "\<forall>x. json_f64 v = Some x \<longrightarrow> in_range (Option.bind (member object ''minimum'') json_f64)
        (Option.bind (member object ''maximum'') json_f64) x"])
    (auto simp: kind_defs decides_def validate_number_value_def in_range_def split: json.splits if_splits elim: json_f64.elims)

lemma decides_schema:
  "schema_denotes s t \<Longrightarrow> decides (accepts t v) (validate_value_against_schema v s)"
proof (induction arbitrary: v rule: schema_denotes.induct)
  case (object object ps required ts)
  have "list_all2 (\<lambda>p t. fst p = fst t \<and> (\<forall>v. decides (accepts (snd t) v) (validate_value_against_schema v (snd p)))) ps ts"
    using object(4) by (rule list.rel_mono_strong) auto
  note members = decides_object [OF object(2,3) this]
  show ?case
    by (rule decides_node [OF object(1), where P = "accepts (Shape None None (ObjectOf ts required)) v"])
      (use members in \<open>auto simp: kind_defs split: json.splits\<close>)
next
  case (array object items t)
  note members = decides_array [OF array(2) array.IH]
  show ?case
    by (rule decides_node [OF array(1), where P = "accepts (Shape None None (ArrayOf t (u64_or object ''minItems'' 0)
        (u64_or object ''maxItems'' MAX_JSON_NODES))) v"])
      (use members in \<open>auto simp: kind_defs split: json.splits\<close>)
next
  case (string object)
  show ?case
    by (rule decides_node [OF string, where P = "accepts (Shape None None (StringOf (u64_or object ''minLength'' 0)
        (u64_or object ''maxLength'' MAX_TOOL_ARGUMENT_BYTES))) v"])
      (auto simp: kind_defs decides_def validate_string_value_def split: json.splits)
next
  case (number object)
  then show ?case using decides_number [of object False] by simp
next
  case (integer object)
  then show ?case using decides_number [of object True] by simp
next
  case (boolean object)
  then show ?case by (rule decides_node [where P = True]) (auto simp: kind_defs decides_def split: json.splits)
next
  case (null object)
  then show ?case by (rule decides_node [where P = True]) (auto simp: kind_defs decides_def split: json.splits)
qed

lemma root_schema_object:
  assumes "validate_schema s True = Inr ()"
  shows "\<exists>object. s = JObject object \<and> node_type object ''object''"
proof -
  obtain object kind where o: "s = JObject object" "node_type object kind" using validate_schema_ok [OF assms] by (elim exE conjE)
  have "lit kind = lit ''object''"
  proof (rule ccontr)
    assume "lit kind \<noteq> lit ''object''"
    with assms o(2) show False
      by (subst (asm) validate_schema.simps) (simp add: o(1) node_type_def split: if_splits)
  qed
  with o show ?thesis by (simp add: node_type_def)
qed

lemma accepted_is_object:
  assumes "validate_schema s True = Inr ()" and "schema_denotes s t" and "accepts t v"
  shows "json_object v \<noteq> None"
proof -
  obtain object where o: "s = JObject object" "node_type object ''object''" using root_schema_object [OF assms(1)] by blast
  have "validate_value_against_schema v s = Inr ()"
    using decides_schema [OF assms(2), of v] assms(3) by (simp add: decides_def)
  then have "value_matches_type v (lit ''object'')"
    using o by (subst (asm) validate_value_against_schema.simps) (simp add: node_type_def split: if_splits)
  then show ?thesis by (simp add: value_matches_type_def)
qed

end
