(* ===== verification/Tool_Canonical.thy ===== *)
theory Tool_Canonical
  imports Tool_Correct
begin

text \<open>
  The canonical form of a document as a code: it determines the document, and so does the message
  that an approval signs determine the call, the nonce and the expiry.
\<close>

section \<open>The canonical text\<close>

text \<open>
  What the JSON library documents of its texts: a string is quoted and escaped, so that its text ends
  where its closing quote is; a number is a nonempty run of the characters of a JSON number, and
  different numbers (here: of a set \<open>N\<close>) have different texts.
\<close>

definition number_bytes :: "byte set" where
  "number_bytes = set (as_bytes (lit ''0123456789+-.eE''))"

definition string_laws :: "json_lib \<Rightarrow> bool" where
  "string_laws lib \<longleftrightarrow> (\<forall>s. valid_str s \<longrightarrow> (\<exists>t. string_text lib s = Some (34 # t))) \<and>
    (\<forall>s s' t t' x y. valid_str s \<longrightarrow> valid_str s' \<longrightarrow> string_text lib s = Some t \<longrightarrow> string_text lib s' = Some t' \<longrightarrow>
      t @ x = t' @ y \<longrightarrow> s = s')"

definition number_laws :: "json_lib \<Rightarrow> json set \<Rightarrow> bool" where
  "number_laws lib N \<longleftrightarrow> inj_on (number_text lib) N \<and>
    (\<forall>v\<in>N. number_text lib v \<noteq> [] \<and> set (number_text lib v) \<subseteq> number_bytes)"

text \<open>The numbers of a document; its strings are valid and its objects ordered maps.\<close>

fun json_numbers :: "json \<Rightarrow> json set" where
  "json_numbers (JInt i) = {JInt i}"
| "json_numbers (JFloat x) = {JFloat x}"
| "json_numbers (JArray vs) = (\<Union>v\<in>set vs. json_numbers v)"
| "json_numbers (JObject ms) = (\<Union>m\<in>set ms. json_numbers (snd m))"
| "json_numbers _ = {}"

fun json_wf :: "json \<Rightarrow> bool" where
  "json_wf (JString s) = valid_str s"
| "json_wf (JArray vs) = (\<forall>v\<in>set vs. json_wf v)"
| "json_wf (JObject ms) = (bt_wf ms \<and> (\<forall>m\<in>set ms. valid_str (fst m) \<and> json_wf (snd m)))"
| "json_wf _ = True"

definition quoted :: "json_lib \<Rightarrow> rstr \<Rightarrow> byte list" where
  "quoted lib s = the (string_text lib s)"

text \<open>A sequence of texts, separated by commas and closed by \<open>c\<close>.\<close>

fun rest_text :: "byte \<Rightarrow> byte list list \<Rightarrow> byte list" where
  "rest_text c [] = [c]"
| "rest_text c (t # ts) = 44 # t @ rest_text c ts"

fun sequence_text :: "byte \<Rightarrow> byte list list \<Rightarrow> byte list" where
  "sequence_text c [] = [c]"
| "sequence_text c (t # ts) = t @ rest_text c ts"

fun json_text :: "json_lib \<Rightarrow> json \<Rightarrow> byte list" where
  "json_text lib JNull = as_bytes (lit ''null'')"
| "json_text lib (JBool b) = as_bytes (if b then lit ''true'' else lit ''false'')"
| "json_text lib (JInt i) = number_text lib (JInt i)"
| "json_text lib (JFloat x) = number_text lib (JFloat x)"
| "json_text lib (JString s) = quoted lib s"
| "json_text lib (JArray vs) = 91 # sequence_text 93 (map (json_text lib) vs)"
| "json_text lib (JObject ms) =
    123 # sequence_text 125 (map (\<lambda>m. quoted lib (fst m) @ 58 # json_text lib (snd m)) ms)"

lemma fold_rest_text:
  "(\<And>out x. x \<in> set xs \<Longrightarrow> f out x = Inr (out @ g x)) \<Longrightarrow>
    and_then (try_fold (\<lambda>out (index, x). f (if index \<noteq> 0 then out @ [44] else out) x) out (enumerate (Suc n) xs))
      (\<lambda>out. Inr (out @ [c])) = Inr (out @ rest_text c (map g xs))"
  by (induction xs arbitrary: n out) simp_all

lemma fold_sequence_text:
  assumes "\<And>out x. x \<in> set xs \<Longrightarrow> f out x = Inr (out @ g x)"
  shows "and_then (try_fold (\<lambda>out (index, x). f (if index \<noteq> 0 then out @ [44] else out) x) out (enumerate 0 xs))
      (\<lambda>out. Inr (out @ [c])) = Inr (out @ sequence_text c (map g xs))"
proof (cases xs)
  case (Cons x xs')
  then show ?thesis using assms fold_rest_text [of xs' f g "out @ g x" 0 c] by simp
qed simp

lemma sort_key_bt_wf: "bt_wf ms \<Longrightarrow> sort_key fst ms = ms"
  by (rule sort_key_id_if_sorted) (auto simp: bt_wf_def intro: strict_sorted_imp_sorted)

lemma quoted_eq: "string_laws lib \<Longrightarrow> valid_str s \<Longrightarrow> string_text lib s = Some (quoted lib s)"
  unfolding string_laws_def quoted_def by fastforce

lemma write_canonical_text:
  assumes laws: "string_laws lib"
  shows "json_wf v \<Longrightarrow> write_canonical lib v out = Inr (out @ json_text lib v)"
proof (induction v arbitrary: out)
  case (JArray vs)
  then show ?case
    using fold_sequence_text [of vs "\<lambda>out v. write_canonical lib v out" "json_text lib" "out @ [91]" 93]
    by simp
next
  case (JObject ms)
  have "write_canonical lib (snd m) (out @ quoted lib (fst m) @ [58]) =
      Inr (out @ quoted lib (fst m) @ 58 # json_text lib (snd m))" if "m \<in> set ms" for m out
    using JObject.IH [of m "snd m"] JObject.prems that by (simp add: snds.simps)
  moreover have "string_text lib (fst m) = Some (quoted lib (fst m))" if "m \<in> set ms" for m
    using quoted_eq [OF laws] JObject.prems that by simp
  ultimately show ?case
    using fold_sequence_text [of ms "\<lambda>out m. and_then (ok_or (string_text lib (fst m)) InvalidJson)
          (\<lambda>t. write_canonical lib (snd m) (out @ t @ [58]))"
        "\<lambda>m. quoted lib (fst m) @ 58 # json_text lib (snd m)" "out @ [123]" 125] JObject.prems
    by (simp add: sort_key_bt_wf case_prod_unfold)
qed (simp_all add: quoted_eq [OF laws])

lemma canonical_json_eq: "string_laws lib \<Longrightarrow> json_wf v \<Longrightarrow> canonical_json lib v = Inr (json_text lib v)"
  by (simp add: canonical_json_def write_canonical_text)

section \<open>The text determines the document\<close>

text \<open>What may follow a value: the end, or a byte that closes or separates.\<close>

definition delimited :: "byte list \<Rightarrow> bool" where
  "delimited s \<longleftrightarrow> s = [] \<or> hd s \<in> {44, 93, 125}"

lemma byte_neqs: "(44::byte) \<notin> number_bytes" "(93::byte) \<notin> number_bytes" "(125::byte) \<notin> number_bytes"
  "(110::byte) \<notin> number_bytes" "(116::byte) \<notin> number_bytes" "(102::byte) \<notin> number_bytes"
  "(34::byte) \<notin> number_bytes" "(91::byte) \<notin> number_bytes" "(123::byte) \<notin> number_bytes"
  by (simp_all add: number_bytes_def as_bytes_def lit_def utf8_encode_def)

lemma run_prefix:
  assumes "t @ s = t' @ s'" and "set t \<subseteq> A" and "set t' \<subseteq> A"
    and "s = [] \<or> hd s \<notin> A" and "s' = [] \<or> hd s' \<notin> A"
  shows "t = t' \<and> s = s'"
proof -
  have "takeWhile (\<lambda>b. b \<in> A) (t @ s) = t" "takeWhile (\<lambda>b. b \<in> A) (t' @ s') = t'"
    using assms(2-5) by (cases s; cases s'; auto simp: takeWhile_append subset_iff)+
  with assms(1) show ?thesis by auto
qed

definition text_determines :: "('a \<Rightarrow> byte list) \<Rightarrow> ('a \<Rightarrow> bool) \<Rightarrow> 'a \<Rightarrow> bool" where
  "text_determines g Y x \<longleftrightarrow> (\<forall>y s s'. Y y \<longrightarrow> delimited s \<longrightarrow> delimited s' \<longrightarrow> g x @ s = g y @ s' \<longrightarrow> x = y \<and> s = s')"

lemma text_determinesD:
  "text_determines g Y x \<Longrightarrow> Y y \<Longrightarrow> delimited s \<Longrightarrow> delimited s' \<Longrightarrow> g x @ s = g y @ s' \<Longrightarrow> x = y \<and> s = s'"
  unfolding text_determines_def by blast

lemma rest_text_delimited: "c \<in> {93, 125} \<Longrightarrow> delimited (rest_text c ts @ s)"
  by (cases ts) (auto simp: delimited_def)

lemma rest_text_inj:
  "\<forall>x\<in>set xs. text_determines g Y x \<Longrightarrow> \<forall>y\<in>set ys. Y y \<Longrightarrow> c \<in> {93, 125} \<Longrightarrow>
    rest_text c (map g xs) @ s = rest_text c (map g ys) @ s' \<Longrightarrow> xs = ys \<and> s = s'"
proof (induction xs arbitrary: ys)
  case Nil
  then show ?case by (cases ys) auto
next
  case (Cons x xs)
  then obtain y ys' where ys: "ys = y # ys'" by (cases ys) auto
  have "x = y \<and> rest_text c (map g xs) @ s = rest_text c (map g ys') @ s'"
    by (rule text_determinesD [of g Y]) (use Cons.prems ys in \<open>auto simp: rest_text_delimited\<close>)
  with Cons ys show ?case by auto
qed

lemma sequence_text_inj:
  assumes "\<forall>x\<in>set xs. text_determines g Y x" and "\<forall>y\<in>set ys. Y y" and "c \<in> {93, 125}"
    and "\<forall>x\<in>set xs \<union> set ys. g x \<noteq> [] \<and> hd (g x) \<noteq> c"
    and "sequence_text c (map g xs) @ s = sequence_text c (map g ys) @ s'"
  shows "xs = ys \<and> s = s'"
proof (cases xs)
  case Nil
  then show ?thesis using assms(4,5) by (cases ys) (auto simp: hd_append neq_Nil_conv)
next
  case (Cons x xs')
  then obtain y ys' where ys: "ys = y # ys'" using assms(4,5) by (cases ys) (auto simp: neq_Nil_conv)
  have "x = y \<and> rest_text c (map g xs') @ s = rest_text c (map g ys') @ s'"
    by (rule text_determinesD [of g Y]) (use assms Cons ys in \<open>auto simp: rest_text_delimited\<close>)
  with rest_text_inj [of xs' g Y ys' c s s'] assms Cons ys show ?thesis by auto
qed

abbreviation readable :: "json set \<Rightarrow> json \<Rightarrow> bool" where
  "readable N v \<equiv> json_wf v \<and> json_numbers v \<subseteq> N"

lemma quoted_inj:
  assumes "string_laws lib" and "valid_str s" and "valid_str s'" and "quoted lib s @ x = quoted lib s' @ y"
  shows "s = s' \<and> x = y"
proof -
  have "s = s'"
    using assms quoted_eq [OF assms(1)] unfolding string_laws_def by metis
  with assms(4) show ?thesis by simp
qed

lemma quoted_hd: "string_laws lib \<Longrightarrow> valid_str s \<Longrightarrow> \<exists>t. quoted lib s = 34 # t"
  unfolding string_laws_def quoted_def by fastforce

text \<open>The first byte of a text tells the constructor of the value, up to the kind of a number.\<close>

fun lead_ok :: "json \<Rightarrow> byte \<Rightarrow> bool" where
  "lead_ok JNull b \<longleftrightarrow> b = 110"
| "lead_ok (JBool x) b \<longleftrightarrow> b = (if x then 116 else 102)"
| "lead_ok (JInt i) b \<longleftrightarrow> b \<in> number_bytes"
| "lead_ok (JFloat x) b \<longleftrightarrow> b \<in> number_bytes"
| "lead_ok (JString s) b \<longleftrightarrow> b = 34"
| "lead_ok (JArray vs) b \<longleftrightarrow> b = 91"
| "lead_ok (JObject ms) b \<longleftrightarrow> b = 123"

lemma json_text_lead:
  assumes "string_laws lib" and "number_laws lib N" and "readable N v"
  shows "json_text lib v \<noteq> [] \<and> lead_ok v (hd (json_text lib v))"
proof (cases v)
  case (JString s)
  then show ?thesis using quoted_hd [OF assms(1), of s] assms(3) by auto
qed (use assms(2,3) in \<open>auto simp: number_laws_def as_bytes_def lit_def utf8_encode_def subset_iff\<close>)

lemma number_text_inj:
  assumes "number_laws lib N" and "v \<in> N" and "w \<in> N" and "delimited s" and "delimited s'"
    and "number_text lib v @ s = number_text lib w @ s'"
  shows "v = w \<and> s = s'"
proof -
  have "number_text lib v = number_text lib w \<and> s = s'"
    by (rule run_prefix [OF assms(6), of number_bytes])
      (use assms(1-5) byte_neqs in \<open>auto simp: number_laws_def delimited_def\<close>)
  then show ?thesis using assms(1-3) by (auto simp: number_laws_def dest: inj_onD)
qed

lemma same_lead:
  assumes "string_laws lib" and "number_laws lib N" and "readable N v" and "readable N w"
    and "json_text lib v @ s = json_text lib w @ s'"
  shows "\<exists>b. lead_ok v b \<and> lead_ok w b"
  using json_text_lead [OF assms(1,2,3)] json_text_lead [OF assms(1,2,4)] assms(5) by (metis hd_append2)

lemma lead_not_closing: "lead_ok v b \<Longrightarrow> b \<noteq> 93" "lead_ok v b \<Longrightarrow> b \<noteq> 125"
  using byte_neqs by (cases v; auto split: if_splits)+

lemma member_text_determines:
  assumes "string_laws lib" and "valid_str (fst m)" and "text_determines (json_text lib) (readable N) (snd m)"
  shows "text_determines (\<lambda>m. quoted lib (fst m) @ 58 # json_text lib (snd m))
    (\<lambda>m. valid_str (fst m) \<and> readable N (snd m)) m"
  unfolding text_determines_def
proof (intro allI impI)
  fix y s s'
  assume y: "valid_str (fst y) \<and> readable N (snd y)" and d: "delimited s" "delimited s'"
    and eq: "(quoted lib (fst m) @ 58 # json_text lib (snd m)) @ s = (quoted lib (fst y) @ 58 # json_text lib (snd y)) @ s'"
  have "fst m = fst y \<and> 58 # json_text lib (snd m) @ s = 58 # json_text lib (snd y) @ s'"
    by (rule quoted_inj [OF assms(1,2)]) (use y eq in auto)
  then have "fst m = fst y" "json_text lib (snd m) @ s = json_text lib (snd y) @ s'" by auto
  with text_determinesD [OF assms(3) _ d] y show "m = y \<and> s = s'" by (auto simp: prod_eq_iff)
qed

lemma json_text_determines:
  assumes str: "string_laws lib" and num: "number_laws lib N"
  shows "readable N v \<Longrightarrow> text_determines (json_text lib) (readable N) v"
proof (induction v)
  case (JArray vs)
  show ?case unfolding text_determines_def
  proof (intro allI impI)
    fix w s s' assume w: "readable N w" and eq: "json_text lib (JArray vs) @ s = json_text lib w @ s'"
    obtain ws where ws: "w = JArray ws"
      using same_lead [OF str num JArray.prems w eq] by (cases w) (auto simp: byte_neqs split: if_splits)
    have "\<forall>x\<in>set vs \<union> set ws. readable N x" using JArray.prems w ws by auto
    then have "\<forall>x\<in>set vs \<union> set ws. json_text lib x \<noteq> [] \<and> hd (json_text lib x) \<noteq> 93"
      using json_text_lead [OF str num] lead_not_closing(1) by blast
    moreover have "\<forall>x\<in>set vs. text_determines (json_text lib) (readable N) x" "\<forall>y\<in>set ws. readable N y"
      using JArray w ws by auto
    ultimately show "JArray vs = w \<and> s = s'"
      using sequence_text_inj [of vs "json_text lib" "readable N" ws 93 s s'] ws eq by auto
  qed
next
  case (JObject ms)
  show ?case unfolding text_determines_def
  proof (intro allI impI)
    fix w s s' assume w: "readable N w" and eq: "json_text lib (JObject ms) @ s = json_text lib w @ s'"
    obtain ws where ws: "w = JObject ws"
      using same_lead [OF str num JObject.prems w eq] by (cases w) (auto simp: byte_neqs split: if_splits)
    let ?g = "\<lambda>m. quoted lib (fst m) @ 58 # json_text lib (snd m)"
    have "\<forall>x\<in>set ms \<union> set ws. ?g x \<noteq> [] \<and> hd (?g x) \<noteq> 125"
      using quoted_hd [OF str] JObject.prems w ws by fastforce
    moreover have "\<forall>m\<in>set ms. text_determines ?g (\<lambda>m. valid_str (fst m) \<and> readable N (snd m)) m"
    proof
      fix m assume m: "m \<in> set ms"
      then have "valid_str (fst m)" "readable N (snd m)" using JObject.prems by auto
      with JObject.IH [OF m, of "snd m"] show "text_determines ?g (\<lambda>m. valid_str (fst m) \<and> readable N (snd m)) m"
        by (intro member_text_determines [OF str]) (simp_all add: snds.simps)
    qed
    moreover have "\<forall>m\<in>set ws. valid_str (fst m) \<and> readable N (snd m)" using w ws by auto
    ultimately show "JObject ms = w \<and> s = s'"
      using sequence_text_inj [of ms ?g _ ws 125 s s'] ws eq by auto
  qed
next
  case (JString t)
  show ?case unfolding text_determines_def
  proof (intro allI impI)
    fix w s s' assume w: "readable N w" and eq: "json_text lib (JString t) @ s = json_text lib w @ s'"
    obtain t' where "w = JString t'"
      using same_lead [OF str num JString w eq] by (cases w) (auto simp: byte_neqs split: if_splits)
    then show "JString t = w \<and> s = s'" using quoted_inj [OF str, of t t' s s'] JString w eq by auto
  qed
next
  case (JInt i)
  show ?case unfolding text_determines_def
  proof (intro allI impI)
    fix w s s'
    assume w: "readable N w" "delimited s" "delimited s'" and eq: "json_text lib (JInt i) @ s = json_text lib w @ s'"
    have "json_text lib w = number_text lib w \<and> w \<in> N"
      using same_lead [OF str num JInt w(1) eq] w(1) by (cases w) (auto simp: byte_neqs split: if_splits)
    then show "JInt i = w \<and> s = s'" using number_text_inj [OF num _ _ w(2,3)] JInt eq by auto
  qed
next
  case (JFloat x)
  show ?case unfolding text_determines_def
  proof (intro allI impI)
    fix w s s'
    assume w: "readable N w" "delimited s" "delimited s'" and eq: "json_text lib (JFloat x) @ s = json_text lib w @ s'"
    have "json_text lib w = number_text lib w \<and> w \<in> N"
      using same_lead [OF str num JFloat w(1) eq] w(1) by (cases w) (auto simp: byte_neqs split: if_splits)
    then show "JFloat x = w \<and> s = s'" using number_text_inj [OF num _ _ w(2,3)] JFloat eq by auto
  qed
next
  case JNull
  show ?case unfolding text_determines_def
  proof (intro allI impI)
    fix w s s' assume w: "readable N w" and eq: "json_text lib JNull @ s = json_text lib w @ s'"
    have "w = JNull" using same_lead [OF str num JNull w eq] by (cases w) (auto simp: byte_neqs split: if_splits)
    then show "JNull = w \<and> s = s'" using eq by simp
  qed
next
  case (JBool b)
  show ?case unfolding text_determines_def
  proof (intro allI impI)
    fix w s s' assume w: "readable N w" and eq: "json_text lib (JBool b) @ s = json_text lib w @ s'"
    have "w = JBool b" using same_lead [OF str num JBool w eq] by (cases w) (auto simp: byte_neqs split: if_splits)
    then show "JBool b = w \<and> s = s'" using eq by simp
  qed
qed

section \<open>The signed message determines the approval\<close>

lemma be_bytes_inj: "be_bytes v = be_bytes w \<Longrightarrow> v < 2 ^ 64 \<Longrightarrow> w < 2 ^ 64 \<Longrightarrow> v = w"
  using le_bytes_inj [of 8 v w] by (simp add: be_bytes_def)

lemma length_be_bytes [simp]: "length (be_bytes v) = 8"
  by (simp add: be_bytes_def)

text \<open>A field of the message, followed by others.\<close>

definition frame :: "byte list \<Rightarrow> byte list \<Rightarrow> byte list" where
  "frame a x = be_bytes (length a) @ a @ x"

lemma frame_inj: "frame a x = frame b y \<Longrightarrow> length a < 2 ^ 64 \<Longrightarrow> length b < 2 ^ 64 \<Longrightarrow> a = b \<and> x = y"
  using be_bytes_inj [of "length a" "length b"] by (simp add: frame_def append_eq_append_conv)

lemma frame_last: "frame a [] = frame b [] \<Longrightarrow> a = b"
  by (simp add: frame_def append_eq_append_conv)

lemma ascii_valid: "is_ascii_alphanumeric c \<Longrightarrow> c < 0x110000"
  by (auto simp: char_class_defs)

lemma identifier_ok:
  assumes "validate_ascii_identifier v field max_bytes colon = Inr ()"
  shows "valid_str v \<and> str_len v \<le> max_bytes"
proof -
  have v: "v \<noteq> []" "str_len v \<le> max_bytes" "is_ascii_alphanumeric (hd v)"
      "list_all (\<lambda>c. is_ascii_alphanumeric c \<or> c \<in> set (lit ''_.-'') \<or> colon \<and> c = 58) (tl v)"
    using assms by (auto simp: validate_ascii_identifier_def Let_def is_ascii_alphanumeric_def split: if_splits)
  then have "c < 0x110000" if "c \<in> set v" for c
    using that by (cases v) (auto simp: list_all_iff lit_def dest!: ascii_valid)
  with v show ?thesis by (simp add: valid_str_def)
qed

lemma validated_call:
  assumes "ToolCall_validate lib call = Inr ()"
  shows "valid_str (call_id call) \<and> str_len (call_id call) \<le> MAX_CALL_ID_BYTES \<and>
    valid_str (call_name call) \<and> str_len (call_name call) \<le> MAX_TOOL_NAME_BYTES"
proof -
  have "validate_call_id (call_id call) = Inr ()" "validate_tool_name (call_name call) = Inr ()"
    using assms by (auto simp: ToolCall_validate_def)
  then show ?thesis
    using identifier_ok unfolding validate_call_id_def validate_tool_name_def by blast
qed

lemma mac_message_inj:
  fixes call call' :: ToolCall
  assumes str: "string_laws lib" and num: "number_laws lib N"
    and c: "ToolCall_validate lib call = Inr ()" "readable N (call_arguments call)" "n < 2 ^ 64" "e < 2 ^ 64"
    and c': "ToolCall_validate lib call' = Inr ()" "readable N (call_arguments call')" "n' < 2 ^ 64" "e' < 2 ^ 64"
    and eq: "mac_message lib call n e = mac_message lib call' n' e'"
  shows "call = call' \<and> n = n' \<and> e = e'"
proof -
  let ?fields = "\<lambda>c. frame (as_bytes (call_id c)) (frame (as_bytes (call_name c)) (frame (json_text lib (call_arguments c)) []))"
  have "be_bytes n @ be_bytes e @ ?fields call = be_bytes n' @ be_bytes e' @ ?fields call'"
    using eq c(2) c'(2) by (simp add: mac_message_def canonical_json_eq [OF str] update_field_def frame_def)
  then have nums: "be_bytes n = be_bytes n'" "be_bytes e = be_bytes e'" and fields: "?fields call = ?fields call'"
    by (simp_all add: append_eq_append_conv)
  note v = validated_call [OF c(1)] validated_call [OF c'(1)]
  have ids: "as_bytes (call_id call) = as_bytes (call_id call')"
    and rest: "frame (as_bytes (call_name call)) (frame (json_text lib (call_arguments call)) []) =
      frame (as_bytes (call_name call')) (frame (json_text lib (call_arguments call')) [])"
    using frame_inj [OF fields] v by simp_all
  have names: "as_bytes (call_name call) = as_bytes (call_name call')"
    and "frame (json_text lib (call_arguments call)) [] = frame (json_text lib (call_arguments call')) []"
    using frame_inj [OF rest] v by simp_all
  then have "json_text lib (call_arguments call) @ [] = json_text lib (call_arguments call') @ []"
    by (auto dest: frame_last)
  then have "call_arguments call = call_arguments call'"
    using text_determinesD [OF json_text_determines [OF str num c(2)] c'(2), of "[]" "[]"] by (simp add: delimited_def)
  moreover have "call_id call = call_id call'" "call_name call = call_name call'"
    using as_bytes_inj [OF ids] as_bytes_inj [OF names] v by simp_all
  ultimately show ?thesis
    using be_bytes_inj [OF nums(1) c(3) c'(3)] be_bytes_inj [OF nums(2) c(4) c'(4)] by simp
qed

section \<open>Signatures as text\<close>

lemma hex_nibble_digit: "n < 16 \<Longrightarrow> hex_nibble (hex_digit n) = Some n"
proof -
  assume "n < 16"
  then have "n \<in> set [0..<16]" by simp
  then show ?thesis by (auto simp: hex_digit_def hex_nibble_def lit_def upt_rec)
qed

lemma hex_digit_width: "n < 16 \<Longrightarrow> utf8_width (hex_digit n) = 1"
proof -
  assume "n < 16"
  then have "n \<in> set [0..<16]" by simp
  then show ?thesis by (auto simp: hex_digit_def utf8_width_def lit_def upt_rec)
qed

lemma byte_nibbles: "unat (b::byte) div 16 < 16" "unat b mod 16 < 16"
  using unsigned_less [of b] by (simp_all add: div_less_iff_less_mult)

lemma hex_roundtrip: "hex_pairs (hex_encode bytes) = Some bytes" "str_len (hex_encode bytes) = 2 * length bytes"
proof (induction bytes)
  case (Cons b bytes)
  have "unat b div 16 * 16 + unat b mod 16 = unat b" by simp
  then have "word_of_nat (unat b div 16 * 16 + unat b mod 16) = b" by simp
  with Cons show "hex_pairs (hex_encode (b # bytes)) = Some (b # bytes)"
      "str_len (hex_encode (b # bytes)) = 2 * length (b # bytes)"
    by (simp_all add: hex_encode_def hex_nibble_digit byte_nibbles hex_digit_width)
qed (simp_all add: hex_encode_def)

lemma hex_decode_encode: "length bytes = 32 \<Longrightarrow> hex_decode_32 (hex_encode bytes) = Some bytes"
  by (simp add: hex_decode_32_def hex_roundtrip)

end
