(* ===== verification/Tool_Ledger.thy ===== *)
theory Tool_Ledger
  imports Tool_Canonical
begin

text \<open>
  Runs of the tool runtime: approvals given by the host and calls dispatched by the model, in any
  order, over one authority. The executors are instrumented to record the calls they receive, and
  every recorded call is traced back to an approval of its own.
\<close>

section \<open>Runs\<close>

datatype tool_event = Approve ToolCall nat nat | Dispatch ToolCall "ApprovalToken option" nat

primrec event_time :: "tool_event \<Rightarrow> nat" where
  "event_time (Approve call now ttl) = now"
| "event_time (Dispatch call token now) = now"

primrec event_call :: "tool_event \<Rightarrow> ToolCall" where
  "event_call (Approve call now ttl) = call"
| "event_call (Dispatch call token now) = call"

text \<open>Each executor also appends its call to a log.\<close>

definition log_executor :: "'w executor \<Rightarrow> ('w \<times> ToolCall list) executor" where
  "log_executor ex = (\<lambda>(w, calls) call. let (w', r) = ex w call in ((w', calls @ [call]), r))"

definition logged :: "'w ToolRegistry \<Rightarrow> ('w \<times> ToolCall list) ToolRegistry" where
  "logged reg = map (\<lambda>(name, t). (name, \<lparr>reg_definition = reg_definition t,
    reg_executor = log_executor (reg_executor t)\<rparr>)) reg"

text \<open>The state of a run, with the nonce, call and expiry of every token issued so far.\<close>

record 'w tool_state =
  ts_authority :: ApprovalAuthority
  ts_world :: "'w \<times> ToolCall list"
  ts_issued :: "(nat \<times> ToolCall \<times> nat) list"

abbreviation ts_calls :: "'w tool_state \<Rightarrow> ToolCall list" where
  "ts_calls s \<equiv> snd (ts_world s)"

abbreviation ts_approved :: "'w tool_state \<Rightarrow> ToolCall list" where
  "ts_approved s \<equiv> map (fst \<circ> snd) (ts_issued s)"

definition tool_step ::
  "json_lib \<Rightarrow> mac \<Rightarrow> 'w ToolRegistry \<Rightarrow> ToolPolicy \<Rightarrow> 'w tool_state \<Rightarrow> tool_event \<Rightarrow> 'w tool_state" where
  "tool_step lib hmac reg pol s ev =
    (case ev of
       Approve call now ttl \<Rightarrow>
         (case issue_token lib hmac (ts_authority s) call now ttl of
            (a, Inr t) \<Rightarrow> s\<lparr>ts_authority := a,
              ts_issued := ts_issued s @ [(tok_nonce t, call, tok_expires_at_unix_ms t)]\<rparr>
          | (a, Inl _) \<Rightarrow> s\<lparr>ts_authority := a\<rparr>)
     | Dispatch call token now \<Rightarrow>
         (case execute lib hmac (logged reg) pol (ts_authority s, ts_world s) call token now of
            ((a, w), _) \<Rightarrow> s\<lparr>ts_authority := a, ts_world := w\<rparr>))"

definition tool_start :: "ApprovalAuthority \<Rightarrow> 'w \<Rightarrow> 'w tool_state" where
  "tool_start a w = \<lparr>ts_authority = a, ts_world = (w, []), ts_issued = []\<rparr>"

text \<open>
  Unforgeability of the MAC, in a run: a presented token verifies for a call only if the authority
  has signed the very message that is checked.
\<close>

definition genuine :: "json_lib \<Rightarrow> mac \<Rightarrow> 'w tool_state \<Rightarrow> tool_event \<Rightarrow> bool" where
  "genuine lib hmac s ev \<longleftrightarrow>
    (case ev of
       Dispatch call (Some t) now \<Rightarrow> verify_token lib hmac (ts_authority s) call t now = Inr () \<longrightarrow>
         (\<exists>(n, c, e)\<in>set (ts_issued s). mac_message lib c n e = mac_message lib call (tok_nonce t) (tok_expires_at_unix_ms t))
     | _ \<Rightarrow> True)"

primrec unforged ::
  "json_lib \<Rightarrow> mac \<Rightarrow> 'w ToolRegistry \<Rightarrow> ToolPolicy \<Rightarrow> 'w tool_state \<Rightarrow> tool_event list \<Rightarrow> bool" where
  "unforged lib hmac reg pol s [] = True"
| "unforged lib hmac reg pol s (ev # evs) =
    (genuine lib hmac s ev \<and> unforged lib hmac reg pol (tool_step lib hmac reg pol s ev) evs)"

lemma unforged_append: "unforged lib hmac reg pol s (xs @ ys) \<longleftrightarrow>
    unforged lib hmac reg pol s xs \<and> unforged lib hmac reg pol (foldl (tool_step lib hmac reg pol) s xs) ys"
  by (induction xs arbitrary: s) auto

text \<open>Events whose integers fit 64 bits and whose calls carry JSON values, with numbers of \<open>N\<close>.\<close>

definition event_ok :: "json set \<Rightarrow> tool_event \<Rightarrow> bool" where
  "event_ok N ev \<longleftrightarrow> readable N (call_arguments (event_call ev)) \<and>
    (case ev of Dispatch call (Some t) now \<Rightarrow> tok_nonce t < 2 ^ 64 \<and> tok_expires_at_unix_ms t < 2 ^ 64 | _ \<Rightarrow> True)"

section \<open>Single steps\<close>

lemma issue_token_cases:
  obtains a e where "issue_token lib hmac self call now ttl = (a, Inl e)" "consumed a = consumed self"
      "auth_key a = auth_key self" "next_nonce self \<le> next_nonce a"
  | t where "issue_token lib hmac self call now ttl = (self\<lparr>next_nonce := next_nonce self + 1\<rparr>, Inr t)"
      "tok_nonce t = next_nonce self" "next_nonce self + 1 < 2 ^ 64" "tok_expires_at_unix_ms t < 2 ^ 64"
      "ToolCall_validate lib call = Inr ()"
proof (cases "snd (issue_token lib hmac self call now ttl)")
  case (Inl e)
  show thesis
    by (rule that(1) [of "fst (issue_token lib hmac self call now ttl)" e])
      (use Inl in \<open>auto simp: issue_token_def Let_def prod_eq_iff split: sum.splits\<close>)
next
  case (Inr t)
  show thesis
    by (rule that(2) [of t])
      (use Inr in \<open>auto simp: issue_token_def Let_def prod_eq_iff signature_def split: sum.splits if_splits\<close>)
qed

lemma issue_token_Inr:
  assumes "issue_token lib hmac self call now ttl = (a, Inr t)"
  shows "ToolCall_validate lib call = Inr () \<and> tok_nonce t = next_nonce self \<and> consumed a = consumed self"
  by (cases rule: issue_token_cases [of lib hmac self call now ttl]) (use assms in auto)

lemma map_of_logged: "map_of (logged reg) name = map_option (\<lambda>t. \<lparr>reg_definition = reg_definition t,
    reg_executor = log_executor (reg_executor t)\<rparr>) (map_of reg name)"
  by (induction reg) (auto simp: logged_def)

text \<open>A dispatch either runs no executor, or runs one on a verified and unused token.\<close>

lemma execute_cases:
  assumes "execute lib hmac (logged reg) pol (a, w, calls) call token now = ((a', w', calls'), r)"
  shows "(calls' = calls \<and> w' = w \<and>
      (a' = a \<or> a' = a\<lparr>consumed := bt_retain (\<lambda>_ e. e \<ge> now) (consumed a)\<rparr>)) \<or>
    (\<exists>t. calls' = calls @ [call] \<and> token = Some t \<and> ToolCall_validate lib call = Inr () \<and>
      verify_token lib hmac a call t now = Inr () \<and>
      map_of (bt_retain (\<lambda>_ e. e \<ge> now) (consumed a)) (tok_nonce t) = None \<and>
      a' = a\<lparr>consumed := bt_insert (tok_nonce t) (tok_expires_at_unix_ms t) (bt_retain (\<lambda>_ e. e \<ge> now) (consumed a))\<rparr>)"
proof -
  let ?pre = "and_then (ToolCall_validate lib call) (\<lambda>_.
      and_then (ok_or (map_of (logged reg) (call_name call)) (ToolNotRegistered (call_name call))) (\<lambda>registered.
      and_then (validate_arguments lib (reg_definition registered) (call_arguments call)) (\<lambda>_. Inr registered)))"
  show ?thesis
  proof (cases ?pre)
    case (Inl e)
    with assms show ?thesis by (auto simp: execute_def)
  next
    case (Inr registered)
    then have ok: "ToolCall_validate lib call = Inr ()" and "map_of (logged reg) (call_name call) = Some registered" by auto
    then obtain ex where ex: "reg_executor registered = log_executor ex" by (auto simp: map_of_logged)
    show ?thesis
      using assms Inr ok
      by (auto simp: execute_def ex log_executor_def authorize_def verify_and_consume_def Let_def
          split: if_splits option.splits sum.splits prod.splits)
  qed
qed

abbreviation live_ledger :: "'w tool_state \<Rightarrow> nat \<Rightarrow> (nat, nat) btree" where
  "live_ledger s now \<equiv> bt_retain (\<lambda>_ e. now \<le> e) (consumed (ts_authority s))"

lemma dispatch_step_cases:
  obtains a w where "tool_step lib hmac reg pol s (Dispatch call token now) = s\<lparr>ts_authority := a, ts_world := w\<rparr>"
      "snd w = ts_calls s" "a = ts_authority s \<or> a = (ts_authority s)\<lparr>consumed := live_ledger s now\<rparr>"
  | t w where "token = Some t" "ToolCall_validate lib call = Inr ()" "verify_token lib hmac (ts_authority s) call t now = Inr ()"
      "tool_step lib hmac reg pol s (Dispatch call token now) = s\<lparr>ts_authority := (ts_authority s)\<lparr>consumed :=
        bt_insert (tok_nonce t) (tok_expires_at_unix_ms t) (live_ledger s now)\<rparr>, ts_world := (w, ts_calls s @ [call])\<rparr>"
      "map_of (live_ledger s now) (tok_nonce t) = None"
proof -
  obtain w calls where world: "ts_world s = (w, calls)" by (cases "ts_world s")
  obtain a' w' calls' r where run:
      "execute lib hmac (logged reg) pol (ts_authority s, w, calls) call token now = ((a', w', calls'), r)"
    by (metis prod.exhaust)
  have step: "tool_step lib hmac reg pol s (Dispatch call token now) = s\<lparr>ts_authority := a', ts_world := (w', calls')\<rparr>"
    by (simp add: tool_step_def world run)
  consider "calls' = calls" "a' = ts_authority s \<or> a' = (ts_authority s)\<lparr>consumed := live_ledger s now\<rparr>"
    | t where "calls' = calls @ [call]" "token = Some t" "ToolCall_validate lib call = Inr ()"
        "verify_token lib hmac (ts_authority s) call t now = Inr ()" "map_of (live_ledger s now) (tok_nonce t) = None"
        "a' = (ts_authority s)\<lparr>consumed := bt_insert (tok_nonce t) (tok_expires_at_unix_ms t) (live_ledger s now)\<rparr>"
    using execute_cases [OF run] by blast
  then show thesis
  proof cases
    case 1
    then show thesis using that(1) [OF step] world by simp
  next
    case (2 t)
    then show thesis using that(2) [of t w'] step world by simp
  qed
qed

section \<open>The ledger\<close>

text \<open>
  Every call that ran used a token of its own: the nonces used are distinct nonces of issued tokens,
  and each is still in the ledger unless its token has expired.
\<close>

definition accounts :: "nat \<Rightarrow> (nat, nat) btree \<Rightarrow> (nat \<times> ToolCall \<times> nat) list \<Rightarrow> ToolCall list \<Rightarrow> nat list \<Rightarrow> bool" where
  "accounts now spent issued calls used \<longleftrightarrow> distinct used \<and> set used \<subseteq> fst ` set issued \<and>
    calls = map (\<lambda>n. fst (the (map_of issued n))) used \<and>
    (\<forall>n\<in>set used. \<forall>c e. map_of issued n = Some (c, e) \<longrightarrow> now \<le> e \<longrightarrow> map_of spent n = Some e)"

definition tokens_ok :: "json_lib \<Rightarrow> json set \<Rightarrow> nat \<Rightarrow> (nat \<times> ToolCall \<times> nat) list \<Rightarrow> bool" where
  "tokens_ok lib N nonce issued \<longleftrightarrow> distinct (map fst issued) \<and>
    (\<forall>(n, c, e)\<in>set issued. n < nonce \<and> n < 2 ^ 64 \<and> e < 2 ^ 64 \<and>
      ToolCall_validate lib c = Inr () \<and> readable N (call_arguments c))"

definition ledger ::
  "json_lib \<Rightarrow> json set \<Rightarrow> nat \<Rightarrow> (nat, nat) btree \<Rightarrow> nat \<Rightarrow> (nat \<times> ToolCall \<times> nat) list \<Rightarrow> ToolCall list \<Rightarrow> bool" where
  "ledger lib N now spent nonce issued calls \<longleftrightarrow>
    bt_wf spent \<and> tokens_ok lib N nonce issued \<and> (\<exists>used. accounts now spent issued calls used)"

lemma tokens_fresh: "tokens_ok lib N nonce issued \<Longrightarrow> nonce \<notin> fst ` set issued"
  by (auto simp: tokens_ok_def)

lemma tokens_nonce: "tokens_ok lib N nonce issued \<Longrightarrow> nonce \<le> nonce' \<Longrightarrow> tokens_ok lib N nonce' issued"
  unfolding tokens_ok_def by fastforce

lemma tokens_issue:
  assumes "tokens_ok lib N nonce issued" and "ToolCall_validate lib call = Inr ()" "readable N (call_arguments call)"
    and "nonce < 2 ^ 64" "e < 2 ^ 64"
  shows "tokens_ok lib N (nonce + 1) (issued @ [(nonce, call, e)])"
proof -
  have "distinct (map fst (issued @ [(nonce, call, e)]))"
    using assms(1) tokens_fresh [OF assms(1)] by (simp add: tokens_ok_def)
  with assms show ?thesis unfolding tokens_ok_def by fastforce
qed

text \<open>A token that verifies was issued, for the very call it is presented with.\<close>

lemma presented_token:
  assumes laws: "string_laws lib" "number_laws lib N" and tokens: "tokens_ok lib N nonce (ts_issued s)"
    and ok: "event_ok N (Dispatch call (Some t) now)" and gen: "genuine lib hmac s (Dispatch call (Some t) now)"
    and valid: "ToolCall_validate lib call = Inr ()" "verify_token lib hmac (ts_authority s) call t now = Inr ()"
  shows "map_of (ts_issued s) (tok_nonce t) = Some (call, tok_expires_at_unix_ms t)"
proof -
  obtain n c e where i: "(n, c, e) \<in> set (ts_issued s)"
      "mac_message lib c n e = mac_message lib call (tok_nonce t) (tok_expires_at_unix_ms t)"
    using gen valid(2) by (auto simp: genuine_def)
  have "ToolCall_validate lib c = Inr ()" "readable N (call_arguments c)" "n < 2 ^ 64" "e < 2 ^ 64"
    using tokens i(1) by (auto simp: tokens_ok_def)
  then have "c = call \<and> n = tok_nonce t \<and> e = tok_expires_at_unix_ms t"
    using mac_message_inj [OF laws _ _ _ _ valid(1) _ _ _ i(2)] ok by (simp add: event_ok_def)
  with tokens i(1) show ?thesis by (simp add: tokens_ok_def)
qed

lemma ledger_later: "ledger lib N now spent nonce issued calls \<Longrightarrow> now \<le> now' \<Longrightarrow> ledger lib N now' spent nonce issued calls"
  unfolding ledger_def accounts_def by (elim conjE exE, intro conjI exI, assumption+) auto

lemma ledger_nonce: "ledger lib N now spent nonce issued calls \<Longrightarrow> nonce \<le> nonce' \<Longrightarrow> ledger lib N now spent nonce' issued calls"
  unfolding ledger_def using tokens_nonce by blast

lemma ledger_issue:
  assumes l: "ledger lib N now spent nonce issued calls" and c: "ToolCall_validate lib call = Inr ()" "readable N (call_arguments call)"
    and b: "nonce < 2 ^ 64" "e < 2 ^ 64"
  shows "ledger lib N now spent (nonce + 1) (issued @ [(nonce, call, e)]) calls"
proof -
  have fresh: "nonce \<notin> fst ` set issued" using l tokens_fresh unfolding ledger_def by blast
  obtain used where acc: "accounts now spent issued calls used" using l unfolding ledger_def by blast
  note used = acc [unfolded accounts_def]
  have same: "map_of (issued @ [(nonce, call, e)]) n = map_of issued n" if "n \<in> set used" for n
    using that used fresh by (auto simp: map_add_def split: option.splits)
  have "accounts now spent (issued @ [(nonce, call, e)]) calls used"
    using used same by (auto simp: accounts_def simp del: map_of_append)
  moreover have "bt_wf spent" "tokens_ok lib N (nonce + 1) (issued @ [(nonce, call, e)])"
    using l tokens_issue [OF _ c b] by (simp_all add: ledger_def)
  ultimately show ?thesis unfolding ledger_def by blast
qed

lemma ledger_retain:
  assumes l: "ledger lib N now spent nonce issued calls"
  shows "ledger lib N now (bt_retain (\<lambda>_ e. now \<le> e) spent) nonce issued calls"
proof -
  have wf: "bt_wf spent" using l by (simp add: ledger_def)
  obtain used where acc: "accounts now spent issued calls used" using l unfolding ledger_def by blast
  then have "accounts now (bt_retain (\<lambda>_ e. now \<le> e) spent) issued calls used"
    by (auto simp: accounts_def bt_get_retain [OF wf])
  with l show ?thesis unfolding ledger_def using bt_wf_retain by blast
qed

lemma ledger_consume:
  assumes l: "ledger lib N now spent nonce issued calls" and i: "map_of issued n = Some (call, e)"
    and t: "now \<le> e" "map_of spent n = None"
  shows "ledger lib N now (bt_insert n e spent) nonce issued (calls @ [call])"
proof -
  have wf: "bt_wf spent" using l by (simp add: ledger_def)
  obtain used where acc: "accounts now spent issued calls used" using l unfolding ledger_def by blast
  note used = acc [unfolded accounts_def]
  have "n \<notin> set used"
  proof
    assume "n \<in> set used"
    then have "map_of spent n = Some e" using used i t(1) by blast
    with t(2) show False by simp
  qed
  moreover have "n \<in> fst ` set issued" by (rule image_eqI [OF _ map_of_SomeD [OF i]]) simp
  ultimately have "accounts now (bt_insert n e spent) issued (calls @ [call]) (used @ [n])"
    using used i unfolding accounts_def bt_get_insert [OF wf] by auto
  then have "\<exists>used. accounts now (bt_insert n e spent) issued (calls @ [call]) used" ..
  with l show ?thesis by (simp add: ledger_def bt_wf_insert)
qed

lemma ledger_covered:
  assumes "ledger lib N now spent nonce issued calls"
  shows "mset calls \<subseteq># mset (map (fst \<circ> snd) issued)"
proof -
  obtain used where used: "distinct used" "set used \<subseteq> fst ` set issued"
      "calls = map (\<lambda>n. fst (the (map_of issued n))) used"
    using assms unfolding ledger_def accounts_def by blast
  have d: "distinct (map fst issued)" using assms by (simp add: ledger_def tokens_ok_def)
  have "mset used \<subseteq># mset (map fst issued)"
    using used(1,2) d by (metis list.set_map mset_set_set set_mset_mset subset_imp_msubset_mset_set finite_set)
  then have "mset calls \<subseteq># image_mset (\<lambda>n. fst (the (map_of issued n))) (mset (map fst issued))"
    unfolding used(3) mset_map by (rule image_mset_subseteq_mono)
  also have "image_mset (\<lambda>n. fst (the (map_of issued n))) (mset (map fst issued)) = mset (map (fst \<circ> snd) issued)"
  proof -
    have "map (\<lambda>n. fst (the (map_of issued n))) (map fst issued) = map (fst \<circ> snd) issued"
      using d by (auto simp: map_of_eq_Some_iff)
    then show ?thesis by (metis mset_map)
  qed
  finally show ?thesis .
qed

section \<open>Steps keep the ledger\<close>

abbreviation ledger_inv :: "json_lib \<Rightarrow> json set \<Rightarrow> nat \<Rightarrow> 'w tool_state \<Rightarrow> bool" where
  "ledger_inv lib N now s \<equiv> ledger lib N now (consumed (ts_authority s)) (next_nonce (ts_authority s))
    (ts_issued s) (ts_calls s)"

lemma ledger_approve:
  assumes inv: "ledger_inv lib N now s" and ok: "event_ok N (Approve call now ttl)"
  shows "ledger_inv lib N now (tool_step lib hmac reg pol s (Approve call now ttl))"
proof (cases rule: issue_token_cases [of lib hmac "ts_authority s" call now ttl])
  case (1 a e)
  then show ?thesis using ledger_nonce [OF inv] by (simp add: tool_step_def)
next
  case (2 t)
  then show ?thesis using ledger_issue [OF inv 2(5)] ok by (simp add: tool_step_def event_ok_def)
qed

lemma ledger_dispatch:
  assumes laws: "string_laws lib" "number_laws lib N"
    and inv: "ledger_inv lib N now s" and ok: "event_ok N (Dispatch call token now)"
    and gen: "genuine lib hmac s (Dispatch call token now)"
  shows "ledger_inv lib N now (tool_step lib hmac reg pol s (Dispatch call token now))"
proof (cases rule: dispatch_step_cases [of lib hmac reg pol s call token now])
  case (1 a w)
  then show ?thesis using inv ledger_retain [OF inv] by auto
next
  case (2 t w)
  have "map_of (ts_issued s) (tok_nonce t) = Some (call, tok_expires_at_unix_ms t)"
    using presented_token [OF laws _ _ _ 2(2,3)] inv ok gen 2(1) by (auto simp: ledger_def)
  moreover have "now \<le> tok_expires_at_unix_ms t"
    using 2(3) by (auto simp: verify_token_def split: if_splits)
  ultimately show ?thesis
    unfolding 2(4) using ledger_consume [OF ledger_retain [OF inv] _ _ 2(5)] by simp
qed

lemma ledger_run:
  assumes laws: "string_laws lib" "number_laws lib N"
  shows "ledger_inv lib N now s \<Longrightarrow> sorted (now # map event_time evs) \<Longrightarrow> list_all (event_ok N) evs \<Longrightarrow>
    unforged lib hmac reg pol s evs \<Longrightarrow> \<exists>now. ledger_inv lib N now (foldl (tool_step lib hmac reg pol) s evs)"
proof (induction evs arbitrary: now s)
  case (Cons ev evs)
  have "ledger_inv lib N (event_time ev) s" using ledger_later [OF Cons.prems(1)] Cons.prems(2) by simp
  then have "ledger_inv lib N (event_time ev) (tool_step lib hmac reg pol s ev)"
    using ledger_approve ledger_dispatch [OF laws] Cons.prems(3,4) by (cases ev) auto
  then show ?case using Cons.IH [of "event_time ev"] Cons.prems by simp
qed auto

section \<open>Approvals stay usable\<close>

text \<open>
  The approval with nonce \<open>n\<close> was used to run its call at some step of the run. Presenting it without
  effect, for this call or for another, does not count.
\<close>

primrec used_during ::
  "json_lib \<Rightarrow> mac \<Rightarrow> 'w ToolRegistry \<Rightarrow> ToolPolicy \<Rightarrow> ToolCall \<Rightarrow> nat \<Rightarrow> 'w tool_state \<Rightarrow> tool_event list \<Rightarrow> bool" where
  "used_during lib hmac reg pol call n s [] \<longleftrightarrow> False"
| "used_during lib hmac reg pol call n s (ev # evs) \<longleftrightarrow>
    (\<exists>t now. ev = Dispatch call (Some t) now \<and> tok_nonce t = n \<and>
      ts_calls (tool_step lib hmac reg pol s ev) = ts_calls s @ [call]) \<or>
    used_during lib hmac reg pol call n (tool_step lib hmac reg pol s ev) evs"

text \<open>Only nonces of issued tokens are ever spent.\<close>

definition stock :: "json_lib \<Rightarrow> json set \<Rightarrow> 'w tool_state \<Rightarrow> bool" where
  "stock lib N s \<longleftrightarrow> bt_wf (consumed (ts_authority s)) \<and>
    tokens_ok lib N (next_nonce (ts_authority s)) (ts_issued s) \<and>
    dom (map_of (consumed (ts_authority s))) \<subseteq> fst ` set (ts_issued s)"

lemma stock_approve:
  assumes inv: "stock lib N s" and ok: "event_ok N (Approve call now ttl)"
  shows "stock lib N (tool_step lib hmac reg pol s (Approve call now ttl))"
proof (cases rule: issue_token_cases [of lib hmac "ts_authority s" call now ttl])
  case (1 a e)
  then show ?thesis using inv tokens_nonce by (auto simp: tool_step_def stock_def)
next
  case (2 t)
  with inv ok tokens_issue [of lib N "next_nonce (ts_authority s)" "ts_issued s" call] show ?thesis
    by (auto simp: tool_step_def stock_def event_ok_def)
qed

lemma stock_dispatch:
  assumes laws: "string_laws lib" "number_laws lib N" and inv: "stock lib N s"
    and ok: "event_ok N (Dispatch call token now)" and gen: "genuine lib hmac s (Dispatch call token now)"
  shows "stock lib N (tool_step lib hmac reg pol s (Dispatch call token now))"
proof (cases rule: dispatch_step_cases [of lib hmac reg pol s call token now])
  case (1 a w)
  with inv show ?thesis by (auto simp: stock_def bt_wf_retain bt_get_retain split: if_splits option.splits)
next
  case (2 t w)
  have "map_of (ts_issued s) (tok_nonce t) = Some (call, tok_expires_at_unix_ms t)"
    using presented_token [OF laws _ _ _ 2(2,3)] inv ok gen 2(1) by (auto simp: stock_def)
  then have "tok_nonce t \<in> fst ` set (ts_issued s)" by (force dest: map_of_SomeD)
  with inv show ?thesis
    by (auto simp: stock_def 2(4) bt_wf_insert bt_wf_retain bt_get_insert bt_get_retain split: if_splits option.splits)
qed

lemma stock_step:
  assumes "string_laws lib" "number_laws lib N" "stock lib N s" "event_ok N ev" "genuine lib hmac s ev"
  shows "stock lib N (tool_step lib hmac reg pol s ev)"
  using assms stock_approve stock_dispatch by (cases ev) blast+

lemma stock_run:
  assumes laws: "string_laws lib" "number_laws lib N"
  shows "stock lib N s \<Longrightarrow> list_all (event_ok N) evs \<Longrightarrow> unforged lib hmac reg pol s evs \<Longrightarrow>
    stock lib N (foldl (tool_step lib hmac reg pol) s evs)"
  by (induction evs arbitrary: s) (auto intro: stock_step [OF laws])

text \<open>An issued approval that was not used is not in the ledger, whatever else was dispatched.\<close>

lemma unspent_step:
  assumes laws: "string_laws lib" "number_laws lib N" and inv: "stock lib N s"
    and ok: "event_ok N ev" "genuine lib hmac s ev"
    and i: "map_of (ts_issued s) n = Some (call, e)" "map_of (consumed (ts_authority s)) n = None"
    and unused: "\<not> used_during lib hmac reg pol call n s [ev]"
  shows "map_of (ts_issued (tool_step lib hmac reg pol s ev)) n = Some (call, e) \<and>
    map_of (consumed (ts_authority (tool_step lib hmac reg pol s ev))) n = None"
proof (cases ev)
  case (Approve c now ttl)
  show ?thesis
    by (cases rule: issue_token_cases [of lib hmac "ts_authority s" c now ttl])
      (use i in \<open>auto simp: Approve tool_step_def map_add_def split: option.splits\<close>)
next
  case (Dispatch c token now)
  have wf: "bt_wf (consumed (ts_authority s))" using inv by (simp add: stock_def)
  show ?thesis
  proof (cases rule: dispatch_step_cases [of lib hmac reg pol s c token now])
    case (1 a w)
    with i wf show ?thesis by (auto simp: Dispatch bt_get_retain)
  next
    case (2 t w)
    have "map_of (ts_issued s) (tok_nonce t) = Some (c, tok_expires_at_unix_ms t)"
      using presented_token [OF laws _ _ _ 2(2,3)] inv ok 2(1) Dispatch by (auto simp: stock_def)
    with i(1) unused have "tok_nonce t \<noteq> n" by (auto simp: Dispatch 2(1) 2(4) [unfolded 2(1)])
    with i wf show ?thesis by (simp add: Dispatch 2(4) bt_get_insert [OF bt_wf_retain [OF wf]] bt_get_retain)
  qed
qed

lemma unspent_run:
  assumes laws: "string_laws lib" "number_laws lib N"
  shows "stock lib N s \<Longrightarrow> list_all (event_ok N) evs \<Longrightarrow> unforged lib hmac reg pol s evs \<Longrightarrow>
    map_of (ts_issued s) n = Some (call, e) \<Longrightarrow> map_of (consumed (ts_authority s)) n = None \<Longrightarrow>
    \<not> used_during lib hmac reg pol call n s evs \<Longrightarrow>
    map_of (consumed (ts_authority (foldl (tool_step lib hmac reg pol) s evs))) n = None"
proof (induction evs arbitrary: s)
  case (Cons ev evs)
  then have "map_of (ts_issued (tool_step lib hmac reg pol s ev)) n = Some (call, e) \<and>
      map_of (consumed (ts_authority (tool_step lib hmac reg pol s ev))) n = None"
    by (intro unspent_step [OF laws]) auto
  moreover have "stock lib N (tool_step lib hmac reg pol s ev)" using Cons.prems by (intro stock_step [OF laws]) auto
  ultimately show ?case using Cons.IH Cons.prems by simp
qed simp

lemma approval_unspent:
  assumes laws: "string_laws lib" "number_laws lib N" and inv: "stock lib N s" and ok: "event_ok N (Approve call now ttl)"
    and issue: "issue_token lib hmac (ts_authority s) call now ttl = (a, Inr t)"
    and s': "s' = tool_step lib hmac reg pol s (Approve call now ttl)"
    and run: "list_all (event_ok N) evs" "unforged lib hmac reg pol s' evs"
    and unused: "\<not> used_during lib hmac reg pol call (tok_nonce t) s' evs"
  shows "map_of (live_ledger (foldl (tool_step lib hmac reg pol) s' evs) later) (tok_nonce t) = None"
proof -
  have "tok_nonce t = next_nonce (ts_authority s)" and a: "consumed a = consumed (ts_authority s)"
    using issue_token_Inr [OF issue] by blast+
  then have "tok_nonce t \<notin> fst ` set (ts_issued s)"
    using inv tokens_fresh unfolding stock_def by metis
  then have "map_of (ts_issued s) (tok_nonce t) = None" "map_of (consumed (ts_authority s)) (tok_nonce t) = None"
    using inv unfolding stock_def map_of_eq_None_iff by (auto simp flip: dom_map_of_conv_image_fst)
  then have "map_of (ts_issued s') (tok_nonce t) = Some (call, tok_expires_at_unix_ms t)"
      "map_of (consumed (ts_authority s')) (tok_nonce t) = None"
    using a by (simp_all add: s' issue tool_step_def map_add_def)
  moreover have stock': "stock lib N s'" unfolding s' by (rule stock_approve [OF inv ok])
  ultimately have "map_of (consumed (ts_authority (foldl (tool_step lib hmac reg pol) s' evs))) (tok_nonce t) = None"
    using unspent_run [OF laws _ run] unused by blast
  moreover have "stock lib N (foldl (tool_step lib hmac reg pol) s' evs)" using stock_run [OF laws stock' run] .
  ultimately show ?thesis by (simp add: stock_def bt_get_retain)
qed

lemma step_key: "auth_key (ts_authority (tool_step lib hmac reg pol s ev)) = auth_key (ts_authority s)"
proof (cases ev)
  case (Approve c now ttl)
  show ?thesis
    by (cases rule: issue_token_cases [of lib hmac "ts_authority s" c now ttl]) (simp_all add: Approve tool_step_def)
next
  case (Dispatch c token now)
  show ?thesis
    by (cases rule: dispatch_step_cases [of lib hmac reg pol s c token now]) (auto simp: Dispatch)
qed

lemma run_key: "auth_key (ts_authority (foldl (tool_step lib hmac reg pol) s evs)) = auth_key (ts_authority s)"
  by (induction evs arbitrary: s) (simp_all add: step_key)

end
