(* ===== verification/Tool_Properties.thy ===== *)
theory Tool_Properties
  imports Tool_Ledger
begin

text \<open>
  The properties of the tool runtime, with a small JSON library, registry and run on which they are
  evaluated.
\<close>

section \<open>A small runtime\<close>

text \<open>Strings with every character in unary, between quotes; numbers by one digit.\<close>

definition demo_string :: "rstr \<Rightarrow> byte list" where
  "demo_string s = 34 # concat (map (\<lambda>c. replicate c 49 @ [50]) s) @ [34]"

definition demo_lib :: json_lib where
  "demo_lib = \<lparr>from_slice = (\<lambda>_. None), to_vec = (\<lambda>_. Some []), string_text = Some \<circ> demo_string,
    number_text = (\<lambda>_. [55]), decode_definition = (\<lambda>_. None), decode_call = (\<lambda>_. None)\<rparr>"

lemma unary_inj: "replicate c 49 @ 50 # x = replicate d (49::byte) @ 50 # y \<Longrightarrow> c = d \<and> x = y"
proof (induction c arbitrary: d)
  case 0
  then show ?case by (cases d) simp_all
next
  case (Suc c)
  then show ?case by (cases d) auto
qed

lemma unary_not_quote: "\<exists>b r. replicate c 49 @ 50 # x = b # r \<and> b \<noteq> (34::byte)"
  by (cases c) simp_all

lemma demo_string_inj: "demo_string s @ x = demo_string t @ y \<Longrightarrow> s = t"
proof -
  have "concat (map (\<lambda>c. replicate c 49 @ [50]) s) @ 34 # x = concat (map (\<lambda>c. replicate c (49::byte) @ [50]) t) @ 34 # y \<Longrightarrow> s = t"
    for s t
  proof (induction s arbitrary: t)
    case Nil
    then show ?case using unary_not_quote by (cases t) (auto, metis list.inject)
  next
    case (Cons c s)
    then obtain d t' where t: "t = d # t'" using unary_not_quote by (cases t) (auto, metis list.inject)
    with Cons.prems have "c = d \<and> concat (map (\<lambda>c. replicate c 49 @ [50]) s) @ 34 # x = concat (map (\<lambda>c. replicate c 49 @ [50]) t') @ 34 # y"
      by (intro unary_inj) simp
    with Cons.IH t show ?case by simp
  qed
  then show "demo_string s @ x = demo_string t @ y \<Longrightarrow> s = t" by (simp add: demo_string_def)
qed

lemma demo_laws: "string_laws demo_lib" "number_laws demo_lib {JInt 7}"
  using demo_string_inj
  by (auto simp: string_laws_def number_laws_def demo_lib_def number_bytes_def as_bytes_def lit_def utf8_encode_def)
    (simp add: demo_string_def)

definition demo_schema :: json where
  "demo_schema = JObject [(lit ''additionalProperties'', JBool False),
    (lit ''properties'', JObject [(lit ''n'', JObject [(lit ''maximum'', JInt 9), (lit ''type'', JString (lit ''integer''))])]),
    (lit ''required'', JArray [JString (lit ''n'')]), (lit ''type'', JString (lit ''object''))]"

definition demo_tool :: ToolDefinition where
  "demo_tool = \<lparr>def_name = lit ''roll'', def_description = lit ''d'', def_input_schema = demo_schema\<rparr>"

definition demo_call :: ToolCall where
  "demo_call = \<lparr>call_id = lit ''c1'', call_name = lit ''roll'', call_arguments = JObject [(lit ''n'', JInt 7)]\<rparr>"

definition demo_executor :: "nat executor" where
  "demo_executor w call = (w + 1, Inr \<lparr>out_is_error = False, out_content = JNull\<rparr>)"

definition demo_registry :: "nat ToolRegistry" where
  "demo_registry = [(lit ''roll'', \<lparr>reg_definition = demo_tool, reg_executor = demo_executor\<rparr>)]"

definition demo_policy :: ToolPolicy where
  "demo_policy = \<lparr>allowlist = [lit ''roll'']\<rparr>"

definition demo_mac :: mac where
  "demo_mac key message = replicate 32 7"

definition demo_authority :: ApprovalAuthority where
  "demo_authority = \<lparr>auth_key = [1], next_nonce = 1, consumed = []\<rparr>"

definition demo_token :: ApprovalToken where
  "demo_token = \<lparr>tok_version = 1, tok_nonce = 1, tok_expires_at_unix_ms = 110, tok_signature = hex_encode (replicate 32 7)\<rparr>"

lemmas ident_eval = validate_call_id_def validate_tool_name_def validate_ascii_identifier_def Let_def
  is_ascii_alphabetic_def is_ascii_alphanumeric_def is_ascii_digit_def utf8_width_def lit_def

lemmas limits_eval = validate_json_limits_def checked_add_def

lemma demo_call_valid: "ToolCall_validate demo_lib demo_call = Inr ()"
  by (simp add: ToolCall_validate_def demo_call_def ident_eval limits_eval demo_lib_def)

lemma demo_tool_valid: "ToolDefinition_validate demo_lib demo_tool = Inr ()"
  by (simp add: ToolDefinition_validate_def demo_tool_def demo_schema_def ident_eval limits_eval demo_lib_def
      trim_def is_whitespace_def validate_schema.simps validate_object_schema.simps validate_enum_def
      validate_irrelevant_keywords_def validate_argument_name_def validate_number_schema_def member_with_def
      number_as_f64_def int_as_f64_exact is_finite_def required_step_def)

lemma demo_arguments_valid: "validate_arguments demo_lib demo_tool (call_arguments demo_call) = Inr ()"
  by (simp add: validate_arguments_def demo_tool_def demo_schema_def demo_call_def limits_eval demo_lib_def
      validate_value_against_schema.simps validate_object_value.simps validate_number_value_def value_matches_type_def
      int_as_f64_exact lit_def List.map_filter_simps)

lemma demo_message: "\<exists>m. mac_message demo_lib demo_call n e = Inr m"
  by (simp add: mac_message_def canonical_json_eq [OF demo_laws(1)] demo_call_def valid_str_def lit_def Let_def)

lemma demo_issue: "issue_token demo_lib demo_mac demo_authority demo_call 100 10 =
    (demo_authority\<lparr>next_nonce := 2\<rparr>, Inr demo_token)"
  using demo_message [of 1 110]
  by (auto simp: issue_token_def demo_call_valid checked_add_def demo_authority_def signature_def demo_mac_def demo_token_def)

section \<open>Approval and dispatch\<close>

text \<open>
  C30. Every tool call that an executor receives was approved, and no approval serves twice: in any
  run of approvals and dispatches on one authority, in any order and with any tokens presented, the
  calls that ran are a sub-multiset of the calls the host approved, arguments included. The clock
  must not go back, and the MAC must not be forged in the run; that different calls never share a
  signed message follows from the encoding, not from an assumption.
\<close>

theorem executed_calls_were_approved:
  assumes "string_laws lib" and "number_laws lib N" and "ApprovalAuthority_new key = Inr a"
    and "sorted (map event_time evs)" and "list_all (event_ok N) evs"
    and "unforged lib hmac reg pol (tool_start a w) evs"
    and "s = foldl (tool_step lib hmac reg pol) (tool_start a w) evs"
  shows "mset (ts_calls s) \<subseteq># mset (ts_approved s)"
proof -
  have "consumed a = []" using assms(3) by (auto simp: ApprovalAuthority_new_def split: if_splits)
  then have "ledger_inv lib N 0 (tool_start a w)" by (simp add: tool_start_def ledger_def tokens_ok_def accounts_def)
  from ledger_run [OF assms(1,2) this _ assms(5,6)] assms(4,7) show ?thesis
    by (auto dest: ledger_covered)
qed

lemma demo_step_approve:
  "tool_step demo_lib demo_mac demo_registry demo_policy (tool_start demo_authority 0) (Approve demo_call 100 10) =
    \<lparr>ts_authority = demo_authority\<lparr>next_nonce := 2\<rparr>, ts_world = (0, []), ts_issued = [(1, demo_call, 110)]\<rparr>"
  by (simp add: tool_step_def tool_start_def demo_issue) (simp add: demo_token_def)

lemma demo_verify:
  "verify_token demo_lib demo_mac a demo_call demo_token 105 = Inr ()"
  using demo_message [of 1 110]
  by (auto simp: verify_token_def demo_token_def hex_decode_encode demo_mac_def)

lemma demo_registered:
  "map_of (logged demo_registry) (call_name demo_call) =
    Some \<lparr>reg_definition = demo_tool, reg_executor = log_executor demo_executor\<rparr>"
  by (simp add: map_of_logged demo_registry_def demo_call_def)

lemma demo_allowed: "is_allowlisted demo_policy (call_name demo_call)"
  by (simp add: is_allowlisted_def demo_policy_def demo_call_def)

lemma demo_consume:
  "verify_and_consume demo_lib demo_mac (demo_authority\<lparr>next_nonce := 2, consumed := []\<rparr>) demo_call demo_token 105 =
    (demo_authority\<lparr>next_nonce := 2, consumed := [(1, 110)]\<rparr>, Inr ())"
  "verify_and_consume demo_lib demo_mac (demo_authority\<lparr>next_nonce := 2, consumed := [(1, 110)]\<rparr>) demo_call demo_token 105 =
    (demo_authority\<lparr>next_nonce := 2, consumed := [(1, 110)]\<rparr>, Inl ApprovalReplay)"
  unfolding verify_and_consume_def demo_verify by (simp_all add: bt_retain_def demo_token_def)

lemmas demo_dispatch = tool_step_def execute_def demo_call_valid demo_registered demo_arguments_valid authorize_def
  demo_allowed demo_consume log_executor_def demo_executor_def

abbreviation demo_state :: "(nat, nat) btree \<Rightarrow> nat \<Rightarrow> ToolCall list \<Rightarrow> nat tool_state" where
  "demo_state c w calls \<equiv> \<lparr>ts_authority = demo_authority\<lparr>next_nonce := 2, consumed := c\<rparr>, ts_world = (w, calls),
    ts_issued = [(1, demo_call, 110)]\<rparr>"

lemma demo_steps:
  "tool_step demo_lib demo_mac demo_registry demo_policy (tool_start demo_authority 0) (Approve demo_call 100 10) = demo_state [] 0 []"
  "tool_step demo_lib demo_mac demo_registry demo_policy (demo_state [] 0 []) (Dispatch demo_call (Some demo_token) 105) =
    demo_state [(1, 110)] 1 [demo_call]"
  "tool_step demo_lib demo_mac demo_registry demo_policy (demo_state [(1, 110)] 1 [demo_call]) (Dispatch demo_call (Some demo_token) 105) =
    demo_state [(1, 110)] 1 [demo_call]"
  unfolding demo_step_approve by (simp_all add: demo_dispatch del: One_nat_def) (simp add: demo_authority_def)

abbreviation demo_events :: "tool_event list" where
  "demo_events \<equiv> [Approve demo_call 100 10, Dispatch demo_call (Some demo_token) 105, Dispatch demo_call (Some demo_token) 105]"

lemma demo_events_ok: "list_all (event_ok {JInt 7}) demo_events"
  by (simp add: event_ok_def demo_call_def demo_token_def valid_str_def lit_def)

lemma demo_unforged: "unforged demo_lib demo_mac demo_registry demo_policy (tool_start demo_authority 0) demo_events"
  by (simp add: demo_steps genuine_def del: One_nat_def) (simp add: demo_token_def)

theorem executed_calls_were_approved_witness:
  "\<exists>s. s = foldl (tool_step demo_lib demo_mac demo_registry demo_policy) (tool_start demo_authority 0) demo_events \<and>
    ts_calls s = [demo_call] \<and> fst (ts_world s) = 1 \<and> mset (ts_calls s) \<subseteq># mset (ts_approved s)"
proof -
  have "ApprovalAuthority_new [1] = Inr demo_authority" by (simp add: ApprovalAuthority_new_def demo_authority_def)
  from executed_calls_were_approved [OF demo_laws this _ demo_events_ok demo_unforged refl] show ?thesis
    by (simp add: demo_steps del: One_nat_def)
qed

lemma issued_token_verifies:
  assumes "string_laws lib" and "json_wf (call_arguments call)" and "\<And>key m. length (hmac key m) = 32"
    and "issue_token lib hmac a call now ttl = (a', Inr t)" and "auth_key b = auth_key a"
    and "now \<le> later" and "later \<le> tok_expires_at_unix_ms t"
  shows "verify_token lib hmac b call t later = Inr ()"
proof -
  have ttl: "ttl \<le> MAX_APPROVAL_TTL_MS"
    and t: "t = \<lparr>tok_version = APPROVAL_VERSION, tok_nonce = next_nonce a, tok_expires_at_unix_ms = now + ttl,
      tok_signature = tok_signature t\<rparr>"
    using assms(4) by (auto simp: issue_token_def Let_def signature_def split: sum.splits if_splits)
  obtain m where m: "mac_message lib call (next_nonce a) (now + ttl) = Inr m"
    using canonical_json_eq [OF assms(1,2)] by (simp add: mac_message_def Let_def)
  have "tok_signature t = hex_encode (hmac (auth_key a) m)"
    using assms(4) m by (auto simp: issue_token_def Let_def signature_def split: sum.splits if_splits)
  then show ?thesis
    using t m assms(3,5,6,7) ttl by (auto simp: verify_token_def hex_decode_encode)
qed

text \<open>
  C31. An approval is enough, and stays enough until it is used: take any run of approvals and dispatches on
  one authority, and in it an approval that issued a token for a call. As long as no dispatch ran the call
  with that approval, dispatching the call with the token runs the executor once on it and gives its answer,
  at any time from the approval to the expiry of the token. Neither the events before nor those after it can
  spoil the approval: its nonce is new, and no other call can use it up. The tool must be allowlisted and
  registered, the arguments must fit its schema, and fewer unexpired approvals than the limit may be in the
  replay ledger. As in the property above, the MAC is not forged in the run and the serializer writes the
  strings and numbers of the calls unambiguously; the MAC has 32 bytes.
\<close>

theorem approved_call_runs:
  assumes "string_laws lib" and "number_laws lib N" and "ApprovalAuthority_new key = Inr a"
    and "\<And>key m. length (hmac key m) = 32"
    and "list_all (event_ok N) (before @ Approve call now ttl # after)"
    and "unforged lib hmac reg pol (tool_start a w) (before @ Approve call now ttl # after)"
    and "s1 = foldl (tool_step lib hmac reg pol) (tool_start a w) before"
    and "issue_token lib hmac (ts_authority s1) call now ttl = (a1, Inr t)"
    and "s2 = tool_step lib hmac reg pol s1 (Approve call now ttl)"
    and "\<not> used_during lib hmac reg pol call (tok_nonce t) s2 after"
    and "s = foldl (tool_step lib hmac reg pol) s2 after"
    and "now \<le> later" and "later \<le> tok_expires_at_unix_ms t"
    and "length (live_ledger s later) < MAX_CONSUMED_APPROVALS"
    and "is_allowlisted pol (call_name call)" and "map_of reg (call_name call) = Some registered"
    and "validate_arguments lib (reg_definition registered) (call_arguments call) = Inr ()"
    and "reg_executor registered (fst (ts_world s)) call = (w', answer)"
  shows "\<exists>a'. execute lib hmac (logged reg) pol (ts_authority s, ts_world s) call (Some t) later =
    ((a', (w', ts_calls s @ [call])), and_then (map_err ExecutorFailed answer) (\<lambda>output.
      ToolResult_new lib (call_id call) (out_is_error output) (out_content output)))"
proof -
  have "stock lib N (tool_start a w)"
    using assms(3) by (auto simp: stock_def tokens_ok_def tool_start_def ApprovalAuthority_new_def split: if_splits)
  then have s1: "stock lib N s1"
    using stock_run [OF assms(1,2)] assms(5,6) by (auto simp: assms(7) unforged_append)
  have "unforged lib hmac reg pol s2 after" using assms(6) by (simp add: unforged_append assms(7,9))
  then have "map_of (live_ledger s later) (tok_nonce t) = None"
    using approval_unspent [OF assms(1,2) s1 _ assms(8,9) _ _ assms(10)] assms(5) by (simp add: assms(11))
  moreover have "verify_token lib hmac (ts_authority s) call t later = Inr ()"
  proof (rule issued_token_verifies [OF assms(1) _ assms(4,8) _ assms(12,13)])
    show "auth_key (ts_authority s) = auth_key (ts_authority s1)" by (simp add: assms(9,11) run_key step_key)
  qed (use assms(5) in \<open>simp add: event_ok_def\<close>)
  ultimately have "\<exists>a'. authorize lib hmac pol (ts_authority s) call (Some t) later = (a', Inr ())"
    using assms(14,15) by (simp add: authorize_def verify_and_consume_def)
  moreover have "ToolCall_validate lib call = Inr ()" using issue_token_Inr [OF assms(8)] by blast
  ultimately show ?thesis
    using assms(16-18) by (auto simp: execute_def map_of_logged log_executor_def split: prod.split)
qed

text \<open>A run in which the first approval is used and then presented again, after a second one was given.\<close>

abbreviation demo_before :: "tool_event list" where
  "demo_before \<equiv> [Approve demo_call 100 10, Dispatch demo_call (Some demo_token) 105]"

definition demo_second :: ApprovalToken where
  "demo_second = \<lparr>tok_version = 1, tok_nonce = 2, tok_expires_at_unix_ms = 116, tok_signature = hex_encode (replicate 32 7)\<rparr>"

definition demo_later :: "nat tool_state" where
  "demo_later = \<lparr>ts_authority = demo_authority\<lparr>next_nonce := 3, consumed := [(1, 110)]\<rparr>, ts_world = (1, [demo_call]),
    ts_issued = [(1, demo_call, 110), (2, demo_call, 116)]\<rparr>"

lemma demo_issue_second:
  "issue_token demo_lib demo_mac (demo_authority\<lparr>next_nonce := 2, consumed := c\<rparr>) demo_call 106 10 =
    (demo_authority\<lparr>next_nonce := 3, consumed := c\<rparr>, Inr demo_second)"
  using demo_message [of 2 116]
  by (auto simp: issue_token_def demo_call_valid checked_add_def demo_authority_def signature_def demo_mac_def demo_second_def)

lemma demo_steps_second:
  "tool_step demo_lib demo_mac demo_registry demo_policy (demo_state [(1, 110)] 1 [demo_call]) (Approve demo_call 106 10) =
    demo_later"
  "tool_step demo_lib demo_mac demo_registry demo_policy demo_later (Dispatch demo_call (Some demo_token) 107) = demo_later"
proof -
  show "tool_step demo_lib demo_mac demo_registry demo_policy (demo_state [(1, 110)] 1 [demo_call]) (Approve demo_call 106 10) =
      demo_later"
    by (simp add: tool_step_def demo_issue_second del: One_nat_def) (simp add: demo_second_def demo_later_def)
  have "verify_and_consume demo_lib demo_mac (ts_authority demo_later) demo_call demo_token 107 =
      (ts_authority demo_later, Inl ApprovalReplay)"
    using demo_message [of 1 110]
    by (auto simp: verify_and_consume_def verify_token_def demo_token_def hex_decode_encode demo_mac_def bt_retain_def demo_later_def)
  then show "tool_step demo_lib demo_mac demo_registry demo_policy demo_later (Dispatch demo_call (Some demo_token) 107) = demo_later"
    by (simp add: tool_step_def execute_def demo_call_valid demo_registered demo_arguments_valid authorize_def demo_allowed)
qed

lemma demo_run_ok:
  "list_all (event_ok {JInt 7}) (demo_before @ Approve demo_call 106 10 # [Dispatch demo_call (Some demo_token) 107])"
  "unforged demo_lib demo_mac demo_registry demo_policy (tool_start demo_authority 0)
    (demo_before @ Approve demo_call 106 10 # [Dispatch demo_call (Some demo_token) 107])"
proof -
  show "unforged demo_lib demo_mac demo_registry demo_policy (tool_start demo_authority 0)
      (demo_before @ Approve demo_call 106 10 # [Dispatch demo_call (Some demo_token) 107])"
    by (simp add: demo_steps demo_steps_second genuine_def del: One_nat_def) (simp add: demo_token_def demo_later_def)
qed (simp add: event_ok_def demo_call_def demo_token_def valid_str_def lit_def)

theorem approved_call_runs_witness:
  "\<exists>s a'. s = foldl (tool_step demo_lib demo_mac demo_registry demo_policy) (tool_start demo_authority 0)
      (demo_before @ Approve demo_call 106 10 # [Dispatch demo_call (Some demo_token) 107]) \<and>
    execute demo_lib demo_mac (logged demo_registry) demo_policy (ts_authority s, ts_world s) demo_call (Some demo_second) 116 =
      ((a', 2, [demo_call, demo_call]), Inr \<lparr>result_call_id = lit ''c1'', result_is_error = False, result_content = JNull\<rparr>)"
proof -
  let ?step = "tool_step demo_lib demo_mac demo_registry demo_policy"
  have before: "demo_state [(1, 110)] 1 [demo_call] = foldl ?step (tool_start demo_authority 0) demo_before"
    by (simp add: demo_steps del: One_nat_def)
  have after: "demo_later = foldl ?step demo_later [Dispatch demo_call (Some demo_token) 107]"
    by (simp add: demo_steps_second)
  have "ApprovalAuthority_new [1] = Inr demo_authority" by (simp add: ApprovalAuthority_new_def demo_authority_def)
  note run = approved_call_runs [OF demo_laws this _ demo_run_ok before _ demo_steps_second(1) [symmetric] _ after,
    where t = demo_second and later = 116 and registered = "\<lparr>reg_definition = demo_tool, reg_executor = demo_executor\<rparr>"]
  have "ToolResult_new demo_lib (call_id demo_call) False JNull =
      Inr \<lparr>result_call_id = lit ''c1'', result_is_error = False, result_content = JNull\<rparr>"
    by (simp add: ToolResult_new_def demo_call_def ident_eval limits_eval demo_lib_def)
  moreover have "map_of demo_registry (call_name demo_call) = Some \<lparr>reg_definition = demo_tool, reg_executor = demo_executor\<rparr>"
    by (simp add: demo_registry_def demo_call_def)
  moreover have "\<not> used_during demo_lib demo_mac demo_registry demo_policy demo_call (tok_nonce demo_second) demo_later
      [Dispatch demo_call (Some demo_token) 107]"
    by (simp add: demo_steps_second)
  moreover have "foldl ?step (tool_start demo_authority 0)
      (demo_before @ Approve demo_call 106 10 # [Dispatch demo_call (Some demo_token) 107]) = demo_later"
    by (simp add: demo_steps demo_steps_second del: One_nat_def)
  ultimately show ?thesis
    using run demo_allowed demo_arguments_valid
    by (simp add: demo_issue_second demo_mac_def demo_executor_def demo_second_def demo_later_def bt_retain_def del: One_nat_def)
qed

section \<open>The contract\<close>

text \<open>
  C32. The canonical form of a document determines it: two documents with the same canonical bytes
  are equal. Hence an approval signature covers exactly the arguments the user saw.
\<close>

theorem canonical_json_injective:
  assumes "string_laws lib" and "number_laws lib N" and "readable N v" and "readable N w"
    and "canonical_json lib v = canonical_json lib w"
  shows "v = w"
proof -
  have "json_text lib v @ [] = json_text lib w @ []" using assms by (simp add: canonical_json_eq)
  with text_determinesD [OF json_text_determines [OF assms(1-3)] assms(4), of "[]" "[]"] show ?thesis
    by (simp add: delimited_def)
qed

theorem canonical_json_injective_witness:
  "canonical_json demo_lib (JArray [JInt 7, JNull]) \<noteq> canonical_json demo_lib (JArray [JNull, JInt 7])"
  using canonical_json_injective [OF demo_laws, of "JArray [JInt 7, JNull]" "JArray [JNull, JInt 7]"] by auto

text \<open>
  C33. For every definition that passes validation, its input schema denotes a shape, and arguments
  within the JSON limits are accepted exactly when they have that shape; the check of the arguments
  never finds fault with the schema, so a registered tool cannot fail for its own definition.
\<close>

theorem arguments_accepted_iff_shaped:
  assumes "ToolDefinition_validate lib d = Inr ()"
  shows "\<exists>t. schema_denotes (def_input_schema d) t \<and>
    (\<forall>arguments. (validate_arguments lib d arguments = Inr () \<longleftrightarrow>
        validate_json_limits lib arguments ''arguments'' MAX_TOOL_ARGUMENT_BYTES MAX_JSON_DEPTH MAX_JSON_NODES = Inr () \<and>
        accepts t arguments) \<and>
      (\<forall>reason. validate_arguments lib d arguments \<noteq> Inl (InvalidInputSchema reason)))"
proof -
  have s: "validate_schema (def_input_schema d) True = Inr ()"
    using assms by (auto simp: ToolDefinition_validate_def split: if_splits)
  then obtain t where t: "schema_denotes (def_input_schema d) t" using validated_schema_denotes by blast
  have "(validate_arguments lib d arguments = Inr () \<longleftrightarrow>
        validate_json_limits lib arguments ''arguments'' MAX_TOOL_ARGUMENT_BYTES MAX_JSON_DEPTH MAX_JSON_NODES = Inr () \<and>
        accepts t arguments) \<and>
      (\<forall>reason. validate_arguments lib d arguments \<noteq> Inl (InvalidInputSchema reason))" for arguments
  proof (cases "validate_json_limits lib arguments ''arguments'' MAX_TOOL_ARGUMENT_BYTES MAX_JSON_DEPTH MAX_JSON_NODES")
    case (Inl e)
    have "outcome (\<lambda>e. \<forall>reason. e \<noteq> InvalidInputSchema reason) (\<lambda>_. True)
        (validate_json_limits lib arguments ''arguments'' MAX_TOOL_ARGUMENT_BYTES MAX_JSON_DEPTH MAX_JSON_NODES)"
      using limits_loop_errors [of "''arguments''" MAX_JSON_NODES MAX_JSON_DEPTH 0 "[(arguments, 1)]"]
      by (cases "limits_loop ''arguments'' MAX_JSON_DEPTH MAX_JSON_NODES 0 [(arguments, 1)]")
        (auto simp: validate_json_limits_def ok_or_def split: option.split)
    with Inl show ?thesis by (simp add: validate_arguments_def)
  next
    case (Inr u)
    then show ?thesis
      using decides_schema [OF t, of arguments] accepted_is_object [OF s t, of arguments]
      by (auto simp: validate_arguments_def decides_def split: if_splits)
  qed
  with t show ?thesis by blast
qed

theorem arguments_accepted_iff_shaped_witness:
  "\<exists>t. schema_denotes demo_schema t \<and> accepts t (JObject [(lit ''n'', JInt 7)]) \<and> \<not> accepts t (JObject [(lit ''m'', JInt 7)])"
proof -
  have "validate_arguments demo_lib demo_tool (JObject [(lit ''m'', JInt 7)]) \<noteq> Inr ()"
    and l: "validate_json_limits demo_lib (JObject [(lit ''m'', JInt 7)]) ''arguments'' MAX_TOOL_ARGUMENT_BYTES MAX_JSON_DEPTH MAX_JSON_NODES = Inr ()"
    by (simp_all add: validate_arguments_def demo_tool_def demo_schema_def limits_eval demo_lib_def
        validate_value_against_schema.simps validate_object_value.simps value_matches_type_def lit_def List.map_filter_simps)
  then show ?thesis
    using arguments_accepted_iff_shaped [OF demo_tool_valid] demo_arguments_valid
    by (simp add: demo_call_def) (metis (no_types, lifting) demo_tool_def ToolDefinition.select_convs(3))
qed

text \<open>
  C34. The limit check, a loop over an explicit stack, returns on every document and accepts it
  exactly when it has at most the given number of values, is at most that deep, and its compact
  text is at most that long.
\<close>

theorem json_limits_exact:
  assumes "to_vec lib v = Some text" and "max_nodes < 2 ^ 64 - 1"
  shows "validate_json_limits lib v field max_bytes max_depth max_nodes = Inr () \<longleftrightarrow>
    json_nodes v \<le> max_nodes \<and> json_depth v \<le> max_depth \<and> length text \<le> max_bytes"
  using limits_loop_exact [of 0 max_nodes field max_depth "[(v, 1)]"] assms
  by (auto simp: validate_json_limits_def res_simps)

theorem json_limits_exact_witness:
  "validate_json_limits demo_lib (JArray [JNull, JArray []]) ''f'' 10 2 3 = Inr () \<and>
    validate_json_limits demo_lib (JArray [JNull, JArray []]) ''f'' 10 1 3 \<noteq> Inr ()"
proof -
  have "to_vec demo_lib (JArray [JNull, JArray []]) = Some []" by (simp add: demo_lib_def)
  from json_limits_exact [OF this, of 3 "''f''" 10 2] json_limits_exact [OF this, of 3 "''f''" 10 1] show ?thesis
    by simp
qed

end
