(* ===== verification/Tool_Remote.thy ===== *)
theory Tool_Remote
  imports Tool_Runtime
begin

text \<open>
  The endpoints of remote servers. The source tests suffixes of the domain as text; the meaning of
  these tests is given here label by label.
\<close>

section \<open>Labels\<close>

lemma split_dots_ne [simp]: "split_dots s \<noteq> []"
  by (induction s) auto

lemma split_dots_append: "split_dots (a @ 46 # b) = split_dots a @ split_dots b"
  by (induction a) (auto simp: hd_append tl_append2)

lemma split_dots_single: "46 \<notin> set s \<Longrightarrow> split_dots s = [s]"
  by (induction s) auto

lemma split_dots_last:
  assumes "46 \<in> set d"
  obtains a b where "d = a @ 46 # b" and "46 \<notin> set b" and "split_dots d = split_dots a @ [b]"
proof -
  obtain a b where "d = a @ 46 # b" "46 \<notin> set b" using split_list_last [OF assms] by blast
  then show thesis using that split_dots_append split_dots_single by metis
qed

lemma last_dot_unique:
  assumes "a @ 46 # b = c @ 46 # e" and "46 \<notin> set b" and "46 \<notin> set e"
  shows "a = c \<and> b = e"
proof -
  have "takeWhile (\<lambda>x. x \<noteq> 46) (rev (a @ 46 # b)) = rev b" "takeWhile (\<lambda>x. x \<noteq> 46) (rev (c @ 46 # e)) = rev e"
    using assms(2,3) by (auto simp: takeWhile_append)
  with assms(1) have "b = e" by simp
  with assms(1) show ?thesis by simp
qed

lemma suffix_label: "46 \<notin> set b \<Longrightarrow> 46 \<notin> set s \<Longrightarrow> suffix (46 # s) (a @ 46 # b) \<longleftrightarrow> s = b"
  by (auto simp: suffix_def dest: last_dot_unique)

lemma suffix_in_label: "46 \<notin> set s \<Longrightarrow> suffix s (a @ 46 # b) \<longleftrightarrow> suffix s b"
  by (auto simp: suffix_append suffix_Cons)

text \<open>A label: 1 to 63 letters, digits and hyphens, with no hyphen at either end.\<close>

definition ldh_label :: "rstr \<Rightarrow> bool" where
  "ldh_label l \<longleftrightarrow> l \<noteq> [] \<and> length l \<le> 63 \<and> hd l \<noteq> 45 \<and> last l \<noteq> 45 \<and>
    (\<forall>c\<in>set l. is_ascii_alphanumeric c \<or> c = 45)"

definition public_labels :: "rstr list \<Rightarrow> bool" where
  "public_labels ls \<longleftrightarrow> 2 \<le> length ls \<and> (\<forall>l\<in>set ls. ldh_label l) \<and>
    last ls \<notin> {lit ''local'', lit ''lan'', lit ''internal'', lit ''home''} \<and>
    \<not> suffix (lit ''localhost'') (last ls) \<and> \<not> suffix [lit ''home'', lit ''arpa''] ls"

lemma last_label: "46 \<notin> set s \<Longrightarrow> last (split_dots a) = s \<longleftrightarrow> a = s \<or> suffix (46 # s) a"
proof (cases "46 \<in> set a")
  case True
  then obtain p q where "a = p @ 46 # q" "46 \<notin> set q" "split_dots a = split_dots p @ [q]" by (rule split_dots_last)
  then show "46 \<notin> set s \<Longrightarrow> last (split_dots a) = s \<longleftrightarrow> a = s \<or> suffix (46 # s) a"
    using suffix_label [of q s p] by auto
next
  case False
  then show ?thesis by (auto simp: split_dots_single suffix_def)
qed

lemma last_two_labels:
  assumes "46 \<notin> set b" and "46 \<notin> set s" and "46 \<notin> set t"
  shows "a @ 46 # b = s @ 46 # t \<or> suffix (46 # s @ 46 # t) (a @ 46 # b) \<longleftrightarrow> suffix [s, t] (split_dots a @ [b])"
proof -
  have "suffix (46 # s @ 46 # t) (a @ 46 # b) \<longleftrightarrow> b = t \<and> suffix (46 # s) a"
  proof
    assume "suffix (46 # s @ 46 # t) (a @ 46 # b)"
    then obtain p where "a @ 46 # b = (p @ 46 # s) @ 46 # t" by (auto simp: suffix_def)
    from last_dot_unique [OF this assms(1,3)] show "b = t \<and> suffix (46 # s) a" by (auto simp: suffix_def)
  qed (auto simp: suffix_def)
  moreover have "a @ 46 # b = s @ 46 # t \<longleftrightarrow> a = s \<and> b = t" using last_dot_unique assms(1,3) by blast
  moreover have "suffix [s, t] (split_dots a @ [b]) \<longleftrightarrow> b = t \<and> last (split_dots a) = s"
    by (cases "split_dots a" rule: rev_cases) (auto simp: suffix_def)
  ultimately show ?thesis using last_label [OF assms(2), of a] by auto
qed

lemma label_ok:
  "\<not> (l = [] \<or> str_len l > 63 \<or> prefix [45] l \<or> suffix [45] l \<or>
      \<not> list_all (\<lambda>c. is_ascii_alphanumeric c \<or> c = 45) l) \<longleftrightarrow> ldh_label l"
proof -
  have "list_all (\<lambda>c. is_ascii_alphanumeric c \<or> c = 45) l \<Longrightarrow> str_len l = length l"
    by (induction l) (auto simp: utf8_width_def char_class_defs)
  moreover have "l \<noteq> [] \<Longrightarrow> prefix [45] l \<longleftrightarrow> hd l = 45" by (cases l) auto
  moreover have "l \<noteq> [] \<Longrightarrow> suffix [45] l \<longleftrightarrow> last l = 45" by (cases l rule: rev_cases) (auto simp: suffix_def)
  ultimately show ?thesis by (auto simp: ldh_label_def list_all_iff)
qed

lemma try_fold_checks:
  "try_fold (\<lambda>_ x. if P x then Inl e else Inr ()) () xs = (if list_ex P xs then Inl e else Inr ())"
  by (induction xs) auto

lemma forbidden_suffixes:
  assumes d: "d = a @ 46 # b" "46 \<notin> set b"
  shows "list_ex (\<lambda>s. d = dropWhile (\<lambda>c. c = 46) (lit s) \<or> suffix (lit s) d) FORBIDDEN_SUFFIXES \<longleftrightarrow>
    b \<in> {lit ''local'', lit ''lan'', lit ''internal'', lit ''home''} \<or> suffix (lit ''localhost'') b \<or>
    suffix [lit ''home'', lit ''arpa''] (split_dots a @ [b])"
proof -
  have dots: "46 \<notin> set (lit ''localhost'')" "46 \<notin> set (lit ''local'')" "46 \<notin> set (lit ''lan'')"
      "46 \<notin> set (lit ''internal'')" "46 \<notin> set (lit ''home'')" "46 \<notin> set (lit ''arpa'')"
    by (simp_all add: lit_def)
  have texts: "lit ''.localhost'' = 46 # lit ''localhost''" "lit ''.local'' = 46 # lit ''local''"
      "lit ''.lan'' = 46 # lit ''lan''" "lit ''.internal'' = 46 # lit ''internal''" "lit ''.home'' = 46 # lit ''home''"
      "lit ''.home.arpa'' = 46 # lit ''home'' @ 46 # lit ''arpa''"
      "dropWhile (\<lambda>c. c = 46) (lit ''home'' @ 46 # lit ''arpa'') = lit ''home'' @ 46 # lit ''arpa''"
    by (simp_all add: lit_def)
  have bare: "dropWhile (\<lambda>c. c = 46) s = s" if "46 \<notin> set s" for s :: rstr
    using that by (cases s) auto
  have "d \<noteq> s" if "46 \<notin> set s" for s using that d(1) by auto
  then show ?thesis
    using dots last_two_labels [OF d(2) dots(5,6), of a] suffix_label [OF d(2)] suffix_in_label
    by (simp add: texts bare d(1)) blast
qed

lemma public_domain_labels:
  "validate_public_domain domain' = Inr () \<longleftrightarrow>
    str_len (map ascii_lowercase domain') \<le> 253 \<and> public_labels (split_dots (map ascii_lowercase domain'))"
proof -
  define d where "d = map ascii_lowercase domain'"
  show ?thesis
  proof (cases "46 \<in> set d")
    case True
    then obtain a b where ab: "d = a @ 46 # b" "46 \<notin> set b" "split_dots d = split_dots a @ [b]" by (rule split_dots_last)
    have "suffix [46] d \<longleftrightarrow> b = []" using suffix_label [OF ab(2), of "[]" a] ab(1) by auto
    moreover have "\<not> ldh_label []" by (simp add: ldh_label_def)
    moreover have "1 \<le> length (split_dots a)" by (simp add: Suc_le_eq)
    ultimately show ?thesis
      unfolding validate_public_domain_def d_def [symmetric] Let_def try_fold_checks forbidden_suffixes [OF ab(1,2)]
      using True ab(3) label_ok by (auto simp: public_labels_def list_ex_iff)
  next
    case False
    then show ?thesis
      unfolding validate_public_domain_def d_def [symmetric] by (simp add: split_dots_single public_labels_def)
  qed
qed

section \<open>Endpoints\<close>

text \<open>
  C35. A remote server configuration is accepted exactly when it uses streamable HTTP, its server
  identifier and credential reference are non-empty, well formed and within their byte limits, and its
  endpoint is non-empty, within its byte limit, and an https URL without credentials, query or fragment
  whose host is a public DNS name: at least two labels of letters, digits and inner
  hyphens, not under \<open>local\<close>, \<open>lan\<close>, \<open>internal\<close>, \<open>home\<close> or \<open>home.arpa\<close> and not ending in
  \<open>localhost\<close>, in any letter case. An IP address is never accepted.
\<close>

theorem remote_endpoint_accepted_iff:
  "RemoteMcpServerConfig_validate parse_url cfg = Inr () \<longleftrightarrow>
    transport cfg = StreamableHttp \<and>
    server_id cfg \<noteq> [] \<and> str_len (server_id cfg) \<le> MAX_MCP_SERVER_ID_BYTES \<and> safe_name (server_id cfg) \<and>
    credential_ref cfg \<noteq> [] \<and> str_len (credential_ref cfg) \<le> MAX_CREDENTIAL_REF_BYTES \<and> safe_name (credential_ref cfg) \<and>
    endpoint_url cfg \<noteq> [] \<and> str_len (endpoint_url cfg) \<le> MAX_MCP_ENDPOINT_BYTES \<and>
    (\<exists>u d. parse_url (endpoint_url cfg) = Some u \<and> url_scheme u = lit ''https'' \<and> \<not> url_cannot_be_a_base u \<and>
      url_username u = [] \<and> url_password u = None \<and> url_query u = None \<and> url_fragment u = None \<and>
      url_host u = Some (Domain d) \<and> str_len (map ascii_lowercase d) \<le> 253 \<and>
      public_labels (split_dots (map ascii_lowercase d)))"
proof -
  have "validate_endpoint parse_url v = Inr () \<longleftrightarrow> v \<noteq> [] \<and> str_len v \<le> MAX_MCP_ENDPOINT_BYTES \<and>
    (\<exists>u d. parse_url v = Some u \<and> url_scheme u = lit ''https'' \<and> \<not> url_cannot_be_a_base u \<and>
      url_username u = [] \<and> url_password u = None \<and> url_query u = None \<and> url_fragment u = None \<and>
      url_host u = Some (Domain d) \<and> validate_public_domain d = Inr ())" for v
    by (cases "parse_url v") (auto simp: validate_endpoint_def split: option.splits Host.splits)
  then show ?thesis
    unfolding public_domain_labels
    by (auto simp: RemoteMcpServerConfig_validate_def validate_server_id_def CredentialRef_validate_def res_simps)
qed

end
