(* ===== verification/Utf8_Decode.thy ===== *)
theory Utf8_Decode
  imports Utf8
begin

text \<open>
  The checked reading of UTF-8, \<open>std::str::from_utf8\<close>: overlong forms, surrogates, values above
  U+10FFFF, stray and missing continuation bytes are refused. It accepts exactly the encodings of
  strings of Unicode scalar values and inverts the encoding.
\<close>

definition is_scalar :: "uchar \<Rightarrow> bool" where
  "is_scalar c \<longleftrightarrow> c < 0x110000 \<and> \<not> (0xD800 \<le> c \<and> c < 0xE000)"

definition is_str :: "rstr \<Rightarrow> bool" where
  "is_str s \<longleftrightarrow> list_all is_scalar s"

definition is_continuation :: "byte \<Rightarrow> bool" where
  "is_continuation b \<longleftrightarrow> 0x80 \<le> unat b \<and> unat b < 0xC0"

fun utf8_next :: "byte list \<Rightarrow> (uchar \<times> byte list) option" where
  "utf8_next [] = None"
| "utf8_next (b # bs) =
    (let a = unat b in
     if a < 0x80 then Some (a, bs)
     else if a < 0xC2 then None
     else if a < 0xE0 then
       (case bs of x # rest \<Rightarrow>
          if is_continuation x then Some ((a - 0xC0) * 64 + (unat x - 0x80), rest) else None
        | _ \<Rightarrow> None)
     else if a < 0xF0 then
       (case bs of x # y # rest \<Rightarrow>
          let c = (a - 0xE0) * 4096 + (unat x - 0x80) * 64 + (unat y - 0x80) in
          if is_continuation x \<and> is_continuation y \<and> 0x800 \<le> c \<and> is_scalar c then Some (c, rest)
          else None
        | _ \<Rightarrow> None)
     else
       (case bs of x # y # z # rest \<Rightarrow>
          let c = (a - 0xF0) * 262144 + (unat x - 0x80) * 4096 + (unat y - 0x80) * 64 + (unat z - 0x80)
          in if is_continuation x \<and> is_continuation y \<and> is_continuation z \<and> 0x10000 \<le> c \<and> c < 0x110000
             then Some (c, rest) else None
        | _ \<Rightarrow> None))"

lemma utf8_next_shorter: "utf8_next bs = Some (c, rest) \<Longrightarrow> length rest < length bs"
  by (cases bs) (auto simp: Let_def split: if_splits list.splits)

function from_utf8 :: "byte list \<Rightarrow> rstr option" where
  "from_utf8 [] = Some []"
| "from_utf8 (b # bs) =
    (case utf8_next (b # bs) of None \<Rightarrow> None
     | Some (c, rest) \<Rightarrow> map_option (Cons c) (from_utf8 rest))"
  by pat_completeness auto
termination
  by (relation "measure length") (auto dest!: utf8_next_shorter simp del: utf8_next.simps)

lemma is_str_simps [simp]: "is_str []" "is_str (c # s) \<longleftrightarrow> is_scalar c \<and> is_str s"
  "is_str (s @ t) \<longleftrightarrow> is_str s \<and> is_str t"
  by (simp_all add: is_str_def)

lemma byte_less: "unat (b :: byte) < 256"
  using unsigned_less [of b] by simp

lemma div_mod_64: "y < 64 \<Longrightarrow> (x * 64 + y) div 64 = (x::nat)" "y < 64 \<Longrightarrow> (x * 64 + y) mod 64 = (y::nat)"
  by simp_all

text \<open>The decoder of one value inverts its encoder.\<close>

lemma utf8_next_encode:
  assumes "is_scalar c"
  shows "utf8_next (utf8_encode c @ bs) = Some (c, bs)"
proof -
  have "c < 0x110000" using assms by (simp add: is_scalar_def)
  note code = unat_utf8_encode [OF this]
  have digits: "c div 64 * 64 + c mod 64 = c" "c div 4096 * 64 + c div 64 mod 64 = c div 64"
    "c div 262144 * 64 + c div 4096 mod 64 = c div 4096"
    using div_mult_mod_eq [of c 64] div_mult_mod_eq [of "c div 64" 64]
      div_mult_mod_eq [of "c div 4096" 64]
    by (simp_all add: div_mult2_eq [symmetric])
  then have sums: "c div 4096 * 4096 + c div 64 mod 64 * 64 + c mod 64 = c"
    "c div 262144 * 262144 + c div 4096 mod 64 * 4096 + c div 64 mod 64 * 64 + c mod 64 = c"
    by linarith+
  consider "c < 0x80" | "0x80 \<le> c" "c < 0x800" | "0x800 \<le> c" "c < 0x10000" | "0x10000 \<le> c"
    by linarith
  then show ?thesis
  proof cases
    case 1
    then show ?thesis using code by (auto simp: map_eq_Cons_conv Let_def)
  next
    case 2
    then obtain x y where "utf8_encode c = [x, y]" "unat x = 0xC0 + c div 64" "unat y = 0x80 + c mod 64"
      using code by (auto simp: map_eq_Cons_conv)
    moreover have "c div 64 < 32" "2 \<le> c div 64" using 2 by linarith+
    ultimately show ?thesis using digits(1) by (simp add: Let_def is_continuation_def)
  next
    case 3
    then obtain x y z where "utf8_encode c = [x, y, z]" "unat x = 0xE0 + c div 4096"
      "unat y = 0x80 + c div 64 mod 64" "unat z = 0x80 + c mod 64"
      using code by (auto simp: map_eq_Cons_conv)
    moreover have "c div 4096 < 16" using 3 by linarith
    ultimately show ?thesis
      using sums(1) assms 3 by (simp add: Let_def is_continuation_def)
  next
    case 4
    then obtain x y z w where "utf8_encode c = [x, y, z, w]" "unat x = 0xF0 + c div 262144"
      "unat y = 0x80 + c div 4096 mod 64" "unat z = 0x80 + c div 64 mod 64" "unat w = 0x80 + c mod 64"
      using code by (auto simp: map_eq_Cons_conv)
    then show ?thesis
      using sums(2) \<open>c < 0x110000\<close> 4 by (simp add: Let_def is_continuation_def)
  qed
qed

text \<open>It accepts nothing else: bytes with the same value are the same bytes.\<close>

lemma continuationE:
  assumes "is_continuation b"
  obtains p where "unat b = 0x80 + p" and "p < 64"
  using assms by (auto simp: is_continuation_def dest!: le_Suc_ex)

lemma map_unat_inj: "map unat xs = map unat ys \<longleftrightarrow> xs = (ys :: byte list)"
  by (rule inj_map_eq_map) (auto intro: injI word_unat_eq_iff [THEN iffD2])

lemma base64_digits:
  assumes "x < 64" and "y < 64" and "z < (64::nat)"
  shows "(a * 64 + z) div 64 = a" "(a * 64 + z) mod 64 = z"
    "(a * 4096 + y * 64 + z) div 4096 = a" "(a * 4096 + y * 64 + z) div 64 mod 64 = y"
    "(a * 4096 + y * 64 + z) mod 64 = z"
    "(a * 262144 + x * 4096 + y * 64 + z) div 262144 = a"
    "(a * 262144 + x * 4096 + y * 64 + z) div 4096 mod 64 = x"
    "(a * 262144 + x * 4096 + y * 64 + z) div 64 mod 64 = y"
    "(a * 262144 + x * 4096 + y * 64 + z) mod 64 = z"
proof -
  have two: "a * 4096 + y * 64 + z = (a * 64 + y) * 64 + z"
    and three: "a * 262144 + x * 4096 + y * 64 + z = ((a * 64 + x) * 64 + y) * 64 + z" by simp_all
  have next1: "(4096::nat) = 64 * 64" and next2: "(262144::nat) = 64 * (64 * 64)" by simp_all
  show "(a * 64 + z) div 64 = a" "(a * 64 + z) mod 64 = z" using assms by simp_all
  show "(a * 4096 + y * 64 + z) div 4096 = a" "(a * 4096 + y * 64 + z) div 64 mod 64 = y"
    "(a * 4096 + y * 64 + z) mod 64 = z"
    unfolding two by (simp_all only: next1 div_mult2_eq div_mod_64 assms)
  show "(a * 262144 + x * 4096 + y * 64 + z) div 262144 = a"
    "(a * 262144 + x * 4096 + y * 64 + z) div 4096 mod 64 = x"
    "(a * 262144 + x * 4096 + y * 64 + z) div 64 mod 64 = y"
    "(a * 262144 + x * 4096 + y * 64 + z) mod 64 = z"
    unfolding three by (simp_all only: next1 next2 div_mult2_eq div_mod_64 assms)
qed

lemma utf8_next_sound:
  assumes "utf8_next bs = Some (c, rest)"
  shows "is_scalar c \<and> bs = utf8_encode c @ rest"
proof (cases bs)
  case (Cons b bs')
  define a where "a = unat b"
  have a: "a < 256" using byte_less by (simp add: a_def)
  consider "a < 0x80" | "0xC2 \<le> a" "a < 0xE0" | "0xE0 \<le> a" "a < 0xF0" | "0xF0 \<le> a"
    using assms Cons by (fastforce simp: Let_def a_def [symmetric] split: if_splits)
  then have "is_scalar c \<and> (c < 0x110000 \<longrightarrow> map unat bs = map unat (utf8_encode c @ rest))"
  proof cases
    case 1
    then show ?thesis using assms Cons
      by (simp add: Let_def a_def [symmetric] is_scalar_def unat_utf8_encode)
  next
    case 2
    then obtain x where bs': "bs' = x # rest" and x: "is_continuation x"
      and c: "c = (a - 0xC0) * 64 + (unat x - 0x80)"
      using assms Cons by (auto simp: Let_def a_def [symmetric] split: if_splits list.splits)
    obtain p where p: "unat x = 0x80 + p" "p < 64" using x by (rule continuationE)
    have "0xC0 \<le> a" using 2 by simp
    then obtain k where k: "a = 0xC0 + k" using le_Suc_ex by blast
    have "k * 64 + p < 0x800" "0x80 \<le> k * 64 + p" using 2 p k by linarith+
    then show ?thesis
      using Cons bs' k p unfolding c
      by (simp add: is_scalar_def unat_utf8_encode base64_digits a_def [symmetric])
  next
    case 3
    then obtain x y where bs': "bs' = x # y # rest" and xy: "is_continuation x" "is_continuation y"
      and c: "c = (a - 0xE0) * 4096 + (unat x - 0x80) * 64 + (unat y - 0x80)"
      and range: "0x800 \<le> c" "is_scalar c"
      using assms Cons by (auto simp: Let_def a_def [symmetric] split: if_splits list.splits)
    obtain p q where p: "unat x = 0x80 + p" "p < 64" and q: "unat y = 0x80 + q" "q < 64"
      using xy by (metis continuationE)
    obtain k where k: "a = 0xE0 + k" using le_Suc_ex [OF 3(1)] by auto
    have "k * 4096 + p * 64 + q < 0x10000" using 3 p q k by linarith
    then show ?thesis
      using range Cons bs' k p q unfolding c
      by (simp add: unat_utf8_encode base64_digits a_def [symmetric])
  next
    case 4
    then obtain x y z where bs': "bs' = x # y # z # rest"
      and xyz: "is_continuation x" "is_continuation y" "is_continuation z"
      and c: "c = (a - 0xF0) * 262144 + (unat x - 0x80) * 4096 + (unat y - 0x80) * 64 + (unat z - 0x80)"
      and range: "0x10000 \<le> c" "c < 0x110000"
      using assms Cons by (auto simp: Let_def a_def [symmetric] split: if_splits list.splits)
    obtain p q r where p: "unat x = 0x80 + p" "p < 64" and q: "unat y = 0x80 + q" "q < 64"
      and r: "unat z = 0x80 + r" "r < 64"
      using xyz by (metis continuationE)
    obtain k where k: "a = 0xF0 + k" using le_Suc_ex [OF 4] by auto
    then show ?thesis
      using range Cons bs' p q r unfolding c
      by (simp add: unat_utf8_encode base64_digits a_def [symmetric] is_scalar_def)
  qed
  then show ?thesis by (simp add: is_scalar_def map_unat_inj del: map_append)
qed (use assms in simp)

lemma utf8_encode_not_Nil [simp]: "utf8_encode c \<noteq> []"
  by (simp add: utf8_encode_def)

lemma from_utf8_Some:
  "from_utf8 bs = (if bs = [] then Some [] else
     case utf8_next bs of None \<Rightarrow> None | Some (c, rest) \<Rightarrow> map_option (Cons c) (from_utf8 rest))"
  by (cases bs) (simp_all del: utf8_next.simps)

lemma from_utf8_eq_Some_iff: "from_utf8 bs = Some s \<longleftrightarrow> is_str s \<and> bs = as_bytes s"
proof
  show "from_utf8 bs = Some s \<Longrightarrow> is_str s \<and> bs = as_bytes s"
  proof (induction bs arbitrary: s rule: from_utf8.induct)
    case (2 b bs)
    from "2.prems" obtain c rest t where step: "utf8_next (b # bs) = Some (c, rest)"
      and t: "from_utf8 rest = Some t" "s = c # t"
      by (auto split: option.splits simp del: utf8_next.simps)
    from "2.IH" [OF step refl t(1)] utf8_next_sound [OF step] t(2)
    show ?case by (simp add: as_bytes_def)
  qed (simp add: as_bytes_def)
  have "is_str s \<Longrightarrow> from_utf8 (as_bytes s) = Some s"
  proof (induction s)
    case (Cons c s)
    then have "utf8_next (as_bytes (c # s)) = Some (c, as_bytes s)"
      by (simp add: as_bytes_def utf8_next_encode)
    with Cons show ?case by (subst from_utf8_Some) (simp add: as_bytes_def)
  qed (simp add: as_bytes_def)
  then show "is_str s \<and> bs = as_bytes s \<Longrightarrow> from_utf8 bs = Some s" by simp
qed

end
