(* ===== verification/Stream_Framing.thy ===== *)
theory Stream_Framing
  imports Utf8_Decode Strings
begin

text \<open>
  Framing of provider streams: \<open>lorepia-provider-runtime/src/framing/sse.rs\<close> and
  \<open>framing/ndjson.rs\<close>, with the error type of \<open>error.rs\<close>. A framer keeps the bytes of an
  unfinished line between chunks. The interface \<open>framer\<close> says what the consumers rely on: pushing
  two chunks is pushing their concatenation, so the frames do not depend on how the network cut
  the body.
\<close>

section \<open>Errors\<close>

datatype RetryDecision =
    Never
  | RetryAfter nat
  | ExponentialBackoff nat nat

definition exponential :: RetryDecision where
  "exponential = ExponentialBackoff 1 30"

datatype RuntimeErrorKind =
    InvalidRequest | InvalidEndpoint | UnsafeEndpoint | DnsResolution | CredentialMismatch
  | InvalidCredential | Http | HttpStatus | UnexpectedContentType | StreamTooLarge | StreamProtocol
  | Provider | Cancelled | ConsumerClosed | Timeout

record RuntimeError =
  kind :: RuntimeErrorKind
  error_code :: rstr
  error_message :: rstr
  http_status :: "nat option"
  retry_decision :: RetryDecision

text \<open>\<open>truncate_utf8\<close> keeps the longest prefix of whole characters that fits.\<close>

fun char_boundary_prefix :: "nat \<Rightarrow> rstr \<Rightarrow> rstr" where
  "char_boundary_prefix n [] = []"
| "char_boundary_prefix n (c # s) =
    (if utf8_width c \<le> n then c # char_boundary_prefix (n - utf8_width c) s else [])"

definition truncate_utf8 :: "rstr \<Rightarrow> nat \<Rightarrow> rstr" where
  "truncate_utf8 value max_bytes =
    (if str_len value \<le> max_bytes then value else char_boundary_prefix max_bytes value)"

definition RuntimeError_new :: "RuntimeErrorKind \<Rightarrow> rstr \<Rightarrow> rstr \<Rightarrow> RuntimeError" where
  "RuntimeError_new k code message =
    \<lparr>kind = k, error_code = truncate_utf8 code 64, error_message = truncate_utf8 message 512,
     http_status = None, retry_decision = Never\<rparr>"

definition with_http_status :: "nat \<Rightarrow> RuntimeError \<Rightarrow> RuntimeError" where
  "with_http_status status e = e\<lparr>http_status := Some status\<rparr>"

definition retriable :: "bool \<Rightarrow> RuntimeError \<Rightarrow> RuntimeError" where
  "retriable b e = e\<lparr>retry_decision := (if b then exponential else Never)\<rparr>"

definition with_retry_decision :: "RetryDecision \<Rightarrow> RuntimeError \<Rightarrow> RuntimeError" where
  "with_retry_decision d e = e\<lparr>retry_decision := d\<rparr>"

definition is_retriable :: "RuntimeError \<Rightarrow> bool" where
  "is_retriable e \<longleftrightarrow> retry_decision e \<noteq> Never"

section \<open>Server-sent events\<close>

text \<open>\<open>str::split_once\<close>.\<close>

definition split_once :: "uchar \<Rightarrow> rstr \<Rightarrow> (rstr \<times> rstr) option" where
  "split_once c s = map_option (\<lambda>i. (take i s, drop (i + 1) s)) (position (\<lambda>d. d = c) s)"

fun join_lines :: "rstr list \<Rightarrow> rstr" where
  "join_lines [] = []"
| "join_lines [l] = l"
| "join_lines (l # ls) = l @ 10 # join_lines ls"

record SseFrame =
  frame_event :: "rstr option"
  frame_data :: rstr

record SseFramer =
  buffer :: "byte list"
  pending_event :: "rstr option"
  data_lines :: "rstr list"
  current_event_bytes :: nat
  max_frame_bytes :: nat
  first_line :: bool

definition SseFramer_new :: "nat \<Rightarrow> SseFramer" where
  "SseFramer_new limit =
    \<lparr>buffer = [], pending_event = None, data_lines = [], current_event_bytes = 0,
     max_frame_bytes = limit, first_line = True\<rparr>"

definition sse_too_large :: RuntimeError where
  "sse_too_large = RuntimeError_new StreamTooLarge (lit ''SSE_FRAME_TOO_LARGE'')
    (lit ''SSE frame exceeded the configured byte limit'')"

definition invalid_sse_utf8 :: RuntimeError where
  "invalid_sse_utf8 = RuntimeError_new StreamProtocol (lit ''INVALID_SSE_UTF8'')
    (lit ''SSE fields must be valid UTF-8'')"

definition incomplete_sse_frame :: RuntimeError where
  "incomplete_sse_frame = RuntimeError_new StreamProtocol (lit ''INCOMPLETE_SSE_FRAME'')
    (lit ''SSE stream ended in the middle of an event'')"

definition set_field :: "SseFramer \<Rightarrow> rstr \<Rightarrow> rstr \<Rightarrow> SseFramer" where
  "set_field f field v =
    (if field = lit ''event'' then f\<lparr>pending_event := Some v\<rparr>
     else if field = lit ''data'' then f\<lparr>data_lines := data_lines f @ [v]\<rparr>
     else f)"

definition process_line ::
    "SseFramer \<Rightarrow> byte list \<Rightarrow> SseFrame list \<Rightarrow> (RuntimeError, SseFramer \<times> SseFrame list) res" where
  "process_line f line frames =
    (if max_frame_bytes f < length line then Inl sse_too_large
     else if line = [] then
       (let cleared = f\<lparr>pending_event := None, data_lines := [], current_event_bytes := 0\<rparr> in
        Inr (cleared,
          if data_lines f \<noteq> []
          then frames @ [\<lparr>frame_event = pending_event f, frame_data = join_lines (data_lines f)\<rparr>]
          else frames))
     else if hd line = 58 then Inr (f, frames)
     else
       (let size = saturating_add (current_event_bytes f) (saturating_add (length line) 1);
            f = f\<lparr>current_event_bytes := size\<rparr> in
        if max_frame_bytes f < size then Inl sse_too_large
        else and_then (ok_or (from_utf8 line) invalid_sse_utf8) (\<lambda>text.
          let (field, raw) = (case split_once 58 text of Some p \<Rightarrow> p | None \<Rightarrow> (text, []));
              v = (if raw \<noteq> [] \<and> hd raw = 32 then tl raw else raw) in
          Inr (set_field f field v, frames))))"

definition strip_cr :: "byte list \<Rightarrow> byte list" where
  "strip_cr line = (if line \<noteq> [] \<and> last line = 13 then butlast line else line)"

definition strip_bom :: "byte list \<Rightarrow> byte list" where
  "strip_bom line = (if take 3 line = [0xEF, 0xBB, 0xBF] then drop 3 line else line)"

text \<open>One round of the loop of \<open>push\<close>: the line completed by the bytes before the newline.\<close>

definition sse_line ::
    "SseFramer \<Rightarrow> byte list \<Rightarrow> SseFrame list \<Rightarrow> (RuntimeError, SseFramer \<times> SseFrame list) res" where
  "sse_line f bytes frames =
    (if max_frame_bytes f < saturating_add (length (buffer f)) (length bytes) then Inl sse_too_large
     else
       (let line = strip_cr (buffer f @ bytes);
            text = (if first_line f then strip_bom line else line) in
        process_line (f\<lparr>buffer := [], first_line := False\<rparr>) text frames))"

lemma position_less: "position p xs = Some i \<Longrightarrow> i < length xs"
  by (induction xs arbitrary: i) (auto split: if_splits)

function sse_push_loop ::
    "SseFramer \<Rightarrow> byte list \<Rightarrow> SseFrame list \<Rightarrow> (RuntimeError, SseFramer \<times> SseFrame list) res" where
  "sse_push_loop f remaining frames =
    (case position (\<lambda>b. b = 10) remaining of
       Some newline \<Rightarrow>
         and_then (sse_line f (take newline remaining) frames) (\<lambda>(f, frames).
           sse_push_loop f (drop (newline + 1) remaining) frames)
     | None \<Rightarrow>
         if max_frame_bytes f < saturating_add (length (buffer f)) (length remaining)
         then Inl sse_too_large
         else Inr (f\<lparr>buffer := buffer f @ remaining\<rparr>, frames))"
  by pat_completeness auto
termination
  by (relation "measure (\<lambda>(_, bytes, _). length bytes)") (auto dest: position_less)

definition sse_push :: "SseFramer \<Rightarrow> byte list \<Rightarrow> (RuntimeError, SseFramer \<times> SseFrame list) res" where
  "sse_push f bytes = sse_push_loop f bytes []"

definition sse_finish :: "SseFramer \<Rightarrow> (RuntimeError, unit) res" where
  "sse_finish f =
    (if buffer f = [] \<and> pending_event f = None \<and> data_lines f = [] then Inr ()
     else Inl incomplete_sse_frame)"

section \<open>Newline-delimited JSON\<close>

record NdjsonFramer =
  nd_buffer :: "byte list"
  nd_max_frame_bytes :: nat

definition NdjsonFramer_new :: "nat \<Rightarrow> NdjsonFramer" where
  "NdjsonFramer_new limit = \<lparr>nd_buffer = [], nd_max_frame_bytes = limit\<rparr>"

definition ndjson_too_large :: RuntimeError where
  "ndjson_too_large = RuntimeError_new StreamTooLarge (lit ''NDJSON_FRAME_TOO_LARGE'')
    (lit ''NDJSON frame exceeded the configured byte limit'')"

definition invalid_ndjson_utf8 :: RuntimeError where
  "invalid_ndjson_utf8 = RuntimeError_new StreamProtocol (lit ''INVALID_NDJSON_UTF8'')
    (lit ''NDJSON frames must be valid UTF-8'')"

definition parse_line :: "byte list \<Rightarrow> (RuntimeError, rstr) res" where
  "parse_line line = ok_or (from_utf8 line) invalid_ndjson_utf8"

definition ndjson_line ::
    "NdjsonFramer \<Rightarrow> byte list \<Rightarrow> rstr list \<Rightarrow> (RuntimeError, NdjsonFramer \<times> rstr list) res" where
  "ndjson_line f bytes frames =
    (if nd_max_frame_bytes f < saturating_add (length (nd_buffer f)) (length bytes)
     then Inl ndjson_too_large
     else
       (let line = strip_cr (nd_buffer f @ bytes); f = f\<lparr>nd_buffer := []\<rparr> in
        if line \<noteq> [] then and_then (parse_line line) (\<lambda>text. Inr (f, frames @ [text]))
        else Inr (f, frames)))"

function ndjson_push_loop ::
    "NdjsonFramer \<Rightarrow> byte list \<Rightarrow> rstr list \<Rightarrow> (RuntimeError, NdjsonFramer \<times> rstr list) res" where
  "ndjson_push_loop f remaining frames =
    (case position (\<lambda>b. b = 10) remaining of
       Some newline \<Rightarrow>
         and_then (ndjson_line f (take newline remaining) frames) (\<lambda>(f, frames).
           ndjson_push_loop f (drop (newline + 1) remaining) frames)
     | None \<Rightarrow>
         if nd_max_frame_bytes f < saturating_add (length (nd_buffer f)) (length remaining)
         then Inl ndjson_too_large
         else Inr (f\<lparr>nd_buffer := nd_buffer f @ remaining\<rparr>, frames))"
  by pat_completeness auto
termination
  by (relation "measure (\<lambda>(_, bytes, _). length bytes)") (auto dest: position_less)

definition ndjson_push :: "NdjsonFramer \<Rightarrow> byte list \<Rightarrow> (RuntimeError, NdjsonFramer \<times> rstr list) res" where
  "ndjson_push f bytes = ndjson_push_loop f bytes []"

definition ndjson_finish :: "NdjsonFramer \<Rightarrow> (RuntimeError, rstr list) res" where
  "ndjson_finish f =
    (let line = strip_cr (nd_buffer f) in
     if line = [] then Inr [] else and_then (parse_line line) (\<lambda>text. Inr [text]))"

declare sse_push_loop.simps [simp del] ndjson_push_loop.simps [simp del]

end
