(* ===== verification/Stream_Decode.thy ===== *)
theory Stream_Decode
  imports Stream_Framing Json
begin

text \<open>
  The provider decoders: \<open>lorepia-provider-runtime/src/event.rs\<close> and \<open>decode/\<close>. Each decoder is a
  state machine from frames to events; the JSON parser is the argument \<open>parse\<close>. Errors are named
  constants, because they are built from literals only.
\<close>

section \<open>Events\<close>

record TokenUsage =
  input_tokens :: "nat option"
  output_tokens :: "nat option"
  reasoning_tokens :: "nat option"
  cached_input_tokens :: "nat option"
  total_tokens :: "nat option"

definition TokenUsage_default :: TokenUsage where
  "TokenUsage_default =
    \<lparr>input_tokens = None, output_tokens = None, reasoning_tokens = None,
     cached_input_tokens = None, total_tokens = None\<rparr>"

definition newest :: "nat option \<Rightarrow> nat option \<Rightarrow> nat option" where
  "newest old new = (if new \<noteq> None then new else old)"

definition merge_from :: "TokenUsage \<Rightarrow> TokenUsage \<Rightarrow> TokenUsage" where
  "merge_from usage newer =
    \<lparr>input_tokens = newest (input_tokens usage) (input_tokens newer),
     output_tokens = newest (output_tokens usage) (output_tokens newer),
     reasoning_tokens = newest (reasoning_tokens usage) (reasoning_tokens newer),
     cached_input_tokens = newest (cached_input_tokens usage) (cached_input_tokens newer),
     total_tokens = newest (total_tokens usage) (total_tokens newer)\<rparr>"

definition usage_is_empty :: "TokenUsage \<Rightarrow> bool" where
  "usage_is_empty usage \<longleftrightarrow> usage = TokenUsage_default"

datatype CompletionReason = Stop | Length | ContentFilter | Refusal | ResourceLimit | Other rstr

datatype ProviderStreamEvent =
    ProviderResponseId rstr
  | TextDelta rstr
  | ReasoningDelta rstr
  | RefusalDelta rstr
  | Usage TokenUsage

datatype ProviderRunOutcome =
    Completed "CompletionReason option" "TokenUsage option"
  | RunCancelled

record DecodedFrame =
  events :: "ProviderStreamEvent list"
  terminal :: "ProviderRunOutcome option"

section \<open>Shared parts of the decoders\<close>

definition completed :: "CompletionReason option \<Rightarrow> TokenUsage \<Rightarrow> ProviderRunOutcome" where
  "completed reason usage = Completed reason (if usage_is_empty usage then None else Some usage)"

definition protocol_error :: "string \<Rightarrow> string \<Rightarrow> RuntimeError" where
  "protocol_error code message = RuntimeError_new StreamProtocol (lit code) (lit message)"

definition unexpected_tool_event :: RuntimeError where
  "unexpected_tool_event = RuntimeError_new Provider (lit ''UNEXPECTED_TOOL_EVENT'')
    (lit ''provider emitted a tool event although tools are disabled'')"

definition google_prompt_blocked :: RuntimeError where
  "google_prompt_blocked = RuntimeError_new Provider (lit ''GOOGLE_PROMPT_BLOCKED'')
    (lit ''provider blocked the request according to its safety policy'')"

definition provider_stream_error :: RuntimeError where
  "provider_stream_error = RuntimeError_new Provider (lit ''PROVIDER_STREAM_ERROR'')
    (lit ''provider reported a streaming error'')"

definition provider_error :: "rstr \<Rightarrow> rstr \<Rightarrow> RuntimeError" where
  "provider_error code message =
    (if code = lit ''UNEXPECTED_TOOL_EVENT'' then unexpected_tool_event
     else if code = lit ''GOOGLE_PROMPT_BLOCKED'' then google_prompt_blocked
     else provider_stream_error)"

definition invalid_response_id :: RuntimeError where
  "invalid_response_id = protocol_error ''INVALID_PROVIDER_RESPONSE_ID''
    ''provider response id was missing, oversized, or contained unsafe characters''"

definition response_id_event :: "rstr \<Rightarrow> (RuntimeError, ProviderStreamEvent) res" where
  "response_id_event response_id =
    (if response_id = [] \<or> 256 < str_len response_id \<or>
        \<not> list_all (\<lambda>c. is_ascii_alphanumeric c \<or> c = 95 \<or> c = 45 \<or> c = 46) response_id
     then Inl invalid_response_id
     else Inr (ProviderResponseId response_id))"

definition invalid_provider_json :: RuntimeError where
  "invalid_provider_json =
    protocol_error ''INVALID_PROVIDER_JSON'' ''provider stream contained malformed JSON''"

definition parse_provider_json :: "(rstr \<Rightarrow> json option) \<Rightarrow> rstr \<Rightarrow> (RuntimeError, json) res" where
  "parse_provider_json parse text = ok_or (parse text) invalid_provider_json"

text \<open>
  \<open>value.get(key)\<close> with a reader, and \<open>value.pointer("/a/b")\<close>, whose names here are never array
  indices.
\<close>

fun json_pointer :: "string list \<Rightarrow> json \<Rightarrow> json option" where
  "json_pointer [] v = Some v"
| "json_pointer (k # ks) v = Option.bind (json_get (lit k) v) (json_pointer ks)"

definition str_at :: "string list \<Rightarrow> json \<Rightarrow> rstr option" where
  "str_at path v = Option.bind (json_pointer path v) json_str"

definition value_u64 :: "json \<Rightarrow> string list \<Rightarrow> nat option" where
  "value_u64 v path = Option.bind (json_pointer path v) json_u64"

fun json_bool :: "json \<Rightarrow> bool option" where
  "json_bool (JBool b) = Some b"
| "json_bool _ = None"

definition array_at :: "string list \<Rightarrow> json \<Rightarrow> json list option" where
  "array_at path v = Option.bind (json_pointer path v) json_array"

definition bool_at :: "string list \<Rightarrow> json \<Rightarrow> bool option" where
  "bool_at path v = Option.bind (json_pointer path v) json_bool"

definition has_at :: "string list \<Rightarrow> json \<Rightarrow> bool" where
  "has_at path v \<longleftrightarrow> json_pointer path v \<noteq> None"

definition unwrap_or :: "'a option \<Rightarrow> 'a \<Rightarrow> 'a" where
  "unwrap_or v d = (case v of Some x \<Rightarrow> x | None \<Rightarrow> d)"

definition map_common_reason :: "rstr \<Rightarrow> CompletionReason" where
  "map_common_reason reason =
    (let r = to_ascii_lowercase reason in
     if r \<in> lit ` set [''stop'', ''end_turn'', ''stop_sequence''] then Stop
     else if r \<in> lit ` set [''length'', ''max_tokens'', ''max_output_tokens''] then Length
     else if r \<in> lit ` set [''content_filter'', ''safety'', ''recitation'', ''blocklist'',
       ''prohibited_content'', ''spii'', ''image_safety'', ''refusal''] then ContentFilter
     else if r \<in> lit ` set [''insufficient_system_resource'', ''resource_limit''] then ResourceLimit
     else Other (lit ''other''))"

definition event_after_terminal :: RuntimeError where
  "event_after_terminal =
    protocol_error ''EVENT_AFTER_TERMINAL'' ''provider emitted data after a terminal event''"

definition ensure_no_terminal :: "ProviderRunOutcome option \<Rightarrow> (RuntimeError, unit) res" where
  "ensure_no_terminal t = (if t \<noteq> None then Inl event_after_terminal else Inr ())"

definition add_counts :: "nat option \<Rightarrow> nat option \<Rightarrow> nat option" where
  "add_counts a b = (case (a, b) of (Some x, Some y) \<Rightarrow> Some (saturating_add x y) | _ \<Rightarrow> None)"

text \<open>\<open>if let Some(text) = ... && !text.is_empty() { output.events.push(...) }\<close>.\<close>

definition delta_event :: "(rstr \<Rightarrow> ProviderStreamEvent) \<Rightarrow> rstr option \<Rightarrow> ProviderStreamEvent list" where
  "delta_event event text = (case text of Some t \<Rightarrow> if t \<noteq> [] then [event t] else [] | None \<Rightarrow> [])"

definition usage_event :: "TokenUsage \<Rightarrow> ProviderStreamEvent list" where
  "usage_event usage = (if usage_is_empty usage then [] else [Usage usage])"

section \<open>OpenAI\<close>

record OpenAiDecoder =
  openai_usage :: TokenUsage
  openai_terminal :: "ProviderRunOutcome option"
  openai_id_seen :: bool

definition openai_missing_type :: RuntimeError where
  "openai_missing_type = protocol_error ''MISSING_EVENT_TYPE'' ''OpenAI event did not contain type''"

definition openai_type_mismatch :: RuntimeError where
  "openai_type_mismatch =
    protocol_error ''EVENT_TYPE_MISMATCH'' ''OpenAI SSE event name did not match its JSON type''"

definition openai_invalid_delta :: RuntimeError where
  "openai_invalid_delta =
    protocol_error ''INVALID_TEXT_DELTA'' ''OpenAI delta event did not contain text''"

definition openai_missing_terminal :: RuntimeError where
  "openai_missing_terminal = protocol_error ''MISSING_TERMINAL_EVENT''
    ''OpenAI stream ended without a terminal response event''"

definition required_delta :: "json \<Rightarrow> (RuntimeError, rstr) res" where
  "required_delta v = ok_or (str_at [''delta''] v) openai_invalid_delta"

definition openai_merge_usage :: "TokenUsage \<Rightarrow> json \<Rightarrow> TokenUsage" where
  "openai_merge_usage usage v = merge_from usage
    \<lparr>input_tokens = value_u64 v [''response'', ''usage'', ''input_tokens''],
     output_tokens = value_u64 v [''response'', ''usage'', ''output_tokens''],
     reasoning_tokens =
       value_u64 v [''response'', ''usage'', ''output_tokens_details'', ''reasoning_tokens''],
     cached_input_tokens =
       value_u64 v [''response'', ''usage'', ''input_tokens_details'', ''cached_tokens''],
     total_tokens = value_u64 v [''response'', ''usage'', ''total_tokens'']\<rparr>"

definition openai_complete ::
    "OpenAiDecoder \<Rightarrow> json \<Rightarrow> CompletionReason \<Rightarrow> OpenAiDecoder \<times> DecodedFrame" where
  "openai_complete d v reason =
    (let usage = openai_merge_usage (openai_usage d) v; t = completed (Some reason) usage in
     (d\<lparr>openai_usage := usage, openai_terminal := Some t\<rparr>, \<lparr>events = [], terminal = Some t\<rparr>))"

definition openai_event ::
    "OpenAiDecoder \<Rightarrow> rstr \<Rightarrow> json \<Rightarrow> (RuntimeError, OpenAiDecoder \<times> DecodedFrame) res" where
  "openai_event d event_type v =
    (let emit = (\<lambda>event. and_then (required_delta v) (\<lambda>text.
           Inr (d, \<lparr>events = [event text], terminal = None\<rparr>)));
         nothing = \<lparr>events = [], terminal = None\<rparr> in
     if event_type = lit ''response.created'' then
       (case (openai_id_seen d, str_at [''response'', ''id''] v) of
          (False, Some response_id) \<Rightarrow>
            and_then (response_id_event response_id) (\<lambda>event.
              Inr (d\<lparr>openai_id_seen := True\<rparr>, \<lparr>events = [event], terminal = None\<rparr>))
        | _ \<Rightarrow> Inr (d, nothing))
     else if event_type = lit ''response.output_text.delta'' then emit TextDelta
     else if event_type = lit ''response.reasoning_summary_text.delta'' then emit ReasoningDelta
     else if event_type = lit ''response.refusal.delta'' then emit RefusalDelta
     else if event_type = lit ''response.completed'' then Inr (openai_complete d v Stop)
     else if event_type = lit ''response.incomplete'' then
       Inr (openai_complete d v
         (case str_at [''response'', ''incomplete_details'', ''reason''] v of
            Some r \<Rightarrow> map_common_reason r | None \<Rightarrow> Length))
     else if event_type = lit ''response.failed'' then
       Inl (provider_error
         (unwrap_or (str_at [''response'', ''error'', ''code''] v) (lit ''OPENAI_RESPONSE_FAILED''))
         (unwrap_or (str_at [''response'', ''error'', ''message''] v) (lit ''OpenAI response failed'')))
     else if event_type = lit ''error'' then
       Inl (provider_error (unwrap_or (str_at [''code''] v) (lit ''OPENAI_STREAM_ERROR''))
         (unwrap_or (str_at [''message''] v) (lit ''OpenAI stream failed'')))
     else Inr (d, nothing))"

definition openai_decode ::
    "(rstr \<Rightarrow> json option) \<Rightarrow> OpenAiDecoder \<Rightarrow> SseFrame \<Rightarrow>
      (RuntimeError, OpenAiDecoder \<times> DecodedFrame) res" where
  "openai_decode parse d frame =
    and_then (ensure_no_terminal (openai_terminal d)) (\<lambda>_.
    and_then (parse_provider_json parse (frame_data frame)) (\<lambda>v.
    and_then (ok_or (str_at [''type''] v) openai_missing_type) (\<lambda>event_type.
      if (case frame_event frame of None \<Rightarrow> False
          | Some name \<Rightarrow> name \<noteq> lit ''message'' \<and> name \<noteq> event_type)
      then Inl openai_type_mismatch
      else if contains_str (lit ''_call'') event_type
      then Inl (provider_error (lit ''UNEXPECTED_TOOL_EVENT'')
        (lit ''provider emitted a tool call although tools are disabled''))
      else openai_event d event_type v)))"

definition openai_finish :: "OpenAiDecoder \<Rightarrow> (RuntimeError, ProviderRunOutcome) res" where
  "openai_finish d = ok_or (openai_terminal d) openai_missing_terminal"

section \<open>Anthropic\<close>

record AnthropicDecoder =
  anthropic_usage :: TokenUsage
  anthropic_terminal :: "ProviderRunOutcome option"
  anthropic_finish_reason :: "rstr option"
  anthropic_id_seen :: bool

definition anthropic_missing_type :: RuntimeError where
  "anthropic_missing_type =
    protocol_error ''MISSING_EVENT_TYPE'' ''Anthropic event did not contain type''"

definition anthropic_type_mismatch :: RuntimeError where
  "anthropic_type_mismatch =
    protocol_error ''EVENT_TYPE_MISMATCH'' ''Anthropic SSE event name did not match its JSON type''"

definition invalid_content_block :: RuntimeError where
  "invalid_content_block =
    protocol_error ''INVALID_CONTENT_BLOCK'' ''Anthropic content block did not contain a type''"

definition untyped_content_delta :: RuntimeError where
  "untyped_content_delta =
    protocol_error ''INVALID_CONTENT_DELTA'' ''Anthropic content delta did not contain a delta type''"

definition empty_content_delta :: RuntimeError where
  "empty_content_delta =
    protocol_error ''INVALID_CONTENT_DELTA'' ''Anthropic content delta was missing text''"

definition anthropic_missing_terminal :: RuntimeError where
  "anthropic_missing_terminal =
    protocol_error ''MISSING_TERMINAL_EVENT'' ''Anthropic stream ended without message_stop''"

definition required_string :: "json \<Rightarrow> string list \<Rightarrow> (RuntimeError, rstr) res" where
  "required_string v path = ok_or (str_at path v) empty_content_delta"

definition merge_start_usage :: "TokenUsage \<Rightarrow> json \<Rightarrow> TokenUsage" where
  "merge_start_usage usage v =
    (let input = value_u64 v [''message'', ''usage'', ''input_tokens''];
         cached = value_u64 v [''message'', ''usage'', ''cache_read_input_tokens''] in
     merge_from usage (TokenUsage_default
       \<lparr>input_tokens := input,
        output_tokens := value_u64 v [''message'', ''usage'', ''output_tokens''],
        cached_input_tokens := cached,
        total_tokens := add_counts input (value_u64 v [''message'', ''usage'', ''output_tokens''])\<rparr>))"

definition content_block_delta ::
    "AnthropicDecoder \<Rightarrow> json \<Rightarrow> (RuntimeError, AnthropicDecoder \<times> DecodedFrame) res" where
  "content_block_delta d v =
    (case str_at [''delta'', ''type''] v of
       None \<Rightarrow> Inl untyped_content_delta
     | Some t \<Rightarrow>
         if t = lit ''text_delta'' then
           and_then (required_string v [''delta'', ''text'']) (\<lambda>text.
             Inr (d, \<lparr>events = [TextDelta text], terminal = None\<rparr>))
         else if t = lit ''thinking_delta'' then
           and_then (required_string v [''delta'', ''thinking'']) (\<lambda>text.
             Inr (d, \<lparr>events = [ReasoningDelta text], terminal = None\<rparr>))
         else if t = lit ''signature_delta'' then Inr (d, \<lparr>events = [], terminal = None\<rparr>)
         else if t = lit ''input_json_delta'' then
           Inl (provider_error (lit ''UNEXPECTED_TOOL_EVENT'')
             (lit ''provider emitted tool input although tools are disabled''))
         else Inr (d, \<lparr>events = [], terminal = None\<rparr>))"

definition anthropic_event ::
    "AnthropicDecoder \<Rightarrow> rstr \<Rightarrow> json \<Rightarrow> (RuntimeError, AnthropicDecoder \<times> DecodedFrame) res" where
  "anthropic_event d event_type v =
    (let nothing = \<lparr>events = [], terminal = None\<rparr> in
     if event_type = lit ''message_start'' then
       and_then
         (case (anthropic_id_seen d, str_at [''message'', ''id''] v) of
            (False, Some response_id) \<Rightarrow>
              and_then (response_id_event response_id) (\<lambda>event.
                Inr (d\<lparr>anthropic_id_seen := True\<rparr>, [event]))
          | _ \<Rightarrow> Inr (d, []))
         (\<lambda>(d, evs).
           Inr (d\<lparr>anthropic_usage := merge_start_usage (anthropic_usage d) v\<rparr>,
             \<lparr>events = evs, terminal = None\<rparr>))
     else if event_type = lit ''content_block_start'' then
       and_then (ok_or (str_at [''content_block'', ''type''] v) invalid_content_block) (\<lambda>block.
         if block \<notin> lit ` set [''text'', ''thinking'', ''redacted_thinking'']
         then Inl (provider_error (lit ''UNEXPECTED_TOOL_EVENT'')
           (lit ''provider emitted a non-text content block although tools are disabled''))
         else Inr (d, nothing))
     else if event_type = lit ''content_block_delta'' then content_block_delta d v
     else if event_type = lit ''message_delta'' then
       (let d = (case str_at [''delta'', ''stop_reason''] v of
              Some reason \<Rightarrow> d\<lparr>anthropic_finish_reason := Some reason\<rparr> | None \<Rightarrow> d) in
        Inr (d\<lparr>anthropic_usage := merge_from (anthropic_usage d)
               (TokenUsage_default\<lparr>output_tokens := value_u64 v [''usage'', ''output_tokens'']\<rparr>)\<rparr>,
          nothing))
     else if event_type = lit ''message_stop'' then
       (let t = completed (map_option map_common_reason (anthropic_finish_reason d))
              (anthropic_usage d) in
        Inr (d\<lparr>anthropic_terminal := Some t\<rparr>, \<lparr>events = [], terminal = Some t\<rparr>))
     else if event_type = lit ''error'' then
       Inl (provider_error
         (unwrap_or (str_at [''error'', ''type''] v) (lit ''ANTHROPIC_STREAM_ERROR''))
         (unwrap_or (str_at [''error'', ''message''] v) (lit ''Anthropic stream failed'')))
     else Inr (d, nothing))"

definition anthropic_decode ::
    "(rstr \<Rightarrow> json option) \<Rightarrow> AnthropicDecoder \<Rightarrow> SseFrame \<Rightarrow>
      (RuntimeError, AnthropicDecoder \<times> DecodedFrame) res" where
  "anthropic_decode parse d frame =
    and_then (ensure_no_terminal (anthropic_terminal d)) (\<lambda>_.
    and_then (parse_provider_json parse (frame_data frame)) (\<lambda>v.
    and_then (ok_or (str_at [''type''] v) anthropic_missing_type) (\<lambda>event_type.
      if (case frame_event frame of None \<Rightarrow> False | Some name \<Rightarrow> name \<noteq> event_type)
      then Inl anthropic_type_mismatch
      else anthropic_event d event_type v)))"

definition anthropic_finish :: "AnthropicDecoder \<Rightarrow> (RuntimeError, ProviderRunOutcome) res" where
  "anthropic_finish d = ok_or (anthropic_terminal d) anthropic_missing_terminal"

section \<open>DeepSeek\<close>

record DeepSeekDecoder =
  deepseek_usage :: TokenUsage
  deepseek_terminal :: "ProviderRunOutcome option"
  deepseek_finish_reason :: "rstr option"
  deepseek_response_id :: "rstr option"

definition deepseek_id_changed :: RuntimeError where
  "deepseek_id_changed =
    protocol_error ''RESPONSE_ID_CHANGED'' ''DeepSeek response id changed during a stream''"

definition missing_choices :: RuntimeError where
  "missing_choices = protocol_error ''INVALID_CHAT_CHUNK'' ''DeepSeek chunk did not contain choices''"

definition multiple_choices :: RuntimeError where
  "multiple_choices =
    protocol_error ''MULTIPLE_CHOICES'' ''LorePia accepts exactly one streamed completion choice''"

definition invalid_choice_index :: RuntimeError where
  "invalid_choice_index =
    protocol_error ''INVALID_CHOICE_INDEX'' ''DeepSeek streamed a nonzero choice index''"

definition missing_delta :: RuntimeError where
  "missing_delta = protocol_error ''INVALID_CHAT_CHUNK'' ''DeepSeek choice did not contain delta''"

definition missing_done_marker :: RuntimeError where
  "missing_done_marker = protocol_error ''MISSING_DONE_MARKER'' ''DeepSeek stream ended without [DONE]''"

text \<open>The identifier of a chunk must stay the first one; it is announced once.\<close>

definition announce_id ::
    "RuntimeError \<Rightarrow> rstr option \<Rightarrow> rstr option \<Rightarrow>
      (RuntimeError, rstr option \<times> ProviderStreamEvent list) res" where
  "announce_id changed known given =
    (case given of
       None \<Rightarrow> Inr (known, [])
     | Some response_id \<Rightarrow>
         if known = Some response_id then Inr (known, [])
         else if known \<noteq> None then Inl changed
         else and_then (response_id_event response_id) (\<lambda>event. Inr (Some response_id, [event])))"

definition deepseek_merge_usage :: "TokenUsage \<Rightarrow> json \<Rightarrow> TokenUsage" where
  "deepseek_merge_usage usage v = merge_from usage
    \<lparr>input_tokens = value_u64 v [''usage'', ''prompt_tokens''],
     output_tokens = value_u64 v [''usage'', ''completion_tokens''],
     reasoning_tokens = value_u64 v [''usage'', ''completion_tokens_details'', ''reasoning_tokens''],
     cached_input_tokens = value_u64 v [''usage'', ''prompt_cache_hit_tokens''],
     total_tokens = value_u64 v [''usage'', ''total_tokens'']\<rparr>"

definition has_tool_calls :: "json \<Rightarrow> bool" where
  "has_tool_calls v \<longleftrightarrow> (case array_at [''tool_calls''] v of None \<Rightarrow> False | Some calls \<Rightarrow> calls \<noteq> [])"

definition deepseek_choice ::
    "DeepSeekDecoder \<Rightarrow> json \<Rightarrow> (RuntimeError, DeepSeekDecoder \<times> ProviderStreamEvent list) res" where
  "deepseek_choice d choice =
    (if value_u64 choice [''index''] \<noteq> Some 0 then Inl invalid_choice_index
     else and_then (ok_or (json_pointer [''delta''] choice) missing_delta) (\<lambda>delta.
       if has_tool_calls delta
       then Inl (provider_error (lit ''UNEXPECTED_TOOL_EVENT'')
         (lit ''provider emitted a tool call although tools are disabled''))
       else
         (let evs = delta_event ReasoningDelta (str_at [''reasoning_content''] delta) @
                delta_event TextDelta (str_at [''content''] delta) in
          case str_at [''finish_reason''] choice of
            None \<Rightarrow> Inr (d, evs)
          | Some reason \<Rightarrow>
              if reason = lit ''tool_calls''
              then Inl (provider_error (lit ''UNEXPECTED_TOOL_EVENT'')
                (lit ''provider stopped for a tool call although tools are disabled''))
              else Inr (d\<lparr>deepseek_finish_reason := Some reason\<rparr>, evs))))"

definition deepseek_chunk ::
    "DeepSeekDecoder \<Rightarrow> json \<Rightarrow> (RuntimeError, DeepSeekDecoder \<times> DecodedFrame) res" where
  "deepseek_chunk d v =
    (case json_pointer [''error''] v of
       Some error \<Rightarrow>
         Inl (provider_error (unwrap_or (str_at [''code''] error) (lit ''DEEPSEEK_STREAM_ERROR''))
           (unwrap_or (str_at [''message''] error) (lit ''DeepSeek stream failed'')))
     | None \<Rightarrow>
         and_then (announce_id deepseek_id_changed (deepseek_response_id d) (str_at [''id''] v))
           (\<lambda>(known, announced).
         let d = d\<lparr>deepseek_response_id := known,
               deepseek_usage := deepseek_merge_usage (deepseek_usage d) v\<rparr> in
         and_then (ok_or (array_at [''choices''] v) missing_choices) (\<lambda>choices.
         if 1 < length choices then Inl multiple_choices
         else and_then
           (case choices of [] \<Rightarrow> Inr (d, []) | choice # _ \<Rightarrow> deepseek_choice d choice)
           (\<lambda>(d, evs).
             Inr (d, \<lparr>events = announced @ evs @ usage_event (deepseek_usage d),
                      terminal = None\<rparr>)))))"

definition deepseek_decode ::
    "(rstr \<Rightarrow> json option) \<Rightarrow> DeepSeekDecoder \<Rightarrow> SseFrame \<Rightarrow>
      (RuntimeError, DeepSeekDecoder \<times> DecodedFrame) res" where
  "deepseek_decode parse d frame =
    and_then (ensure_no_terminal (deepseek_terminal d)) (\<lambda>_.
      if trim (frame_data frame) = lit ''[DONE]'' then
        (let t = completed (map_option map_common_reason (deepseek_finish_reason d))
               (deepseek_usage d) in
         Inr (d\<lparr>deepseek_terminal := Some t\<rparr>, \<lparr>events = [], terminal = Some t\<rparr>))
      else and_then (parse_provider_json parse (frame_data frame)) (deepseek_chunk d))"

definition deepseek_finish :: "DeepSeekDecoder \<Rightarrow> (RuntimeError, ProviderRunOutcome) res" where
  "deepseek_finish d = ok_or (deepseek_terminal d) missing_done_marker"

section \<open>Google\<close>

record GoogleDecoder =
  google_usage :: TokenUsage
  google_terminal :: "ProviderRunOutcome option"
  google_response_id :: "rstr option"

definition google_id_changed :: RuntimeError where
  "google_id_changed =
    protocol_error ''RESPONSE_ID_CHANGED'' ''Google response id changed during a stream''"

definition multiple_candidates :: RuntimeError where
  "multiple_candidates =
    protocol_error ''MULTIPLE_CANDIDATES'' ''LorePia accepts exactly one streamed candidate''"

definition invalid_candidate_index :: RuntimeError where
  "invalid_candidate_index =
    protocol_error ''INVALID_CANDIDATE_INDEX'' ''Google streamed a nonzero candidate index''"

definition google_missing_terminal :: RuntimeError where
  "google_missing_terminal =
    protocol_error ''MISSING_TERMINAL_EVENT'' ''Google stream ended without candidate finishReason''"

definition google_merge_usage :: "TokenUsage \<Rightarrow> json \<Rightarrow> TokenUsage" where
  "google_merge_usage usage v = merge_from usage
    \<lparr>input_tokens = value_u64 v [''usageMetadata'', ''promptTokenCount''],
     output_tokens = value_u64 v [''usageMetadata'', ''candidatesTokenCount''],
     reasoning_tokens = value_u64 v [''usageMetadata'', ''thoughtsTokenCount''],
     cached_input_tokens = value_u64 v [''usageMetadata'', ''cachedContentTokenCount''],
     total_tokens = value_u64 v [''usageMetadata'', ''totalTokenCount'']\<rparr>"

definition google_part ::
    "ProviderStreamEvent list \<Rightarrow> json \<Rightarrow> (RuntimeError, ProviderStreamEvent list) res" where
  "google_part evs part =
    (if has_at [''functionCall''] part \<or> has_at [''toolCall''] part \<or> has_at [''executableCode''] part
     then Inl (provider_error (lit ''UNEXPECTED_TOOL_EVENT'')
       (lit ''provider emitted executable or tool content although tools are disabled''))
     else Inr (evs @ delta_event
       (if bool_at [''thought''] part = Some True then ReasoningDelta else TextDelta)
       (str_at [''text''] part)))"

definition google_candidate ::
    "GoogleDecoder \<Rightarrow> json \<Rightarrow> ProviderStreamEvent list \<Rightarrow>
      (RuntimeError, GoogleDecoder \<times> ProviderStreamEvent list \<times> ProviderRunOutcome option) res" where
  "google_candidate d candidate evs =
    (if unwrap_or (value_u64 candidate [''index'']) 0 \<noteq> 0 then Inl invalid_candidate_index
     else and_then
       (case array_at [''content'', ''parts''] candidate of
          Some parts \<Rightarrow> try_fold google_part evs parts | None \<Rightarrow> Inr evs)
       (\<lambda>evs.
         case str_at [''finishReason''] candidate of
           None \<Rightarrow> Inr (d, evs, None)
         | Some reason \<Rightarrow>
             if reason \<in> lit ` set [''UNEXPECTED_TOOL_CALL'', ''TOO_MANY_TOOL_CALLS'',
               ''MALFORMED_FUNCTION_CALL'']
             then Inl (provider_error (lit ''UNEXPECTED_TOOL_EVENT'')
               (lit ''Google stopped for a disabled tool action: '' @ reason))
             else
               (let t = completed (Some (map_common_reason reason)) (google_usage d) in
                Inr (d\<lparr>google_terminal := Some t\<rparr>, evs, Some t))))"

definition google_chunk ::
    "GoogleDecoder \<Rightarrow> json \<Rightarrow> (RuntimeError, GoogleDecoder \<times> DecodedFrame) res" where
  "google_chunk d v =
    (case json_pointer [''error''] v of
       Some error \<Rightarrow>
         Inl (provider_error (unwrap_or (str_at [''status''] error) (lit ''GOOGLE_STREAM_ERROR''))
           (unwrap_or (str_at [''message''] error) (lit ''Google model stream failed'')))
     | None \<Rightarrow>
       case str_at [''promptFeedback'', ''blockReason''] v of
         Some reason \<Rightarrow>
           Inl (provider_error (lit ''GOOGLE_PROMPT_BLOCKED'')
             (lit ''Google blocked the prompt: '' @ reason))
       | None \<Rightarrow>
           and_then (announce_id google_id_changed (google_response_id d) (str_at [''responseId''] v))
             (\<lambda>(known, announced).
           let d = d\<lparr>google_response_id := known,
                 google_usage := google_merge_usage (google_usage d) v\<rparr>;
               candidates = unwrap_or (array_at [''candidates''] v) [] in
           if 1 < length candidates then Inl multiple_candidates
           else and_then
             (case candidates of [] \<Rightarrow> Inr (d, announced, None)
              | candidate # _ \<Rightarrow> google_candidate d candidate announced)
             (\<lambda>(d, evs, t).
               Inr (d, \<lparr>events = evs @ usage_event (google_usage d), terminal = t\<rparr>))))"

definition google_decode ::
    "(rstr \<Rightarrow> json option) \<Rightarrow> GoogleDecoder \<Rightarrow> SseFrame \<Rightarrow>
      (RuntimeError, GoogleDecoder \<times> DecodedFrame) res" where
  "google_decode parse d frame =
    and_then (ensure_no_terminal (google_terminal d)) (\<lambda>_.
    and_then (parse_provider_json parse (frame_data frame)) (google_chunk d))"

definition google_finish :: "GoogleDecoder \<Rightarrow> (RuntimeError, ProviderRunOutcome) res" where
  "google_finish d = ok_or (google_terminal d) google_missing_terminal"

section \<open>Ollama\<close>

record OllamaDecoder =
  ollama_usage :: TokenUsage
  ollama_terminal :: "ProviderRunOutcome option"

definition invalid_ollama_chunk :: RuntimeError where
  "invalid_ollama_chunk =
    protocol_error ''INVALID_OLLAMA_CHUNK'' ''Ollama chunk did not contain a boolean done field''"

definition ollama_missing_terminal :: RuntimeError where
  "ollama_missing_terminal =
    protocol_error ''MISSING_TERMINAL_EVENT'' ''Ollama stream ended without done=true''"

definition ollama_message :: "json \<Rightarrow> (RuntimeError, ProviderStreamEvent list) res" where
  "ollama_message v =
    (case json_pointer [''message''] v of
       None \<Rightarrow> Inr []
     | Some message \<Rightarrow>
         if has_tool_calls message
         then Inl (provider_error (lit ''UNEXPECTED_TOOL_EVENT'')
           (lit ''provider emitted a tool call although tools are disabled''))
         else Inr (delta_event ReasoningDelta (str_at [''thinking''] message) @
           delta_event TextDelta (str_at [''content''] message)))"

definition ollama_chunk ::
    "OllamaDecoder \<Rightarrow> json \<Rightarrow> (RuntimeError, OllamaDecoder \<times> DecodedFrame) res" where
  "ollama_chunk d v =
    (case str_at [''error''] v of
       Some message \<Rightarrow> Inl (provider_error (lit ''OLLAMA_STREAM_ERROR'') message)
     | None \<Rightarrow>
         and_then (ollama_message v) (\<lambda>evs.
           case bool_at [''done''] v of
             Some True \<Rightarrow>
               (let input = value_u64 v [''prompt_eval_count''];
                    output = value_u64 v [''eval_count''];
                    usage = merge_from (ollama_usage d) (TokenUsage_default
                      \<lparr>input_tokens := input, output_tokens := output,
                       total_tokens := add_counts input output\<rparr>);
                    t = completed (map_option map_common_reason (str_at [''done_reason''] v)) usage in
                Inr (d\<lparr>ollama_usage := usage, ollama_terminal := Some t\<rparr>,
                  \<lparr>events = evs @ usage_event usage, terminal = Some t\<rparr>))
           | Some False \<Rightarrow> Inr (d, \<lparr>events = evs, terminal = None\<rparr>)
           | None \<Rightarrow> Inl invalid_ollama_chunk))"

definition ollama_decode ::
    "(rstr \<Rightarrow> json option) \<Rightarrow> OllamaDecoder \<Rightarrow> rstr \<Rightarrow> (RuntimeError, OllamaDecoder \<times> DecodedFrame) res"
where
  "ollama_decode parse d frame =
    and_then (ensure_no_terminal (ollama_terminal d)) (\<lambda>_.
    and_then (parse_provider_json parse frame) (ollama_chunk d))"

definition ollama_finish :: "OllamaDecoder \<Rightarrow> (RuntimeError, ProviderRunOutcome) res" where
  "ollama_finish d = ok_or (ollama_terminal d) ollama_missing_terminal"

section \<open>The decoder of a provider\<close>

datatype ProviderId = OpenAi | Anthropic | DeepSeek | OllamaCloud | GoogleGemini | GoogleVertexAi

datatype ProviderDecoder =
    OpenAiState OpenAiDecoder
  | AnthropicState AnthropicDecoder
  | DeepSeekState DeepSeekDecoder
  | OllamaState OllamaDecoder
  | GoogleState GoogleDecoder

definition ProviderDecoder_new :: "ProviderId \<Rightarrow> ProviderDecoder" where
  "ProviderDecoder_new provider =
    (case provider of
       OpenAi \<Rightarrow> OpenAiState
         \<lparr>openai_usage = TokenUsage_default, openai_terminal = None, openai_id_seen = False\<rparr>
     | Anthropic \<Rightarrow> AnthropicState
         \<lparr>anthropic_usage = TokenUsage_default, anthropic_terminal = None,
          anthropic_finish_reason = None, anthropic_id_seen = False\<rparr>
     | DeepSeek \<Rightarrow> DeepSeekState
         \<lparr>deepseek_usage = TokenUsage_default, deepseek_terminal = None,
          deepseek_finish_reason = None, deepseek_response_id = None\<rparr>
     | OllamaCloud \<Rightarrow> OllamaState \<lparr>ollama_usage = TokenUsage_default, ollama_terminal = None\<rparr>
     | _ \<Rightarrow> GoogleState
         \<lparr>google_usage = TokenUsage_default, google_terminal = None, google_response_id = None\<rparr>)"

definition ollama_needs_ndjson :: RuntimeError where
  "ollama_needs_ndjson =
    protocol_error ''WRONG_STREAM_PROTOCOL'' ''Ollama Cloud responses must use NDJSON''"

definition provider_needs_sse :: RuntimeError where
  "provider_needs_sse =
    protocol_error ''WRONG_STREAM_PROTOCOL'' ''this provider response must use SSE''"

definition wrap_state ::
    "('d \<Rightarrow> ProviderDecoder) \<Rightarrow> (RuntimeError, 'd \<times> DecodedFrame) res \<Rightarrow>
      (RuntimeError, ProviderDecoder \<times> DecodedFrame) res" where
  "wrap_state wrap r = and_then r (\<lambda>(d, decoded). Inr (wrap d, decoded))"

definition decode_sse ::
    "(rstr \<Rightarrow> json option) \<Rightarrow> ProviderDecoder \<Rightarrow> SseFrame \<Rightarrow>
      (RuntimeError, ProviderDecoder \<times> DecodedFrame) res" where
  "decode_sse parse decoder frame =
    (case decoder of
       OpenAiState d \<Rightarrow> wrap_state OpenAiState (openai_decode parse d frame)
     | AnthropicState d \<Rightarrow> wrap_state AnthropicState (anthropic_decode parse d frame)
     | DeepSeekState d \<Rightarrow> wrap_state DeepSeekState (deepseek_decode parse d frame)
     | GoogleState d \<Rightarrow> wrap_state GoogleState (google_decode parse d frame)
     | OllamaState _ \<Rightarrow> Inl ollama_needs_ndjson)"

definition decode_ndjson ::
    "(rstr \<Rightarrow> json option) \<Rightarrow> ProviderDecoder \<Rightarrow> rstr \<Rightarrow>
      (RuntimeError, ProviderDecoder \<times> DecodedFrame) res" where
  "decode_ndjson parse decoder frame =
    (case decoder of
       OllamaState d \<Rightarrow> wrap_state OllamaState (ollama_decode parse d frame)
     | _ \<Rightarrow> Inl provider_needs_sse)"

definition decoder_finish :: "ProviderDecoder \<Rightarrow> (RuntimeError, ProviderRunOutcome) res" where
  "decoder_finish decoder =
    (case decoder of
       OpenAiState d \<Rightarrow> openai_finish d
     | AnthropicState d \<Rightarrow> anthropic_finish d
     | DeepSeekState d \<Rightarrow> deepseek_finish d
     | OllamaState d \<Rightarrow> ollama_finish d
     | GoogleState d \<Rightarrow> google_finish d)"

end
