(* ===== verification/Stream_Run.thy ===== *)
theory Stream_Run
  imports Stream_Decode
begin

text \<open>
  The consumption of a provider response: \<open>lorepia-provider-runtime/src/runner.rs\<close>. Every
  \<open>tokio::select!\<close> is a choice of the environment and an argument of the model: what each poll of
  the body gives, and what happens to each send on the event channel. A run returns its result and
  the events the consumer received. Durations are in nanoseconds.
\<close>

section \<open>Limits and response metadata\<close>

record RuntimeLimits =
  max_request_body_bytes :: nat
  max_stream_frame_bytes :: nat
  max_http_error_body_bytes :: nat
  max_token_count_response_bytes :: nat
  max_response_header_count :: nat
  max_response_header_bytes :: nat
  dns_timeout :: nat
  connect_timeout :: nat
  response_header_timeout :: nat
  stream_idle_timeout :: nat
  overall_timeout :: nat
  token_count_timeout :: nat

definition from_secs :: "nat \<Rightarrow> nat" where
  "from_secs s = s * 10 ^ 9"

definition RuntimeLimits_default :: RuntimeLimits where
  "RuntimeLimits_default =
    \<lparr>max_request_body_bytes = 5 * 1024 * 1024, max_stream_frame_bytes = 256 * 1024,
     max_http_error_body_bytes = 64 * 1024, max_token_count_response_bytes = 64 * 1024,
     max_response_header_count = 64, max_response_header_bytes = 16 * 1024,
     dns_timeout = from_secs 10, connect_timeout = from_secs 10,
     response_header_timeout = from_secs 60, stream_idle_timeout = from_secs 120,
     overall_timeout = from_secs (30 * 60), token_count_timeout = from_secs 30\<rparr>"

definition invalid_runtime_limits :: RuntimeError where
  "invalid_runtime_limits = RuntimeError_new InvalidRequest (lit ''INVALID_RUNTIME_LIMITS'')
    (lit ''runtime byte and duration limits must be positive and bounded'')"

definition in_range :: "nat \<Rightarrow> nat \<Rightarrow> nat \<Rightarrow> bool" where
  "in_range low high x \<longleftrightarrow> low \<le> x \<and> x \<le> high"

definition validate_limits :: "RuntimeLimits \<Rightarrow> (RuntimeError, unit) res" where
  "validate_limits limits =
    (if \<not> in_range 1024 (8 * 1024 * 1024) (max_request_body_bytes limits)
        \<or> max_stream_frame_bytes limits < 1024
        \<or> 256 * 1024 < max_stream_frame_bytes limits
        \<or> max_http_error_body_bytes limits < 1024
        \<or> 64 * 1024 < max_http_error_body_bytes limits
        \<or> max_token_count_response_bytes limits < 1024
        \<or> 64 * 1024 < max_token_count_response_bytes limits
        \<or> \<not> in_range 8 128 (max_response_header_count limits)
        \<or> \<not> in_range 1024 (64 * 1024) (max_response_header_bytes limits)
        \<or> dns_timeout limits = 0 \<or> from_secs 60 < dns_timeout limits
        \<or> connect_timeout limits = 0 \<or> from_secs 60 < connect_timeout limits
        \<or> response_header_timeout limits = 0 \<or> from_secs (5 * 60) < response_header_timeout limits
        \<or> stream_idle_timeout limits = 0 \<or> from_secs (10 * 60) < stream_idle_timeout limits
        \<or> overall_timeout limits = 0 \<or> from_secs (30 * 60) < overall_timeout limits
        \<or> token_count_timeout limits = 0 \<or> from_secs (5 * 60) < token_count_timeout limits
     then Inl invalid_runtime_limits else Inr ())"

text \<open>
  A response: its status and its headers with lower-case names. \<open>to_str\<close> is the reading of a header
  value as text, which fails on values that are not visible ASCII.
\<close>

record Response =
  status :: nat
  headers :: "(rstr \<times> byte list) list"

definition header_get :: "string \<Rightarrow> Response \<Rightarrow> byte list option" where
  "header_get name response = map_of (headers response) (lit name)"

definition header_get_all :: "string \<Rightarrow> Response \<Rightarrow> byte list list" where
  "header_get_all name response = map snd (filter (\<lambda>h. fst h = lit name) (headers response))"

definition response_headers_too_large :: RuntimeError where
  "response_headers_too_large = RuntimeError_new Http (lit ''RESPONSE_HEADERS_TOO_LARGE'')
    (lit ''provider response headers exceeded the runtime limit'')"

definition unsupported_content_encoding :: RuntimeError where
  "unsupported_content_encoding = RuntimeError_new Http (lit ''UNSUPPORTED_CONTENT_ENCODING'')
    (lit ''compressed provider responses are not accepted'')"

definition charge_header ::
    "nat \<Rightarrow> nat \<Rightarrow> nat \<times> nat \<Rightarrow> rstr \<times> byte list \<Rightarrow> (RuntimeError, nat \<times> nat) res" where
  "charge_header max_count max_bytes = (\<lambda>(count, bytes) (name, v).
    let count = saturating_add count 1;
        bytes = saturating_add (saturating_add (saturating_add bytes (str_len name)) (length v)) 4 in
    if max_count < count \<or> max_bytes < bytes then Inl response_headers_too_large
    else Inr (count, bytes))"

definition identity_encoding :: "(byte list \<Rightarrow> rstr option) \<Rightarrow> byte list \<Rightarrow> bool" where
  "identity_encoding to_str v =
    (case to_str v of None \<Rightarrow> False
     | Some text \<Rightarrow>
         list_all (\<lambda>encoding. to_ascii_lowercase (trim encoding) = lit ''identity'') (split_on 44 text))"

definition validate_response_metadata ::
    "(byte list \<Rightarrow> rstr option) \<Rightarrow> Response \<Rightarrow> nat \<Rightarrow> nat \<Rightarrow> (RuntimeError, unit) res" where
  "validate_response_metadata to_str response max_count max_bytes =
    and_then (try_fold (charge_header max_count max_bytes) (0, 0) (headers response)) (\<lambda>_.
      if list_all (identity_encoding to_str) (header_get_all ''content-encoding'' response)
      then Inr () else Inl unsupported_content_encoding)"

datatype StreamProtocol = Sse | Ndjson

definition unexpected_content_type :: "StreamProtocol \<Rightarrow> RuntimeError" where
  "unexpected_content_type protocol =
    RuntimeError_new UnexpectedContentType (lit ''UNEXPECTED_CONTENT_TYPE'')
      (lit ''provider success response must use '' @
       (case protocol of Sse \<Rightarrow> lit ''text/event-stream'' | Ndjson \<Rightarrow> lit ''application/x-ndjson''))"

definition validate_content_type ::
    "(byte list \<Rightarrow> rstr option) \<Rightarrow> Response \<Rightarrow> StreamProtocol \<Rightarrow> (RuntimeError, unit) res" where
  "validate_content_type to_str response protocol =
    (let text = unwrap_or (Option.bind (header_get ''content-type'' response) to_str) [];
         content_type = to_ascii_lowercase (trim (hd (split_on 59 text)));
         expected =
           (case protocol of Sse \<Rightarrow> lit ''text/event-stream'' | Ndjson \<Rightarrow> lit ''application/x-ndjson'') in
     if content_type = expected then Inr () else Inl (unexpected_content_type protocol))"

text \<open>\<open>text.parse::<u64>()\<close>: digits after an optional plus sign, without overflow.\<close>

definition parse_u64 :: "rstr \<Rightarrow> nat option" where
  "parse_u64 s =
    (let digits = (if s \<noteq> [] \<and> hd s = 43 then tl s else s);
         n = foldl (\<lambda>n c. n * 10 + (c - 48)) 0 digits in
     if digits \<noteq> [] \<and> list_all is_ascii_digit digits \<and> n < 2 ^ 64 then Some n else None)"

definition parse_retry_after :: "(byte list \<Rightarrow> rstr option) \<Rightarrow> Response \<Rightarrow> nat option" where
  "parse_retry_after to_str response =
    map_option (\<lambda>seconds. min seconds (5 * 60))
      (Option.bind (Option.bind (header_get ''retry-after'' response) to_str) parse_u64)"

definition retry_decision_for_status :: "(byte list \<Rightarrow> rstr option) \<Rightarrow> Response \<Rightarrow> RetryDecision" where
  "retry_decision_for_status to_str response =
    (case (status response = 429, parse_retry_after to_str response) of
       (True, Some delay) \<Rightarrow> RetryAfter delay
     | _ \<Rightarrow> if status response \<in> set [408, 425, 429, 500, 502, 503, 504] then exponential else Never)"

section \<open>Polls of the body and sends on the channel\<close>

datatype BodyPoll =
    PollChunk "byte list"
  | PollEnd
  | PollCancelled
  | PollDeadline
  | PollIdle
  | PollFailed

datatype SendPoll = Sent | SendCancelled | SendDeadline | ReceiverClosed

definition timeout_error :: "string \<Rightarrow> RuntimeError" where
  "timeout_error code =
    retriable True (RuntimeError_new Timeout (lit code)
      (lit ''provider request exceeded a runtime timeout''))"

definition map_http_error :: RuntimeError where
  "map_http_error = retriable True (RuntimeError_new Http (lit ''HTTP_TRANSPORT_FAILED'')
    (lit ''provider HTTP transport failed''))"

definition cancelled_error :: RuntimeError where
  "cancelled_error =
    RuntimeError_new Cancelled (lit ''CANCELLED'') (lit ''provider request was cancelled'')"

definition consumer_closed :: RuntimeError where
  "consumer_closed = RuntimeError_new ConsumerClosed (lit ''EVENT_CONSUMER_CLOSED'')
    (lit ''provider event consumer closed before the stream completed'')"

definition next_chunk :: "BodyPoll \<Rightarrow> (RuntimeError, byte list option) res" where
  "next_chunk poll =
    (case poll of
       PollCancelled \<Rightarrow> Inl cancelled_error
     | PollDeadline \<Rightarrow> Inl (timeout_error ''OVERALL_TIMEOUT'')
     | PollIdle \<Rightarrow> Inl (timeout_error ''STREAM_IDLE_TIMEOUT'')
     | PollFailed \<Rightarrow> Inl map_http_error
     | PollChunk chunk \<Rightarrow> Inr (Some chunk)
     | PollEnd \<Rightarrow> Inr None)"

text \<open>
  \<open>send n\<close> is what happens to the \<open>n\<close>-th send of the run; \<open>delivered\<close> are the events received so
  far.
\<close>

fun deliver_events ::
    "(nat \<Rightarrow> SendPoll) \<Rightarrow> ProviderStreamEvent list \<Rightarrow> ProviderStreamEvent list \<Rightarrow>
      ProviderRunOutcome option \<Rightarrow>
      (RuntimeError, ProviderRunOutcome option) res \<times> ProviderStreamEvent list" where
  "deliver_events send delivered [] t = (Inr t, delivered)"
| "deliver_events send delivered (event # evs) t =
    (case send (length delivered) of
       SendCancelled \<Rightarrow> (Inr (Some RunCancelled), delivered)
     | SendDeadline \<Rightarrow> (Inl (timeout_error ''OVERALL_TIMEOUT''), delivered)
     | ReceiverClosed \<Rightarrow> (Inl consumer_closed, delivered)
     | Sent \<Rightarrow> deliver_events send (delivered @ [event]) evs t)"

definition deliver_decoded ::
    "(nat \<Rightarrow> SendPoll) \<Rightarrow> ProviderStreamEvent list \<Rightarrow> DecodedFrame \<Rightarrow>
      (RuntimeError, ProviderRunOutcome option) res \<times> ProviderStreamEvent list" where
  "deliver_decoded send delivered decoded =
    deliver_events send delivered (events decoded) (terminal decoded)"

section \<open>Consuming a stream\<close>

type_synonym run_result = "(RuntimeError, ProviderRunOutcome) res \<times> ProviderStreamEvent list"

datatype progress =
    Continue ProviderDecoder "ProviderStreamEvent list"
  | Finished "(RuntimeError, ProviderRunOutcome) res" "ProviderStreamEvent list"

text \<open>The loop over the frames of one chunk, which both protocols share.\<close>

fun deliver_frames ::
    "(ProviderDecoder \<Rightarrow> 'f \<Rightarrow> (RuntimeError, ProviderDecoder \<times> DecodedFrame) res) \<Rightarrow>
      (nat \<Rightarrow> SendPoll) \<Rightarrow> ProviderDecoder \<Rightarrow> ProviderStreamEvent list \<Rightarrow> 'f list \<Rightarrow> progress" where
  "deliver_frames decode send d delivered [] = Continue d delivered"
| "deliver_frames decode send d delivered (frame # frames) =
    (case decode d frame of
       Inl e \<Rightarrow> Finished (Inl e) delivered
     | Inr (d, decoded) \<Rightarrow>
         (case deliver_decoded send delivered decoded of
            (Inl e, delivered) \<Rightarrow> Finished (Inl e) delivered
          | (Inr (Some t), delivered) \<Rightarrow> Finished (Inr t) delivered
          | (Inr None, delivered) \<Rightarrow> deliver_frames decode send d delivered frames))"

definition poll_error :: "RuntimeError \<Rightarrow> (RuntimeError, ProviderRunOutcome) res" where
  "poll_error e = (if kind e = Cancelled then Inr RunCancelled else Inl e)"

text \<open>When the given polls are used up, the overall deadline passes.\<close>

fun sse_loop ::
    "(rstr \<Rightarrow> json option) \<Rightarrow> (nat \<Rightarrow> SendPoll) \<Rightarrow> SseFramer \<Rightarrow> ProviderDecoder \<Rightarrow>
      ProviderStreamEvent list \<Rightarrow> BodyPoll list \<Rightarrow> run_result" where
  "sse_loop parse send f d delivered [] = (Inl (timeout_error ''OVERALL_TIMEOUT''), delivered)"
| "sse_loop parse send f d delivered (poll # polls) =
    (case next_chunk poll of
       Inl e \<Rightarrow> (poll_error e, delivered)
     | Inr None \<Rightarrow> (and_then (sse_finish f) (\<lambda>_. decoder_finish d), delivered)
     | Inr (Some chunk) \<Rightarrow>
         (case sse_push f chunk of
            Inl e \<Rightarrow> (Inl e, delivered)
          | Inr (f, frames) \<Rightarrow>
              (case deliver_frames (decode_sse parse) send d delivered frames of
                 Finished r delivered \<Rightarrow> (r, delivered)
               | Continue d delivered \<Rightarrow> sse_loop parse send f d delivered polls)))"

definition consume_sse ::
    "RuntimeLimits \<Rightarrow> (rstr \<Rightarrow> json option) \<Rightarrow> ProviderId \<Rightarrow> (nat \<Rightarrow> SendPoll) \<Rightarrow> BodyPoll list \<Rightarrow>
      run_result" where
  "consume_sse limits parse provider send polls =
    sse_loop parse send (SseFramer_new (max_stream_frame_bytes limits)) (ProviderDecoder_new provider)
      [] polls"

fun ndjson_loop ::
    "(rstr \<Rightarrow> json option) \<Rightarrow> (nat \<Rightarrow> SendPoll) \<Rightarrow> NdjsonFramer \<Rightarrow> ProviderDecoder \<Rightarrow>
      ProviderStreamEvent list \<Rightarrow> BodyPoll list \<Rightarrow> run_result" where
  "ndjson_loop parse send f d delivered [] = (Inl (timeout_error ''OVERALL_TIMEOUT''), delivered)"
| "ndjson_loop parse send f d delivered (poll # polls) =
    (case next_chunk poll of
       Inl e \<Rightarrow> (poll_error e, delivered)
     | Inr None \<Rightarrow>
         (case ndjson_finish f of
            Inl e \<Rightarrow> (Inl e, delivered)
          | Inr frames \<Rightarrow>
              (case deliver_frames (decode_ndjson parse) send d delivered frames of
                 Finished r delivered \<Rightarrow> (r, delivered)
               | Continue d delivered \<Rightarrow> (decoder_finish d, delivered)))
     | Inr (Some chunk) \<Rightarrow>
         (case ndjson_push f chunk of
            Inl e \<Rightarrow> (Inl e, delivered)
          | Inr (f, frames) \<Rightarrow>
              (case deliver_frames (decode_ndjson parse) send d delivered frames of
                 Finished r delivered \<Rightarrow> (r, delivered)
               | Continue d delivered \<Rightarrow> ndjson_loop parse send f d delivered polls)))"

definition consume_ndjson ::
    "RuntimeLimits \<Rightarrow> (rstr \<Rightarrow> json option) \<Rightarrow> ProviderId \<Rightarrow> (nat \<Rightarrow> SendPoll) \<Rightarrow> BodyPoll list \<Rightarrow>
      run_result" where
  "consume_ndjson limits parse provider send polls =
    ndjson_loop parse send (NdjsonFramer_new (max_stream_frame_bytes limits))
      (ProviderDecoder_new provider) [] polls"

section \<open>Responses\<close>

definition stable_http_error :: "ProviderId \<Rightarrow> RuntimeError" where
  "stable_http_error provider =
    RuntimeError_new HttpStatus
      (case provider of
         OpenAi \<Rightarrow> lit ''OPENAI_HTTP_ERROR''
       | Anthropic \<Rightarrow> lit ''ANTHROPIC_HTTP_ERROR''
       | DeepSeek \<Rightarrow> lit ''DEEPSEEK_HTTP_ERROR''
       | OllamaCloud \<Rightarrow> lit ''OLLAMA_HTTP_ERROR''
       | _ \<Rightarrow> lit ''GOOGLE_HTTP_ERROR'')
      (lit ''provider returned an HTTP error'')"

definition http_error_body_too_large :: RuntimeError where
  "http_error_body_too_large = RuntimeError_new HttpStatus (lit ''HTTP_ERROR_BODY_TOO_LARGE'')
    (lit ''provider returned an oversized HTTP error body'')"

text \<open>The loop that drains the body of an error response, keeping only its length.\<close>

fun drain_error_body :: "nat \<Rightarrow> nat \<Rightarrow> BodyPoll list \<Rightarrow> RuntimeError \<Rightarrow> RuntimeError \<Rightarrow> RuntimeError" where
  "drain_error_body maximum bytes [] too_large drained = timeout_error ''OVERALL_TIMEOUT''"
| "drain_error_body maximum bytes (poll # polls) too_large drained =
    (case next_chunk poll of
       Inl e \<Rightarrow> e
     | Inr None \<Rightarrow> drained
     | Inr (Some chunk) \<Rightarrow>
         if maximum < saturating_add bytes (length chunk) then too_large
         else drain_error_body maximum (bytes + length chunk) polls too_large drained)"

definition read_http_error ::
    "(byte list \<Rightarrow> rstr option) \<Rightarrow> Response \<Rightarrow> ProviderId \<Rightarrow> nat \<Rightarrow> BodyPoll list \<Rightarrow> RuntimeError" where
  "read_http_error to_str response provider maximum polls =
    (let decide = (\<lambda>e. with_retry_decision (retry_decision_for_status to_str response)
           (with_http_status (status response) e)) in
     drain_error_body maximum 0 polls (decide http_error_body_too_large)
       (decide (stable_http_error provider)))"

text \<open>The part of \<open>run_compiled_stream\<close> after the response headers have arrived.\<close>

definition handle_response ::
    "RuntimeLimits \<Rightarrow> (rstr \<Rightarrow> json option) \<Rightarrow> (byte list \<Rightarrow> rstr option) \<Rightarrow> ProviderId \<Rightarrow>
      StreamProtocol \<Rightarrow> Response \<Rightarrow> (nat \<Rightarrow> SendPoll) \<Rightarrow> BodyPoll list \<Rightarrow> run_result" where
  "handle_response limits parse to_str provider protocol response send polls =
    (case validate_response_metadata to_str response (max_response_header_count limits)
        (max_response_header_bytes limits) of
       Inl e \<Rightarrow> (Inl e, [])
     | Inr _ \<Rightarrow>
         if \<not> (200 \<le> status response \<and> status response < 300) then
           (poll_error (read_http_error to_str response provider (max_http_error_body_bytes limits)
             polls), [])
         else
           (case validate_content_type to_str response protocol of
              Inl e \<Rightarrow> (Inl e, [])
            | Inr _ \<Rightarrow>
                (case protocol of
                   Sse \<Rightarrow> consume_sse limits parse provider send polls
                 | Ndjson \<Rightarrow> consume_ndjson limits parse provider send polls)))"

end
