(* ===== verification/Stream_Chunks.thy ===== *)
theory Stream_Chunks
  imports Stream_Framing
begin

text \<open>
  What a framer promises its consumers, and that both framers keep the promise. \<open>framer\<close> is the
  contract; \<open>line_framer\<close> is the shape the two implementations share, from which the contract
  follows once.
\<close>

text \<open>The frames of several chunks pushed one after the other.\<close>

definition push_chunks ::
    "('s \<Rightarrow> byte list \<Rightarrow> ('e, 's \<times> 'f list) res) \<Rightarrow> 's \<Rightarrow> byte list list \<Rightarrow> ('e, 's \<times> 'f list) res" where
  "push_chunks push s chunks =
    try_fold (\<lambda>(s, frames) chunk.
      and_then (push s chunk) (\<lambda>(s, new). Inr (s, frames @ new))) (s, []) chunks"

locale framer =
  fixes ready :: "'s \<Rightarrow> bool"
    and push :: "'s \<Rightarrow> byte list \<Rightarrow> ('e, 's \<times> 'f list) res"
  assumes push_Nil: "ready s \<Longrightarrow> push s [] = Inr (s, [])"
    and push_append: "ready s \<Longrightarrow> push s (a @ b) =
      and_then (push s a) (\<lambda>(s, frames). and_then (push s b) (\<lambda>(s, new). Inr (s, frames @ new)))"
    and push_ready: "ready s \<Longrightarrow> push s a = Inr (s', frames) \<Longrightarrow> ready s'"
begin

lemma push_chunks_from:
  "ready s \<Longrightarrow>
    try_fold (\<lambda>(s, frames) chunk. and_then (push s chunk) (\<lambda>(s, new). Inr (s, frames @ new)))
      (s, frames) chunks =
    and_then (push s (concat chunks)) (\<lambda>(s, new). Inr (s, frames @ new))"
proof (induction chunks arbitrary: s frames)
  case (Cons chunk chunks)
  show ?case
  proof (cases "push s chunk")
    case (Inr r)
    then obtain s' new where r: "push s chunk = Inr (s', new)" by (cases r) simp
    show ?thesis
      using Cons.IH [OF push_ready [OF Cons.prems r]]
      by (simp add: r push_append [OF Cons.prems] case_prod_unfold)
  qed (simp add: push_append [OF Cons.prems])
qed (simp add: push_Nil)

lemma push_chunks_concat: "ready s \<Longrightarrow> push_chunks push s chunks = push s (concat chunks)"
  by (simp add: push_chunks_def push_chunks_from)

end

locale line_framer =
  fixes held :: "'s \<Rightarrow> byte list" and hold :: "byte list \<Rightarrow> 's \<Rightarrow> 's" and limit :: "'s \<Rightarrow> nat"
    and line :: "'s \<Rightarrow> byte list \<Rightarrow> 'f list \<Rightarrow> ('e, 's \<times> 'f list) res" and too_large :: 'e
    and loop :: "'s \<Rightarrow> byte list \<Rightarrow> 'f list \<Rightarrow> ('e, 's \<times> 'f list) res"
  assumes loop: "loop s bytes frames =
      (case position (\<lambda>b. b = 10) bytes of
         Some newline \<Rightarrow>
           and_then (line s (take newline bytes) frames) (\<lambda>(s, frames).
             loop s (drop (newline + 1) bytes) frames)
       | None \<Rightarrow>
           if limit s < saturating_add (length (held s)) (length bytes) then Inl too_large
           else Inr (hold (held s @ bytes) s, frames))"
    and held_hold [simp]: "held (hold a s) = a" "limit (hold a s) = limit s"
    and hold_held [simp]: "hold (held s) s = s" "hold b (hold a s) = hold b s"
    and line_too_large:
      "limit s < saturating_add (length (held s)) (length a) \<Longrightarrow> line s a frames = Inl too_large"
    and line_hold: "limit s < 2 ^ 64 - 1 \<Longrightarrow> length (held s) + length a \<le> limit s \<Longrightarrow>
      line s (a @ b) frames = line (hold (held s @ a) s) b frames"
    and line_frames: "line s a (frames @ new) =
      and_then (line s a new) (\<lambda>(s, new). Inr (s, frames @ new))"
    and line_after: "line s a frames = Inr (s', frames') \<Longrightarrow> held s' = [] \<and> limit s' = limit s"
begin

abbreviation sized :: "'s \<Rightarrow> bool" where
  "sized s \<equiv> limit s < 2 ^ 64 - 1 \<and> length (held s) \<le> limit s"

lemma exceeds: "limit s < 2 ^ 64 - 1 \<Longrightarrow> limit s < saturating_add a b \<longleftrightarrow> limit s < a + b"
  by (auto simp: saturating_add_def)

lemma loop_None:
  "position (\<lambda>b. b = 10) bytes = None \<Longrightarrow> loop s bytes frames =
    (if limit s < saturating_add (length (held s)) (length bytes) then Inl too_large
     else Inr (hold (held s @ bytes) s, frames))"
  by (subst loop) simp

lemma loop_Some:
  "position (\<lambda>b. b = 10) bytes = Some newline \<Longrightarrow> loop s bytes frames =
    and_then (line s (take newline bytes) frames) (\<lambda>(s, frames).
      loop s (drop (newline + 1) bytes) frames)"
  by (subst loop) simp

lemma position_append:
  "position p (a @ b) = (case position p a of Some i \<Rightarrow> Some i
     | None \<Rightarrow> (case position p b of None \<Rightarrow> None | Some i \<Rightarrow> Some (length a + i)))"
  by (induction a) (auto split: option.splits)

lemma loop_append:
  assumes "limit s < 2 ^ 64 - 1"
  shows "loop s (a @ b) frames = and_then (loop s a frames) (\<lambda>(s, frames). loop s b frames)"
  using assms
proof (induction "length a" arbitrary: s a frames rule: less_induct)
  case less
  show ?case
  proof (cases "position (\<lambda>b. b = 10) a")
    case (Some i)
    have i: "i < length a" using Some by (rule position_less)
    have step: "loop s' (drop (i + 1) a @ b) frames' =
        and_then (loop s' (drop (i + 1) a) frames') (\<lambda>(s, frames). loop s b frames)"
      if "line s (take i a) frames = Inr (s', frames')" for s' frames'
      using less.hyps [of "drop (i + 1) a" s'] i less.prems line_after [OF that] by simp
    show ?thesis
    proof (cases "line s (take i a) frames")
      case (Inr r)
      then show ?thesis
        using step [of "fst r" "snd r"] i Some
        by (cases r) (simp add: loop_Some position_append)
    qed (use i Some in \<open>simp add: loop_Some position_append\<close>)
  next
    case None
    show ?thesis
    proof (cases "limit s < length (held s) + length a")
      case True
      then show ?thesis
        using None less.prems
        by (cases "position (\<lambda>b. b = 10) b")
          (simp_all add: loop_None loop_Some position_append exceeds line_too_large)
    next
      case False
      then show ?thesis
        using None less.prems line_hold [OF less.prems, of a]
        by (cases "position (\<lambda>b. b = 10) b")
          (simp_all add: loop_None loop_Some position_append exceeds add.assoc)
    qed
  qed
qed

lemma loop_frames:
  "loop s bytes (frames @ new) = and_then (loop s bytes new) (\<lambda>(s, new). Inr (s, frames @ new))"
proof (induction "length bytes" arbitrary: s bytes new rule: less_induct)
  case less
  show ?case
  proof (cases "position (\<lambda>b. b = 10) bytes")
    case (Some i)
    then have "i < length bytes" by (rule position_less)
    then show ?thesis
      using less [of "drop (i + 1) bytes"]
      by (cases "line s (take i bytes) new") (auto simp: loop_Some [OF Some] line_frames [of s _ frames])
  qed (simp add: loop_None)
qed

lemma loop_errors:
  assumes "\<And>s a frames e. line s a frames = Inl e \<Longrightarrow> e \<in> E" and "too_large \<in> E"
  shows "loop s bytes frames = Inl e \<Longrightarrow> e \<in> E"
proof (induction "length bytes" arbitrary: s bytes frames rule: less_induct)
  case less
  show ?case
  proof (cases "position (\<lambda>b. b = 10) bytes")
    case None
    then show ?thesis using less.prems assms(2) by (simp add: loop_None split: if_splits)
  next
    case (Some i)
    then have "i < length bytes" by (rule position_less)
    then show ?thesis
      using less.prems less.hyps [of "drop (i + 1) bytes"] assms(1)
      by (auto simp: loop_Some [OF Some] and_then_eq_Inl_iff)
  qed
qed

lemma loop_sized: "sized s \<Longrightarrow> loop s bytes frames = Inr (s', frames') \<Longrightarrow> sized s'"
proof (induction "length bytes" arbitrary: s bytes frames rule: less_induct)
  case less
  show ?case
  proof (cases "position (\<lambda>b. b = 10) bytes")
    case (Some i)
    then have i: "i < length bytes" by (rule position_less)
    obtain s1 frames1 where first: "line s (take i bytes) frames = Inr (s1, frames1)"
      and rest: "loop s1 (drop (i + 1) bytes) frames1 = Inr (s', frames')"
      using less.prems(2) by (auto simp: loop_Some [OF Some])
    show ?thesis
      using less.hyps [OF _ _ rest] line_after [OF first] less.prems(1) i by simp
  next
    case None
    then show ?thesis using less.prems by (auto simp: loop_None exceeds split: if_splits)
  qed
qed

end

sublocale line_framer \<subseteq> framed: framer sized "\<lambda>s bytes. loop s bytes []"
proof
  fix s a b
  assume s: "sized s"
  show "loop s [] [] = Inr (s, [])" using s by (simp add: loop_None exceeds)
  have "(\<lambda>(s, frames). loop s b frames) =
      (\<lambda>(s, frames). and_then (loop s b []) (\<lambda>(s, new). Inr (s, frames @ new)))"
  proof (rule ext)
    fix p
    show "(case p of (s, frames) \<Rightarrow> loop s b frames) =
        (case p of (s, frames) \<Rightarrow> and_then (loop s b []) (\<lambda>(s, new). Inr (s, frames @ new)))"
      using loop_frames [of "fst p" b "snd p" "[]"] by (simp only: case_prod_unfold append_Nil2)
  qed
  then show "loop s (a @ b) [] =
      and_then (loop s a []) (\<lambda>(s, frames).
        and_then (loop s b []) (\<lambda>(s, new). Inr (s, frames @ new)))"
    using loop_append [of s a b "[]"] s by (simp only:)
qed (rule loop_sized)

lemma sse_line_frames:
  "process_line f line (frames @ new) =
    and_then (process_line f line new) (\<lambda>(f, new). Inr (f, frames @ new))"
  by (auto simp: process_line_def Let_def case_prod_unfold)

lemma set_field_keeps [simp]:
  "buffer (set_field f field v) = buffer f" "max_frame_bytes (set_field f field v) = max_frame_bytes f"
  by (simp_all add: set_field_def)

lemma process_line_after:
  "process_line f line frames = Inr (f', frames') \<Longrightarrow>
    buffer f' = buffer f \<and> max_frame_bytes f' = max_frame_bytes f"
  by (auto simp: process_line_def Let_def case_prod_unfold split: if_splits)

interpretation sse: line_framer buffer "\<lambda>b. buffer_update (\<lambda>_. b)" max_frame_bytes sse_line
    sse_too_large sse_push_loop
proof
  fix s :: SseFramer and bytes frames
  show "sse_push_loop s bytes frames =
      (case position (\<lambda>b. b = 10) bytes of
         Some newline \<Rightarrow>
           and_then (sse_line s (take newline bytes) frames) (\<lambda>(s, frames).
             sse_push_loop s (drop (newline + 1) bytes) frames)
       | None \<Rightarrow>
           if max_frame_bytes s < saturating_add (length (buffer s)) (length bytes)
           then Inl sse_too_large
           else Inr (s\<lparr>buffer := buffer s @ bytes\<rparr>, frames))"
    by (rule sse_push_loop.simps)
qed (auto simp: sse_line_def Let_def saturating_add_def sse_line_frames dest: process_line_after
    split: if_splits)

interpretation ndjson: line_framer nd_buffer "\<lambda>b. nd_buffer_update (\<lambda>_. b)" nd_max_frame_bytes
    ndjson_line ndjson_too_large ndjson_push_loop
proof
  fix s :: NdjsonFramer and bytes frames
  show "ndjson_push_loop s bytes frames =
      (case position (\<lambda>b. b = 10) bytes of
         Some newline \<Rightarrow>
           and_then (ndjson_line s (take newline bytes) frames) (\<lambda>(s, frames).
             ndjson_push_loop s (drop (newline + 1) bytes) frames)
       | None \<Rightarrow>
           if nd_max_frame_bytes s < saturating_add (length (nd_buffer s)) (length bytes)
           then Inl ndjson_too_large
           else Inr (s\<lparr>nd_buffer := nd_buffer s @ bytes\<rparr>, frames))"
    by (rule ndjson_push_loop.simps)
qed (auto simp: ndjson_line_def Let_def saturating_add_def split: if_splits)

end
