(* ===== verification/Stream_Correct.thy ===== *)
theory Stream_Correct
  imports Stream_Run Stream_Chunks
begin

text \<open>
  The decoders keep one protocol (\<open>stream_decoder\<close>): nothing is decoded after the terminal frame, the
  terminal state is the terminal outcome that was returned, and every error is one of a fixed set.
  The consumer loops, which are written twice, share the interface \<open>stream_consumer\<close>; the facts about
  chunking, completion and errors are proved there once.
\<close>

section \<open>The contract of a decoder\<close>

primrec decoder_terminal :: "ProviderDecoder \<Rightarrow> ProviderRunOutcome option" where
  "decoder_terminal (OpenAiState d) = openai_terminal d"
| "decoder_terminal (AnthropicState d) = anthropic_terminal d"
| "decoder_terminal (DeepSeekState d) = deepseek_terminal d"
| "decoder_terminal (OllamaState d) = ollama_terminal d"
| "decoder_terminal (GoogleState d) = google_terminal d"

definition decode_errors :: "RuntimeError set" where
  "decode_errors =
    {unexpected_tool_event, google_prompt_blocked, provider_stream_error, invalid_response_id,
     invalid_provider_json, event_after_terminal, openai_missing_type, openai_type_mismatch,
     openai_invalid_delta, openai_missing_terminal, anthropic_missing_type, anthropic_type_mismatch,
     invalid_content_block, untyped_content_delta, empty_content_delta, anthropic_missing_terminal,
     deepseek_id_changed, missing_choices, multiple_choices, invalid_choice_index, missing_delta,
     missing_done_marker, google_id_changed, multiple_candidates, invalid_candidate_index,
     google_missing_terminal, invalid_ollama_chunk, ollama_missing_terminal, ollama_needs_ndjson,
     provider_needs_sse}"

definition frame_ok :: "ProviderRunOutcome option \<Rightarrow> DecodedFrame \<Rightarrow> bool" where
  "frame_ok t decoded \<longleftrightarrow> t = terminal decoded \<and> terminal decoded \<noteq> Some RunCancelled"

abbreviation decodes :: "('a \<Rightarrow> bool) \<Rightarrow> (RuntimeError, 'a) res \<Rightarrow> bool" where
  "decodes \<equiv> outcome (\<lambda>e. e \<in> decode_errors)"

lemma provider_error_known [simp]: "provider_error code message \<in> decode_errors"
  by (simp add: provider_error_def decode_errors_def)

lemma decode_errors_known [simp]:
  "invalid_response_id \<in> decode_errors" "invalid_provider_json \<in> decode_errors"
  "event_after_terminal \<in> decode_errors" "openai_missing_type \<in> decode_errors"
  "openai_type_mismatch \<in> decode_errors" "openai_invalid_delta \<in> decode_errors"
  "openai_missing_terminal \<in> decode_errors" "anthropic_missing_type \<in> decode_errors"
  "anthropic_type_mismatch \<in> decode_errors" "invalid_content_block \<in> decode_errors"
  "untyped_content_delta \<in> decode_errors" "empty_content_delta \<in> decode_errors"
  "anthropic_missing_terminal \<in> decode_errors" "deepseek_id_changed \<in> decode_errors"
  "missing_choices \<in> decode_errors" "multiple_choices \<in> decode_errors"
  "invalid_choice_index \<in> decode_errors" "missing_delta \<in> decode_errors"
  "missing_done_marker \<in> decode_errors" "google_id_changed \<in> decode_errors"
  "multiple_candidates \<in> decode_errors" "invalid_candidate_index \<in> decode_errors"
  "google_missing_terminal \<in> decode_errors" "invalid_ollama_chunk \<in> decode_errors"
  "ollama_missing_terminal \<in> decode_errors" "ollama_needs_ndjson \<in> decode_errors"
  "provider_needs_sse \<in> decode_errors"
  by (simp_all add: decode_errors_def)

lemma completed_not_cancelled [simp]: "completed reason usage \<noteq> RunCancelled"
  by (simp add: completed_def)

lemma response_id_outcome [simp]:
  "(\<And>event. P event) \<Longrightarrow> decodes P (response_id_event response_id)"
  by (simp add: response_id_event_def)

lemmas decode_simps =
  outcome_and_then_iff outcome_if_iff outcome_ok_or_iff ensure_no_terminal_def
  parse_provider_json_def frame_ok_def Let_def case_prod_unfold

lemma openai_decodes:
  "decodes (\<lambda>(d', decoded). openai_terminal d = None \<and> frame_ok (openai_terminal d') decoded)
    (openai_decode parse d frame)"
  by (simp add: decode_simps openai_decode_def openai_event_def openai_complete_def
      required_delta_def split: option.split bool.split)

lemma anthropic_decodes:
  "decodes (\<lambda>(d', decoded). anthropic_terminal d = None \<and> frame_ok (anthropic_terminal d') decoded)
    (anthropic_decode parse d frame)"
  by (simp add: decode_simps anthropic_decode_def anthropic_event_def content_block_delta_def
      required_string_def split: option.split bool.split)

lemma announce_id_decodes: "changed \<in> decode_errors \<Longrightarrow> (\<And>x. P x) \<Longrightarrow> decodes P (announce_id changed known given)"
  by (simp add: decode_simps announce_id_def split: option.split)

lemma deepseek_decodes:
  "decodes (\<lambda>(d', decoded). deepseek_terminal d = None \<and> frame_ok (deepseek_terminal d') decoded)
    (deepseek_decode parse d frame)"
  by (simp add: decode_simps deepseek_decode_def deepseek_chunk_def deepseek_choice_def
      announce_id_decodes split: option.split list.split)

lemma google_parts_decode: "(\<And>x. P x) \<Longrightarrow> decodes P (try_fold google_part evs parts)"
  by (induction parts arbitrary: evs) (simp_all add: decode_simps google_part_def)

lemma google_decodes:
  "decodes (\<lambda>(d', decoded). google_terminal d = None \<and> frame_ok (google_terminal d') decoded)
    (google_decode parse d frame)"
  by (simp add: decode_simps google_decode_def google_chunk_def google_candidate_def
      announce_id_decodes google_parts_decode split: option.split list.split)

lemma ollama_decodes:
  "decodes (\<lambda>(d', decoded). ollama_terminal d = None \<and> frame_ok (ollama_terminal d') decoded)
    (ollama_decode parse d frame)"
  by (simp add: decode_simps ollama_decode_def ollama_chunk_def ollama_message_def
      split: option.split bool.split)

lemma decoder_finish_outcome:
  "outcome (\<lambda>e. e \<in> decode_errors) (\<lambda>t. decoder_terminal d = Some t) (decoder_finish d)"
  by (cases d) (simp_all add: decoder_finish_def openai_finish_def anthropic_finish_def
      deepseek_finish_def google_finish_def ollama_finish_def outcome_ok_or_iff del: outcome_ok_or)

text \<open>
  What the frames of a stream mean: the events up to and including those of the first terminal
  frame, with its outcome; nothing when a frame before it does not decode or there is none.
\<close>

fun transcript ::
    "(ProviderDecoder \<Rightarrow> 'f \<Rightarrow> (RuntimeError, ProviderDecoder \<times> DecodedFrame) res) \<Rightarrow>
      ProviderDecoder \<Rightarrow> 'f list \<Rightarrow> (ProviderStreamEvent list \<times> ProviderRunOutcome) option" where
  "transcript decode d [] = None"
| "transcript decode d (frame # frames) =
    (case decode d frame of
       Inl _ \<Rightarrow> None
     | Inr (d, decoded) \<Rightarrow>
         (case terminal decoded of
            Some t \<Rightarrow> Some (events decoded, t)
          | None \<Rightarrow> map_option (apfst ((@) (events decoded))) (transcript decode d frames)))"

lemma map_apfst_Nil: "map_option (apfst ((@) [])) x = x"
  by (cases x) auto

lemma deliver_events_Inr:
  "deliver_events send delivered evs t = (Inr t', delivered') \<Longrightarrow>
    t' = t \<and> delivered' = delivered @ evs \<or> t' = Some RunCancelled"
  by (induction evs arbitrary: delivered) (fastforce split: SendPoll.splits)+

lemma deliver_events_Inl:
  "deliver_events send delivered evs t = (Inl e, delivered') \<Longrightarrow>
    e = timeout_error ''OVERALL_TIMEOUT'' \<or> e = consumer_closed"
  by (induction evs arbitrary: delivered) (auto split: SendPoll.splits)

lemma deliver_events_Sent:
  "(\<And>n. send n = Sent) \<Longrightarrow> deliver_events send delivered evs t = (Inr t, delivered @ evs)"
  by (induction evs arbitrary: delivered) simp_all

lemma deliver_frames_append:
  "deliver_frames decode send d delivered (xs @ ys) =
    (case deliver_frames decode send d delivered xs of
       Finished r delivered \<Rightarrow> Finished r delivered
     | Continue d delivered \<Rightarrow> deliver_frames decode send d delivered ys)"
  by (induction xs arbitrary: d delivered) (auto split: sum.split prod.split option.split)

locale stream_decoder =
  fixes decode :: "ProviderDecoder \<Rightarrow> 'f \<Rightarrow> (RuntimeError, ProviderDecoder \<times> DecodedFrame) res"
  assumes decode:
    "decodes (\<lambda>(d', decoded). decoder_terminal d = None \<and> frame_ok (decoder_terminal d') decoded)
      (decode d frame)"
begin

lemma decode_Inr:
  "decode d frame = Inr (d', decoded) \<Longrightarrow>
    decoder_terminal d = None \<and> decoder_terminal d' = terminal decoded \<and> terminal decoded \<noteq> Some RunCancelled"
  using decode [of d frame] by (simp add: frame_ok_def)

lemma decode_Inl: "decode d frame = Inl e \<Longrightarrow> e \<in> decode_errors"
  using decode [of d frame] by simp

lemma deliver_completed:
  "deliver_frames decode send d delivered frames = Finished (Inr (Completed r u)) delivered' \<Longrightarrow>
    \<exists>evs. transcript decode d frames = Some (evs, Completed r u) \<and> delivered' = delivered @ evs"
proof (induction frames arbitrary: d delivered)
  case (Cons frame frames)
  then obtain d1 decoded t delivered1 where step: "decode d frame = Inr (d1, decoded)"
    and sent: "deliver_decoded send delivered decoded = (Inr t, delivered1)"
    by (auto split: sum.splits prod.splits)
  note sent' = deliver_events_Inr [OF sent [unfolded deliver_decoded_def]]
  show ?case
  proof (cases t)
    case None
    with Cons step sent have "deliver_frames decode send d1 delivered1 frames =
        Finished (Inr (Completed r u)) delivered'" by simp
    from Cons.IH [OF this] show ?thesis using None step sent' by auto
  next
    case (Some t1)
    then show ?thesis using Cons.prems step sent sent' by (cases "terminal decoded") auto
  qed
qed simp

lemma deliver_continues:
  "deliver_frames decode send d delivered frames = Continue d' delivered' \<Longrightarrow>
    decoder_terminal d = None \<Longrightarrow>
    decoder_terminal d' = None \<and>
    (\<exists>evs. delivered' = delivered @ evs \<and>
      (\<forall>rest. transcript decode d (frames @ rest) =
        map_option (apfst ((@) evs)) (transcript decode d' rest)))"
proof (induction frames arbitrary: d delivered)
  case Nil
  then show ?case by (simp add: map_apfst_Nil)
next
  case (Cons frame frames)
  from Cons.prems(1) obtain d1 decoded delivered1 where step: "decode d frame = Inr (d1, decoded)"
    and sent: "deliver_decoded send delivered decoded = (Inr None, delivered1)"
    and rest: "deliver_frames decode send d1 delivered1 frames = Continue d' delivered'"
    by (auto split: sum.splits prod.splits option.splits)
  note sent' = deliver_events_Inr [OF sent [unfolded deliver_decoded_def]]
  have "decoder_terminal d1 = None" using decode_Inr [OF step] sent' by simp
  from Cons.IH [OF rest this] show ?case
    using step sent' by (auto simp: option.map_comp comp_def apfst_def map_prod_def case_prod_unfold)
qed

lemma deliver_failed:
  "deliver_frames decode send d delivered frames = Finished (Inl e) delivered' \<Longrightarrow>
    e \<in> decode_errors \<union> {timeout_error ''OVERALL_TIMEOUT'', consumer_closed}"
proof (induction frames arbitrary: d delivered)
  case (Cons frame frames)
  then show ?case
    by (auto simp: deliver_decoded_def split: sum.splits prod.splits option.splits
        dest: decode_Inl deliver_events_Inl)
qed simp

lemma deliver_transcript:
  assumes "\<And>n. send n = Sent"
  shows "transcript decode d frames = Some (evs, t) \<Longrightarrow>
    deliver_frames decode send d delivered frames = Finished (Inr t) (delivered @ evs)"
proof (induction frames arbitrary: d delivered evs)
  case (Cons frame frames)
  then show ?case
    by (auto simp: deliver_decoded_def deliver_events_Sent [OF assms] split: sum.splits option.splits)
qed simp

end

interpretation sse_decoder: stream_decoder "decode_sse parse" for parse
proof
  fix d frame
  show "decodes (\<lambda>(d', decoded). decoder_terminal d = None \<and> frame_ok (decoder_terminal d') decoded)
      (decode_sse parse d frame)"
    using openai_decodes [of _ parse frame] anthropic_decodes [of _ parse frame]
      deepseek_decodes [of _ parse frame] google_decodes [of _ parse frame]
    by (cases d) (simp_all add: decode_sse_def wrap_state_def outcome_and_then_iff case_prod_unfold)
qed

interpretation ndjson_decoder: stream_decoder "decode_ndjson parse" for parse
proof
  fix d frame
  show "decodes (\<lambda>(d', decoded). decoder_terminal d = None \<and> frame_ok (decoder_terminal d') decoded)
      (decode_ndjson parse d frame)"
    using ollama_decodes [of _ parse frame]
    by (cases d) (simp_all add: decode_ndjson_def wrap_state_def outcome_and_then_iff case_prod_unfold)
qed

end
