(* ===== verification/Stream_Consume.thy ===== *)
theory Stream_Consume
  imports Stream_Correct
begin

text \<open>
  The two consumer loops over their common interface: a framer, a decoder, and the way the end of the
  body is handled. A run is a function of the bytes received, not of the chunks; it completes exactly
  when the frames received contain a terminal event; its errors come from a fixed set.
\<close>

definition sse_ending :: "SseFramer \<Rightarrow> (RuntimeError, SseFrame list) res" where
  "sse_ending f = and_then (sse_finish f) (\<lambda>_. Inr [])"

text \<open>The frames a consumer gets to see, until the body or the framing ends.\<close>

fun received ::
    "('s \<Rightarrow> byte list \<Rightarrow> ('e, 's \<times> 'f list) res) \<Rightarrow> ('s \<Rightarrow> ('e, 'f list) res) \<Rightarrow> 's \<Rightarrow> BodyPoll list \<Rightarrow>
      'f list" where
  "received push ending f (PollChunk chunk # polls) =
    (case push f chunk of Inl _ \<Rightarrow> [] | Inr (f, frames) \<Rightarrow> frames @ received push ending f polls)"
| "received push ending f (PollEnd # polls) = (case ending f of Inl _ \<Rightarrow> [] | Inr frames \<Rightarrow> frames)"
| "received push ending f _ = []"

definition run_errors :: "RuntimeError set" where
  "run_errors = decode_errors \<union>
    {sse_too_large, invalid_sse_utf8, incomplete_sse_frame, ndjson_too_large, invalid_ndjson_utf8,
     timeout_error ''OVERALL_TIMEOUT'', timeout_error ''STREAM_IDLE_TIMEOUT'', map_http_error,
     consumer_closed, response_headers_too_large, unsupported_content_encoding,
     http_error_body_too_large} \<union> range unexpected_content_type \<union> range stable_http_error"

lemma kind_new [simp]: "kind (RuntimeError_new k code message) = k"
  by (simp add: RuntimeError_new_def)

lemma run_errors_delivery:
  "decode_errors \<union> {timeout_error ''OVERALL_TIMEOUT'', consumer_closed} \<subseteq> run_errors"
  by (simp add: run_errors_def subset_iff)

lemma next_chunk_Inl:
  "next_chunk poll = Inl e \<Longrightarrow> poll_error e = Inr RunCancelled \<or> poll_error e = Inl e \<and> e \<in> run_errors"
  by (cases poll) (auto simp: next_chunk_def poll_error_def cancelled_error_def run_errors_def)

lemma transcript_prefix:
  "transcript decode d xs = Some t \<Longrightarrow> transcript decode d (xs @ ys) = Some t"
  by (induction xs arbitrary: d t) (auto split: sum.splits option.splits)

lemma unfinished: "decoder_terminal d = None \<Longrightarrow> decoder_finish d \<noteq> Inr t"
  using decoder_finish_outcome [of d] by auto

locale stream_consumer = framer ready push + stream_decoder decode
  for ready :: "'s \<Rightarrow> bool" and push :: "'s \<Rightarrow> byte list \<Rightarrow> (RuntimeError, 's \<times> 'f list) res"
    and decode :: "ProviderDecoder \<Rightarrow> 'f \<Rightarrow> (RuntimeError, ProviderDecoder \<times> DecodedFrame) res" +
  fixes ending :: "'s \<Rightarrow> (RuntimeError, 'f list) res"
    and loop :: "(nat \<Rightarrow> SendPoll) \<Rightarrow> 's \<Rightarrow> ProviderDecoder \<Rightarrow> ProviderStreamEvent list \<Rightarrow> BodyPoll list \<Rightarrow>
      run_result"
  assumes loop_Nil: "loop send f d delivered [] = (Inl (timeout_error ''OVERALL_TIMEOUT''), delivered)"
    and loop_Cons: "loop send f d delivered (poll # polls) =
      (case next_chunk poll of
         Inl e \<Rightarrow> (poll_error e, delivered)
       | Inr None \<Rightarrow>
           (case ending f of
              Inl e \<Rightarrow> (Inl e, delivered)
            | Inr frames \<Rightarrow>
                (case deliver_frames decode send d delivered frames of
                   Finished r delivered \<Rightarrow> (r, delivered)
                 | Continue d delivered \<Rightarrow> (decoder_finish d, delivered)))
       | Inr (Some chunk) \<Rightarrow>
           (case push f chunk of
              Inl e \<Rightarrow> (Inl e, delivered)
            | Inr (f, frames) \<Rightarrow>
                (case deliver_frames decode send d delivered frames of
                   Finished r delivered \<Rightarrow> (r, delivered)
                 | Continue d delivered \<Rightarrow> loop send f d delivered polls)))"
    and framing_errors: "push f chunk = Inl e \<Longrightarrow> e \<in> run_errors" "ending f = Inl e \<Longrightarrow> e \<in> run_errors"
begin

lemmas loop_chunk = loop_Cons [of _ _ _ _ "PollChunk c" for c, simplified next_chunk_def BodyPoll.case sum.case option.case]
lemmas loop_end = loop_Cons [of _ _ _ _ PollEnd, simplified next_chunk_def BodyPoll.case sum.case option.case]

lemma loop_chunks:
  "ready f \<Longrightarrow> push f (concat chunks) = Inr (f', frames) \<Longrightarrow>
    loop send f d delivered (map PollChunk chunks @ polls) =
    (case deliver_frames decode send d delivered frames of
       Finished r delivered \<Rightarrow> (r, delivered)
     | Continue d delivered \<Rightarrow> loop send f' d delivered polls)"
proof (induction chunks arbitrary: f d delivered frames)
  case (Cons chunk chunks)
  from Cons.prems obtain f1 frames1 frames2 where first: "push f chunk = Inr (f1, frames1)"
    and rest: "push f1 (concat chunks) = Inr (f', frames2)" and frames: "frames = frames1 @ frames2"
    by (auto simp: push_append)
  have "ready f1" using push_ready [OF Cons.prems(1) first] .
  from Cons.IH [OF this rest] show ?case
    by (auto simp: loop_chunk first frames deliver_frames_append split: progress.split)
qed (simp add: push_Nil)

lemma loop_completed:
  "loop send f d delivered polls = (Inr (Completed r u), delivered') \<Longrightarrow> decoder_terminal d = None \<Longrightarrow>
    \<exists>evs. transcript decode d (received push ending f polls) = Some (evs, Completed r u) \<and>
      delivered' = delivered @ evs"
proof (induction polls arbitrary: f d delivered)
  case (Cons poll polls)
  show ?case
  proof (cases poll)
    case (PollChunk chunk)
    from Cons.prems obtain f1 frames where push: "push f chunk = Inr (f1, frames)"
      by (auto simp: PollChunk loop_chunk split: sum.splits)
    show ?thesis
    proof (cases "deliver_frames decode send d delivered frames")
      case (Finished r1 delivered1)
      then show ?thesis
        using Cons.prems deliver_completed [of send d delivered frames r u delivered']
        by (auto simp: PollChunk loop_chunk push transcript_prefix)
    next
      case (Continue d1 delivered1)
      then show ?thesis
        using Cons.prems Cons.IH [of f1 d1 delivered1] deliver_continues [OF Continue]
        by (auto simp: PollChunk loop_chunk push)
    qed
  next
    case PollEnd
    with Cons.prems(1) obtain frames where frames: "ending f = Inr frames"
      by (auto simp: loop_end split: sum.splits)
    show ?thesis
    proof (cases "deliver_frames decode send d delivered frames")
      case (Continue d1 delivered1)
      then have "decoder_terminal d1 = None" using deliver_continues [OF Continue Cons.prems(2)] by simp
      with Cons.prems(1) Continue show ?thesis by (simp add: PollEnd loop_end frames unfinished)
    next
      case (Finished r1 delivered1)
      with Cons.prems(1) show ?thesis
        using deliver_completed [of send d delivered frames r u delivered']
        by (simp add: PollEnd loop_end frames)
    qed
  qed (use Cons.prems next_chunk_Inl in \<open>auto simp: loop_Cons next_chunk_def poll_error_def split: if_splits\<close>)
qed (simp add: loop_Nil)

lemma loop_transcript:
  assumes "\<And>n. send n = Sent"
  shows "transcript decode d (received push ending f polls) = Some (evs, t) \<Longrightarrow>
    decoder_terminal d = None \<Longrightarrow>
    loop send f d delivered polls = (Inr t, delivered @ evs)"
proof (induction polls arbitrary: f d delivered evs)
  case (Cons poll polls)
  show ?case
  proof (cases poll)
    case (PollChunk chunk)
    from Cons.prems obtain f1 frames where push: "push f chunk = Inr (f1, frames)"
      by (auto simp: PollChunk split: sum.splits)
    show ?thesis
    proof (cases "deliver_frames decode send d delivered frames")
      case (Continue d1 delivered1)
      then show ?thesis
        using Cons.prems Cons.IH [of d1 f1] deliver_continues [OF Continue]
        by (auto simp: PollChunk loop_chunk push)
    next
      case (Finished r1 delivered1)
      have "deliver_frames decode send d delivered (frames @ received push ending f1 polls) =
          Finished (Inr t) (delivered @ evs)"
        using Cons.prems by (intro deliver_transcript assms) (simp add: PollChunk push)
      with Finished show ?thesis by (simp add: PollChunk loop_chunk push deliver_frames_append)
    qed
  next
    case PollEnd
    then show ?thesis
      using Cons.prems deliver_transcript [OF assms]
      by (auto simp: loop_end split: sum.splits)
  qed (use Cons.prems in auto)
qed simp

lemma loop_failed: "loop send f d delivered polls = (Inl e, delivered') \<Longrightarrow> e \<in> run_errors"
proof (induction polls arbitrary: f d delivered)
  case (Cons poll polls)
  have known: "deliver_frames decode send d delivered frames = Finished (Inl e) delivered' \<Longrightarrow> e \<in> run_errors"
    for d delivered and frames :: "'f list"
    using deliver_failed run_errors_delivery by (rule subsetD [rotated])
  show ?case
  proof (cases "next_chunk poll")
    case (Inl e')
    then show ?thesis using Cons.prems next_chunk_Inl [OF Inl] by (auto simp: loop_Cons)
  next
    case (Inr chunk)
    show ?thesis
    proof (cases chunk)
      case None
      show ?thesis
      proof (cases "ending f")
        case (Inr frames)
        with Cons.prems \<open>next_chunk poll = Inr chunk\<close> None have
          "deliver_frames decode send d delivered frames = Finished (Inl e) delivered' \<or>
            (\<exists>d1. decoder_finish d1 = Inl e)"
          by (auto simp: loop_Cons split: progress.splits)
        then show ?thesis
          using known outcome_InlD [OF decoder_finish_outcome] run_errors_delivery by auto
      qed (use Cons.prems Inr None framing_errors(2) in \<open>simp add: loop_Cons\<close>)
    next
      case (Some bytes)
      show ?thesis
      proof (cases "push f bytes")
        case (Inr r)
        with Cons.prems \<open>next_chunk poll = Inr chunk\<close> Some have
          "deliver_frames decode send d delivered (snd r) = Finished (Inl e) delivered' \<or>
            (\<exists>d1 delivered1. loop send (fst r) d1 delivered1 polls = (Inl e, delivered'))"
          by (auto simp: loop_Cons split: progress.splits prod.splits)
        then show ?thesis using known Cons.IH by auto
      qed (use Cons.prems Inr Some framing_errors(1) in \<open>simp add: loop_Cons\<close>)
    qed
  qed
qed (simp add: loop_Nil run_errors_def)

end

lemma sse_line_errors: "sse_line f bytes frames = Inl e \<Longrightarrow> e \<in> {sse_too_large, invalid_sse_utf8}"
  by (auto simp: sse_line_def process_line_def Let_def and_then_eq_Inl_iff ok_or_def case_prod_unfold
      split: if_splits option.splits)

lemma sse_push_errors: "sse_push f bytes = Inl e \<Longrightarrow> e \<in> {sse_too_large, invalid_sse_utf8}"
  unfolding sse_push_def by (rule sse.loop_errors [OF sse_line_errors]) simp_all

lemma ndjson_line_errors:
  "ndjson_line f bytes frames = Inl e \<Longrightarrow> e \<in> {ndjson_too_large, invalid_ndjson_utf8}"
  by (auto simp: ndjson_line_def parse_line_def Let_def and_then_eq_Inl_iff ok_or_def
      split: if_splits option.splits)

lemma ndjson_push_errors: "ndjson_push f bytes = Inl e \<Longrightarrow> e \<in> {ndjson_too_large, invalid_ndjson_utf8}"
  unfolding ndjson_push_def by (rule ndjson.loop_errors [OF ndjson_line_errors]) simp_all

lemma ndjson_finish_errors: "ndjson_finish f = Inl e \<Longrightarrow> e = invalid_ndjson_utf8"
  by (auto simp: ndjson_finish_def parse_line_def Let_def and_then_eq_Inl_iff ok_or_def
      split: if_splits option.splits)

lemma run_errors_framing:
  "sse_too_large \<in> run_errors" "invalid_sse_utf8 \<in> run_errors" "incomplete_sse_frame \<in> run_errors"
  "ndjson_too_large \<in> run_errors" "invalid_ndjson_utf8 \<in> run_errors"
  by (simp_all add: run_errors_def)

lemma sse_framer:
  "framer (\<lambda>f. max_frame_bytes f < 2 ^ 64 - 1 \<and> length (buffer f) \<le> max_frame_bytes f) sse_push"
  unfolding sse_push_def [abs_def] by (rule sse.framed.framer_axioms)

lemma ndjson_framer:
  "framer (\<lambda>f. nd_max_frame_bytes f < 2 ^ 64 - 1 \<and> length (nd_buffer f) \<le> nd_max_frame_bytes f)
    ndjson_push"
  unfolding ndjson_push_def [abs_def] by (rule ndjson.framed.framer_axioms)

interpretation sse_run: stream_consumer
    "\<lambda>f. max_frame_bytes f < 2 ^ 64 - 1 \<and> length (buffer f) \<le> max_frame_bytes f" sse_push
    "decode_sse parse" sse_ending "sse_loop parse" for parse
proof (intro stream_consumer.intro sse_framer sse_decoder.stream_decoder_axioms
    stream_consumer_axioms.intro)
  fix send f d delivered poll polls
  show "sse_loop parse send f d delivered (poll # polls) =
      (case next_chunk poll of
         Inl e \<Rightarrow> (poll_error e, delivered)
       | Inr None \<Rightarrow>
           (case sse_ending f of
              Inl e \<Rightarrow> (Inl e, delivered)
            | Inr frames \<Rightarrow>
                (case deliver_frames (decode_sse parse) send d delivered frames of
                   Finished r delivered \<Rightarrow> (r, delivered)
                 | Continue d delivered \<Rightarrow> (decoder_finish d, delivered)))
       | Inr (Some chunk) \<Rightarrow>
           (case sse_push f chunk of
              Inl e \<Rightarrow> (Inl e, delivered)
            | Inr (f, frames) \<Rightarrow>
                (case deliver_frames (decode_sse parse) send d delivered frames of
                   Finished r delivered \<Rightarrow> (r, delivered)
                 | Continue d delivered \<Rightarrow> sse_loop parse send f d delivered polls)))"
    by (simp add: sse_ending_def sse_finish_def split: sum.split option.split)
next
  fix f :: SseFramer and chunk e
  show "sse_push f chunk = Inl e \<Longrightarrow> e \<in> run_errors"
    using sse_push_errors run_errors_framing by blast
  show "sse_ending f = Inl e \<Longrightarrow> e \<in> run_errors"
    using run_errors_framing by (auto simp: sse_ending_def sse_finish_def split: if_splits)
qed simp

interpretation ndjson_run: stream_consumer
    "\<lambda>f. nd_max_frame_bytes f < 2 ^ 64 - 1 \<and> length (nd_buffer f) \<le> nd_max_frame_bytes f" ndjson_push
    "decode_ndjson parse" ndjson_finish "ndjson_loop parse" for parse
proof (intro stream_consumer.intro ndjson_framer ndjson_decoder.stream_decoder_axioms
    stream_consumer_axioms.intro)
  fix send f d delivered poll polls
  show "ndjson_loop parse send f d delivered (poll # polls) =
      (case next_chunk poll of
         Inl e \<Rightarrow> (poll_error e, delivered)
       | Inr None \<Rightarrow>
           (case ndjson_finish f of
              Inl e \<Rightarrow> (Inl e, delivered)
            | Inr frames \<Rightarrow>
                (case deliver_frames (decode_ndjson parse) send d delivered frames of
                   Finished r delivered \<Rightarrow> (r, delivered)
                 | Continue d delivered \<Rightarrow> (decoder_finish d, delivered)))
       | Inr (Some chunk) \<Rightarrow>
           (case ndjson_push f chunk of
              Inl e \<Rightarrow> (Inl e, delivered)
            | Inr (f, frames) \<Rightarrow>
                (case deliver_frames (decode_ndjson parse) send d delivered frames of
                   Finished r delivered \<Rightarrow> (r, delivered)
                 | Continue d delivered \<Rightarrow> ndjson_loop parse send f d delivered polls)))"
    by (rule ndjson_loop.simps)
next
  fix f :: NdjsonFramer and chunk e
  show "ndjson_push f chunk = Inl e \<Longrightarrow> e \<in> run_errors"
    using ndjson_push_errors run_errors_framing by blast
  show "ndjson_finish f = Inl e \<Longrightarrow> e \<in> run_errors"
    using run_errors_framing by (auto dest: ndjson_finish_errors)
qed simp

end
