(* ===== verification/Stream_Properties.thy ===== *)
theory Stream_Properties
  imports Stream_Consume
begin

text \<open>
  The properties of a provider stream: chunking is irrelevant, a run completes exactly on a terminal
  event, and errors carry nothing a provider sent.
\<close>

lemma valid_frame_limit: "validate_limits limits = Inr () \<Longrightarrow> max_stream_frame_bytes limits < 2 ^ 64 - 1"
  by (auto simp: validate_limits_def split: if_splits)

lemma new_terminal [simp]: "decoder_terminal (ProviderDecoder_new provider) = None"
  by (cases provider) (simp_all add: ProviderDecoder_new_def)

lemmas error_defs =
  RuntimeError_new_def retriable_def with_http_status_def with_retry_decision_def
  unexpected_tool_event_def google_prompt_blocked_def provider_stream_error_def
  invalid_response_id_def invalid_provider_json_def event_after_terminal_def openai_missing_type_def
  openai_type_mismatch_def openai_invalid_delta_def openai_missing_terminal_def
  anthropic_missing_type_def anthropic_type_mismatch_def invalid_content_block_def
  untyped_content_delta_def empty_content_delta_def anthropic_missing_terminal_def
  deepseek_id_changed_def missing_choices_def multiple_choices_def invalid_choice_index_def
  missing_delta_def missing_done_marker_def google_id_changed_def multiple_candidates_def
  invalid_candidate_index_def google_missing_terminal_def invalid_ollama_chunk_def
  ollama_missing_terminal_def ollama_needs_ndjson_def provider_needs_sse_def sse_too_large_def
  invalid_sse_utf8_def incomplete_sse_frame_def ndjson_too_large_def invalid_ndjson_utf8_def
  timeout_error_def map_http_error_def consumer_closed_def response_headers_too_large_def
  unsupported_content_encoding_def http_error_body_too_large_def unexpected_content_type_def
  stable_http_error_def

lemma run_errors_retry: "e \<in> run_errors \<Longrightarrow> retry_decision e \<in> {Never, exponential}"
  by (auto simp: run_errors_def decode_errors_def protocol_error_def error_defs)

lemma poll_error_Inl: "poll_error e = Inl e' \<Longrightarrow> e' = e \<and> kind e \<noteq> Cancelled"
  by (auto simp: poll_error_def split: if_splits)

lemma drain_errors:
  "poll_error (drain_error_body maximum bytes polls too_large drained) = Inl e \<Longrightarrow>
    e \<in> run_errors \<or> e = too_large \<or> e = drained"
proof (induction polls arbitrary: bytes)
  case Nil
  then show ?case using run_errors_delivery by (auto dest: poll_error_Inl)
next
  case (Cons poll polls)
  show ?case
  proof (cases "next_chunk poll")
    case (Inl e')
    then show ?thesis using Cons.prems next_chunk_Inl [OF Inl] by (auto dest: poll_error_Inl)
  next
    case (Inr chunk)
    then show ?thesis
      using Cons by (cases chunk) (auto dest: poll_error_Inl split: if_splits)
  qed
qed

lemma response_metadata_errors:
  "validate_response_metadata to_str response max_count max_bytes = Inl e \<Longrightarrow>
    e \<in> {response_headers_too_large, unsupported_content_encoding}"
proof -
  have "outcome (\<lambda>e. e = response_headers_too_large) (\<lambda>_. True)
      (try_fold (charge_header max_count max_bytes) (0, 0) (headers response))"
    by (rule outcome_try_fold) (auto simp: charge_header_def Let_def case_prod_unfold)
  moreover assume "validate_response_metadata to_str response max_count max_bytes = Inl e"
  ultimately show ?thesis
    by (auto simp: validate_response_metadata_def and_then_eq_Inl_iff split: if_splits)
qed

lemma retry_after_bounded:
  "retry_decision_for_status to_str response = RetryAfter delay \<Longrightarrow> delay \<le> 300"
  by (auto simp: retry_decision_for_status_def parse_retry_after_def exponential_def
      split: bool.splits option.splits if_splits)

text \<open>
  The example of the witnesses: a DeepSeek stream of one text chunk and the end marker, cut in the
  middle of lines, with a parser that knows the one document in it.
\<close>

definition demo_stream :: "byte list list" where
  "demo_stream = [[100, 97, 116], [97, 58, 32, 120, 10, 10, 100, 97, 116, 97, 58, 32, 91, 68, 79], [78, 69, 93, 13, 10], [10]]"

definition demo_parse :: "rstr \<Rightarrow> json option" where
  "demo_parse text =
    (if text = lit ''x''
     then Some (JObject [(lit ''choices'', JArray [JObject
       [(lit ''delta'', JObject [(lit ''content'', JString (lit ''hi''))]), (lit ''index'', JInt 0)]])])
     else None)"

lemmas stream_eval =
  sse_push_def sse_push_loop.simps sse_line_def process_line_def set_field_def SseFramer_new_def
  saturating_add_def strip_cr_def strip_bom_def split_once_def lit_def from_utf8.simps is_scalar_def
  demo_stream_def Let_def

lemmas deepseek_eval =
  decode_sse_def wrap_state_def deepseek_decode_def deepseek_chunk_def deepseek_choice_def
  announce_id_def deepseek_merge_usage_def merge_from_def newest_def parse_provider_json_def
  ensure_no_terminal_def completed_def usage_event_def usage_is_empty_def TokenUsage_default_def
  delta_event_def has_tool_calls_def value_u64_def str_at_def array_at_def trim_def is_whitespace_def
  demo_parse_def lit_def Let_def

lemma default_limits_valid: "validate_limits RuntimeLimits_default = Inr ()"
  by (simp add: validate_limits_def RuntimeLimits_default_def in_range_def from_secs_def)

lemma demo_stream_push:
  "sse_push (SseFramer_new (max_stream_frame_bytes RuntimeLimits_default)) (concat demo_stream) =
    Inr (SseFramer_new (max_stream_frame_bytes RuntimeLimits_default)\<lparr>first_line := False\<rparr>,
      [\<lparr>frame_event = None, frame_data = lit ''x''\<rparr>,
       \<lparr>frame_event = None, frame_data = lit ''[DONE]''\<rparr>])"
  by (simp add: stream_eval RuntimeLimits_default_def cong: and_then_weak_cong)

text \<open>
  C36. The chunks in which the network delivers a body do not matter: as long as the bytes received
  can be framed, a run on them delivers the same events and returns the same result as a run that
  gets all of them in one chunk, whatever follows and whatever happens to the sends.
\<close>

theorem chunking_irrelevant:
  assumes "validate_limits limits = Inr ()"
  shows "(is_ok (sse_push (SseFramer_new (max_stream_frame_bytes limits)) (concat chunks)) \<longrightarrow>
      consume_sse limits parse provider send (map PollChunk chunks @ polls) =
      consume_sse limits parse provider send (PollChunk (concat chunks) # polls)) \<and>
    (is_ok (ndjson_push (NdjsonFramer_new (max_stream_frame_bytes limits)) (concat chunks)) \<longrightarrow>
      consume_ndjson limits parse provider send (map PollChunk chunks @ polls) =
      consume_ndjson limits parse provider send (PollChunk (concat chunks) # polls))"
proof -
  let ?f = "SseFramer_new (max_stream_frame_bytes limits)"
  let ?g = "NdjsonFramer_new (max_stream_frame_bytes limits)"
  have "max_frame_bytes ?f < 2 ^ 64 - 1 \<and> length (buffer ?f) \<le> max_frame_bytes ?f"
    "nd_max_frame_bytes ?g < 2 ^ 64 - 1 \<and> length (nd_buffer ?g) \<le> nd_max_frame_bytes ?g"
    using valid_frame_limit [OF assms] by (simp_all add: SseFramer_new_def NdjsonFramer_new_def)
  note chunks = sse_run.loop_chunks [OF this(1)] ndjson_run.loop_chunks [OF this(2)]
  show ?thesis
    using chunks [of chunks] chunks [of "[concat chunks]"]
    by (auto simp: is_ok_iff consume_sse_def consume_ndjson_def simp del: sse_loop.simps ndjson_loop.simps)
qed

theorem chunking_irrelevant_witness:
  "consume_sse RuntimeLimits_default demo_parse DeepSeek (\<lambda>_. Sent) (map PollChunk demo_stream @ [PollEnd]) =
    consume_sse RuntimeLimits_default demo_parse DeepSeek (\<lambda>_. Sent)
      (PollChunk (concat demo_stream) # [PollEnd])"
  using chunking_irrelevant [OF default_limits_valid, of demo_stream demo_parse DeepSeek "\<lambda>_. Sent" "[PollEnd]"]
  by (simp add: demo_stream_push)

text \<open>
  C37. A run is reported complete exactly when the provider completed it: the result is a completion
  only if some frame received is a terminal event, no earlier frame fails to decode, and the consumer
  got exactly the events of the frames up to that one, in order; and when no send is interrupted,
  such a stream does complete. A stream cut short, cancelled or timed out is never complete.
\<close>

theorem completes_iff_terminal:
  "(consume_sse limits parse provider send polls = (Inr (Completed r u), evs) \<longrightarrow>
      transcript (decode_sse parse) (ProviderDecoder_new provider)
        (received sse_push sse_ending (SseFramer_new (max_stream_frame_bytes limits)) polls) =
      Some (evs, Completed r u)) \<and>
    (consume_ndjson limits parse provider send polls = (Inr (Completed r u), evs) \<longrightarrow>
      transcript (decode_ndjson parse) (ProviderDecoder_new provider)
        (received ndjson_push ndjson_finish (NdjsonFramer_new (max_stream_frame_bytes limits)) polls) =
      Some (evs, Completed r u)) \<and>
    ((\<forall>n. send n = Sent) \<longrightarrow>
      (transcript (decode_sse parse) (ProviderDecoder_new provider)
         (received sse_push sse_ending (SseFramer_new (max_stream_frame_bytes limits)) polls) =
       Some (evs, Completed r u) \<longrightarrow>
       consume_sse limits parse provider send polls = (Inr (Completed r u), evs)) \<and>
      (transcript (decode_ndjson parse) (ProviderDecoder_new provider)
         (received ndjson_push ndjson_finish (NdjsonFramer_new (max_stream_frame_bytes limits)) polls) =
       Some (evs, Completed r u) \<longrightarrow>
       consume_ndjson limits parse provider send polls = (Inr (Completed r u), evs)))"
  using sse_run.loop_completed [of parse send _ "ProviderDecoder_new provider" "[]" polls r u evs]
    ndjson_run.loop_completed [of parse send _ "ProviderDecoder_new provider" "[]" polls r u evs]
    sse_run.loop_transcript [of send parse "ProviderDecoder_new provider"]
    ndjson_run.loop_transcript [of send parse "ProviderDecoder_new provider"]
  by (auto simp: consume_sse_def consume_ndjson_def)

theorem completes_iff_terminal_witness:
  "consume_sse RuntimeLimits_default demo_parse DeepSeek (\<lambda>_. Sent) [PollChunk (concat demo_stream)] =
    (Inr (Completed None None), [TextDelta (lit ''hi'')])"
proof -
  have "transcript (decode_sse demo_parse) (ProviderDecoder_new DeepSeek)
      (received sse_push sse_ending (SseFramer_new (max_stream_frame_bytes RuntimeLimits_default))
        [PollChunk (concat demo_stream)]) = Some ([TextDelta (lit ''hi'')], Completed None None)"
    by (simp add: demo_stream_push ProviderDecoder_new_def deepseek_eval)
  then show ?thesis
    using completes_iff_terminal [of RuntimeLimits_default demo_parse DeepSeek "\<lambda>_. Sent"
        "[PollChunk (concat demo_stream)]" None None "[TextDelta (lit ''hi'')]"]
    by simp
qed

text \<open>
  C38. Nothing a provider sends reaches an error: the code and the message of every error of a run
  are those of a fixed list of literals, whatever the headers and the body were, and a retry delay
  is never more than five minutes.
\<close>

theorem errors_reveal_nothing:
  assumes "handle_response limits parse to_str provider protocol response send polls = (Inl e, evs)"
  shows "(error_code e, error_message e) \<in> (\<lambda>e. (error_code e, error_message e)) ` run_errors \<and>
    (\<forall>delay. retry_decision e = RetryAfter delay \<longrightarrow> delay \<le> 300)"
proof -
  let ?decide = "\<lambda>e. with_retry_decision (retry_decision_for_status to_str response)
    (with_http_status (status response) e)"
  have literal: "http_error_body_too_large \<in> run_errors" "stable_http_error provider \<in> run_errors"
    "response_headers_too_large \<in> run_errors" "unsupported_content_encoding \<in> run_errors"
    "unexpected_content_type protocol \<in> run_errors"
    by (simp_all add: run_errors_def)
  from assms have "e \<in> run_errors \<or> e = ?decide http_error_body_too_large \<or> e = ?decide (stable_http_error provider)"
    using literal
    by (auto simp: handle_response_def consume_sse_def consume_ndjson_def read_http_error_def Let_def
        validate_content_type_def
        split: sum.splits if_splits StreamProtocol.splits simp del: sse_loop.simps ndjson_loop.simps
        dest!: response_metadata_errors drain_errors sse_run.loop_failed ndjson_run.loop_failed)
  then show ?thesis
    using literal run_errors_retry [of e] retry_after_bounded [of to_str response]
    by (auto simp: with_retry_decision_def with_http_status_def exponential_def image_iff)
qed

theorem errors_reveal_nothing_witness:
  "\<exists>e. handle_response RuntimeLimits_default (\<lambda>_. None) (\<lambda>_. None) Anthropic Sse
      \<lparr>status = 500, headers = []\<rparr> (\<lambda>_. Sent) [PollEnd] = (Inl e, []) \<and>
    (error_code e, error_message e) \<in> (\<lambda>e. (error_code e, error_message e)) ` run_errors"
proof -
  have "\<exists>e. handle_response RuntimeLimits_default (\<lambda>_. None) (\<lambda>_. None) Anthropic Sse
      \<lparr>status = 500, headers = []\<rparr> (\<lambda>_. Sent) [PollEnd] = (Inl e, [])"
    by (simp add: handle_response_def validate_response_metadata_def header_get_all_def
        read_http_error_def next_chunk_def poll_error_def with_retry_decision_def
        with_http_status_def stable_http_error_def RuntimeError_new_def Let_def)
  then show ?thesis using errors_reveal_nothing by blast
qed

end
