(* ===== verification/Memory_Model.thy ===== *)
theory Memory_Model
  imports Prompt_Validate Utf8
begin

text \<open>
  The configuration of long-term memory: \<open>lorepia-memory/src/id.rs\<close>, \<open>config.rs\<close>, \<open>session.rs\<close> and
  \<open>budget.rs\<close>. Identifiers are strings, basis points natural numbers. The separator expressions and
  SHA-256 are arguments. An arithmetic overflow or a failed \<open>expect\<close> is the error \<open>MemoryPanicked\<close>.
\<close>

abbreviation (input) "BASIS_POINTS_SCALE \<equiv> 10000 :: nat"
abbreviation (input) "MAX_MEMORY_LABEL_BYTES \<equiv> 256 :: nat"
abbreviation (input) "MAX_SUMMARY_PROMPT_BYTES \<equiv> 65536 :: nat"
abbreviation (input) "MAX_CHUNK_SEPARATOR_REGEX_BYTES \<equiv> 4096 :: nat"
abbreviation (input) "MAX_MESSAGES_PER_SUMMARY \<equiv> 256 :: nat"
abbreviation (input) "MAX_QUERY_MESSAGE_COUNT \<equiv> 128 :: nat"

datatype MemoryError =
    MemoryInvalid rstr rstr
  | MemoryTooMany rstr nat
  | MemoryTooLarge rstr nat
  | MemoryRevisionConflict nat nat
  | MemoryBindingMismatch string rstr rstr
  | MemoryDuplicateId string rstr
  | RetrievalUnavailable string
  | RevisionOverflow
  | MemoryState string
  | MemoryRegex string
  | MemoryPrompt PromptError
  | MemoryPanicked

section \<open>Identifiers\<close>

type_synonym MemoryArtifactId = rstr
type_synonym MemoryPresetId = rstr
type_synonym MessageId = rstr
type_synonym ChatId = rstr
type_synonym CharacterCardId = rstr

definition validate_memory_id :: "string \<Rightarrow> rstr \<Rightarrow> (MemoryError, unit) res" where
  "validate_memory_id field value =
    (if value = [] \<or> 128 < str_len value
     then Inl (MemoryInvalid (lit field) (lit ''must be 1-128 bytes''))
     else if contains_str (lit ''..'') value \<or>
         \<not> list_all (\<lambda>c. is_ascii_alphanumeric c \<or> c = 45 \<or> c = 95 \<or> c = 46) value
     then Inl (MemoryInvalid (lit field) (lit ''must be a safe opaque ASCII identifier''))
     else Inr ())"

definition opaque_id_parse :: "string \<Rightarrow> rstr \<Rightarrow> (MemoryError, rstr) res" where
  "opaque_id_parse field value = and_then (validate_memory_id field value) (\<lambda>_. Inr value)"

record VersionedRef =
  ref_id :: rstr
  ref_revision :: nat

definition VersionedRef_new :: "rstr \<Rightarrow> nat \<Rightarrow> (MemoryError, VersionedRef) res" where
  "VersionedRef_new i revision =
    (if revision = 0 then Inl (MemoryInvalid (lit ''revision'') (lit ''must be at least 1''))
     else Inr \<lparr>ref_id = i, ref_revision = revision\<rparr>)"

section \<open>Presets\<close>

type_synonym BasisPoints = nat

definition BasisPoints_new :: "nat \<Rightarrow> (MemoryError, BasisPoints) res" where
  "BasisPoints_new value =
    (if BASIS_POINTS_SCALE < value
     then Inl (MemoryInvalid (lit ''basisPoints'') (lit ''must be in 0..=10000'')) else Inr value)"

record MemoryMix =
  mix_recent :: BasisPoints
  mix_similar :: BasisPoints
  mix_random :: BasisPoints

definition MemoryMix_new ::
    "BasisPoints \<Rightarrow> BasisPoints \<Rightarrow> BasisPoints \<Rightarrow> (MemoryError, MemoryMix) res" where
  "MemoryMix_new recent similar random =
    (let overflow = MemoryInvalid (lit ''memoryMix'') (lit ''ratio sum overflowed'') in
     and_then (ok_or (checked_add 32 recent similar) overflow) (\<lambda>value.
     and_then (ok_or (checked_add 32 value random) overflow) (\<lambda>total.
       if total \<noteq> BASIS_POINTS_SCALE
       then Inl (MemoryInvalid (lit ''memoryMix'')
         (lit ''recent, similar, and random must sum to 10000''))
       else Inr \<lparr>mix_recent = recent, mix_similar = similar, mix_random = random\<rparr>)))"

text \<open>The expressions that separate chunks: compilation, and the spans of the successive matches.\<close>

record 'rx separator_engine =
  separator_build :: "rstr \<Rightarrow> 'rx option"
  find_iter :: "'rx \<Rightarrow> rstr \<Rightarrow> (nat \<times> nat) list"

definition compile_chunk_separator ::
    "'rx separator_engine \<Rightarrow> rstr \<Rightarrow> (MemoryError, 'rx) res" where
  "compile_chunk_separator engine pattern =
    (if pattern = [] \<or> MAX_CHUNK_SEPARATOR_REGEX_BYTES < str_len pattern
     then Inl (MemoryInvalid (lit ''chunkSeparatorRegex'') (lit ''must be 1-4096 bytes''))
     else and_then (ok_or (separator_build engine pattern)
         (MemoryRegex ''pattern is outside the bounded Rust regex contract'')) (\<lambda>regex.
       if find_iter engine regex [] \<noteq> []
       then Inl (MemoryRegex ''separator must not match an empty string'')
       else Inr regex))"

definition ChunkSeparatorRegex_new :: "'rx separator_engine \<Rightarrow> rstr \<Rightarrow> (MemoryError, rstr) res" where
  "ChunkSeparatorRegex_new engine pattern =
    and_then (compile_chunk_separator engine pattern) (\<lambda>_. Inr pattern)"

datatype EmbeddingQueryScope = Conversation | AssistantOnly

datatype RegenerationRegexPolicy = SkipRules | ApplyPinnedPromptResponseRules

datatype SummaryModelRef = ActiveChatModel | PinnedModel VersionedRef

record SummaryPolicy =
  summary_prompt :: rstr
  resummary_prompt :: rstr
  max_messages_per_summary :: nat
  skip_user_messages :: bool
  chunk_separator :: rstr

definition validate_authored_prompt :: "string \<Rightarrow> rstr \<Rightarrow> (MemoryError, unit) res" where
  "validate_authored_prompt field value =
    (if trim value = [] then Inl (MemoryInvalid (lit field) (lit ''must not be empty''))
     else if MAX_SUMMARY_PROMPT_BYTES < str_len value
     then Inl (MemoryTooLarge (lit field) MAX_SUMMARY_PROMPT_BYTES)
     else if list_ex (\<lambda>c. is_control c \<and> c \<notin> {10, 13, 9}) value
     then Inl (MemoryInvalid (lit field) (lit ''must contain no disallowed control characters''))
     else Inr ())"

definition SummaryPolicy_validate ::
    "'rx separator_engine \<Rightarrow> SummaryPolicy \<Rightarrow> (MemoryError, unit) res" where
  "SummaryPolicy_validate engine policy =
    and_then (validate_authored_prompt ''summaryPrompt'' (summary_prompt policy)) (\<lambda>_.
    and_then (validate_authored_prompt ''resummaryPrompt'' (resummary_prompt policy)) (\<lambda>_.
      if max_messages_per_summary policy = 0 \<or>
          MAX_MESSAGES_PER_SUMMARY < max_messages_per_summary policy
      then Inl (MemoryInvalid (lit ''maxMessagesPerSummary'') (lit ''must be in 1..=256''))
      else and_then (compile_chunk_separator engine (chunk_separator policy)) (\<lambda>_. Inr ())))"

definition SummaryPolicy_new ::
    "'rx separator_engine \<Rightarrow> rstr \<Rightarrow> rstr \<Rightarrow> nat \<Rightarrow> bool \<Rightarrow> rstr \<Rightarrow> (MemoryError, SummaryPolicy) res" where
  "SummaryPolicy_new engine prompt reprompt max_messages skip separator =
    (let policy = \<lparr>summary_prompt = prompt, resummary_prompt = reprompt,
           max_messages_per_summary = max_messages, skip_user_messages = skip,
           chunk_separator = separator\<rparr> in
     and_then (SummaryPolicy_validate engine policy) (\<lambda>_. Inr policy))"

record InsertionPolicy =
  memory_budget :: BasisPoints
  additional_detail_budget :: BasisPoints

definition InsertionPolicy_new ::
    "BasisPoints \<Rightarrow> BasisPoints \<Rightarrow> (MemoryError, InsertionPolicy) res" where
  "InsertionPolicy_new memory detail =
    (if memory = 0
     then Inl (MemoryInvalid (lit ''memoryBudgetBps'') (lit ''must be greater than zero''))
     else Inr \<lparr>memory_budget = memory, additional_detail_budget = detail\<rparr>)"

record HybridRetrievalPolicy =
  query_message_count :: nat
  query_scope :: EmbeddingQueryScope
  selection_mix :: MemoryMix
  embedding_profile :: VersionedRef

definition HybridRetrievalPolicy_new ::
    "nat \<Rightarrow> EmbeddingQueryScope \<Rightarrow> MemoryMix \<Rightarrow> VersionedRef \<Rightarrow>
      (MemoryError, HybridRetrievalPolicy) res" where
  "HybridRetrievalPolicy_new messages query_scope' mix profile =
    (if messages = 0 \<or> MAX_QUERY_MESSAGE_COUNT < messages
     then Inl (MemoryInvalid (lit ''queryMessageCount'') (lit ''must be in 1..=128''))
     else if mix_similar mix = 0
     then Inl (MemoryInvalid (lit ''selectionMix.similar'')
       (lit ''hybrid retrieval requires a non-zero similar-memory share''))
     else Inr \<lparr>query_message_count = messages, query_scope = query_scope', selection_mix = mix,
       embedding_profile = profile\<rparr>)"

datatype MemoryStrategy = RollingSummary | HybridRetrieval HybridRetrievalPolicy

record MemoryPresetDraft =
  draft_label :: rstr
  draft_strategy :: MemoryStrategy
  draft_prompt_preset :: VersionedRef
  draft_summary_model :: SummaryModelRef
  draft_summary :: SummaryPolicy
  draft_insertion :: InsertionPolicy
  draft_preserve_orphans :: bool
  draft_regeneration_regex :: RegenerationRegexPolicy

record MemoryPreset =
  preset_id :: MemoryPresetId
  preset_revision :: nat
  preset_label :: rstr
  strategy :: MemoryStrategy
  prompt_preset :: VersionedRef
  summary_model :: SummaryModelRef
  summary :: SummaryPolicy
  insertion :: InsertionPolicy
  preserve_compacted_orphans :: bool
  regeneration_regex :: RegenerationRegexPolicy

definition validate_memory_label :: "rstr \<Rightarrow> (MemoryError, unit) res" where
  "validate_memory_label value =
    (if value = [] \<or> MAX_MEMORY_LABEL_BYTES < str_len value
     then Inl (MemoryInvalid (lit ''label'') (lit ''must be 1-256 bytes''))
     else if trim value \<noteq> value \<or> list_ex is_control value
     then Inl (MemoryInvalid (lit ''label'')
       (lit ''must have no surrounding whitespace or control characters''))
     else Inr ())"

definition MemoryPreset_from_parts ::
    "'rx separator_engine \<Rightarrow> MemoryPresetId \<Rightarrow> nat \<Rightarrow> MemoryPresetDraft \<Rightarrow> (MemoryError, MemoryPreset) res"
where
  "MemoryPreset_from_parts engine i revision draft =
    (if revision = 0 then Inl (MemoryInvalid (lit ''revision'') (lit ''must be at least 1''))
     else and_then (validate_memory_label (draft_label draft)) (\<lambda>_.
     and_then (SummaryPolicy_validate engine (draft_summary draft)) (\<lambda>_.
       Inr \<lparr>preset_id = i, preset_revision = revision, preset_label = draft_label draft,
         strategy = draft_strategy draft, prompt_preset = draft_prompt_preset draft,
         summary_model = draft_summary_model draft, summary = draft_summary draft,
         insertion = draft_insertion draft,
         preserve_compacted_orphans = draft_preserve_orphans draft,
         regeneration_regex = draft_regeneration_regex draft\<rparr>)))"

definition MemoryPreset_create ::
    "'rx separator_engine \<Rightarrow> MemoryPresetId \<Rightarrow> MemoryPresetDraft \<Rightarrow> (MemoryError, MemoryPreset) res" where
  "MemoryPreset_create engine i draft = MemoryPreset_from_parts engine i 1 draft"

definition MemoryPreset_updated ::
    "'rx separator_engine \<Rightarrow> MemoryPreset \<Rightarrow> nat \<Rightarrow> MemoryPresetDraft \<Rightarrow> (MemoryError, MemoryPreset) res"
where
  "MemoryPreset_updated engine self expected draft =
    (if expected \<noteq> preset_revision self
     then Inl (MemoryRevisionConflict expected (preset_revision self))
     else and_then (ok_or (checked_add 64 (preset_revision self) 1) RevisionOverflow) (\<lambda>revision.
       MemoryPreset_from_parts engine (preset_id self) revision draft))"

section \<open>Sessions\<close>

text \<open>
  \<open>digest_preset\<close> stands for SHA-256 of the JSON text of a prompt preset.
\<close>

record MemorySessionBinding =
  chat_id :: ChatId
  character_card_id :: CharacterCardId
  memory_generation :: nat
  preset :: MemoryPreset
  resolved_summary_model :: VersionedRef
  prompt_preset_digest :: "byte list"

definition check_prompt_preset :: "'rx regex_engine \<Rightarrow> PromptPreset \<Rightarrow> (MemoryError, unit) res" where
  "check_prompt_preset rxe prompt = map_err MemoryPrompt (validate_preset rxe prompt)"

definition MemorySessionBinding_new ::
    "'rx regex_engine \<Rightarrow> (PromptPreset \<Rightarrow> byte list) \<Rightarrow> ChatId \<Rightarrow> CharacterCardId \<Rightarrow> nat \<Rightarrow> MemoryPreset \<Rightarrow>
      VersionedRef \<Rightarrow> PromptPreset \<Rightarrow> (MemoryError, MemorySessionBinding) res" where
  "MemorySessionBinding_new rxe digest_preset chat character gen p model prompt =
    (if gen = 0 then Inl (MemoryInvalid (lit ''memoryGeneration'') (lit ''must be at least 1''))
     else if (case summary_model p of PinnedModel expected \<Rightarrow> expected \<noteq> model | ActiveChatModel \<Rightarrow> False)
     then Inl (MemoryInvalid (lit ''resolvedSummaryModel'')
       (lit ''must match the model preset pinned by the memory preset''))
     else and_then (check_prompt_preset rxe prompt) (\<lambda>_.
       Inr \<lparr>chat_id = chat, character_card_id = character, memory_generation = gen, preset = p,
         resolved_summary_model = model, prompt_preset_digest = digest_preset prompt\<rparr>))"

definition verify_prompt_preset ::
    "'rx regex_engine \<Rightarrow> (PromptPreset \<Rightarrow> byte list) \<Rightarrow> MemorySessionBinding \<Rightarrow> PromptPreset \<Rightarrow>
      (MemoryError, unit) res" where
  "verify_prompt_preset rxe digest_preset binding prompt =
    and_then (check_prompt_preset rxe prompt) (\<lambda>_.
      if digest_preset prompt \<noteq> prompt_preset_digest binding
      then Inl (RetrievalUnavailable
        ''resolved prompt preset content differs from the session snapshot'')
      else Inr ())"

definition verify_scope ::
    "MemorySessionBinding \<Rightarrow> ChatId \<Rightarrow> CharacterCardId \<Rightarrow> (MemoryError, unit) res" where
  "verify_scope binding expected_chat expected_character =
    (if chat_id binding \<noteq> expected_chat
     then Inl (MemoryBindingMismatch ''chatId'' expected_chat (chat_id binding))
     else if character_card_id binding \<noteq> expected_character
     then Inl (MemoryBindingMismatch ''characterCardId'' expected_character
       (character_card_id binding))
     else Inr ())"

section \<open>Token budgets\<close>

record MemoryBudgetInput =
  max_context_tokens :: nat
  max_output_tokens :: nat
  exact_non_memory_tokens :: nat

definition MemoryBudgetInput_new :: "nat \<Rightarrow> nat \<Rightarrow> nat \<Rightarrow> (MemoryError, MemoryBudgetInput) res" where
  "MemoryBudgetInput_new context output non_memory =
    (if context = 0 \<or> output = 0 \<or> context < output
     then Inl (MemoryInvalid (lit ''memoryBudgetInput'')
       (lit ''context and output limits must be positive and output must fit context''))
     else if context - output < non_memory
     then Inl (MemoryInvalid (lit ''exactNonMemoryTokens'')
       (lit ''must fit the context remaining after max output''))
     else Inr \<lparr>max_context_tokens = context, max_output_tokens = output,
       exact_non_memory_tokens = non_memory\<rparr>)"

record RetrievalTokenBudget =
  recent_tokens :: nat
  similar_tokens :: nat
  random_tokens :: nat

record MemoryTokenBudget =
  input_capacity :: nat
  remaining_after_non_memory :: nat
  total_memory :: nat
  consolidated_summary :: nat
  additional_detail :: nat
  retrieval :: RetrievalTokenBudget

text \<open>\<open>u32::try_from(x).expect(...)\<close> and the subtraction of \<open>u32\<close> values.\<close>

definition expect_u32 :: "nat \<Rightarrow> (MemoryError, nat) res" where
  "expect_u32 x = (if x < 2 ^ 32 then Inr x else Inl MemoryPanicked)"

definition sub_u32 :: "nat \<Rightarrow> nat \<Rightarrow> (MemoryError, nat) res" where
  "sub_u32 a b = ok_or (checked_sub a b) MemoryPanicked"

definition scale_tokens :: "nat \<Rightarrow> BasisPoints \<Rightarrow> (MemoryError, nat) res" where
  "scale_tokens tokens basis_points = expect_u32 (tokens * basis_points div BASIS_POINTS_SCALE)"

text \<open>
  \<open>apportion\<close>: the floors of the three shares, then one token more for the largest remainders, ties
  to the earlier share.
\<close>

definition by_remainder :: "nat \<times> nat \<Rightarrow> nat \<times> nat \<Rightarrow> ordering" where
  "by_remainder l r = then_with (cmp (fst r) (fst l)) (cmp (snd l) (snd r))"

definition apportion :: "nat \<Rightarrow> BasisPoints list \<Rightarrow> (MemoryError, nat list) res" where
  "apportion tokens weights =
    and_then (try_map (\<lambda>weight. expect_u32 (tokens * weight div BASIS_POINTS_SCALE)) weights) (\<lambda>shares.
    and_then (try_fold (\<lambda>assigned share. ok_or (checked_add 32 assigned share) MemoryPanicked) 0 shares)
      (\<lambda>assigned.
    and_then (sub_u32 tokens assigned) (\<lambda>missing.
      let remainders = map (\<lambda>(i, weight). (tokens * weight mod BASIS_POINTS_SCALE, i))
            (enumerate 0 weights) in
      try_fold (\<lambda>shares (_, i).
        and_then (ok_or (checked_add 32 (shares ! i) 1) MemoryPanicked) (\<lambda>more. Inr (shares[i := more])))
        shares (take missing (sort_by by_remainder remainders)))))"

definition MemoryTokenBudget_calculate ::
    "MemoryPreset \<Rightarrow> MemoryBudgetInput \<Rightarrow> (MemoryError, MemoryTokenBudget) res" where
  "MemoryTokenBudget_calculate p input =
    and_then (sub_u32 (max_context_tokens input) (max_output_tokens input)) (\<lambda>capacity.
    and_then (sub_u32 capacity (exact_non_memory_tokens input)) (\<lambda>remaining.
    and_then (scale_tokens capacity (memory_budget (insertion p))) (\<lambda>ratio_cap.
    let memory_tokens = min ratio_cap remaining in
    and_then (scale_tokens memory_tokens (additional_detail_budget (insertion p))) (\<lambda>detail.
    and_then (sub_u32 memory_tokens detail) (\<lambda>consolidated.
    and_then
      (case strategy p of
         RollingSummary \<Rightarrow> Inr \<lparr>recent_tokens = detail, similar_tokens = 0, random_tokens = 0\<rparr>
       | HybridRetrieval policy \<Rightarrow>
           (let mix = selection_mix policy in
            and_then (apportion detail [mix_recent mix, mix_similar mix, mix_random mix]) (\<lambda>shares.
              Inr \<lparr>recent_tokens = shares ! 0, similar_tokens = shares ! 1,
                random_tokens = shares ! 2\<rparr>)))
      (\<lambda>budget.
        Inr \<lparr>input_capacity = capacity, remaining_after_non_memory = remaining,
          total_memory = memory_tokens, consolidated_summary = consolidated,
          additional_detail = detail, retrieval = budget\<rparr>))))))"

end
