(* ===== verification/Memory_Summary.thy ===== *)
theory Memory_Summary
  imports Memory_Model
begin

text \<open>
  Summaries of a chat: \<open>lorepia-memory/src/artifact.rs\<close>, \<open>summary.rs\<close> and \<open>chunk.rs\<close>. A job pins the
  messages or artifacts it summarises; its output is accepted only against the same source. SHA-256
  is the argument \<open>sha\<close>; the floating-point cosine of two vectors, in millionths, is the argument
  \<open>quantized_cosine\<close>.
\<close>

abbreviation (input) "MAX_SOURCE_MESSAGES \<equiv> 4096 :: nat"
abbreviation (input) "MAX_SOURCE_MESSAGE_BYTES \<equiv> 262144 :: nat"
abbreviation (input) "MAX_SOURCE_BATCH_BYTES \<equiv> 4194304 :: nat"
abbreviation (input) "MAX_SUMMARY_PLAN_BYTES \<equiv> 16777216 :: nat"
abbreviation (input) "MAX_MEMORY_ARTIFACT_BYTES \<equiv> 262144 :: nat"
abbreviation (input) "MAX_MEMORY_CANDIDATES \<equiv> 4096 :: nat"
abbreviation (input) "MAX_MEMORY_CHUNKS \<equiv> 2048 :: nat"
abbreviation (input) "MAX_EMBEDDING_DIMENSIONS \<equiv> 8192 :: nat"

section \<open>Data\<close>

datatype SummaryArtifactKind = Leaf | Consolidated

datatype MemoryValidity = Attached | SourceCompacted | InvalidatedByEdit | InvalidatedByDeletion

record SummaryArtifact =
  artifact_id :: MemoryArtifactId
  artifact_revision :: nat
  artifact_chat_id :: ChatId
  artifact_character_card_id :: CharacterCardId
  artifact_generation :: nat
  artifact_preset_id :: MemoryPresetId
  artifact_preset_revision :: nat
  artifact_prompt_preset :: VersionedRef
  artifact_summary_model :: VersionedRef
  artifact_kind :: SummaryArtifactKind
  first_source_sequence :: nat
  last_source_sequence :: nat
  covered_leaf_artifact_ids :: "MemoryArtifactId list"
  artifact_content :: rstr
  validity :: MemoryValidity

record MemorySourceMessage =
  source_id :: MessageId
  source_chat_id :: ChatId
  sequence :: nat
  source_role :: MessageRole
  source_content :: rstr

datatype SummaryJobKind = Initial | Resummary

datatype SummaryOutputMode = InitialGeneration | Regeneration

datatype SummaryJobSource =
    Messages "MemorySourceMessage list"
  | Artifacts "SummaryArtifact list"

record MessageSnapshotPin =
  pin_id :: MessageId
  pin_sequence :: nat
  pin_role :: MessageRole
  pin_digest :: "byte list"

record SummaryJob =
  job_chat_id :: ChatId
  job_character_card_id :: CharacterCardId
  job_generation :: nat
  job_preset_id :: MemoryPresetId
  job_preset_revision :: nat
  job_prompt_preset :: VersionedRef
  job_summary_model :: VersionedRef
  job_kind :: SummaryJobKind
  instruction :: rstr
  job_first_sequence :: nat
  job_last_sequence :: nat
  job_source :: SummaryJobSource
  message_snapshot :: "MessageSnapshotPin list"

record ProcessedSummary =
  processed_job :: SummaryJob
  processed_content :: rstr

record EmbeddingQueryPlan =
  plan_chat_id :: ChatId
  plan_character_card_id :: CharacterCardId
  plan_generation :: nat
  plan_preset_id :: MemoryPresetId
  plan_preset_revision :: nat
  plan_prompt_preset :: VersionedRef
  plan_summary_model :: VersionedRef
  plan_embedding_profile :: VersionedRef
  plan_messages :: "MemorySourceMessage list"
  plan_digest :: "byte list"

definition validate_source_content :: "rstr \<Rightarrow> (MemoryError, unit) res" where
  "validate_source_content content =
    (if MAX_SOURCE_MESSAGE_BYTES < str_len content
     then Inl (MemoryTooLarge (lit ''sourceMessage.content'') MAX_SOURCE_MESSAGE_BYTES)
     else if has_nul content
     then Inl (MemoryInvalid (lit ''sourceMessage.content'') (lit ''must contain no NUL''))
     else Inr ())"

definition MemorySourceMessage_new ::
    "MessageId \<Rightarrow> ChatId \<Rightarrow> nat \<Rightarrow> MessageRole \<Rightarrow> rstr \<Rightarrow> (MemoryError, MemorySourceMessage) res" where
  "MemorySourceMessage_new i chat seq role content =
    (if seq = 0 then Inl (MemoryInvalid (lit ''sourceMessage.sequence'') (lit ''must be at least 1''))
     else if role = System
     then Inl (MemoryInvalid (lit ''sourceMessage.role'')
       (lit ''memory source messages must be user or assistant messages''))
     else and_then (validate_source_content content) (\<lambda>_.
       Inr \<lparr>source_id = i, source_chat_id = chat, sequence = seq, source_role = role,
         source_content = content\<rparr>))"

section \<open>Digests\<close>

definition be_bytes :: "nat \<Rightarrow> byte list" where
  "be_bytes v = rev (le_bytes 8 v)"

definition digest_field :: "byte list \<Rightarrow> byte list" where
  "digest_field value = be_bytes (length value) @ value"

definition role_byte :: "MessageRole \<Rightarrow> byte" where
  "role_byte role = (case role of System \<Rightarrow> 0 | User \<Rightarrow> 1 | Assistant \<Rightarrow> 2)"

definition message_encoding :: "MemorySourceMessage \<Rightarrow> byte list" where
  "message_encoding message =
    as_bytes (lit ''lorepia-memory-message-snapshot-v1'') @ digest_field (as_bytes (source_id message)) @
    be_bytes (sequence message) @ [role_byte (source_role message)] @
    digest_field (as_bytes (source_content message))"

definition digest_message :: "(byte list \<Rightarrow> byte list) \<Rightarrow> MemorySourceMessage \<Rightarrow> byte list" where
  "digest_message sha message = sha (message_encoding message)"

definition digest_message_snapshot ::
    "(byte list \<Rightarrow> byte list) \<Rightarrow> MemorySourceMessage list \<Rightarrow> byte list" where
  "digest_message_snapshot sha messages =
    sha (as_bytes (lit ''lorepia-memory-message-snapshot-v1'') @ be_bytes (length messages) @
      concat (map (digest_message sha) messages))"

definition pin_from_message ::
    "(byte list \<Rightarrow> byte list) \<Rightarrow> MemorySourceMessage \<Rightarrow> MessageSnapshotPin" where
  "pin_from_message sha message =
    \<lparr>pin_id = source_id message, pin_sequence = sequence message, pin_role = source_role message,
     pin_digest = digest_message sha message\<rparr>"

definition pin_matches :: "(byte list \<Rightarrow> byte list) \<Rightarrow> MessageSnapshotPin \<Rightarrow> MemorySourceMessage \<Rightarrow> bool" where
  "pin_matches sha pin message \<longleftrightarrow>
    pin_id pin = source_id message \<and> pin_sequence pin = sequence message \<and>
    pin_role pin = source_role message \<and> pin_digest pin = digest_message sha message"

section \<open>Checks against the session\<close>

definition check_message ::
    "MemorySessionBinding \<Rightarrow> MessageId list \<times> nat option \<Rightarrow> MemorySourceMessage \<Rightarrow>
      (MemoryError, MessageId list \<times> nat option) res" where
  "check_message binding = (\<lambda>(ids, previous) message.
    if source_chat_id message \<noteq> chat_id binding
    then Inl (MemoryBindingMismatch ''sourceMessage.chatId'' (chat_id binding) (source_chat_id message))
    else if source_id message \<in> set ids
    then Inl (MemoryDuplicateId ''messageId'' (source_id message))
    else if (case previous of None \<Rightarrow> False | Some p \<Rightarrow> sequence message \<le> p)
    then Inl (MemoryInvalid (lit ''sourceMessages.sequence'')
      (lit ''messages must be strictly chronological''))
    else Inr (source_id message # ids, Some (sequence message)))"

definition validate_message_snapshot ::
    "MemorySessionBinding \<Rightarrow> MemorySourceMessage list \<Rightarrow> (MemoryError, unit) res" where
  "validate_message_snapshot binding messages =
    (if MAX_SOURCE_MESSAGES < length messages
     then Inl (MemoryTooMany (lit ''sourceMessages'') MAX_SOURCE_MESSAGES)
     else and_then (try_fold (check_message binding) ([], None) messages) (\<lambda>_. Inr ()))"

definition artifact_in_scope :: "MemorySessionBinding \<Rightarrow> SummaryArtifact \<Rightarrow> bool" where
  "artifact_in_scope binding artifact \<longleftrightarrow>
    artifact_chat_id artifact = chat_id binding \<and>
    artifact_character_card_id artifact = character_card_id binding \<and>
    artifact_generation artifact = memory_generation binding \<and>
    artifact_preset_id artifact = preset_id (preset binding) \<and>
    artifact_preset_revision artifact = preset_revision (preset binding) \<and>
    artifact_prompt_preset artifact = prompt_preset (preset binding) \<and>
    artifact_summary_model artifact = resolved_summary_model binding"

definition summary_artifact_scope ::
    "MemorySessionBinding \<Rightarrow> SummaryArtifact \<Rightarrow> (MemoryError, unit) res" where
  "summary_artifact_scope binding artifact =
    (if artifact_in_scope binding artifact then Inr ()
     else Inl (RetrievalUnavailable ''summary artifact is outside the active memory session''))"

definition job_verify_binding :: "SummaryJob \<Rightarrow> MemorySessionBinding \<Rightarrow> (MemoryError, unit) res" where
  "job_verify_binding job binding =
    (if job_chat_id job \<noteq> chat_id binding
        \<or> job_character_card_id job \<noteq> character_card_id binding
        \<or> job_generation job \<noteq> memory_generation binding
        \<or> job_preset_id job \<noteq> preset_id (preset binding)
        \<or> job_preset_revision job \<noteq> preset_revision (preset binding)
        \<or> job_prompt_preset job \<noteq> prompt_preset (preset binding)
        \<or> job_summary_model job \<noteq> resolved_summary_model binding
     then Inl (RetrievalUnavailable ''summary job is outside the active memory session snapshot'')
     else Inr ())"

definition verify_authoritative_source ::
    "(byte list \<Rightarrow> byte list) \<Rightarrow> SummaryJob \<Rightarrow> MemorySessionBinding \<Rightarrow> SummaryJobSource \<Rightarrow>
      (MemoryError, unit) res" where
  "verify_authoritative_source sha job binding current =
    (case (job_source job, current) of
       (Messages _, Messages messages) \<Rightarrow>
         and_then (validate_message_snapshot binding messages) (\<lambda>_.
           if list_all2 (pin_matches sha) (message_snapshot job) messages then Inr ()
           else Inl (RetrievalUnavailable ''summary source messages changed after the job was planned''))
     | (Artifacts planned, Artifacts artifacts) \<Rightarrow>
         and_then (try_fold (\<lambda>_ artifact. summary_artifact_scope binding artifact) () artifacts) (\<lambda>_.
           if planned \<noteq> artifacts
           then Inl (RetrievalUnavailable ''summary source artifacts changed after the job was planned'')
           else Inr ())
     | _ \<Rightarrow>
         Inl (RetrievalUnavailable ''authoritative summary source type differs from the planned job''))"

definition plan_verify_binding :: "EmbeddingQueryPlan \<Rightarrow> MemorySessionBinding \<Rightarrow> (MemoryError, unit) res" where
  "plan_verify_binding plan binding =
    (case strategy (preset binding) of
       RollingSummary \<Rightarrow> Inl (RetrievalUnavailable ''rolling-summary mode has no embedding query'')
     | HybridRetrieval policy \<Rightarrow>
         if plan_chat_id plan \<noteq> chat_id binding
            \<or> plan_character_card_id plan \<noteq> character_card_id binding
            \<or> plan_generation plan \<noteq> memory_generation binding
            \<or> plan_preset_id plan \<noteq> preset_id (preset binding)
            \<or> plan_preset_revision plan \<noteq> preset_revision (preset binding)
            \<or> plan_prompt_preset plan \<noteq> prompt_preset (preset binding)
            \<or> plan_summary_model plan \<noteq> resolved_summary_model binding
            \<or> plan_embedding_profile plan \<noteq> embedding_profile policy
         then Inl (RetrievalUnavailable
           ''embedding query plan is outside the active memory session snapshot'')
         else Inr ())"

definition verify_authoritative_messages ::
    "(byte list \<Rightarrow> byte list) \<Rightarrow> EmbeddingQueryPlan \<Rightarrow> MemorySessionBinding \<Rightarrow>
      MemorySourceMessage list \<Rightarrow> (MemoryError, unit) res" where
  "verify_authoritative_messages sha plan binding messages =
    and_then (plan_verify_binding plan binding) (\<lambda>_.
    and_then (validate_message_snapshot binding messages) (\<lambda>_.
      if plan_messages plan \<noteq> messages \<or> plan_digest plan \<noteq> digest_message_snapshot sha messages
      then Inl (RetrievalUnavailable ''embedding query messages changed after the plan was created'')
      else Inr ()))"

section \<open>Planning\<close>

definition validate_batch_bytes :: "string \<Rightarrow> nat list \<Rightarrow> (MemoryError, nat) res" where
  "validate_batch_bytes field sizes =
    (let too_large = MemoryTooLarge (lit field) MAX_SOURCE_BATCH_BYTES in
     try_fold (\<lambda>sum_bytes size.
       and_then (ok_or (checked_add_usize sum_bytes size) too_large) (\<lambda>next_bytes.
         if MAX_SOURCE_BATCH_BYTES < next_bytes then Inl too_large else Inr next_bytes)) 0 sizes)"

definition job_from_binding ::
    "MemorySessionBinding \<Rightarrow> SummaryJobKind \<Rightarrow> rstr \<Rightarrow> nat \<Rightarrow> nat \<Rightarrow> SummaryJobSource \<Rightarrow>
      MessageSnapshotPin list \<Rightarrow> SummaryJob" where
  "job_from_binding binding k text first_sequence last_sequence source pins =
    \<lparr>job_chat_id = chat_id binding, job_character_card_id = character_card_id binding,
     job_generation = memory_generation binding, job_preset_id = preset_id (preset binding),
     job_preset_revision = preset_revision (preset binding),
     job_prompt_preset = prompt_preset (preset binding),
     job_summary_model = resolved_summary_model binding, job_kind = k, instruction = text,
     job_first_sequence = first_sequence, job_last_sequence = last_sequence, job_source = source,
     message_snapshot = pins\<rparr>"

text \<open>\<open>slice.chunks(n)\<close> for a positive \<open>n\<close>.\<close>

function chunks_of :: "nat \<Rightarrow> 'a list \<Rightarrow> 'a list list" where
  "chunks_of n xs = (if n = 0 \<or> xs = [] then [] else take n xs # chunks_of n (drop n xs))"
  by pat_completeness auto
termination
  by (relation "measure (\<lambda>(_, xs). length xs)") auto

declare chunks_of.simps [simp del]

definition plan_batch ::
    "(byte list \<Rightarrow> byte list) \<Rightarrow> MemorySessionBinding \<Rightarrow> nat \<times> SummaryJob list \<Rightarrow>
      MemorySourceMessage list \<Rightarrow> (MemoryError, nat \<times> SummaryJob list) res" where
  "plan_batch sha binding = (\<lambda>(planned_bytes, jobs) batch.
    let policy = summary (preset binding);
        included = filter (\<lambda>m. \<not> skip_user_messages policy \<or> source_role m \<noteq> User) batch;
        too_large = MemoryTooLarge (lit ''summaryPlan'') MAX_SUMMARY_PLAN_BYTES in
    and_then (validate_batch_bytes ''summaryJob.messages''
      (map (\<lambda>m. str_len (source_content m)) included)) (\<lambda>batch_bytes.
    and_then (ok_or (checked_add_usize batch_bytes
      (if included = [] then 0 else str_len (summary_prompt policy))) too_large) (\<lambda>job_bytes.
    and_then (ok_or (checked_add_usize planned_bytes job_bytes) too_large) (\<lambda>planned_bytes.
      if MAX_SUMMARY_PLAN_BYTES < planned_bytes then Inl too_large
      else Inr (planned_bytes, jobs @ [job_from_binding binding Initial
        (if included = [] then [] else summary_prompt policy) (sequence (hd batch))
        (sequence (last batch)) (Messages included) (map (pin_from_message sha) batch)])))))"

definition plan_initial_summary_jobs ::
    "(byte list \<Rightarrow> byte list) \<Rightarrow> MemorySessionBinding \<Rightarrow> ChatId \<Rightarrow> CharacterCardId \<Rightarrow>
      MemorySourceMessage list \<Rightarrow> (MemoryError, SummaryJob list) res" where
  "plan_initial_summary_jobs sha binding expected_chat expected_character messages =
    and_then (verify_scope binding expected_chat expected_character) (\<lambda>_.
    and_then (validate_message_snapshot binding messages) (\<lambda>_.
    let batch_size = max_messages_per_summary (summary (preset binding)) in
    if batch_size = 0 then Inl MemoryPanicked
    else and_then (try_fold (plan_batch sha binding) (0, []) (chunks_of batch_size messages))
      (\<lambda>(_, jobs). Inr jobs)))"

definition check_resummary_artifact ::
    "MemorySessionBinding \<Rightarrow> MemoryArtifactId list \<times> nat option \<Rightarrow> SummaryArtifact \<Rightarrow>
      (MemoryError, MemoryArtifactId list \<times> nat option) res" where
  "check_resummary_artifact binding = (\<lambda>(ids, previous_last) artifact.
    and_then (summary_artifact_scope binding artifact) (\<lambda>_.
      if validity artifact \<in> {InvalidatedByEdit, InvalidatedByDeletion}
      then Inl (MemoryInvalid (lit ''resummaryArtifacts.validity'')
        (lit ''invalidated artifacts must never be summarized again''))
      else if validity artifact = SourceCompacted \<and> \<not> preserve_compacted_orphans (preset binding)
      then Inl (MemoryInvalid (lit ''resummaryArtifacts.validity'')
        (lit ''compacted-source artifacts are disabled by this memory preset''))
      else if artifact_id artifact \<in> set ids
      then Inl (MemoryDuplicateId ''memoryArtifactId'' (artifact_id artifact))
      else if (case previous_last of None \<Rightarrow> False | Some p \<Rightarrow> first_source_sequence artifact \<le> p)
      then Inl (MemoryInvalid (lit ''resummaryArtifacts'')
        (lit ''artifacts must be strictly chronological and non-overlapping''))
      else Inr (artifact_id artifact # ids, Some (last_source_sequence artifact))))"

definition plan_resummary_job ::
    "MemorySessionBinding \<Rightarrow> ChatId \<Rightarrow> CharacterCardId \<Rightarrow> SummaryArtifact list \<Rightarrow>
      (MemoryError, SummaryJob) res" where
  "plan_resummary_job binding expected_chat expected_character artifacts =
    and_then (verify_scope binding expected_chat expected_character) (\<lambda>_.
    if artifacts = []
    then Inl (MemoryInvalid (lit ''resummaryArtifacts'') (lit ''must contain at least one artifact''))
    else if MAX_SOURCE_MESSAGES < length artifacts
    then Inl (MemoryTooMany (lit ''resummaryArtifacts'') MAX_SOURCE_MESSAGES)
    else and_then (try_fold (check_resummary_artifact binding) ([], None) artifacts) (\<lambda>_.
    and_then (validate_batch_bytes ''resummaryArtifacts''
      (map (\<lambda>a. str_len (artifact_content a)) artifacts)) (\<lambda>_.
      Inr (job_from_binding binding Resummary (resummary_prompt (summary (preset binding)))
        (first_source_sequence (hd artifacts)) (last_source_sequence (last artifacts))
        (Artifacts artifacts) []))))"

definition build_embedding_query ::
    "(byte list \<Rightarrow> byte list) \<Rightarrow> MemorySessionBinding \<Rightarrow> ChatId \<Rightarrow> CharacterCardId \<Rightarrow>
      MemorySourceMessage list \<Rightarrow> (MemoryError, EmbeddingQueryPlan) res" where
  "build_embedding_query sha binding expected_chat expected_character messages =
    and_then (verify_scope binding expected_chat expected_character) (\<lambda>_.
    and_then (validate_message_snapshot binding messages) (\<lambda>_.
    case strategy (preset binding) of
      RollingSummary \<Rightarrow> Inl (RetrievalUnavailable ''rolling-summary mode has no embedding query'')
    | HybridRetrieval policy \<Rightarrow>
        (let eligible = filter (\<lambda>m. case query_scope policy of
               Conversation \<Rightarrow> True | AssistantOnly \<Rightarrow> source_role m = Assistant) messages;
             selected = rev (take (query_message_count policy) (rev eligible)) in
         if selected = []
         then Inl (RetrievalUnavailable ''the configured embedding query scope selected no messages'')
         else and_then (validate_batch_bytes ''embeddingQuery.messages''
             (map (\<lambda>m. str_len (source_content m)) selected)) (\<lambda>_.
           Inr \<lparr>plan_chat_id = chat_id binding, plan_character_card_id = character_card_id binding,
             plan_generation = memory_generation binding, plan_preset_id = preset_id (preset binding),
             plan_preset_revision = preset_revision (preset binding),
             plan_prompt_preset = prompt_preset (preset binding),
             plan_summary_model = resolved_summary_model binding,
             plan_embedding_profile = embedding_profile policy, plan_messages = selected,
             plan_digest = digest_message_snapshot sha selected\<rparr>))))"

section \<open>Accepting an output\<close>

definition validate_content_bytes :: "string \<Rightarrow> rstr \<Rightarrow> (MemoryError, unit) res" where
  "validate_content_bytes field content =
    (if trim content = [] then Inl (MemoryInvalid (lit field) (lit ''must not be empty''))
     else if MAX_MEMORY_ARTIFACT_BYTES < str_len content
     then Inl (MemoryTooLarge (lit field) MAX_MEMORY_ARTIFACT_BYTES)
     else if has_nul content then Inl (MemoryInvalid (lit field) (lit ''must contain no NUL''))
     else Inr ())"

definition validate_generated_content :: "rstr \<Rightarrow> (MemoryError, unit) res" where
  "validate_generated_content content = validate_content_bytes ''generatedSummary'' content"

definition validate_artifact_content :: "rstr \<Rightarrow> (MemoryError, unit) res" where
  "validate_artifact_content content = validate_content_bytes ''summaryArtifact.content'' content"

definition process_summary_output ::
    "'rx regex_engine \<Rightarrow> (PromptPreset \<Rightarrow> byte list) \<Rightarrow> (byte list \<Rightarrow> byte list) \<Rightarrow>
      MemorySessionBinding \<Rightarrow> ChatId \<Rightarrow> CharacterCardId \<Rightarrow> SummaryJob \<Rightarrow> SummaryJobSource \<Rightarrow> PromptPreset \<Rightarrow>
      SummaryOutputMode \<Rightarrow> rstr \<Rightarrow> (MemoryError, ProcessedSummary) res" where
  "process_summary_output rxe digest_preset sha binding expected_chat expected_character job current
      prompt mode raw_output =
    and_then (verify_scope binding expected_chat expected_character) (\<lambda>_.
    and_then (job_verify_binding job binding) (\<lambda>_.
    and_then (verify_authoritative_source sha job binding current) (\<lambda>_.
    and_then (verify_prompt_preset rxe digest_preset binding prompt) (\<lambda>_.
    and_then (validate_generated_content raw_output) (\<lambda>_.
    and_then
      (case (mode, regeneration_regex (preset binding)) of
         (Regeneration, ApplyPinnedPromptResponseRules) \<Rightarrow>
           map_err MemoryPrompt (apply_text_transforms rxe prompt Response raw_output)
       | _ \<Rightarrow> Inr raw_output) (\<lambda>output.
    and_then (validate_generated_content output) (\<lambda>_.
      Inr \<lparr>processed_job = job, processed_content = output\<rparr>)))))))"

definition process_regenerated_summary ::
    "'rx regex_engine \<Rightarrow> (PromptPreset \<Rightarrow> byte list) \<Rightarrow> (byte list \<Rightarrow> byte list) \<Rightarrow>
      MemorySessionBinding \<Rightarrow> ChatId \<Rightarrow> CharacterCardId \<Rightarrow> SummaryJob \<Rightarrow> SummaryJobSource \<Rightarrow> PromptPreset \<Rightarrow>
      rstr \<Rightarrow> (MemoryError, ProcessedSummary) res" where
  "process_regenerated_summary rxe digest_preset sha binding expected_chat expected_character job
      current prompt raw_output =
    process_summary_output rxe digest_preset sha binding expected_chat expected_character job current
      prompt Regeneration raw_output"

section \<open>Artifacts\<close>

definition source_is_empty :: "SummaryJobSource \<Rightarrow> bool" where
  "source_is_empty source = (case source of Messages ms \<Rightarrow> ms = [] | Artifacts as \<Rightarrow> as = [])"

definition requires_generation :: "SummaryJob \<Rightarrow> bool" where
  "requires_generation job \<longleftrightarrow> \<not> source_is_empty (job_source job)"

text \<open>The \<open>BTreeSet\<close> of covered leaves, as the sorted list it is turned into.\<close>

definition cover_leaf ::
    "MemoryArtifactId list \<Rightarrow> MemoryArtifactId \<Rightarrow> (MemoryError, MemoryArtifactId list) res" where
  "cover_leaf covered leaf =
    (let covered = (if leaf \<in> set covered then covered else insort leaf covered) in
     if MAX_MEMORY_CANDIDATES < length covered
     then Inl (MemoryTooMany (lit ''coveredLeafArtifactIds'') MAX_MEMORY_CANDIDATES)
     else Inr covered)"

definition SummaryArtifact_new ::
    "MemorySessionBinding \<Rightarrow> ChatId \<Rightarrow> CharacterCardId \<Rightarrow> ProcessedSummary \<Rightarrow> MemoryArtifactId \<Rightarrow>
      (MemoryError, SummaryArtifact) res" where
  "SummaryArtifact_new binding expected_chat expected_character processed i =
    (let job = processed_job processed; content = processed_content processed in
     and_then (verify_scope binding expected_chat expected_character) (\<lambda>_.
     and_then (job_verify_binding job binding) (\<lambda>_.
     if \<not> requires_generation job
     then Inl (MemoryInvalid (lit ''summaryJob.source'')
       (lit ''a filtered-empty summary job cannot produce an artifact''))
     else and_then (validate_artifact_content content) (\<lambda>_.
     and_then
       (case (job_kind job, job_source job) of
          (Initial, Messages _) \<Rightarrow> Inr (Leaf, [i])
        | (Resummary, Artifacts artifacts) \<Rightarrow>
            and_then (try_fold cover_leaf [] (concat (map covered_leaf_artifact_ids artifacts)))
              (\<lambda>covered.
                if covered = []
                then Inl (MemoryInvalid (lit ''coveredLeafArtifactIds'')
                  (lit ''a consolidated summary must cover at least one leaf''))
                else Inr (Consolidated, covered))
        | _ \<Rightarrow> Inl (MemoryInvalid (lit ''summaryJob.source'')
            (lit ''summary job kind and source type differ'')))
       (\<lambda>(k, covered).
         Inr \<lparr>artifact_id = i, artifact_revision = 1, artifact_chat_id = chat_id binding,
           artifact_character_card_id = character_card_id binding,
           artifact_generation = memory_generation binding,
           artifact_preset_id = preset_id (preset binding),
           artifact_preset_revision = preset_revision (preset binding),
           artifact_prompt_preset = prompt_preset (preset binding),
           artifact_summary_model = resolved_summary_model binding, artifact_kind = k,
           first_source_sequence = job_first_sequence job,
           last_source_sequence = job_last_sequence job, covered_leaf_artifact_ids = covered,
           artifact_content = content, validity = Attached\<rparr>)))))"

definition covers_leaf :: "SummaryArtifact \<Rightarrow> MemoryArtifactId \<Rightarrow> bool" where
  "covers_leaf artifact i \<longleftrightarrow> binary_search (covered_leaf_artifact_ids artifact) i \<noteq> None"

definition source_compacted :: "SummaryArtifact \<Rightarrow> SummaryArtifact" where
  "source_compacted artifact =
    (if validity artifact = Attached then artifact\<lparr>validity := SourceCompacted\<rparr> else artifact)"

definition invalidate :: "MemoryValidity \<Rightarrow> SummaryArtifact \<Rightarrow> (MemoryError, SummaryArtifact) res" where
  "invalidate v artifact =
    and_then (ok_or (checked_add 64 (artifact_revision artifact) 1) RevisionOverflow) (\<lambda>revision.
      Inr (artifact\<lparr>artifact_revision := revision, validity := v, artifact_content := []\<rparr>))"

definition invalidated_by_edit :: "SummaryArtifact \<Rightarrow> (MemoryError, SummaryArtifact) res" where
  "invalidated_by_edit artifact = invalidate InvalidatedByEdit artifact"

definition invalidated_by_deletion :: "SummaryArtifact \<Rightarrow> (MemoryError, SummaryArtifact) res" where
  "invalidated_by_deletion artifact = invalidate InvalidatedByDeletion artifact"

section \<open>Embeddings\<close>

text \<open>
  A vector of 32-bit floats. Its squared norm is computed with 64-bit floats, where the square of a
  non-zero 32-bit float does not vanish, so it is zero exactly for the zero vector.
\<close>

record EmbeddingVector =
  vector_profile :: VersionedRef
  vector_values :: "f64 list"

definition EmbeddingVector_new :: "VersionedRef \<Rightarrow> f64 list \<Rightarrow> (MemoryError, EmbeddingVector) res" where
  "EmbeddingVector_new profile xs =
    (if xs = [] \<or> MAX_EMBEDDING_DIMENSIONS < length xs
     then Inl (MemoryInvalid (lit ''embedding.values'') (lit ''dimension must be in 1..=8192''))
     else if \<not> list_all is_finite xs
     then Inl (MemoryInvalid (lit ''embedding.values'') (lit ''all values must be finite''))
     else if list_all (\<lambda>x. x = Finite 0) xs
     then Inl (MemoryInvalid (lit ''embedding.values'') (lit ''zero-norm vectors are not comparable''))
     else Inr \<lparr>vector_profile = profile, vector_values = xs\<rparr>)"

definition from_quantized :: "int \<Rightarrow> (MemoryError, int) res" where
  "from_quantized v =
    (if \<not> (- 1000000 \<le> v \<and> v \<le> 1000000)
     then Inl (MemoryInvalid (lit ''similarityScore'') (lit ''must be in -1000000..=1000000''))
     else Inr v)"

definition cosine_similarity ::
    "(f64 list \<Rightarrow> f64 list \<Rightarrow> int) \<Rightarrow> EmbeddingVector \<Rightarrow> EmbeddingVector \<Rightarrow> (MemoryError, int) res" where
  "cosine_similarity quantized_cosine query candidate =
    (if vector_profile query \<noteq> vector_profile candidate
     then Inl (RetrievalUnavailable ''embedding profile ID or revision differs'')
     else if length (vector_values query) \<noteq> length (vector_values candidate)
     then Inl (RetrievalUnavailable ''embedding dimensions differ'')
     else from_quantized (quantized_cosine (vector_values query) (vector_values candidate)))"

record EmbeddingArtifact =
  embedded_artifact_id :: MemoryArtifactId
  embedded_artifact_revision :: nat
  embedded_chat_id :: ChatId
  embedded_character_card_id :: CharacterCardId
  embedded_generation :: nat
  embedded_preset_id :: MemoryPresetId
  embedded_preset_revision :: nat
  embedded_prompt_preset :: VersionedRef
  embedded_summary_model :: VersionedRef
  embedded_vector :: EmbeddingVector

definition EmbeddingArtifact_new ::
    "MemorySessionBinding \<Rightarrow> ChatId \<Rightarrow> CharacterCardId \<Rightarrow> SummaryArtifact \<Rightarrow> EmbeddingVector \<Rightarrow>
      (MemoryError, EmbeddingArtifact) res" where
  "EmbeddingArtifact_new binding expected_chat expected_character artifact vector =
    and_then (verify_scope binding expected_chat expected_character) (\<lambda>_.
    and_then (summary_artifact_scope binding artifact) (\<lambda>_.
    if validity artifact \<in> {InvalidatedByEdit, InvalidatedByDeletion}
    then Inl (RetrievalUnavailable ''invalidated summary artifacts must not be embedded'')
    else if validity artifact = SourceCompacted \<and> \<not> preserve_compacted_orphans (preset binding)
    then Inl (RetrievalUnavailable ''compacted-source artifacts are disabled by this memory preset'')
    else case strategy (preset binding) of
      RollingSummary \<Rightarrow> Inl (RetrievalUnavailable ''rolling-summary mode has no embedding profile'')
    | HybridRetrieval policy \<Rightarrow>
        if vector_profile vector \<noteq> embedding_profile policy
        then Inl (RetrievalUnavailable ''vector is outside the pinned embedding space'')
        else Inr \<lparr>embedded_artifact_id = artifact_id artifact,
          embedded_artifact_revision = artifact_revision artifact,
          embedded_chat_id = artifact_chat_id artifact,
          embedded_character_card_id = artifact_character_card_id artifact,
          embedded_generation = artifact_generation artifact,
          embedded_preset_id = artifact_preset_id artifact,
          embedded_preset_revision = artifact_preset_revision artifact,
          embedded_prompt_preset = artifact_prompt_preset artifact,
          embedded_summary_model = artifact_summary_model artifact, embedded_vector = vector\<rparr>))"

section \<open>Chunks\<close>

record MemoryChunk =
  chunk_id :: MemoryArtifactId
  parent_artifact_id :: MemoryArtifactId
  chunk_index :: nat
  chunk_content :: rstr

definition validate_chunk_input :: "rstr \<Rightarrow> (MemoryError, unit) res" where
  "validate_chunk_input content =
    (if MAX_MEMORY_ARTIFACT_BYTES < str_len content
     then Inl (MemoryTooLarge (lit ''memoryChunkInput'') MAX_MEMORY_ARTIFACT_BYTES)
     else if has_nul content
     then Inl (MemoryInvalid (lit ''memoryChunkInput'') (lit ''must contain no NUL''))
     else Inr ())"

definition hex_digit :: "nat \<Rightarrow> uchar" where
  "hex_digit n = lit ''0123456789abcdef'' ! n"

definition memory_hex :: "byte list \<Rightarrow> rstr" where
  "memory_hex bytes = concat (map (\<lambda>b. [hex_digit (unat b div 16), hex_digit (unat b mod 16)]) bytes)"

definition chunk_encoding :: "MemoryArtifactId \<Rightarrow> nat \<Rightarrow> rstr \<Rightarrow> byte list" where
  "chunk_encoding parent i content =
    as_bytes (lit ''lorepia-memory-chunk-v1'') @ digest_field (as_bytes parent) @ be_bytes i @
    digest_field (as_bytes content)"

definition derive_chunk_id ::
    "(byte list \<Rightarrow> byte list) \<Rightarrow> MemoryArtifactId \<Rightarrow> nat \<Rightarrow> rstr \<Rightarrow> (MemoryError, MemoryArtifactId) res" where
  "derive_chunk_id sha parent i content =
    opaque_id_parse ''memoryArtifactId'' (memory_hex (sha (chunk_encoding parent i content)))"

definition push_non_empty_chunk ::
    "(byte list \<Rightarrow> byte list) \<Rightarrow> MemoryArtifactId \<Rightarrow> MemoryChunk list \<Rightarrow> rstr \<Rightarrow>
      (MemoryError, MemoryChunk list) res" where
  "push_non_empty_chunk sha parent chunks content =
    (if trim content = [] then Inr chunks
     else if MAX_MEMORY_CHUNKS \<le> length chunks
     then Inl (MemoryTooMany (lit ''memoryChunks'') MAX_MEMORY_CHUNKS)
     else and_then (derive_chunk_id sha parent (length chunks) content) (\<lambda>i.
       Inr (chunks @ [\<lparr>chunk_id = i, parent_artifact_id = parent, chunk_index = length chunks,
         chunk_content = content\<rparr>])))"

definition memory_slice :: "rstr \<Rightarrow> nat \<Rightarrow> nat \<Rightarrow> (MemoryError, rstr) res" where
  "memory_slice s a b =
    (if a \<le> b \<and> b \<le> length s then Inr (take (b - a) (drop a s)) else Inl MemoryPanicked)"

definition split_step ::
    "(byte list \<Rightarrow> byte list) \<Rightarrow> MemoryArtifactId \<Rightarrow> rstr \<Rightarrow> MemoryChunk list \<times> nat \<Rightarrow> nat \<times> nat \<Rightarrow>
      (MemoryError, MemoryChunk list \<times> nat) res" where
  "split_step sha parent content = (\<lambda>(chunks, segment_start) (match_start, match_end).
    if match_start = match_end
    then Inl (MemoryRegex ''separator produced a zero-width runtime match'')
    else and_then (memory_slice content segment_start match_start) (\<lambda>segment.
      and_then (push_non_empty_chunk sha parent chunks segment) (\<lambda>chunks. Inr (chunks, match_end))))"

definition split_memory_chunks ::
    "'rx separator_engine \<Rightarrow> (byte list \<Rightarrow> byte list) \<Rightarrow> MemoryArtifactId \<Rightarrow> rstr \<Rightarrow> rstr \<Rightarrow>
      (MemoryError, MemoryChunk list) res" where
  "split_memory_chunks engine sha parent content separator =
    and_then (validate_chunk_input content) (\<lambda>_.
    and_then (compile_chunk_separator engine separator) (\<lambda>regex.
    and_then (try_fold (split_step sha parent content) ([], 0) (find_iter engine regex content))
      (\<lambda>(chunks, segment_start).
    and_then (memory_slice content segment_start (length content)) (\<lambda>segment.
    and_then (push_non_empty_chunk sha parent chunks segment) (\<lambda>chunks.
      if chunks = []
      then Inl (MemoryInvalid (lit ''memoryChunkInput'')
        (lit ''must contain at least one non-whitespace chunk''))
      else Inr chunks)))))"

end
