(* ===== verification/Memory_Retrieval.thy ===== *)
theory Memory_Retrieval
  imports Memory_Summary
begin

text \<open>
  Retrieval of memories for a prompt: \<open>lorepia-memory/src/retrieval.rs\<close>. A selection names artifacts;
  their texts are copied only when the selection is materialised against the current artifacts.
\<close>

abbreviation (input) "MAX_LONG_TERM_MEMORY_INPUT_BYTES \<equiv> 1048576 :: nat"

section \<open>Data\<close>

datatype AuthoritativeEmbeddingQuery =
    RollingQuery
  | HybridQuery EmbeddingQueryPlan "MemorySourceMessage list"

record EmbeddingMatch =
  match_artifact_id :: MemoryArtifactId
  match_artifact_revision :: nat
  match_chat_id :: ChatId
  match_character_card_id :: CharacterCardId
  match_generation :: nat
  match_preset_id :: MemoryPresetId
  match_preset_revision :: nat
  match_profile :: VersionedRef
  query_message_ids :: "MessageId list"
  query_snapshot_digest :: "byte list"
  score :: int

record MemoryCandidate =
  artifact :: SummaryArtifact
  reserved_prompt_tokens :: nat
  embedding_match :: "EmbeddingMatch option"

datatype MemorySelectionBucket = ConsolidatedBucket | Recent | Similar | Random

record SelectedMemory =
  selected_id :: MemoryArtifactId
  selected_revision :: nat
  selected_first :: nat
  selected_last :: nat
  bucket :: MemorySelectionBucket
  selected_tokens :: nat

record MemorySelection =
  selection_chat_id :: ChatId
  selection_character_card_id :: CharacterCardId
  selection_generation :: nat
  selection_preset_id :: MemoryPresetId
  selection_preset_revision :: nat
  budget_input :: MemoryBudgetInput
  selection_digest :: "byte list option"
  selected :: "SelectedMemory list"
  selection_tokens :: nat

section \<open>Evidence and candidates\<close>

definition EmbeddingMatch_new ::
    "(f64 list \<Rightarrow> f64 list \<Rightarrow> int) \<Rightarrow> (byte list \<Rightarrow> byte list) \<Rightarrow> MemorySessionBinding \<Rightarrow> ChatId \<Rightarrow>
      CharacterCardId \<Rightarrow> EmbeddingQueryPlan \<Rightarrow> MemorySourceMessage list \<Rightarrow> EmbeddingVector \<Rightarrow>
      EmbeddingArtifact \<Rightarrow> (MemoryError, EmbeddingMatch) res" where
  "EmbeddingMatch_new quantized_cosine sha binding expected_chat expected_character plan messages
      query_vector candidate =
    and_then (verify_scope binding expected_chat expected_character) (\<lambda>_.
    and_then (verify_authoritative_messages sha plan binding messages) (\<lambda>_.
    case strategy (preset binding) of
      RollingSummary \<Rightarrow> Inl (RetrievalUnavailable ''rolling-summary mode has no embedding match'')
    | HybridRetrieval policy \<Rightarrow>
        if vector_profile query_vector \<noteq> embedding_profile policy
           \<or> embedded_chat_id candidate \<noteq> chat_id binding
           \<or> embedded_character_card_id candidate \<noteq> character_card_id binding
           \<or> embedded_generation candidate \<noteq> memory_generation binding
           \<or> embedded_preset_id candidate \<noteq> preset_id (preset binding)
           \<or> embedded_preset_revision candidate \<noteq> preset_revision (preset binding)
           \<or> embedded_prompt_preset candidate \<noteq> prompt_preset (preset binding)
           \<or> embedded_summary_model candidate \<noteq> resolved_summary_model binding
           \<or> vector_profile (embedded_vector candidate) \<noteq> embedding_profile policy
        then Inl (RetrievalUnavailable ''embedding evidence is outside the active session snapshot'')
        else and_then (cosine_similarity quantized_cosine query_vector (embedded_vector candidate))
          (\<lambda>s.
            Inr \<lparr>match_artifact_id = embedded_artifact_id candidate,
              match_artifact_revision = embedded_artifact_revision candidate,
              match_chat_id = chat_id binding, match_character_card_id = character_card_id binding,
              match_generation = memory_generation binding,
              match_preset_id = preset_id (preset binding),
              match_preset_revision = preset_revision (preset binding),
              match_profile = embedding_profile policy,
              query_message_ids = map source_id (plan_messages plan),
              query_snapshot_digest = plan_digest plan, score = s\<rparr>)))"

definition MemoryCandidate_new ::
    "SummaryArtifact \<Rightarrow> nat \<Rightarrow> EmbeddingMatch option \<Rightarrow> (MemoryError, MemoryCandidate) res" where
  "MemoryCandidate_new a tokens evidence =
    (if tokens = 0
     then Inl (MemoryInvalid (lit ''memoryCandidate.reservedPromptTokens'') (lit ''must be at least 1''))
     else if (case evidence of None \<Rightarrow> False
         | Some e \<Rightarrow> match_artifact_id e \<noteq> artifact_id a \<or>
             match_artifact_revision e \<noteq> artifact_revision a)
     then Inl (RetrievalUnavailable
       ''embedding evidence does not belong to the memory artifact revision'')
     else Inr \<lparr>artifact = a, reserved_prompt_tokens = tokens, embedding_match = evidence\<rparr>)"

definition similarity :: "MemoryCandidate \<Rightarrow> int option" where
  "similarity candidate = map_option score (embedding_match candidate)"

definition check_query_id ::
    "MessageId list \<Rightarrow> MessageId \<Rightarrow> (MemoryError, MessageId list) res" where
  "check_query_id ids i =
    (if i \<in> set ids then Inl (MemoryDuplicateId ''queryMessageId'' i) else Inr (i # ids))"

definition validate_query_context ::
    "(byte list \<Rightarrow> byte list) \<Rightarrow> MemorySessionBinding \<Rightarrow> AuthoritativeEmbeddingQuery \<Rightarrow>
      (MemoryError, MessageId list \<times> byte list option) res" where
  "validate_query_context sha binding query =
    (case strategy (preset binding) of
       RollingSummary \<Rightarrow>
         (case query of
            RollingQuery \<Rightarrow> Inr ([], None)
          | HybridQuery _ _ \<Rightarrow>
              Inl (RetrievalUnavailable ''rolling-summary mode must not receive an embedding query''))
     | HybridRetrieval _ \<Rightarrow>
         (case query of
            RollingQuery \<Rightarrow>
              Inl (RetrievalUnavailable
                ''hybrid retrieval requires an authoritative embedding query plan'')
          | HybridQuery plan messages \<Rightarrow>
              and_then (verify_authoritative_messages sha plan binding messages) (\<lambda>_.
              let ids = map source_id (plan_messages plan) in
              if MAX_QUERY_MESSAGE_COUNT < length ids
              then Inl (MemoryTooMany (lit ''queryMessageIds'') MAX_QUERY_MESSAGE_COUNT)
              else if ids = []
              then Inl (RetrievalUnavailable
                ''hybrid retrieval requires a pinned query-message snapshot'')
              else and_then (try_fold check_query_id [] ids) (\<lambda>_. Inr (ids, Some (plan_digest plan))))))"

definition verify_artifact_scope ::
    "MemorySessionBinding \<Rightarrow> SummaryArtifact \<Rightarrow> (MemoryError, unit) res" where
  "verify_artifact_scope binding a =
    (if artifact_in_scope binding a then Inr ()
     else Inl (RetrievalUnavailable ''memory candidate is outside the active session snapshot''))"

definition verify_candidate_scope ::
    "MemorySessionBinding \<Rightarrow> MessageId list \<Rightarrow> byte list option \<Rightarrow> MemoryCandidate \<Rightarrow>
      (MemoryError, unit) res" where
  "verify_candidate_scope binding ids digest candidate =
    and_then (verify_artifact_scope binding (artifact candidate)) (\<lambda>_.
    case embedding_match candidate of
      None \<Rightarrow> Inr ()
    | Some evidence \<Rightarrow>
        (case strategy (preset binding) of
           RollingSummary \<Rightarrow>
             Inl (RetrievalUnavailable ''rolling-summary mode must not consume embedding evidence'')
         | HybridRetrieval policy \<Rightarrow>
             if match_artifact_id evidence \<noteq> artifact_id (artifact candidate)
                \<or> match_artifact_revision evidence \<noteq> artifact_revision (artifact candidate)
                \<or> match_chat_id evidence \<noteq> chat_id binding
                \<or> match_character_card_id evidence \<noteq> character_card_id binding
                \<or> match_generation evidence \<noteq> memory_generation binding
                \<or> match_preset_id evidence \<noteq> preset_id (preset binding)
                \<or> match_preset_revision evidence \<noteq> preset_revision (preset binding)
                \<or> match_profile evidence \<noteq> embedding_profile policy
                \<or> query_message_ids evidence \<noteq> ids
                \<or> Some (query_snapshot_digest evidence) \<noteq> digest
             then Inl (RetrievalUnavailable
               ''embedding evidence is stale or belongs to another query snapshot'')
             else Inr ()))"

definition artifact_is_eligible :: "MemorySessionBinding \<Rightarrow> SummaryArtifact \<Rightarrow> bool" where
  "artifact_is_eligible binding a =
    (case validity a of
       Attached \<Rightarrow> True
     | SourceCompacted \<Rightarrow> preserve_compacted_orphans (preset binding)
     | _ \<Rightarrow> False)"

definition candidate_is_eligible :: "MemorySessionBinding \<Rightarrow> MemoryCandidate \<Rightarrow> bool" where
  "candidate_is_eligible binding candidate = artifact_is_eligible binding (artifact candidate)"

section \<open>Selection\<close>

definition check_candidate ::
    "MemorySessionBinding \<Rightarrow> MessageId list \<Rightarrow> byte list option \<Rightarrow> MemoryArtifactId list \<Rightarrow>
      MemoryCandidate \<Rightarrow> (MemoryError, MemoryArtifactId list) res" where
  "check_candidate binding query_ids digest ids candidate =
    and_then (verify_candidate_scope binding query_ids digest candidate) (\<lambda>_.
      let i = artifact_id (artifact candidate) in
      if i \<in> set ids then Inl (MemoryDuplicateId ''memoryArtifactId'' i) else Inr (i # ids))"

definition push_selected ::
    "MemorySelectionBucket \<Rightarrow> SelectedMemory list \<Rightarrow> MemoryCandidate \<Rightarrow> SelectedMemory list" where
  "push_selected b chosen candidate =
    chosen @ [\<lparr>selected_id = artifact_id (artifact candidate),
      selected_revision = artifact_revision (artifact candidate),
      selected_first = first_source_sequence (artifact candidate),
      selected_last = last_source_sequence (artifact candidate), bucket = b,
      selected_tokens = reserved_prompt_tokens candidate\<rparr>]"

text \<open>The set of selected identifiers is the set of the identifiers of the selected memories.\<close>

definition bucket_step ::
    "MemorySelectionBucket \<Rightarrow> nat \<times> SelectedMemory list \<Rightarrow> MemoryCandidate \<Rightarrow> nat \<times> SelectedMemory list"
where
  "bucket_step b = (\<lambda>(remaining, chosen) candidate.
    if artifact_id (artifact candidate) \<in> selected_id ` set chosen \<or>
       remaining < reserved_prompt_tokens candidate
    then (remaining, chosen)
    else (remaining - reserved_prompt_tokens candidate, push_selected b chosen candidate))"

definition select_bucket ::
    "MemoryCandidate list \<Rightarrow> nat \<Rightarrow> MemorySelectionBucket \<Rightarrow> SelectedMemory list \<Rightarrow> SelectedMemory list" where
  "select_bucket ranked token_budget b chosen = snd (foldl (bucket_step b) (token_budget, chosen) ranked)"

definition by_recency :: "MemoryCandidate \<Rightarrow> MemoryCandidate \<Rightarrow> ordering" where
  "by_recency l r =
    then_with (cmp (last_source_sequence (artifact r)) (last_source_sequence (artifact l)))
      (cmp (artifact_id (artifact l)) (artifact_id (artifact r)))"

text \<open>\<open>similarity().expect(...)\<close>, which is present for every leaf when this order is used.\<close>

definition by_similarity :: "MemoryCandidate \<Rightarrow> MemoryCandidate \<Rightarrow> ordering" where
  "by_similarity l r =
    then_with (cmp (the (similarity r)) (the (similarity l)))
      (cmp (artifact_id (artifact l)) (artifact_id (artifact r)))"

definition deterministic_random_key ::
    "(byte list \<Rightarrow> byte list) \<Rightarrow> MemorySessionBinding \<Rightarrow> byte list \<Rightarrow> MemoryArtifactId \<Rightarrow> byte list" where
  "deterministic_random_key sha binding digest i =
    sha (as_bytes (lit ''lorepia-memory-random-order-v1'') @ digest_field (as_bytes (chat_id binding)) @
      be_bytes (memory_generation binding) @ digest @ digest_field (as_bytes i))"

definition by_random_key ::
    "(byte list \<Rightarrow> byte list) \<Rightarrow> MemorySessionBinding \<Rightarrow> byte list \<Rightarrow> MemoryCandidate \<Rightarrow> MemoryCandidate \<Rightarrow>
      ordering" where
  "by_random_key sha binding digest l r =
    cmp (map unat (deterministic_random_key sha binding digest (artifact_id (artifact l))))
      (map unat (deterministic_random_key sha binding digest (artifact_id (artifact r))))"

definition by_position :: "SelectedMemory \<Rightarrow> SelectedMemory \<Rightarrow> ordering" where
  "by_position l r =
    then_with (cmp (selected_first l) (selected_first r))
      (then_with (cmp (selected_last l) (selected_last r)) (cmp (selected_id l) (selected_id r)))"

definition eligible_leaves ::
    "MemorySessionBinding \<Rightarrow> MemoryCandidate list \<Rightarrow> MemoryCandidate option \<Rightarrow> MemoryCandidate list" where
  "eligible_leaves binding candidates consolidated =
    filter (\<lambda>c. case consolidated of None \<Rightarrow> True
        | Some c' \<Rightarrow> \<not> covers_leaf (artifact c') (artifact_id (artifact c)))
      (filter (\<lambda>c. artifact_kind (artifact c) = Leaf) (filter (candidate_is_eligible binding) candidates))"

definition best_consolidated ::
    "MemorySessionBinding \<Rightarrow> MemoryTokenBudget \<Rightarrow> MemoryCandidate list \<Rightarrow> MemoryCandidate option" where
  "best_consolidated binding budget candidates =
    (case sort_by by_recency (filter (\<lambda>c. artifact_kind (artifact c) = Consolidated \<and>
        reserved_prompt_tokens c \<le> consolidated_summary budget)
        (filter (candidate_is_eligible binding) candidates)) of
       [] \<Rightarrow> None | c # _ \<Rightarrow> Some c)"

text \<open>The random keys, and so the digest, are only asked for when there is something to sort.\<close>

definition select_hybrid ::
    "(byte list \<Rightarrow> byte list) \<Rightarrow> MemorySessionBinding \<Rightarrow> MemoryTokenBudget \<Rightarrow> byte list option \<Rightarrow>
      MemoryCandidate list \<Rightarrow> SelectedMemory list \<Rightarrow> (MemoryError, SelectedMemory list) res" where
  "select_hybrid sha binding budget digest leaves chosen =
    (if 0 < similar_tokens (retrieval budget) \<and> list_ex (\<lambda>c. embedding_match c = None) leaves
     then Inl (RetrievalUnavailable
       ''hybrid retrieval requires a similarity score for every eligible leaf'')
     else
       (let chosen = (if 0 < similar_tokens (retrieval budget)
              then select_bucket (sort_by by_similarity leaves) (similar_tokens (retrieval budget))
                Similar chosen
              else chosen) in
        and_then (if length leaves < 2 then Inr [] else ok_or digest MemoryPanicked) (\<lambda>digest.
          Inr (select_bucket (sort_by (by_random_key sha binding digest) leaves)
            (random_tokens (retrieval budget)) Random chosen))))"

definition select_memories ::
    "(byte list \<Rightarrow> byte list) \<Rightarrow> MemorySessionBinding \<Rightarrow> ChatId \<Rightarrow> CharacterCardId \<Rightarrow> MemoryBudgetInput \<Rightarrow>
      AuthoritativeEmbeddingQuery \<Rightarrow> MemoryCandidate list \<Rightarrow> (MemoryError, MemorySelection) res" where
  "select_memories sha binding expected_chat expected_character input query candidates =
    and_then (verify_scope binding expected_chat expected_character) (\<lambda>_.
    and_then (MemoryTokenBudget_calculate (preset binding) input) (\<lambda>budget.
    and_then (validate_query_context sha binding query) (\<lambda>(query_ids, digest).
    if MAX_MEMORY_CANDIDATES < length candidates
    then Inl (MemoryTooMany (lit ''memoryCandidates'') MAX_MEMORY_CANDIDATES)
    else and_then (try_fold (check_candidate binding query_ids digest) [] candidates) (\<lambda>_.
    let consolidated = best_consolidated binding budget candidates;
        chosen = (case consolidated of None \<Rightarrow> [] | Some c \<Rightarrow> push_selected ConsolidatedBucket [] c);
        leaves = eligible_leaves binding candidates consolidated;
        chosen = select_bucket (sort_by by_recency leaves) (recent_tokens (retrieval budget)) Recent
          chosen in
    and_then
      (case strategy (preset binding) of
         HybridRetrieval _ \<Rightarrow> select_hybrid sha binding budget digest leaves chosen
       | RollingSummary \<Rightarrow> Inr chosen) (\<lambda>chosen.
    let chosen = sort_by by_position chosen in
    and_then (try_fold (\<lambda>tokens m. ok_or (checked_add 32 tokens (selected_tokens m))
        (MemoryInvalid (lit ''memorySelection'') (lit ''token reservation overflowed''))) 0 chosen)
      (\<lambda>tokens.
    if total_memory budget < tokens
    then Inl (MemoryInvalid (lit ''memorySelection'')
      (lit ''selected reservations exceed the total memory budget''))
    else Inr \<lparr>selection_chat_id = chat_id binding,
      selection_character_card_id = character_card_id binding,
      selection_generation = memory_generation binding,
      selection_preset_id = preset_id (preset binding),
      selection_preset_revision = preset_revision (preset binding), budget_input = input,
      selection_digest = digest, selected = chosen, selection_tokens = tokens\<rparr>))))))"

section \<open>Materialisation\<close>

definition index_artifact ::
    "(MemoryArtifactId \<times> SummaryArtifact) list \<Rightarrow> SummaryArtifact \<Rightarrow>
      (MemoryError, (MemoryArtifactId \<times> SummaryArtifact) list) res" where
  "index_artifact by_id a =
    (if map_of by_id (artifact_id a) \<noteq> None
     then Inl (MemoryDuplicateId ''currentMemoryArtifactId'' (artifact_id a))
     else Inr ((artifact_id a, a) # by_id))"

text \<open>The state of the loop: the artifacts resolved so far and the length of the output.\<close>

definition resolve_selected ::
    "MemorySessionBinding \<Rightarrow> (MemoryArtifactId \<times> SummaryArtifact) list \<Rightarrow> SummaryArtifact list \<times> nat \<Rightarrow>
      SelectedMemory \<Rightarrow> (MemoryError, SummaryArtifact list \<times> nat) res" where
  "resolve_selected binding by_id = (\<lambda>(resolved, output_bytes) m.
    let too_large = MemoryTooLarge (lit ''longTermMemory'') MAX_LONG_TERM_MEMORY_INPUT_BYTES in
    and_then (ok_or (map_of by_id (selected_id m)) (RetrievalUnavailable
      ''a selected artifact is absent from the current authoritative snapshot'')) (\<lambda>a.
    and_then (verify_artifact_scope binding a) (\<lambda>_.
    if artifact_revision a \<noteq> selected_revision m
       \<or> first_source_sequence a \<noteq> selected_first m
       \<or> last_source_sequence a \<noteq> selected_last m
       \<or> \<not> artifact_is_eligible binding a
    then Inl (RetrievalUnavailable
      ''a selected artifact changed or was invalidated before prompt application'')
    else and_then (if resolved \<noteq> [] then ok_or (checked_add_usize output_bytes 2) too_large
        else Inr output_bytes) (\<lambda>output_bytes.
    and_then (ok_or (checked_add_usize output_bytes (str_len (artifact_content a))) too_large)
      (\<lambda>output_bytes.
    if MAX_LONG_TERM_MEMORY_INPUT_BYTES < output_bytes then Inl too_large
    else Inr (resolved @ [a], output_bytes))))))"

fun join_contents :: "rstr list \<Rightarrow> rstr" where
  "join_contents [] = []"
| "join_contents [c] = c"
| "join_contents (c # cs) = c @ [10, 10] @ join_contents cs"

definition materialize_current_artifacts ::
    "MemorySessionBinding \<Rightarrow> SelectedMemory list \<Rightarrow> SummaryArtifact list \<Rightarrow> (MemoryError, rstr) res" where
  "materialize_current_artifacts binding chosen current =
    (if MAX_MEMORY_CANDIDATES < length current
     then Inl (MemoryTooMany (lit ''currentMemoryArtifacts'') MAX_MEMORY_CANDIDATES)
     else and_then (try_fold index_artifact [] current) (\<lambda>by_id.
     and_then (try_fold (resolve_selected binding by_id) ([], 0) chosen) (\<lambda>(resolved, _).
       let output = join_contents (map artifact_content resolved) in
       if has_nul output
       then Inl (MemoryInvalid (lit ''longTermMemory'') (lit ''must contain no NUL''))
       else Inr output)))"

definition verify_application_context ::
    "(byte list \<Rightarrow> byte list) \<Rightarrow> MemorySelection \<Rightarrow> MemorySessionBinding \<Rightarrow> ChatId \<Rightarrow> CharacterCardId \<Rightarrow>
      MemoryBudgetInput \<Rightarrow> AuthoritativeEmbeddingQuery \<Rightarrow> (MemoryError, unit) res" where
  "verify_application_context sha selection binding expected_chat expected_character input query =
    and_then (verify_scope binding expected_chat expected_character) (\<lambda>_.
    and_then (validate_query_context sha binding query) (\<lambda>(_, digest).
    if selection_chat_id selection \<noteq> chat_id binding
       \<or> selection_character_card_id selection \<noteq> character_card_id binding
       \<or> selection_generation selection \<noteq> memory_generation binding
       \<or> selection_preset_id selection \<noteq> preset_id (preset binding)
       \<or> selection_preset_revision selection \<noteq> preset_revision (preset binding)
       \<or> budget_input selection \<noteq> input
       \<or> selection_digest selection \<noteq> digest
    then Inl (RetrievalUnavailable ''memory selection is outside the active session snapshot'')
    else Inr ()))"

definition materialize ::
    "(byte list \<Rightarrow> byte list) \<Rightarrow> MemorySelection \<Rightarrow> MemorySessionBinding \<Rightarrow> ChatId \<Rightarrow> CharacterCardId \<Rightarrow>
      MemoryBudgetInput \<Rightarrow> AuthoritativeEmbeddingQuery \<Rightarrow> SummaryArtifact list \<Rightarrow> (MemoryError, rstr) res"
where
  "materialize sha selection binding expected_chat expected_character input query current =
    and_then (verify_application_context sha selection binding expected_chat expected_character input
      query) (\<lambda>_. materialize_current_artifacts binding (selected selection) current)"

end
