(* ===== verification/Memory_Budget.thy ===== *)
theory Memory_Budget
  imports Memory_Retrieval
begin

text \<open>
  Token budgets: apportionment gives every token away and no share is a token off its exact quota, so
  the arithmetic of \<open>budget.rs\<close> never overflows and the parts add up to the whole.
\<close>

text \<open>What the constructors of \<open>config.rs\<close> guarantee of a preset.\<close>

definition memory_policy_ok :: "MemoryPreset \<Rightarrow> bool" where
  "memory_policy_ok p \<longleftrightarrow>
    memory_budget (insertion p) \<le> BASIS_POINTS_SCALE \<and>
    additional_detail_budget (insertion p) \<le> BASIS_POINTS_SCALE \<and>
    (case strategy p of RollingSummary \<Rightarrow> True
     | HybridRetrieval policy \<Rightarrow>
         mix_recent (selection_mix policy) + mix_similar (selection_mix policy) +
         mix_random (selection_mix policy) = BASIS_POINTS_SCALE)"

lemma InsertionPolicy_new_Inr:
  "InsertionPolicy_new a b = Inr ins \<Longrightarrow> memory_budget ins = a \<and> additional_detail_budget ins = b"
  by (auto simp: InsertionPolicy_new_def split: if_splits)

lemma MemoryMix_new_Inr:
  "MemoryMix_new a b c = Inr mix \<Longrightarrow> mix_recent mix + mix_similar mix + mix_random mix = BASIS_POINTS_SCALE"
  by (auto simp: MemoryMix_new_def Let_def split: if_splits)

lemma constructed_memory_policy_ok:
  assumes "BasisPoints_new a = Inr a'" and "BasisPoints_new b = Inr b'"
    and "InsertionPolicy_new a' b' = Inr (draft_insertion draft)"
    and "case draft_strategy draft of RollingSummary \<Rightarrow> True
      | HybridRetrieval policy \<Rightarrow> (\<exists>r s t. MemoryMix_new r s t = Inr (selection_mix policy))"
    and "MemoryPreset_from_parts engine i revision draft = Inr p"
  shows "memory_policy_ok p"
  using assms(1,2,4,5) InsertionPolicy_new_Inr [OF assms(3)] MemoryMix_new_Inr
  by (auto simp: memory_policy_ok_def BasisPoints_new_def MemoryPreset_from_parts_def
      split: if_splits MemoryStrategy.splits)

section \<open>Apportionment\<close>

lemma sum_div_mod:
  "(\<Sum>w\<leftarrow>weights. tokens * w div d) * d + (\<Sum>w\<leftarrow>weights. tokens * w mod d) = tokens * sum_list weights"
  for d :: nat
proof (induction weights)
  case (Cons w weights)
  have "tokens * w div d * d + tokens * w mod d = tokens * w" by simp
  then show ?case using Cons by (simp add: distrib_left distrib_right)
qed simp

text \<open>One more at each of a set of positions.\<close>

lemma increment_positions:
  "distinct (map snd picks) \<Longrightarrow> (\<forall>p\<in>set picks. snd p < length shares \<and> shares ! snd p + 1 < 2 ^ 32) \<Longrightarrow>
    try_fold (\<lambda>shares (_, i).
      and_then (ok_or (checked_add 32 (shares ! i) 1) MemoryPanicked) (\<lambda>share. Inr (shares[i := share])))
      shares picks =
    Inr (map (\<lambda>i. shares ! i + (if i \<in> snd ` set picks then 1 else 0)) [0..<length shares])"
proof (induction picks arbitrary: shares)
  case Nil
  then show ?case by (simp add: map_nth)
next
  case (Cons p picks)
  obtain r i where p: "p = (r, i)" by (cases p)
  let ?shares = "shares[i := shares ! i + 1]"
  have other: "snd q \<noteq> i" if "q \<in> set picks" for q
    using Cons.prems(1) that p by (force simp: image_iff)
  have add: "checked_add 32 (shares ! i) (Suc 0) = Some (Suc (shares ! i))"
    using Cons.prems(2) p by (simp add: checked_add_def)
  have "\<forall>q\<in>set picks. snd q < length ?shares \<and> ?shares ! snd q + 1 < 2 ^ 32"
    using Cons.prems(2) other by (metis length_list_update list.set_intros(2) nth_list_update_neq)
  note rest = Cons.IH [OF _ this]
  have "i \<notin> snd ` set picks" using other by auto
  then show ?case
    using Cons.prems p rest by (auto simp: add nth_list_update intro!: map_cong)
qed

lemma comparator_by_remainder: "comparator by_remainder"
  unfolding by_remainder_def [abs_def]
  by (intro comparator_then comparator_cmp_on comparator_reverse [OF comparator_cmp_on])

text \<open>The shares that get one more are short of a whole token.\<close>

lemma largest_remainders_positive:
  assumes sorted: "sorted_by by_remainder ys" and small: "\<forall>y\<in>set ys. fst y < d"
    and total: "(\<Sum>y\<leftarrow>ys. fst y) = missing * d" and p: "p \<in> set (take missing ys)"
  shows "0 < fst p"
proof (rule ccontr)
  assume "\<not> 0 < fst p"
  obtain k where k: "k < missing" "k < length ys" "ys ! k = p"
    using p by (auto simp: in_set_conv_nth)
  have "fst y = 0" if "y \<in> set (drop k ys)" for y
  proof -
    obtain i where "i < length ys - k" "ys ! (k + i) = y"
      using \<open>y \<in> set (drop k ys)\<close> by (auto simp: in_set_conv_nth)
    then obtain j where j: "j < length ys" "k \<le> j" "ys ! j = y" using that [of "k + i"] by simp
    then have "j = k \<or> by_remainder (ys ! k) (ys ! j) \<noteq> Greater"
      using sorted_wrt_nth_less [OF sorted, of k j] by force
    then show ?thesis
      using j k \<open>\<not> 0 < fst p\<close> by (auto simp: by_remainder_def cmp_def split: if_splits)
  qed
  then have "(\<Sum>y\<leftarrow>drop k ys. fst y) = 0" by simp
  moreover have "(\<Sum>y\<leftarrow>take k ys. fst y) \<le> (\<Sum>y\<leftarrow>take k ys. d)"
    using small by (intro sum_list_mono) (force dest: in_set_takeD)
  moreover have "(\<Sum>y\<leftarrow>take k ys. d) = k * d" using k by (simp add: sum_list_triv)
  moreover have "(\<Sum>y\<leftarrow>ys. fst y) = (\<Sum>y\<leftarrow>take k ys. fst y) + (\<Sum>y\<leftarrow>drop k ys. fst y)"
    by (metis append_take_drop_id map_append sum_list_append)
  moreover have "k * d < missing * d" using k small p by (auto dest: in_set_takeD)
  ultimately show False using total by linarith
qed

lemma member_le_sum_nat: "x \<in> set xs \<Longrightarrow> x \<le> sum_list xs" for x :: nat
  by (rule member_le_sum_list) auto

lemma sum_increments:
  fixes f :: "nat \<Rightarrow> nat"
  assumes "A \<subseteq> {0..<n}"
  shows "(\<Sum>i\<leftarrow>[0..<n]. f i + (if i \<in> A then 1 else 0)) = (\<Sum>i\<leftarrow>[0..<n]. f i) + card A"
proof -
  have "(\<Sum>i\<leftarrow>[0..<n]. if i \<in> A then 1 else 0) = (\<Sum>i\<in>{0..<n}. if i \<in> A then 1 else (0::nat))"
    by (simp add: sum_list_distinct_conv_sum_set)
  also have "\<dots> = card A" using assms by (simp add: sum.If_cases Int_absorb1)
  finally show ?thesis by (simp add: sum_list_addf)
qed

lemma floors_fit:
  assumes "sum_list weights = BASIS_POINTS_SCALE" and "tokens < 2 ^ 32"
  shows "try_map (\<lambda>w. expect_u32 (tokens * w div BASIS_POINTS_SCALE)) weights =
    Inr (map (\<lambda>w. tokens * w div BASIS_POINTS_SCALE) weights)"
proof -
  have "tokens * w div 10000 < 2 ^ 32" if "w \<in> set weights" for w
  proof -
    have "w \<le> 10000" using member_le_sum_nat [OF that] assms(1) by simp
    then have "tokens * w div 10000 \<le> tokens * 10000 div 10000" by (intro div_le_mono) simp
    then show ?thesis using assms(2) by simp
  qed
  then show ?thesis by (simp add: try_map_eq_Inr_iff expect_u32_def list_all2_map2 list.rel_refl_strong)
qed

lemma apportion_exact:
  assumes "sum_list weights = BASIS_POINTS_SCALE" and "tokens < 2 ^ 32"
  shows "\<exists>shares. apportion tokens weights = Inr shares \<and> length shares = length weights \<and>
    sum_list shares = tokens \<and>
    (\<forall>i<length weights. shares ! i * BASIS_POINTS_SCALE < tokens * weights ! i + BASIS_POINTS_SCALE \<and>
      tokens * weights ! i < shares ! i * BASIS_POINTS_SCALE + BASIS_POINTS_SCALE)"
proof -
  define floors where "floors = map (\<lambda>w. tokens * w div 10000) weights"
  define rems where "rems = map (\<lambda>(i, w). (tokens * w mod 10000, i)) (enumerate 0 weights)"
  define ys where "ys = sort_by by_remainder rems"
  define missing where "missing = tokens - sum_list floors"
  define picks where "picks = take missing ys"
  have fst_rems: "map fst rems = map (\<lambda>w. tokens * w mod 10000) weights"
    and snd_rems: "map snd rems = [0..<length weights]"
    by (rule nth_equalityI; simp add: rems_def nth_enumerate_eq case_prod_unfold)+
  have ms: "mset (map fst ys) = mset (map fst rems)" "mset (map snd ys) = mset (map snd rems)"
    by (simp_all add: ys_def)
  have "sum_list floors * 10000 + sum_list (map fst rems) = tokens * 10000"
    using sum_div_mod [of tokens 10000 weights] assms(1) by (simp add: floors_def fst_rems)
  then have sum_floors: "sum_list floors + missing = tokens"
    and sum_rems: "sum_list (map fst ys) = missing * 10000"
    using ms(1) by (simp_all add: missing_def flip: sum_mset_sum_list)
  have small: "\<forall>y\<in>set ys. fst y < 10000" by (auto simp: ys_def rems_def)
  have len: "length ys = length weights" "length floors = length weights"
    by (simp_all add: ys_def rems_def floors_def)
  have "(\<Sum>y\<leftarrow>ys. fst y) \<le> (\<Sum>y\<leftarrow>ys. 9999)" using small by (intro sum_list_mono) force
  then have missing: "missing \<le> length ys" using sum_rems by (simp add: sum_list_triv)
  have positive: "\<forall>p\<in>set picks. 0 < fst p"
    using largest_remainders_positive [OF _ small sum_rems] comparator.sorted_sort_by [OF comparator_by_remainder]
    by (auto simp: picks_def ys_def)
  have "distinct (map snd ys)" using ms(2) snd_rems by (metis distinct_upt mset_eq_imp_distinct_iff)
  then have distinct: "distinct (map snd picks)" by (simp add: picks_def take_map [symmetric])
  have picked: "snd p < length weights \<and> fst p = tokens * weights ! snd p mod 10000" if "p \<in> set picks" for p
    using in_set_takeD [OF that [unfolded picks_def]]
    by (auto simp: ys_def rems_def in_set_enumerate_eq)
  have short: "snd p < length floors \<and> floors ! snd p + 1 < 2 ^ 32" if "p \<in> set picks" for p
  proof -
    have i: "snd p < length floors" using picked [OF that] len by simp
    then have "floors ! snd p \<le> sum_list floors" by (intro member_le_sum_nat) simp
    moreover have "0 < missing" using that by (cases missing) (auto simp: picks_def)
    ultimately show ?thesis using i sum_floors assms(2) by simp
  qed
  define shares where
    "shares = map (\<lambda>i. floors ! i + (if i \<in> snd ` set picks then 1 else 0)) [0..<length floors]"
  have "card (snd ` set picks) = missing"
    using distinct_card [OF distinct] missing by (simp add: picks_def)
  moreover have "snd ` set picks \<subseteq> {0..<length floors}" using short by auto
  ultimately have "sum_list shares = tokens"
    using sum_floors by (simp add: shares_def sum_increments map_nth)
  moreover have "apportion tokens weights = Inr shares"
    using increment_positions [OF distinct] short sum_floors assms(2)
    by (simp add: apportion_def floors_fit [OF assms] floors_def [symmetric] try_fold_checked_add
        sub_u32_def checked_sub_def missing_def [symmetric] rems_def [symmetric] ys_def [symmetric]
        picks_def [symmetric] shares_def Let_def)
  moreover have "shares ! i * 10000 < tokens * weights ! i + 10000 \<and> tokens * weights ! i < shares ! i * 10000 + 10000"
    if "i < length weights" for i
  proof -
    have "floors ! i * 10000 + tokens * weights ! i mod 10000 = tokens * weights ! i"
      using that by (simp add: floors_def)
    moreover have "tokens * weights ! i mod 10000 < 10000" by simp
    moreover have "0 < tokens * weights ! i mod 10000" if "i \<in> snd ` set picks"
      using that positive picked by force
    ultimately show ?thesis
      using that len by (cases "i \<in> snd ` set picks") (simp_all add: shares_def)
  qed
  ultimately show ?thesis by (auto simp: shares_def len)
qed

section \<open>The budget of a prompt\<close>

lemma scale_tokens_fits:
  assumes "tokens < 2 ^ 32" and "bp \<le> BASIS_POINTS_SCALE"
  shows "scale_tokens tokens bp = Inr (tokens * bp div BASIS_POINTS_SCALE)"
    and "tokens * bp div BASIS_POINTS_SCALE \<le> tokens"
proof -
  have "tokens * bp div 10000 \<le> tokens * 10000 div 10000"
    using assms(2) by (intro div_le_mono) simp
  then show "tokens * bp div BASIS_POINTS_SCALE \<le> tokens" by simp
  with assms(1) show "scale_tokens tokens bp = Inr (tokens * bp div BASIS_POINTS_SCALE)"
    by (simp add: scale_tokens_def expect_u32_def)
qed

definition bucket_budgets :: "MemoryTokenBudget \<Rightarrow> nat" where
  "bucket_budgets b = recent_tokens (retrieval b) + similar_tokens (retrieval b) + random_tokens (retrieval b)"

definition fair_shares :: "MemoryPreset \<Rightarrow> MemoryTokenBudget \<Rightarrow> bool" where
  "fair_shares p b =
    (case strategy p of
       RollingSummary \<Rightarrow> similar_tokens (retrieval b) = 0 \<and> random_tokens (retrieval b) = 0
     | HybridRetrieval policy \<Rightarrow>
         list_all2 (\<lambda>share weight. share * BASIS_POINTS_SCALE < additional_detail b * weight + BASIS_POINTS_SCALE \<and>
             additional_detail b * weight < share * BASIS_POINTS_SCALE + BASIS_POINTS_SCALE)
           [recent_tokens (retrieval b), similar_tokens (retrieval b), random_tokens (retrieval b)]
           [mix_recent (selection_mix policy), mix_similar (selection_mix policy),
            mix_random (selection_mix policy)])"

lemma calculate_exact:
  assumes "max_context_tokens input < 2 ^ 32" and "memory_policy_ok p"
    and "max_output_tokens input + exact_non_memory_tokens input \<le> max_context_tokens input"
  shows "\<exists>b. MemoryTokenBudget_calculate p input = Inr b \<and>
    consolidated_summary b + additional_detail b = total_memory b \<and>
    bucket_budgets b = additional_detail b \<and> fair_shares p b \<and>
    total_memory b + exact_non_memory_tokens input + max_output_tokens input \<le> max_context_tokens input \<and>
    total_memory b \<le> input_capacity b * memory_budget (insertion p) div BASIS_POINTS_SCALE \<and>
    input_capacity b = max_context_tokens input - max_output_tokens input"
proof -
  define capacity where "capacity = max_context_tokens input - max_output_tokens input"
  define memory_tokens where "memory_tokens =
    min (capacity * memory_budget (insertion p) div 10000) (capacity - exact_non_memory_tokens input)"
  define detail where "detail = memory_tokens * additional_detail_budget (insertion p) div 10000"
  have subs: "sub_u32 (max_context_tokens input) (max_output_tokens input) = Inr capacity"
    "sub_u32 capacity (exact_non_memory_tokens input) = Inr (capacity - exact_non_memory_tokens input)"
    using assms(3) by (simp_all add: sub_u32_def checked_sub_def capacity_def)
  have "capacity < 2 ^ 32" using assms(1) by (simp add: capacity_def)
  note cap = scale_tokens_fits [OF this, of "memory_budget (insertion p)"]
  have "memory_tokens < 2 ^ 32" using assms(1) by (simp add: memory_tokens_def capacity_def)
  note part = scale_tokens_fits [OF this, of "additional_detail_budget (insertion p)"]
  have detail: "detail \<le> memory_tokens" "detail < 2 ^ 32"
    using part assms(2) \<open>memory_tokens < 2 ^ 32\<close> by (simp_all add: detail_def memory_policy_ok_def)
  have memory: "memory_tokens + exact_non_memory_tokens input + max_output_tokens input
      \<le> max_context_tokens input"
    using assms(3) by (simp add: memory_tokens_def capacity_def)
  show ?thesis
  proof (cases "strategy p")
    case RollingSummary
    with subs cap part detail memory assms(2) show ?thesis
      by (simp add: MemoryTokenBudget_calculate_def memory_policy_ok_def sub_u32_def checked_sub_def Let_def
          memory_tokens_def [symmetric] detail_def [symmetric] capacity_def [symmetric]
          bucket_budgets_def fair_shares_def)
        (simp add: memory_tokens_def)
  next
    case (HybridRetrieval policy)
    let ?weights = "[mix_recent (selection_mix policy), mix_similar (selection_mix policy),
      mix_random (selection_mix policy)]"
    have "sum_list ?weights = 10000" using assms(2) HybridRetrieval by (simp add: memory_policy_ok_def)
    from apportion_exact [OF this detail(2)] obtain shares where
      shares: "apportion detail ?weights = Inr shares" "length shares = 3" "sum_list shares = detail"
      and fair: "\<And>i. i < 3 \<Longrightarrow> shares ! i * 10000 < detail * ?weights ! i + 10000 \<and>
        detail * ?weights ! i < shares ! i * 10000 + 10000"
      by auto
    obtain x y z where "shares = [x, y, z]"
      using shares(2) by (auto simp: numeral_3_eq_3 length_Suc_conv)
    with subs cap part detail memory assms(2) HybridRetrieval shares fair [of 0] fair [of 1] fair [of 2]
    show ?thesis
      by (simp add: MemoryTokenBudget_calculate_def memory_policy_ok_def sub_u32_def checked_sub_def Let_def
          memory_tokens_def [symmetric] detail_def [symmetric] capacity_def [symmetric]
          bucket_budgets_def fair_shares_def)
        (simp add: memory_tokens_def)
  qed
qed

end
