(* ===== verification/Memory_Select.thy ===== *)
theory Memory_Select
  imports Memory_Budget
begin

text \<open>
  Selection of memories: what each bucket takes, that the budgets are kept and used up as far as the
  candidates allow, and that a selection never fails for its budget.
\<close>

definition selected_of :: "MemorySelectionBucket \<Rightarrow> MemoryCandidate \<Rightarrow> SelectedMemory" where
  "selected_of b c =
    \<lparr>selected_id = artifact_id (artifact c), selected_revision = artifact_revision (artifact c),
     selected_first = first_source_sequence (artifact c),
     selected_last = last_source_sequence (artifact c), bucket = b,
     selected_tokens = reserved_prompt_tokens c\<rparr>"

lemma push_selected_eq [simp]: "push_selected b chosen c = chosen @ [selected_of b c]"
  by (simp add: push_selected_def selected_of_def)

lemma selected_of_simps [simp]:
  "selected_id (selected_of b c) = artifact_id (artifact c)" "bucket (selected_of b c) = b"
  "selected_tokens (selected_of b c) = reserved_prompt_tokens c"
  "selected_last (selected_of b c) = last_source_sequence (artifact c)"
  by (simp_all add: selected_of_def)

definition bucket_tokens :: "MemorySelectionBucket \<Rightarrow> SelectedMemory list \<Rightarrow> nat" where
  "bucket_tokens b chosen = (\<Sum>m\<leftarrow>filter (\<lambda>m. bucket m = b) chosen. selected_tokens m)"

primrec bucket_budget :: "MemoryTokenBudget \<Rightarrow> MemorySelectionBucket \<Rightarrow> nat" where
  "bucket_budget budget ConsolidatedBucket = consolidated_summary budget"
| "bucket_budget budget Recent = recent_tokens (retrieval budget)"
| "bucket_budget budget Similar = similar_tokens (retrieval budget)"
| "bucket_budget budget Random = random_tokens (retrieval budget)"

lemma bucket_tokens_simps [simp]:
  "bucket_tokens b [] = 0" "bucket_tokens b (xs @ ys) = bucket_tokens b xs + bucket_tokens b ys"
  "bucket_tokens b (map (selected_of b') cs) =
    (if b = b' then (\<Sum>c\<leftarrow>cs. reserved_prompt_tokens c) else 0)"
  by (auto simp: bucket_tokens_def filter_map comp_def)

lemma all_bucket_tokens:
  "(\<Sum>m\<leftarrow>chosen. selected_tokens m) =
    bucket_tokens ConsolidatedBucket chosen + bucket_tokens Recent chosen +
    bucket_tokens Similar chosen + bucket_tokens Random chosen"
proof (induction chosen)
  case (Cons m chosen)
  then show ?case by (cases "bucket m") (simp_all add: bucket_tokens_def)
qed simp

text \<open>One bucket: it takes candidates it was offered, once each, within its budget, and leaves out
  only what no longer fits.\<close>

lemma bucket_fold:
  assumes "foldl (bucket_step b) (remaining, chosen) ranked = (remaining', chosen')"
  shows "\<exists>cs. set cs \<subseteq> set ranked \<and> chosen' = chosen @ map (selected_of b) cs \<and>
    remaining' + (\<Sum>c\<leftarrow>cs. reserved_prompt_tokens c) = remaining \<and>
    (distinct (map selected_id chosen) \<longrightarrow> distinct (map selected_id chosen')) \<and>
    (\<forall>c\<in>set ranked. artifact_id (artifact c) \<in> selected_id ` set chosen' \<or>
      remaining' < reserved_prompt_tokens c)"
  using assms
proof (induction ranked arbitrary: remaining chosen)
  case Nil
  then show ?case by (intro exI [of _ "[]"]) simp
next
  case (Cons c ranked)
  show ?case
  proof (cases "artifact_id (artifact c) \<in> selected_id ` set chosen \<or> remaining < reserved_prompt_tokens c")
    case True
    with Cons.prems have "foldl (bucket_step b) (remaining, chosen) ranked = (remaining', chosen')"
      by (simp add: bucket_step_def)
    from Cons.IH [OF this] True show ?thesis by auto
  next
    case False
    with Cons.prems have "foldl (bucket_step b) (remaining - reserved_prompt_tokens c,
        chosen @ [selected_of b c]) ranked = (remaining', chosen')"
      by (simp add: bucket_step_def)
    from Cons.IH [OF this] obtain cs where cs: "set cs \<subseteq> set ranked \<and>
        chosen' = (chosen @ [selected_of b c]) @ map (selected_of b) cs \<and>
        remaining' + (\<Sum>c\<leftarrow>cs. reserved_prompt_tokens c) = remaining - reserved_prompt_tokens c \<and>
        (distinct (map selected_id (chosen @ [selected_of b c])) \<longrightarrow> distinct (map selected_id chosen')) \<and>
        (\<forall>c\<in>set ranked. artifact_id (artifact c) \<in> selected_id ` set chosen' \<or>
          remaining' < reserved_prompt_tokens c)"
      by blast
    have "distinct (map selected_id chosen) \<longrightarrow> distinct (map selected_id (chosen @ [selected_of b c]))"
      using False by simp
    then have "distinct (map selected_id chosen) \<longrightarrow> distinct (map selected_id chosen')"
      using cs by blast
    moreover have "set (c # cs) \<subseteq> set (c # ranked)" "chosen' = chosen @ map (selected_of b) (c # cs)"
      "remaining' + (\<Sum>c\<leftarrow>c # cs. reserved_prompt_tokens c) = remaining"
      using cs False by auto
    moreover have "\<forall>d \<in> set (c # ranked). artifact_id (artifact d) \<in> selected_id ` set chosen'
        \<or> remaining' < reserved_prompt_tokens d"
    proof -
      have "artifact_id (artifact c) \<in> selected_id ` set chosen'" using cs by simp
      then show ?thesis using cs by (metis set_ConsD)
    qed
    ultimately show ?thesis by blast
  qed
qed

text \<open>The state of a selection in progress, for the leaves offered to its buckets.\<close>

definition filled ::
    "MemoryTokenBudget \<Rightarrow> MemoryCandidate list \<Rightarrow> MemorySelectionBucket \<Rightarrow> SelectedMemory list \<Rightarrow> bool" where
  "filled budget leaves b chosen \<longleftrightarrow> bucket_tokens b chosen \<le> bucket_budget budget b \<and>
    (0 < bucket_budget budget b \<longrightarrow>
      (\<forall>c\<in>set leaves. artifact_id (artifact c) \<in> selected_id ` set chosen \<or>
        bucket_budget budget b < bucket_tokens b chosen + reserved_prompt_tokens c))"

definition in_progress ::
    "MemoryTokenBudget \<Rightarrow> MemoryCandidate list \<Rightarrow> SelectedMemory list \<Rightarrow> SelectedMemory list \<Rightarrow>
      MemorySelectionBucket set \<Rightarrow> bool" where
  "in_progress budget leaves start chosen buckets \<longleftrightarrow>
    distinct (map selected_id chosen) \<and>
    (\<exists>new. chosen = start @ new \<and>
      (\<forall>m\<in>set new. bucket m \<in> buckets \<and> (\<exists>c\<in>set leaves. m = selected_of (bucket m) c))) \<and>
    (\<forall>b\<in>buckets. filled budget leaves b chosen)"

lemma in_progress_start: "distinct (map selected_id start) \<Longrightarrow> in_progress budget leaves start start {}"
  by (simp add: in_progress_def)

lemma in_progress_unused:
  assumes "in_progress budget leaves start chosen buckets" and "b \<notin> buckets"
    and "bucket_tokens b start = 0"
  shows "bucket_tokens b chosen = 0"
proof -
  from assms(1) obtain new where new: "chosen = start @ new \<and>
      (\<forall>m\<in>set new. bucket m \<in> buckets \<and> (\<exists>c\<in>set leaves. m = selected_of (bucket m) c))"
    unfolding in_progress_def by blast
  with assms(2) have "bucket_tokens b new = 0" by (auto simp: bucket_tokens_def filter_empty_conv)
  with new assms(3) show ?thesis by simp
qed

lemma in_progress_skip:
  assumes "in_progress budget leaves start chosen buckets" and "b \<notin> buckets"
    and "bucket_tokens b start = 0" and "bucket_budget budget b = 0"
  shows "in_progress budget leaves start chosen (insert b buckets)"
  using assms(1,4) in_progress_unused [OF assms(1-3)] unfolding in_progress_def
  by (auto simp: filled_def)

lemma select_bucket_progress:
  assumes "in_progress budget leaves start chosen buckets" and "b \<notin> buckets"
    and "bucket_tokens b start = 0" and "set ranked = set leaves"
  shows "in_progress budget leaves start (select_bucket ranked (bucket_budget budget b) b chosen)
    (insert b buckets)"
proof -
  obtain remaining' chosen' where run:
    "foldl (bucket_step b) (bucket_budget budget b, chosen) ranked = (remaining', chosen')"
    by fastforce
  from bucket_fold [OF run] obtain cs where cs: "set cs \<subseteq> set leaves \<and>
      chosen' = chosen @ map (selected_of b) cs \<and>
      remaining' + (\<Sum>c\<leftarrow>cs. reserved_prompt_tokens c) = bucket_budget budget b \<and>
      (distinct (map selected_id chosen) \<longrightarrow> distinct (map selected_id chosen')) \<and>
      (\<forall>c\<in>set leaves. artifact_id (artifact c) \<in> selected_id ` set chosen' \<or>
        remaining' < reserved_prompt_tokens c)"
    using assms(4) by blast
  from assms(1) obtain new where new: "chosen = start @ new \<and>
      (\<forall>m\<in>set new. bucket m \<in> buckets \<and> (\<exists>c\<in>set leaves. m = selected_of (bucket m) c))"
    unfolding in_progress_def by blast
  have spent: "bucket_tokens b chosen' + remaining' = bucket_budget budget b"
    using cs in_progress_unused [OF assms(1-3)] by auto
  have "filled budget leaves b chosen'" using cs spent by (fastforce simp: filled_def)
  moreover have "filled budget leaves b' chosen'" if "b' \<in> buckets" for b'
  proof -
    have "filled budget leaves b' chosen" using assms(1) that by (simp add: in_progress_def)
    moreover have "bucket_tokens b' chosen' = bucket_tokens b' chosen" using cs that assms(2) by auto
    moreover have "set chosen \<subseteq> set chosen'" using cs by auto
    ultimately show ?thesis unfolding filled_def by (metis (no_types, lifting) image_mono subsetD)
  qed
  moreover have "\<exists>new. chosen' = start @ new \<and>
      (\<forall>m\<in>set new. bucket m \<in> insert b buckets \<and> (\<exists>c\<in>set leaves. m = selected_of (bucket m) c))"
    using cs new by (intro exI [of _ "new @ map (selected_of b) cs"]) auto
  moreover have "distinct (map selected_id chosen')"
    using assms(1) cs unfolding in_progress_def by blast
  ultimately show ?thesis using run by (simp add: in_progress_def select_bucket_def)
qed

section \<open>What a selection promises\<close>

definition fits_consolidated ::
    "MemorySessionBinding \<Rightarrow> MemoryTokenBudget \<Rightarrow> MemoryCandidate \<Rightarrow> bool" where
  "fits_consolidated binding budget c \<longleftrightarrow>
    candidate_is_eligible binding c \<and> artifact_kind (artifact c) = Consolidated \<and>
    reserved_prompt_tokens c \<le> consolidated_summary budget"

definition offered :: "MemorySessionBinding \<Rightarrow> MemoryCandidate option \<Rightarrow> MemoryCandidate \<Rightarrow> bool" where
  "offered binding best c \<longleftrightarrow>
    candidate_is_eligible binding c \<and> artifact_kind (artifact c) = Leaf \<and>
    (\<forall>d. best = Some d \<longrightarrow> \<not> covers_leaf (artifact d) (artifact_id (artifact c)))"

text \<open>
  The consolidated summary is the most recent one that fits; the rest are eligible leaves it does not
  cover, each once; every bucket keeps its budget, and a leaf left out fits no bucket that is in use.
\<close>

definition well_selected ::
    "MemorySessionBinding \<Rightarrow> MemoryTokenBudget \<Rightarrow> MemoryCandidate list \<Rightarrow> SelectedMemory list \<Rightarrow> bool" where
  "well_selected binding budget candidates chosen \<longleftrightarrow>
    sorted_by by_position chosen \<and> distinct (map selected_id chosen) \<and>
    (\<forall>b. bucket_tokens b chosen \<le> bucket_budget budget b) \<and>
    (\<exists>best.
      filter (\<lambda>m. bucket m = ConsolidatedBucket) chosen =
        (case best of None \<Rightarrow> [] | Some d \<Rightarrow> [selected_of ConsolidatedBucket d]) \<and>
      (\<forall>d. best = Some d \<longrightarrow> d \<in> set candidates \<and> fits_consolidated binding budget d) \<and>
      (\<forall>c\<in>set candidates. fits_consolidated binding budget c \<longrightarrow>
        (\<exists>d. best = Some d \<and> last_source_sequence (artifact c) \<le> last_source_sequence (artifact d))) \<and>
      (\<forall>m\<in>set chosen. bucket m \<noteq> ConsolidatedBucket \<longrightarrow>
        (\<exists>c\<in>set candidates. offered binding best c \<and> m = selected_of (bucket m) c)) \<and>
      (\<forall>c\<in>set candidates. offered binding best c \<longrightarrow> artifact_id (artifact c) \<in> selected_id ` set chosen \<or>
        (\<forall>b\<in>{Recent, Similar, Random}. 0 < bucket_budget budget b \<longrightarrow>
          bucket_budget budget b < bucket_tokens b chosen + reserved_prompt_tokens c)))"

interpretation recency: comparator by_recency
  unfolding by_recency_def [abs_def]
  by (intro comparator_then comparator_cmp_on comparator_reverse [OF comparator_cmp_on])

interpretation position: comparator by_position
  unfolding by_position_def [abs_def] by (intro comparator_then comparator_cmp_on)

lemma by_recency_later:
  "by_recency d c \<noteq> Greater \<Longrightarrow> last_source_sequence (artifact c) \<le> last_source_sequence (artifact d)"
  by (auto simp: by_recency_def cmp_def split: if_splits)

lemma best_consolidated_best:
  shows "best_consolidated binding budget candidates = Some d \<Longrightarrow>
      d \<in> set candidates \<and> fits_consolidated binding budget d"
    and "c \<in> set candidates \<Longrightarrow> fits_consolidated binding budget c \<Longrightarrow>
      \<exists>d. best_consolidated binding budget candidates = Some d \<and>
        last_source_sequence (artifact c) \<le> last_source_sequence (artifact d)"
proof -
  define fitting where "fitting = sort_by by_recency (filter (\<lambda>c. artifact_kind (artifact c) = Consolidated \<and>
      reserved_prompt_tokens c \<le> consolidated_summary budget)
      (filter (candidate_is_eligible binding) candidates))"
  have members: "c \<in> set fitting \<longleftrightarrow> c \<in> set candidates \<and> fits_consolidated binding budget c" for c
    by (auto simp: fitting_def fits_consolidated_def)
  have best: "best_consolidated binding budget candidates = (case fitting of [] \<Rightarrow> None | c # _ \<Rightarrow> Some c)"
    by (simp add: best_consolidated_def fitting_def)
  show "best_consolidated binding budget candidates = Some d \<Longrightarrow>
      d \<in> set candidates \<and> fits_consolidated binding budget d"
    using members [of d] best by (cases fitting) auto
  assume "c \<in> set candidates" "fits_consolidated binding budget c"
  with members have c: "c \<in> set fitting" by blast
  then obtain d ds where ds: "fitting = d # ds" by (cases fitting) auto
  have "sorted_by by_recency fitting"
    by (simp add: fitting_def recency.sorted_sort_by)
  with c ds have "c = d \<or> by_recency d c \<noteq> Greater" by auto
  with by_recency_later [of d c] ds best show "\<exists>d. best_consolidated binding budget candidates = Some d \<and>
      last_source_sequence (artifact c) \<le> last_source_sequence (artifact d)"
    by auto
qed

lemma set_eligible_leaves:
  "set (eligible_leaves binding candidates best) = {c \<in> set candidates. offered binding best c}"
  by (auto simp: eligible_leaves_def offered_def split: option.splits)

text \<open>The failures that would be the fault of the budget arithmetic.\<close>

definition budget_failure :: "MemoryError \<Rightarrow> bool" where
  "budget_failure e \<longleftrightarrow> e = MemoryPanicked \<or> (\<exists>reason. e = MemoryInvalid (lit ''memorySelection'') reason)"

lemma budget_failure_simps [simp]:
  "\<not> budget_failure (RetrievalUnavailable s)" "\<not> budget_failure (MemoryTooMany f n)"
  "\<not> budget_failure (MemoryDuplicateId k i)" "\<not> budget_failure (MemoryBindingMismatch k i j)"
  "budget_failure (MemoryInvalid f r) \<longleftrightarrow> f = lit ''memorySelection''"
  by (simp_all add: budget_failure_def)

lemma checks_keep_budget:
  "outcome (\<lambda>e. \<not> budget_failure e) (\<lambda>_. True) (verify_scope binding chat character)"
  "outcome (\<lambda>e. \<not> budget_failure e) (\<lambda>_. True) (validate_message_snapshot binding messages)"
  "outcome (\<lambda>e. \<not> budget_failure e) (\<lambda>_. True) (verify_authoritative_messages sha plan binding messages)"
  "outcome (\<lambda>e. \<not> budget_failure e) (\<lambda>_. True) (verify_candidate_scope binding ids digest c)"
proof -
  show "outcome (\<lambda>e. \<not> budget_failure e) (\<lambda>_. True) (verify_scope binding chat character)"
    by (simp add: verify_scope_def)
  show snapshot: "outcome (\<lambda>e. \<not> budget_failure e) (\<lambda>_. True) (validate_message_snapshot binding messages)"
    unfolding validate_message_snapshot_def
    by (auto simp: outcome_and_then_iff check_message_def lit_def split: prod.splits
        intro!: outcome_try_fold [where I = "\<lambda>_ _. True"])
  show "outcome (\<lambda>e. \<not> budget_failure e) (\<lambda>_. True) (verify_authoritative_messages sha plan binding messages)"
    unfolding verify_authoritative_messages_def plan_verify_binding_def
    by (auto simp: outcome_and_then_iff split: MemoryStrategy.splits
        intro!: outcome_mono [OF snapshot])
  show "outcome (\<lambda>e. \<not> budget_failure e) (\<lambda>_. True) (verify_candidate_scope binding ids digest c)"
    unfolding verify_candidate_scope_def verify_artifact_scope_def
    by (auto simp: outcome_and_then_iff split: MemoryStrategy.splits option.splits)
qed

lemma query_context_digest:
  "outcome (\<lambda>e. \<not> budget_failure e) (\<lambda>(_, digest). strategy (preset binding) = RollingSummary \<or> digest \<noteq> None)
    (validate_query_context sha binding query)"
  unfolding validate_query_context_def
  by (auto simp: outcome_and_then_iff Let_def check_query_id_def
      split: MemoryStrategy.splits AuthoritativeEmbeddingQuery.splits
      intro!: outcome_mono [OF checks_keep_budget(3)] outcome_try_fold [where I = "\<lambda>_ _. True"])

lemma candidates_checked:
  "outcome (\<lambda>e. \<not> budget_failure e) (\<lambda>_. True) (try_fold (check_candidate binding ids digest) [] candidates)"
  by (auto simp: check_candidate_def outcome_and_then_iff Let_def
      intro!: outcome_mono [OF checks_keep_budget(4)] outcome_try_fold [where I = "\<lambda>_ _. True"])

lemma select_leaves:
  assumes "distinct (map selected_id start)" and "\<And>b. b \<noteq> ConsolidatedBucket \<Longrightarrow> bucket_tokens b start = 0"
    and "fair_shares (preset binding) budget"
    and "strategy (preset binding) = RollingSummary \<or> digest \<noteq> None"
  shows "outcome (\<lambda>e. \<not> budget_failure e)
    (\<lambda>chosen. in_progress budget leaves start chosen {Recent, Similar, Random})
    (let chosen = select_bucket (sort_by by_recency leaves) (recent_tokens (retrieval budget)) Recent start in
     case strategy (preset binding) of
       HybridRetrieval _ \<Rightarrow> select_hybrid sha binding budget digest leaves chosen
     | RollingSummary \<Rightarrow> Inr chosen)"
proof -
  define recent where "recent = select_bucket (sort_by by_recency leaves) (recent_tokens (retrieval budget)) Recent start"
  have recent: "in_progress budget leaves start recent {Recent}"
    using select_bucket_progress [OF in_progress_start [OF assms(1)], of Recent "sort_by by_recency leaves"]
      assms(2) by (simp add: recent_def)
  show ?thesis
  proof (cases "strategy (preset binding)")
    case RollingSummary
    with assms(3) have "bucket_budget budget Similar = 0" "bucket_budget budget Random = 0"
      by (simp_all add: fair_shares_def)
    then have "in_progress budget leaves start recent {Random, Similar, Recent}"
      using in_progress_skip [OF in_progress_skip [OF recent, of Similar], of Random] assms(2) by simp
    with RollingSummary show ?thesis by (simp add: recent_def insert_commute)
  next
    case (HybridRetrieval policy)
    define similar where "similar = (if 0 < similar_tokens (retrieval budget)
      then select_bucket (sort_by by_similarity leaves) (similar_tokens (retrieval budget)) Similar recent
      else recent)"
    have similar: "in_progress budget leaves start similar {Similar, Recent}"
      using select_bucket_progress [OF recent, of Similar "sort_by by_similarity leaves"]
        in_progress_skip [OF recent, of Similar] assms(2) by (auto simp: similar_def)
    have "in_progress budget leaves start
        (select_bucket (sort_by (by_random_key sha binding key) leaves) (random_tokens (retrieval budget))
          Random similar) {Random, Similar, Recent}" for key
      using select_bucket_progress [OF similar, of Random "sort_by (by_random_key sha binding key) leaves"]
        assms(2) by simp
    then have "outcome (\<lambda>e. \<not> budget_failure e)
        (\<lambda>chosen. in_progress budget leaves start chosen {Random, Similar, Recent})
        (select_hybrid sha binding budget digest leaves recent)"
      using assms(4) HybridRetrieval
      by (auto simp: select_hybrid_def similar_def [symmetric] outcome_and_then_iff)
    with HybridRetrieval show ?thesis by (simp add: recent_def insert_commute)
  qed
qed

lemma reservations_add_up:
  "acc + (\<Sum>m\<leftarrow>chosen. selected_tokens m) < 2 ^ 32 \<Longrightarrow>
    try_fold (\<lambda>tokens m. ok_or (checked_add 32 tokens (selected_tokens m)) e) acc chosen =
      Inr (acc + (\<Sum>m\<leftarrow>chosen. selected_tokens m))"
proof (induction chosen arbitrary: acc)
  case (Cons m chosen)
  then show ?case using Cons.IH [of "acc + selected_tokens m"] by (simp add: checked_add_def)
qed simp

text \<open>Sorting by position changes nothing that the promise speaks of but the order.\<close>

lemma bucket_tokens_sort_by [simp]: "bucket_tokens b (sort_by c chosen) = bucket_tokens b chosen"
  unfolding bucket_tokens_def
  by (metis (no_types, lifting) mset_filter mset_map mset_sort_by sum_mset_sum_list)

lemma distinct_map_sort_by: "distinct (map f (sort_by c xs)) \<longleftrightarrow> distinct (map f xs)"
  by (metis mset_eq_imp_distinct_iff mset_map mset_sort_by)

lemma filter_sort_by_singleton:
  assumes "filter p xs = (case best of None \<Rightarrow> [] | Some d \<Rightarrow> [f d])"
  shows "filter p (sort_by c xs) = (case best of None \<Rightarrow> [] | Some d \<Rightarrow> [f d])"
proof -
  have "mset (filter p (sort_by c xs)) = mset (filter p xs)" by simp
  with assms show ?thesis by (cases best) (simp_all del: mset_filter)
qed

lemma well_selected_of_progress:
  assumes "in_progress budget (eligible_leaves binding candidates best) start chosen {Recent, Similar, Random}"
    and "best = best_consolidated binding budget candidates"
    and "start = (case best of None \<Rightarrow> [] | Some d \<Rightarrow> [selected_of ConsolidatedBucket d])"
  shows "well_selected binding budget candidates (sort_by by_position chosen)"
proof -
  obtain new where new: "chosen = start @ new \<and>
      (\<forall>m\<in>set new. bucket m \<in> {Recent, Similar, Random} \<and>
        (\<exists>c\<in>set (eligible_leaves binding candidates best). m = selected_of (bucket m) c))"
    using assms(1) unfolding in_progress_def by blast
  have consolidated: "filter (\<lambda>m. bucket m = ConsolidatedBucket) chosen =
      (case best of None \<Rightarrow> [] | Some d \<Rightarrow> [selected_of ConsolidatedBucket d])"
    using new assms(3) by (auto simp: filter_empty_conv split: option.splits)
  have "bucket_tokens ConsolidatedBucket chosen \<le> consolidated_summary budget"
    unfolding bucket_tokens_def consolidated
    using best_consolidated_best(1) assms(2) by (auto simp: fits_consolidated_def split: option.splits)
  moreover have filled: "filled budget (eligible_leaves binding candidates best) b chosen"
    if "b \<noteq> ConsolidatedBucket" for b
    using that assms(1) by (cases b) (auto simp: in_progress_def)
  ultimately have budgets: "bucket_tokens b chosen \<le> bucket_budget budget b" for b
    by (cases "b = ConsolidatedBucket") (auto simp: filled_def)
  have leaves: "\<exists>c\<in>set candidates. offered binding best c \<and> m = selected_of (bucket m) c"
    if "m \<in> set chosen" "bucket m \<noteq> ConsolidatedBucket" for m
    using that new assms(3) by (auto simp: set_eligible_leaves split: option.splits)
  have rest: "artifact_id (artifact c) \<in> selected_id ` set chosen \<or>
      (\<forall>b\<in>{Recent, Similar, Random}. 0 < bucket_budget budget b \<longrightarrow>
        bucket_budget budget b < bucket_tokens b chosen + reserved_prompt_tokens c)"
    if "c \<in> set candidates" "offered binding best c" for c
    using that filled [of Recent] filled [of Similar] filled [of Random]
    unfolding filled_def set_eligible_leaves by blast
  have "sorted_by by_position (sort_by by_position chosen)"
    by (rule position.sorted_sort_by)
  moreover have "distinct (map selected_id (sort_by by_position chosen))"
    using assms(1) by (simp add: in_progress_def distinct_map_sort_by)
  ultimately show ?thesis
    unfolding well_selected_def
    using budgets best_consolidated_best filter_sort_by_singleton [OF consolidated] leaves rest assms(2)
    by (intro conjI exI [of _ best]) simp_all
qed

theorem select_memories_outcome:
  assumes "max_context_tokens input < 2 ^ 32" and "memory_policy_ok (preset binding)"
    and "max_output_tokens input + exact_non_memory_tokens input \<le> max_context_tokens input"
  shows "\<exists>budget. MemoryTokenBudget_calculate (preset binding) input = Inr budget \<and>
    outcome (\<lambda>e. \<not> budget_failure e)
      (\<lambda>selection. well_selected binding budget candidates (selected selection) \<and>
        selection_tokens selection = (\<Sum>m\<leftarrow>selected selection. selected_tokens m) \<and>
        selection_tokens selection + exact_non_memory_tokens input + max_output_tokens input
          \<le> max_context_tokens input)
      (select_memories sha binding chat character input query candidates)"
proof -
  obtain budget where budget: "MemoryTokenBudget_calculate (preset binding) input = Inr budget \<and>
    consolidated_summary budget + additional_detail budget = total_memory budget \<and>
    bucket_budgets budget = additional_detail budget \<and> fair_shares (preset binding) budget \<and>
    total_memory budget + exact_non_memory_tokens input + max_output_tokens input \<le> max_context_tokens input \<and>
    total_memory budget \<le> input_capacity budget * memory_budget (insertion (preset binding)) div BASIS_POINTS_SCALE \<and>
    input_capacity budget = max_context_tokens input - max_output_tokens input"
    using calculate_exact [OF assms] by blast
  then have fair: "fair_shares (preset binding) budget" by blast
  define best where "best = best_consolidated binding budget candidates"
  define start where "start = (case best of None \<Rightarrow> [] | Some d \<Rightarrow> [selected_of ConsolidatedBucket d])"
  have start: "distinct (map selected_id start)" "b \<noteq> ConsolidatedBucket \<Longrightarrow> bucket_tokens b start = 0" for b
    by (auto simp: start_def bucket_tokens_def split: option.splits)
  have pushed: "(case best of None \<Rightarrow> [] | Some c \<Rightarrow> push_selected ConsolidatedBucket [] c) = start"
    by (simp add: start_def split: option.splits)
  have total: "(\<Sum>m\<leftarrow>chosen. selected_tokens m) \<le> total_memory budget"
    if "well_selected binding budget candidates chosen" for chosen
  proof -
    have "bucket_tokens b chosen \<le> bucket_budget budget b" for b
      using that by (simp add: well_selected_def)
    from this [of ConsolidatedBucket] this [of Recent] this [of Similar] this [of Random] budget
    show ?thesis by (simp add: all_bucket_tokens bucket_budgets_def)
  qed
  have finished: "well_selected binding budget candidates (sort_by by_position chosen) \<and>
      (\<Sum>m\<leftarrow>sort_by by_position chosen. selected_tokens m) \<le> total_memory budget \<and>
      (\<Sum>m\<leftarrow>sort_by by_position chosen. selected_tokens m) < 2 ^ 32"
    if "in_progress budget (eligible_leaves binding candidates best) start chosen {Recent, Similar, Random}"
    for chosen
    using well_selected_of_progress [OF that best_def start_def] total budget assms(1) by fastforce
  have "outcome (\<lambda>e. \<not> budget_failure e)
      (\<lambda>selection. well_selected binding budget candidates (selected selection) \<and>
        selection_tokens selection = (\<Sum>m\<leftarrow>selected selection. selected_tokens m) \<and>
        selection_tokens selection \<le> total_memory budget)
      (select_memories sha binding chat character input query candidates)"
    unfolding select_memories_def conjunct1 [OF budget] and_then.simps
    apply (rule outcome_and_then [OF checks_keep_budget(1)])
    apply (rule outcome_and_then [OF query_context_digest])
    apply (clarsimp simp: outcome_if_iff simp del: push_selected_eq)
    apply (rule outcome_and_then [OF candidates_checked])
    apply (simp only: Let_def best_def [symmetric] pushed)
    apply (rule outcome_and_then [OF select_leaves [OF start fair, unfolded Let_def]])
      subgoal by simp
     subgoal by auto
    subgoal for a b x chosen using finished [of chosen] by (simp add: reservations_add_up)
    done
  then show ?thesis using budget by (auto elim!: outcome_mono)
qed

end
