(* ===== verification/Memory_Apply.thy ===== *)
theory Memory_Apply
  imports Memory_Select
begin

text \<open>
  Applying a selection to a prompt: the text that \<open>materialize\<close> gives is that of the current artifacts
  of the selection, in its order, and there is one exactly when each is still what was selected.
\<close>

text \<open>The artifact is current and is the one selected, unchanged and still eligible.\<close>

definition current_for ::
    "MemorySessionBinding \<Rightarrow> SummaryArtifact list \<Rightarrow> SelectedMemory \<Rightarrow> SummaryArtifact \<Rightarrow> bool" where
  "current_for binding current m a \<longleftrightarrow>
    a \<in> set current \<and> artifact_id a = selected_id m \<and> artifact_in_scope binding a \<and>
    artifact_revision a = selected_revision m \<and> first_source_sequence a = selected_first m \<and>
    last_source_sequence a = selected_last m \<and> artifact_is_eligible binding a"

definition memory_text :: "SummaryArtifact list \<Rightarrow> rstr" where
  "memory_text as = join_contents (map artifact_content as)"

lemma join_contents_snoc:
  "join_contents (cs @ [c]) = join_contents cs @ (if cs = [] then [] else [10, 10]) @ c"
  by (induction cs rule: join_contents.induct) simp_all

lemma memory_text_snoc [simp]:
  "memory_text [] = []"
  "str_len (memory_text (as @ [a])) =
    str_len (memory_text as) + (if as = [] then 0 else 2) + str_len (artifact_content a)"
  by (simp_all add: memory_text_def join_contents_snoc utf8_width_def)

lemma memory_text_prefix: "str_len (memory_text as) \<le> str_len (memory_text (as @ bs))"
proof (induction bs rule: rev_induct)
  case (snoc b bs)
  then show ?case using memory_text_snoc(2) [of "as @ bs" b] by simp
qed simp

lemma index_artifacts:
  "try_fold index_artifact acc current = Inr by_id \<longleftrightarrow>
    by_id = rev (map (\<lambda>a. (artifact_id a, a)) current) @ acc \<and>
    distinct (map artifact_id current) \<and> (\<forall>a\<in>set current. map_of acc (artifact_id a) = None)"
proof (induction current arbitrary: acc)
  case (Cons a current)
  show ?case
  proof (cases "map_of acc (artifact_id a) = None")
    case True
    then have "index_artifact acc a = Inr ((artifact_id a, a) # acc)" by (simp add: index_artifact_def)
    with True show ?thesis by (auto simp: Cons.IH) (metis imageI)
  next
    case False
    then show ?thesis by (simp add: index_artifact_def)
  qed
qed auto

lemma index_lookup:
  assumes "distinct (map artifact_id current)"
  shows "map_of (rev (map (\<lambda>a. (artifact_id a, a)) current)) i = Some a \<longleftrightarrow>
    a \<in> set current \<and> artifact_id a = i"
proof -
  have "distinct (map fst (rev (map (\<lambda>a. (artifact_id a, a)) current)))"
    using assms by (simp add: rev_map [symmetric] comp_def)
  from map_of_eq_Some_iff [OF this] show ?thesis by auto
qed

text \<open>The loop over the selection: the length it keeps is that of the text so far.\<close>

lemma resolve_step:
  assumes "str_len (memory_text as) \<le> MAX_LONG_TERM_MEMORY_INPUT_BYTES"
    and "\<And>i a. map_of by_id i = Some a \<longleftrightarrow> a \<in> set current \<and> artifact_id a = i"
  shows "resolve_selected binding by_id (as, str_len (memory_text as)) m = Inr r \<longleftrightarrow>
    (\<exists>a. current_for binding current m a \<and> r = (as @ [a], str_len (memory_text (as @ [a]))) \<and>
      str_len (memory_text (as @ [a])) \<le> MAX_LONG_TERM_MEMORY_INPUT_BYTES)"
proof (cases "map_of by_id (selected_id m)")
  case None
  then have "\<not> current_for binding current m a" for a
    using assms(2) [of "selected_id m" a] by (auto simp: current_for_def)
  with None show ?thesis by (simp add: resolve_selected_def Let_def)
next
  case (Some a)
  then have a: "a \<in> set current \<and> artifact_id a = selected_id m" using assms(2) by blast
  have unique: "b = a" if "current_for binding current m b" for b
    using that Some assms(2) [of "selected_id m" b] by (simp add: current_for_def)
  have "resolve_selected binding by_id (as, str_len (memory_text as)) m = Inr r \<longleftrightarrow>
      current_for binding current m a \<and> r = (as @ [a], str_len (memory_text (as @ [a]))) \<and>
      str_len (memory_text (as @ [a])) \<le> MAX_LONG_TERM_MEMORY_INPUT_BYTES"
    using Some a assms(1)
    by (auto simp: resolve_selected_def Let_def current_for_def verify_artifact_scope_def checked_add_def
        not_less add.commute res_simps)
  with unique show ?thesis by blast
qed

lemma resolve_all:
  assumes "\<And>i a. map_of by_id i = Some a \<longleftrightarrow> a \<in> set current \<and> artifact_id a = i"
    and "str_len (memory_text as) \<le> MAX_LONG_TERM_MEMORY_INPUT_BYTES"
  shows "try_fold (resolve_selected binding by_id) (as, str_len (memory_text as)) chosen = Inr r \<longleftrightarrow>
    (\<exists>bs. list_all2 (current_for binding current) chosen bs \<and>
      r = (as @ bs, str_len (memory_text (as @ bs))) \<and>
      str_len (memory_text (as @ bs)) \<le> MAX_LONG_TERM_MEMORY_INPUT_BYTES)"
  using assms(2)
proof (induction chosen arbitrary: as)
  case (Cons m chosen)
  have rest: "(str_len (memory_text (as @ [a])) \<le> MAX_LONG_TERM_MEMORY_INPUT_BYTES \<and>
      try_fold (resolve_selected binding by_id) (as @ [a], str_len (memory_text (as @ [a]))) chosen = Inr r) \<longleftrightarrow>
    (\<exists>bs. list_all2 (current_for binding current) chosen bs \<and>
      r = ((as @ [a]) @ bs, str_len (memory_text ((as @ [a]) @ bs))) \<and>
      str_len (memory_text ((as @ [a]) @ bs)) \<le> MAX_LONG_TERM_MEMORY_INPUT_BYTES)" for a
  proof (cases "str_len (memory_text (as @ [a])) \<le> MAX_LONG_TERM_MEMORY_INPUT_BYTES")
    case True
    with Cons.IH [OF True] show ?thesis by (simp only: simp_thms)
  next
    case False
    have "\<not> str_len (memory_text ((as @ [a]) @ bs)) \<le> MAX_LONG_TERM_MEMORY_INPUT_BYTES" for bs
      using False memory_text_prefix [of "as @ [a]" bs] by linarith
    with False show ?thesis by (simp only: simp_thms)
  qed
  have "try_fold (resolve_selected binding by_id) (as, str_len (memory_text as)) (m # chosen) = Inr r \<longleftrightarrow>
    (\<exists>a. current_for binding current m a \<and>
      str_len (memory_text (as @ [a])) \<le> MAX_LONG_TERM_MEMORY_INPUT_BYTES \<and>
      try_fold (resolve_selected binding by_id) (as @ [a], str_len (memory_text (as @ [a]))) chosen = Inr r)"
    unfolding try_fold.simps and_then_eq_Inr_iff resolve_step [OF Cons.prems assms(1)] by blast
  also have "\<dots> \<longleftrightarrow> (\<exists>a. current_for binding current m a \<and>
      (\<exists>bs. list_all2 (current_for binding current) chosen bs \<and>
        r = ((as @ [a]) @ bs, str_len (memory_text ((as @ [a]) @ bs))) \<and>
        str_len (memory_text ((as @ [a]) @ bs)) \<le> MAX_LONG_TERM_MEMORY_INPUT_BYTES))"
    by (intro arg_cong [where f = Ex] ext conj_cong refl rest)
  also have "\<dots> \<longleftrightarrow> (\<exists>bs. list_all2 (current_for binding current) (m # chosen) bs \<and>
      r = (as @ bs, str_len (memory_text (as @ bs))) \<and>
      str_len (memory_text (as @ bs)) \<le> MAX_LONG_TERM_MEMORY_INPUT_BYTES)"
    unfolding list_all2_Cons1 append_assoc append_Cons append_Nil by blast
  finally show ?case .
qed auto

lemma materialize_exact:
  "materialize_current_artifacts binding chosen current = Inr text \<longleftrightarrow>
    length current \<le> MAX_MEMORY_CANDIDATES \<and> distinct (map artifact_id current) \<and>
    (\<exists>as. list_all2 (current_for binding current) chosen as \<and> text = memory_text as \<and>
      str_len text \<le> MAX_LONG_TERM_MEMORY_INPUT_BYTES \<and> \<not> has_nul text)"
proof (cases "distinct (map artifact_id current)")
  case True
  let ?by_id = "rev (map (\<lambda>a. (artifact_id a, a)) current)"
  have index: "try_fold index_artifact [] current = Inr ?by_id" using True by (simp add: index_artifacts)
  have "try_fold (resolve_selected binding ?by_id) ([], 0) chosen = Inr r \<longleftrightarrow>
      (\<exists>bs. list_all2 (current_for binding current) chosen bs \<and> r = (bs, str_len (memory_text bs)) \<and>
        str_len (memory_text bs) \<le> MAX_LONG_TERM_MEMORY_INPUT_BYTES)" for r
    using resolve_all [where by_id = ?by_id and as = "[]", OF index_lookup [OF True]] by simp
  with True index show ?thesis
    by (auto simp: materialize_current_artifacts_def Let_def memory_text_def [symmetric] res_simps)
next
  case False
  then show ?thesis by (auto simp: materialize_current_artifacts_def index_artifacts res_simps)
qed

text \<open>What a selection records of the call that made it, and what that call checked.\<close>

lemma check_candidate_Inr:
  assumes "check_candidate binding ids digest acc c = Inr acc'"
  shows "artifact_in_scope binding (artifact c) \<and> artifact_id (artifact c) \<notin> set acc \<and>
    acc' = artifact_id (artifact c) # acc"
  using assms
  by (auto simp: check_candidate_def verify_candidate_scope_def verify_artifact_scope_def Let_def
      split: if_splits)

lemma checked_candidates:
  assumes "try_fold (check_candidate binding ids digest) acc candidates = Inr acc'"
  shows "distinct (map artifact_id (map artifact candidates)) \<and>
    (\<forall>c\<in>set candidates. artifact_in_scope binding (artifact c) \<and> artifact_id (artifact c) \<notin> set acc)"
  using assms
proof (induction candidates arbitrary: acc)
  case (Cons c candidates)
  from Cons.prems obtain acc'' where step: "check_candidate binding ids digest acc c = Inr acc''"
    and rest: "try_fold (check_candidate binding ids digest) acc'' candidates = Inr acc'"
    by auto
  from Cons.IH [OF rest] check_candidate_Inr [OF step] show ?case by auto
qed simp

lemma selection_origin:
  assumes "select_memories sha binding chat character input query candidates = Inr selection"
  shows "verify_application_context sha selection binding chat character input query = Inr () \<and>
    length candidates \<le> MAX_MEMORY_CANDIDATES \<and> distinct (map artifact_id (map artifact candidates)) \<and>
    (\<forall>c\<in>set candidates. artifact_in_scope binding (artifact c))"
proof -
  obtain budget ids digest acc where "verify_scope binding chat character = Inr ()"
    "validate_query_context sha binding query = Inr (ids, digest)"
    "length candidates \<le> MAX_MEMORY_CANDIDATES"
    and checked: "try_fold (check_candidate binding ids digest) [] candidates = Inr acc"
    and "selection_chat_id selection = chat_id binding \<and>
      selection_character_card_id selection = character_card_id binding \<and>
      selection_generation selection = memory_generation binding \<and>
      selection_preset_id selection = preset_id (preset binding) \<and>
      selection_preset_revision selection = preset_revision (preset binding) \<and>
      budget_input selection = input \<and> selection_digest selection = digest"
    using assms unfolding select_memories_def Let_def by (auto split: if_splits)
  with checked_candidates [OF checked] show ?thesis by (simp add: verify_application_context_def)
qed

lemma selected_current:
  assumes "well_selected binding budget candidates chosen"
    and "\<forall>c\<in>set candidates. artifact_in_scope binding (artifact c)" and "m \<in> set chosen"
  shows "\<exists>a. current_for binding (map artifact candidates) m a"
proof -
  obtain b c where c: "c \<in> set candidates" "candidate_is_eligible binding c" "m = selected_of b c"
  proof (cases "bucket m = ConsolidatedBucket")
    case True
    then have "m \<in> set (filter (\<lambda>m. bucket m = ConsolidatedBucket) chosen)" using assms(3) by simp
    with assms(1) that show ?thesis
      unfolding well_selected_def
      by (auto simp: fits_consolidated_def simp del: set_filter split: option.splits)
  next
    case False
    with assms(1,3) that show ?thesis unfolding well_selected_def by (metis offered_def)
  qed
  with assms(2) have "current_for binding (map artifact candidates) m (artifact c)"
    by (auto simp: current_for_def selected_of_def candidate_is_eligible_def)
  then show ?thesis ..
qed

lemma selection_applies:
  assumes "select_memories sha binding chat character input query candidates = Inr selection"
    and "well_selected binding budget candidates (selected selection)"
  shows "materialize sha selection binding chat character input query current = Inr text \<longleftrightarrow>
      length current \<le> MAX_MEMORY_CANDIDATES \<and> distinct (map artifact_id current) \<and>
      (\<exists>as. list_all2 (current_for binding current) (selected selection) as \<and> text = memory_text as \<and>
        str_len text \<le> MAX_LONG_TERM_MEMORY_INPUT_BYTES \<and> \<not> has_nul text)"
    and "length candidates \<le> MAX_MEMORY_CANDIDATES \<and> distinct (map artifact_id (map artifact candidates)) \<and>
      (\<exists>as. list_all2 (current_for binding (map artifact candidates)) (selected selection) as)"
proof -
  note origin = selection_origin [OF assms(1)]
  then show "materialize sha selection binding chat character input query current = Inr text \<longleftrightarrow>
      length current \<le> MAX_MEMORY_CANDIDATES \<and> distinct (map artifact_id current) \<and>
      (\<exists>as. list_all2 (current_for binding current) (selected selection) as \<and> text = memory_text as \<and>
        str_len text \<le> MAX_LONG_TERM_MEMORY_INPUT_BYTES \<and> \<not> has_nul text)"
    unfolding materialize_def materialize_exact [symmetric] by simp
  have "\<forall>m\<in>set (selected selection). \<exists>a. current_for binding (map artifact candidates) m a"
    using selected_current [OF assms(2)] origin by blast
  then obtain f where "\<forall>m\<in>set (selected selection). current_for binding (map artifact candidates) m (f m)"
    by metis
  then have "list_all2 (current_for binding (map artifact candidates)) (selected selection)
      (map f (selected selection))"
    by (auto simp: list_all2_conv_all_nth)
  with origin show "length candidates \<le> MAX_MEMORY_CANDIDATES \<and>
      distinct (map artifact_id (map artifact candidates)) \<and>
      (\<exists>as. list_all2 (current_for binding (map artifact candidates)) (selected selection) as)"
    by blast
qed

end
