(* ===== verification/Memory_Jobs.thy ===== *)
theory Memory_Jobs
  imports Memory_Apply
begin

text \<open>
  Planning of summaries: the jobs of a plan cut the messages into consecutive batches, and a job only
  accepts the batch it was planned from.
\<close>

section \<open>Batches\<close>

lemma chunks_of_unfold:
  "n = 0 \<or> xs = [] \<Longrightarrow> chunks_of n xs = []"
  "0 < n \<Longrightarrow> xs \<noteq> [] \<Longrightarrow> chunks_of n xs = take n xs # chunks_of n (drop n xs)"
  by (subst chunks_of.simps, simp)+

lemma chunks_of_partition:
  assumes "0 < n"
  shows "concat (chunks_of n xs) = xs \<and> (\<forall>b\<in>set (chunks_of n xs). b \<noteq> [] \<and> length b \<le> n) \<and>
    (\<forall>b\<in>set (butlast (chunks_of n xs)). length b = n)"
  using assms
proof (induction n xs rule: chunks_of.induct)
  case (1 n xs)
  show ?case
  proof (cases "xs = []")
    case True
    then show ?thesis by (simp add: chunks_of_unfold)
  next
    case False
    define rest where "rest = chunks_of n (drop n xs)"
    have IH: "concat rest = drop n xs \<and> (\<forall>b\<in>set rest. b \<noteq> [] \<and> length b \<le> n) \<and>
        (\<forall>b\<in>set (butlast rest). length b = n)"
      unfolding rest_def by (rule "1.IH" [OF _ "1.prems"]) (use False "1.prems" in simp)
    have long: "n \<le> length xs" if "rest \<noteq> []"
      using that chunks_of_unfold(1) [of n "drop n xs"] by (cases "n \<le> length xs") (simp_all add: rest_def)
    have "chunks_of n xs = take n xs # rest"
      unfolding rest_def using "1.prems" False by (rule chunks_of_unfold(2))
    with IH long False "1.prems" show ?thesis by (cases rest) (simp_all add: min_def)
  qed
qed

lemma sorted_concat_parts:
  fixes f :: "'a \<Rightarrow> nat"
  assumes "sorted_wrt (<) (map f (concat parts))" and "\<forall>b\<in>set parts. b \<noteq> []"
  shows "sorted_wrt (\<lambda>a b. f (last a) < f (hd b)) parts"
  using assms
proof (induction parts)
  case (Cons a parts)
  have "f (last a) < f (hd b)" if "b \<in> set parts" for b
  proof -
    have "last a \<in> set a" "hd b \<in> set b" using Cons.prems(2) that by auto
    with that Cons.prems(1) show ?thesis by (auto simp: sorted_wrt_append)
  qed
  with Cons show ?case by (simp add: sorted_wrt_append)
qed simp

section \<open>Snapshots\<close>

lemma check_messages_fold:
  "(\<exists>r. try_fold (check_message binding) (ids, previous) messages = Inr r) \<longleftrightarrow>
    (\<forall>m\<in>set messages. source_chat_id m = chat_id binding \<and> source_id m \<notin> set ids \<and>
      (\<forall>p. previous = Some p \<longrightarrow> p < sequence m)) \<and>
    distinct (map source_id messages) \<and> sorted_wrt (<) (map sequence messages)"
proof (induction messages arbitrary: ids previous)
  case (Cons m messages)
  show ?case
  proof (cases "source_chat_id m = chat_id binding \<and> source_id m \<notin> set ids \<and>
      (\<forall>p. previous = Some p \<longrightarrow> p < sequence m)")
    case True
    then have "check_message binding (ids, previous) m = Inr (source_id m # ids, Some (sequence m))"
      by (cases previous) (auto simp: check_message_def)
    then have "(\<exists>r. try_fold (check_message binding) (ids, previous) (m # messages) = Inr r) \<longleftrightarrow>
        (\<forall>x\<in>set messages. source_chat_id x = chat_id binding \<and> source_id x \<notin> set (source_id m # ids) \<and>
          (\<forall>p. Some (sequence m) = Some p \<longrightarrow> p < sequence x)) \<and>
        distinct (map source_id messages) \<and> sorted_wrt (<) (map sequence messages)"
      unfolding try_fold.simps by (simp only: and_then.simps Cons.IH)
    also have "\<dots> \<longleftrightarrow> (\<forall>x\<in>set messages. source_chat_id x = chat_id binding \<and> source_id x \<notin> set ids) \<and>
        distinct (map source_id (m # messages)) \<and> sorted_wrt (<) (map sequence (m # messages))"
      by (auto simp: image_iff)
    finally show ?thesis using True by (cases previous) (auto dest: less_trans)
  next
    case False
    then have "\<nexists>r. check_message binding (ids, previous) m = Inr r"
      by (cases previous) (auto simp: check_message_def not_less)
    with False show ?thesis by (auto simp: res_simps)
  qed
qed auto

definition snapshot_ok :: "MemorySessionBinding \<Rightarrow> MemorySourceMessage list \<Rightarrow> bool" where
  "snapshot_ok binding messages \<longleftrightarrow>
    length messages \<le> MAX_SOURCE_MESSAGES \<and> (\<forall>m\<in>set messages. source_chat_id m = chat_id binding) \<and>
    distinct (map source_id messages) \<and> sorted_wrt (<) (map sequence messages)"

lemma validate_message_snapshot_exact:
  "validate_message_snapshot binding messages = Inr () \<longleftrightarrow> snapshot_ok binding messages"
  using check_messages_fold [of binding "[]" None messages]
  by (auto simp: validate_message_snapshot_def snapshot_ok_def res_simps)

lemma snapshot_ok_part:
  assumes "snapshot_ok binding (concat batches)" and "batch \<in> set batches"
  shows "snapshot_ok binding batch"
proof -
  from assms(2) obtain before after where "batches = before @ batch # after" by (meson split_list)
  with assms(1) show ?thesis by (auto simp: snapshot_ok_def sorted_wrt_append)
qed

section \<open>Pins\<close>

lemma length_memory_be_bytes [simp]: "length (be_bytes v) = 8"
  by (simp add: be_bytes_def)

text \<open>The encoding of a message determines its text, given the rest of the message.\<close>

lemma message_encoding_content:
  assumes "message_encoding m = message_encoding m'" and "source_id m = source_id m'"
    and "sequence m = sequence m'" and "source_role m = source_role m'"
    and "valid_str (source_content m)" and "valid_str (source_content m')"
  shows "source_content m = source_content m'"
proof -
  have "digest_field (as_bytes (source_content m)) = digest_field (as_bytes (source_content m'))"
    using assms(1-4) by (simp add: message_encoding_def)
  then have "as_bytes (source_content m) = as_bytes (source_content m')"
    by (simp add: digest_field_def append_eq_append_conv)
  with as_bytes_inj assms(5,6) show ?thesis by blast
qed

lemma pin_matches_iff:
  assumes "inj_on sha (message_encoding ` {m, m'})" and "source_chat_id m = source_chat_id m'"
    and "valid_str (source_content m)" and "valid_str (source_content m')"
  shows "pin_matches sha (pin_from_message sha m) m' \<longleftrightarrow> m' = m"
proof
  assume "pin_matches sha (pin_from_message sha m) m'"
  then have same: "source_id m = source_id m'" "sequence m = sequence m'" "source_role m = source_role m'"
    and digest: "sha (message_encoding m) = sha (message_encoding m')"
    by (simp_all add: pin_matches_def pin_from_message_def digest_message_def)
  have "message_encoding m = message_encoding m'"
    by (rule inj_onD [OF assms(1) digest]) simp_all
  from message_encoding_content [OF this same assms(3,4)] same assms(2) show "m' = m"
    by (intro MemorySourceMessage.equality) simp_all
qed (simp add: pin_matches_def pin_from_message_def)

section \<open>Plans\<close>

definition included_messages :: "MemorySessionBinding \<Rightarrow> MemorySourceMessage list \<Rightarrow> MemorySourceMessage list" where
  "included_messages binding batch =
    filter (\<lambda>m. \<not> skip_user_messages (summary (preset binding)) \<or> source_role m \<noteq> User) batch"

definition job_of :: "(byte list \<Rightarrow> byte list) \<Rightarrow> MemorySessionBinding \<Rightarrow> MemorySourceMessage list \<Rightarrow> SummaryJob" where
  "job_of sha binding batch =
    job_from_binding binding Initial
      (if included_messages binding batch = [] then [] else summary_prompt (summary (preset binding)))
      (sequence (hd batch)) (sequence (last batch)) (Messages (included_messages binding batch))
      (map (pin_from_message sha) batch)"

lemma job_of_simps [simp]:
  "job_source (job_of sha binding batch) = Messages (included_messages binding batch)"
  "message_snapshot (job_of sha binding batch) = map (pin_from_message sha) batch"
  "job_first_sequence (job_of sha binding batch) = sequence (hd batch)"
  "job_last_sequence (job_of sha binding batch) = sequence (last batch)"
  by (simp_all add: job_of_def job_from_binding_def)

lemma if_Inr_snd: "(if b then Inl e else Inr (x, y)) = Inr r \<Longrightarrow> snd r = y"
  by (cases b) auto

lemma plan_batches:
  "try_fold (plan_batch sha binding) (n, jobs) batches = Inr (n', jobs') \<Longrightarrow>
    jobs' = jobs @ map (job_of sha binding) batches"
proof (induction batches arbitrary: n jobs)
  case (Cons batch batches)
  from Cons.prems obtain r where step: "plan_batch sha binding (n, jobs) batch = Inr r"
    and rest: "try_fold (plan_batch sha binding) r batches = Inr (n', jobs')"
    by auto
  from step have "snd r = jobs @ [job_of sha binding batch]"
    unfolding plan_batch_def Let_def case_prod_conv job_of_def included_messages_def
    by (elim and_then_InrE) (erule if_Inr_snd)
  with Cons.IH [of "fst r" "snd r"] rest show ?case by (cases r) simp
qed simp

lemma job_accepts_iff:
  assumes "snapshot_ok binding batch" and "\<forall>m\<in>set batch \<union> set current. valid_str (source_content m)"
    and "inj_on sha (message_encoding ` (set batch \<union> set current))"
  shows "verify_authoritative_source sha (job_of sha binding batch) binding (Messages current) = Inr () \<longleftrightarrow>
    current = batch"
proof -
  have pin: "pin_matches sha (pin_from_message sha m) m' \<longleftrightarrow> m = m'"
    if "m \<in> set batch" "m' \<in> set current" "snapshot_ok binding current" for m m'
  proof -
    have "inj_on sha (message_encoding ` {m, m'})"
      by (rule inj_on_subset [OF assms(3)]) (use that in auto)
    moreover have "source_chat_id m = source_chat_id m'"
      using that assms(1) by (simp add: snapshot_ok_def)
    ultimately show ?thesis using pin_matches_iff [of sha m m'] that assms(2) by auto
  qed
  have "list_all2 (pin_matches sha) (map (pin_from_message sha) batch) current \<longleftrightarrow> list_all2 (=) batch current"
    if "snapshot_ok binding current"
    unfolding list_all2_map1 by (rule list.rel_cong) (simp_all add: pin that)
  then show ?thesis
    using assms(1)
    by (auto simp: verify_authoritative_source_def res_simps validate_message_snapshot_exact list.rel_eq
        split: if_splits)
qed

lemma plan_jobs:
  assumes "plan_initial_summary_jobs sha binding chat character messages = Inr jobs"
  shows "\<exists>batches. jobs = map (job_of sha binding) batches \<and> concat batches = messages \<and>
    (\<forall>b\<in>set batches. b \<noteq> [] \<and> length b \<le> max_messages_per_summary (summary (preset binding)) \<and>
      snapshot_ok binding b) \<and>
    (\<forall>b\<in>set (butlast batches). length b = max_messages_per_summary (summary (preset binding))) \<and>
    sorted_wrt (\<lambda>a b. sequence (last a) < sequence (hd b)) batches"
proof -
  let ?n = "max_messages_per_summary (summary (preset binding))"
  from assms have ok: "snapshot_ok binding messages" and n: "0 < ?n"
    and jobs: "jobs = map (job_of sha binding) (chunks_of ?n messages)"
  proof -
    obtain r where "validate_message_snapshot binding messages = Inr ()" "?n \<noteq> 0"
      "try_fold (plan_batch sha binding) (0, []) (chunks_of ?n messages) = Inr r" "jobs = snd r"
      using assms by (auto simp: plan_initial_summary_jobs_def Let_def split: if_splits)
    with plan_batches [of sha binding 0 "[]" "chunks_of ?n messages" "fst r" "snd r"]
    show "snapshot_ok binding messages" "0 < ?n" "jobs = map (job_of sha binding) (chunks_of ?n messages)"
      by (simp_all add: validate_message_snapshot_exact)
  qed
  note parts = chunks_of_partition [OF n, of messages]
  then have "sorted_wrt (\<lambda>a b. sequence (last a) < sequence (hd b)) (chunks_of ?n messages)"
    using ok by (intro sorted_concat_parts) (simp_all add: snapshot_ok_def)
  moreover have "snapshot_ok binding b" if "b \<in> set (chunks_of ?n messages)" for b
    using snapshot_ok_part [OF _ that] ok parts by simp
  ultimately show ?thesis using parts jobs by (intro exI [of _ "chunks_of ?n messages"]) simp
qed

section \<open>Coverage\<close>

lemma cover_leaves:
  "try_fold cover_leaf acc leaves = Inr covered \<Longrightarrow> sorted acc \<Longrightarrow>
    sorted covered \<and> set covered = set acc \<union> set leaves"
proof (induction leaves arbitrary: acc)
  case (Cons leaf leaves)
  from Cons.prems(1) obtain acc' where step: "cover_leaf acc leaf = Inr acc'"
    and rest: "try_fold cover_leaf acc' leaves = Inr covered"
    by auto
  from step Cons.prems(2) have "sorted acc'" "set acc' = insert leaf (set acc)"
    by (auto simp: cover_leaf_def Let_def set_insort_key sorted_insort split: if_splits)
  with Cons.IH [OF rest] show ?case by auto
qed simp

text \<open>A new artifact covers the leaves of its sources, and a leaf covers itself.\<close>

lemma covers_leaf_exact:
  assumes "SummaryArtifact_new binding chat character processed i = Inr a"
  shows "covers_leaf a leaf \<longleftrightarrow>
    (case job_source (processed_job processed) of
       Messages _ \<Rightarrow> leaf = i
     | Artifacts as \<Rightarrow> \<exists>x\<in>set as. leaf \<in> set (covered_leaf_artifact_ids x))"
proof (cases "job_source (processed_job processed)")
  case (Messages ms)
  with assms have "covered_leaf_artifact_ids a = [i]"
    by (cases "job_kind (processed_job processed)") (auto simp: SummaryArtifact_new_def Let_def split: if_splits)
  with Messages binary_search_mem [of "[i]" leaf] show ?thesis by (simp add: covers_leaf_def)
next
  case (Artifacts as)
  with assms have "try_fold cover_leaf [] (concat (map covered_leaf_artifact_ids as)) =
      Inr (covered_leaf_artifact_ids a)"
    by (cases "job_kind (processed_job processed)") (auto simp: SummaryArtifact_new_def Let_def split: if_splits)
  from cover_leaves [OF this] have "sorted (covered_leaf_artifact_ids a)"
    "set (covered_leaf_artifact_ids a) = set (concat (map covered_leaf_artifact_ids as))"
    by simp_all
  with Artifacts binary_search_mem [of "covered_leaf_artifact_ids a" leaf] show ?thesis
    by (simp add: covers_leaf_def)
qed

end
