(* ===== verification/Memory_Properties.thy ===== *)
theory Memory_Properties
  imports Memory_Jobs
begin

text \<open>
  What the memory crate promises: a selection keeps its budget and uses it up, it is applied exactly
  as it was made, and summaries are accepted for the messages they were asked for.
\<close>

section \<open>A session to evaluate\<close>

definition demo_ref :: VersionedRef where
  "demo_ref = \<lparr>ref_id = lit ''r'', ref_revision = 1\<rparr>"

definition demo_memory_preset :: MemoryPreset where
  "demo_memory_preset = \<lparr>preset_id = lit ''p'', preset_revision = 1, preset_label = lit ''P'',
    strategy = RollingSummary, prompt_preset = demo_ref, summary_model = ActiveChatModel,
    summary = \<lparr>summary_prompt = lit ''s'', resummary_prompt = lit ''t'', max_messages_per_summary = 2,
      skip_user_messages = False, chunk_separator = lit ''x''\<rparr>,
    insertion = \<lparr>memory_budget = 5000, additional_detail_budget = 5000\<rparr>,
    preserve_compacted_orphans = False, regeneration_regex = ApplyPinnedPromptResponseRules\<rparr>"

definition demo_memory_binding :: MemorySessionBinding where
  "demo_memory_binding = \<lparr>chat_id = lit ''c'', character_card_id = lit ''k'', memory_generation = 1,
    preset = demo_memory_preset, resolved_summary_model = demo_ref, prompt_preset_digest = []\<rparr>"

definition demo_budget :: MemoryBudgetInput where
  "demo_budget = \<lparr>max_context_tokens = 1000, max_output_tokens = 100, exact_non_memory_tokens = 200\<rparr>"

definition demo_artifact ::
    "string \<Rightarrow> SummaryArtifactKind \<Rightarrow> nat \<Rightarrow> nat \<Rightarrow> MemoryArtifactId list \<Rightarrow> SummaryArtifact" where
  "demo_artifact i k first_sequence last_sequence covered = \<lparr>artifact_id = lit i, artifact_revision = 1,
    artifact_chat_id = lit ''c'', artifact_character_card_id = lit ''k'', artifact_generation = 1,
    artifact_preset_id = lit ''p'', artifact_preset_revision = 1, artifact_prompt_preset = demo_ref,
    artifact_summary_model = demo_ref, artifact_kind = k, first_source_sequence = first_sequence,
    last_source_sequence = last_sequence, covered_leaf_artifact_ids = covered,
    artifact_content = lit ''text of '' @ lit i, validity = Attached\<rparr>"

text \<open>A consolidated summary of the first leaf, the leaf itself, and a later leaf.\<close>

definition demo_candidates :: "MemoryCandidate list" where
  "demo_candidates =
    [\<lparr>artifact = demo_artifact ''a'' Leaf 1 2 [lit ''a''], reserved_prompt_tokens = 60, embedding_match = None\<rparr>,
     \<lparr>artifact = demo_artifact ''b'' Leaf 3 4 [lit ''b''], reserved_prompt_tokens = 50, embedding_match = None\<rparr>,
     \<lparr>artifact = demo_artifact ''s'' Consolidated 1 2 [lit ''a''], reserved_prompt_tokens = 90,
      embedding_match = None\<rparr>]"

definition demo_selection :: MemorySelection where
  "demo_selection = \<lparr>selection_chat_id = lit ''c'', selection_character_card_id = lit ''k'',
    selection_generation = 1, selection_preset_id = lit ''p'', selection_preset_revision = 1,
    budget_input = demo_budget, selection_digest = None,
    selected =
      [\<lparr>selected_id = lit ''s'', selected_revision = 1, selected_first = 1, selected_last = 2,
        bucket = ConsolidatedBucket, selected_tokens = 90\<rparr>,
       \<lparr>selected_id = lit ''b'', selected_revision = 1, selected_first = 3, selected_last = 4,
        bucket = Recent, selected_tokens = 50\<rparr>],
    selection_tokens = 140\<rparr>"

lemmas demo_memory_defs = demo_ref_def demo_memory_preset_def demo_memory_binding_def demo_budget_def
  demo_artifact_def demo_candidates_def demo_selection_def

lemma demo_budget_new: "MemoryBudgetInput_new 1000 100 200 = Inr demo_budget"
  by (simp add: MemoryBudgetInput_new_def demo_budget_def)

lemma demo_policy_ok: "memory_policy_ok (preset demo_memory_binding)"
  by (simp add: memory_policy_ok_def demo_memory_defs)

lemma demo_selected:
  "select_memories sha demo_memory_binding (lit ''c'') (lit ''k'') demo_budget RollingQuery demo_candidates =
    Inr demo_selection"
  by (simp add: select_memories_def demo_memory_defs verify_scope_def MemoryTokenBudget_calculate_def
      sub_u32_def checked_sub_def scale_tokens_def expect_u32_def validate_query_context_def
      check_candidate_def verify_candidate_scope_def verify_artifact_scope_def artifact_in_scope_def
      best_consolidated_def candidate_is_eligible_def artifact_is_eligible_def sort_by_def
      eligible_leaves_def covers_leaf_def binary_search_def binary_search_in.simps cmp_def
      select_bucket_def bucket_step_def selected_of_def by_position_def by_recency_def checked_add_def
      lit_def Let_def cong: and_then_weak_cong)

section \<open>Selection\<close>

text \<open>
  C39. Under a budget input and a preset that passed their own checks, a selection never fails for its
  budget: no arithmetic of the budget overflows and the reservations are never found to exceed it. Of
  the consolidated summaries that fit, the most recent one is selected; the other memories are eligible
  leaves that it does not cover, each at most once; each bucket keeps its budget, and a leaf that is
  left out fits no bucket in use; and what is reserved, with the rest of the prompt and the output,
  fits the context.
\<close>

theorem selection_within_budget:
  assumes "MemoryBudgetInput_new context output non_memory = Inr input" and "context < 2 ^ 32"
    and "memory_policy_ok (preset binding)"
  shows "\<exists>budget. MemoryTokenBudget_calculate (preset binding) input = Inr budget \<and>
    outcome (\<lambda>e. \<not> budget_failure e)
      (\<lambda>selection. well_selected binding budget candidates (selected selection) \<and>
        selection_tokens selection = (\<Sum>m\<leftarrow>selected selection. selected_tokens m) \<and>
        selection_tokens selection + non_memory + output \<le> context)
      (select_memories sha binding chat character input query candidates)"
proof -
  from assms(1) have "input = \<lparr>max_context_tokens = context, max_output_tokens = output,
      exact_non_memory_tokens = non_memory\<rparr>" and "output + non_memory \<le> context"
    by (auto simp: MemoryBudgetInput_new_def split: if_splits)
  with select_memories_outcome [of input binding candidates sha chat character query] assms(2,3)
  show ?thesis by simp
qed

theorem selection_within_budget_witness:
  "\<exists>budget. MemoryTokenBudget_calculate (preset demo_memory_binding) demo_budget = Inr budget \<and>
    well_selected demo_memory_binding budget demo_candidates (selected demo_selection) \<and>
    selection_tokens demo_selection + 200 + 100 \<le> 1000"
  using selection_within_budget [OF demo_budget_new _ demo_policy_ok, of demo_candidates "\<lambda>x. x"
      "lit ''c''" "lit ''k''" RollingQuery]
  by (auto simp: demo_selected)

text \<open>
  C24. A selection is applied exactly as it was made: it gives a text exactly when the current
  artifacts are not too many, have distinct identifiers, and contain every selected memory in the
  session's scope at the selected revision and range and still eligible, and the text fits and has no
  NUL; the text is then that of those artifacts in the order of the selection. Applied to the artifacts
  it was selected from, every selected memory is found.
\<close>

theorem selection_applied_exactly:
  assumes "MemoryBudgetInput_new context output non_memory = Inr input" and "context < 2 ^ 32"
    and "memory_policy_ok (preset binding)"
    and "select_memories sha binding chat character input query candidates = Inr selection"
  shows "(materialize sha selection binding chat character input query current = Inr text \<longleftrightarrow>
      length current \<le> MAX_MEMORY_CANDIDATES \<and> distinct (map artifact_id current) \<and>
      (\<exists>as. list_all2 (current_for binding current) (selected selection) as \<and> text = memory_text as \<and>
        str_len text \<le> MAX_LONG_TERM_MEMORY_INPUT_BYTES \<and> \<not> has_nul text)) \<and>
    length candidates \<le> MAX_MEMORY_CANDIDATES \<and> distinct (map artifact_id (map artifact candidates)) \<and>
    (\<exists>as. list_all2 (current_for binding (map artifact candidates)) (selected selection) as)"
proof -
  from assms(1) have "input = \<lparr>max_context_tokens = context, max_output_tokens = output,
      exact_non_memory_tokens = non_memory\<rparr>" and "output + non_memory \<le> context"
    by (auto simp: MemoryBudgetInput_new_def split: if_splits)
  with select_memories_outcome [of input binding candidates sha chat character query] assms(2-4)
  obtain budget where "well_selected binding budget candidates (selected selection)" by auto
  from selection_applies [OF assms(4) this] show ?thesis by blast
qed

lemma demo_text_current:
  "list_all2 (current_for demo_memory_binding (map artifact demo_candidates)) (selected demo_selection)
    [demo_artifact ''s'' Consolidated 1 2 [lit ''a''], demo_artifact ''b'' Leaf 3 4 [lit ''b'']]"
  by (simp add: current_for_def demo_memory_defs artifact_in_scope_def artifact_is_eligible_def lit_def)

definition demo_memory_text :: rstr where
  "demo_memory_text = lit ''text of s'' @ [10, 10] @ lit ''text of b''"

lemma demo_memory_text_ok:
  "\<exists>as. list_all2 (current_for demo_memory_binding (map artifact demo_candidates)) (selected demo_selection) as \<and>
    demo_memory_text = memory_text as \<and> str_len demo_memory_text \<le> 1048576 \<and> \<not> has_nul demo_memory_text"
proof -
  have "demo_memory_text =
      memory_text [demo_artifact ''s'' Consolidated 1 2 [lit ''a''], demo_artifact ''b'' Leaf 3 4 [lit ''b'']]"
    by (simp add: memory_text_def demo_memory_text_def demo_artifact_def lit_def)
  moreover have "str_len demo_memory_text \<le> 1048576" "\<not> has_nul demo_memory_text"
    by (simp_all add: demo_memory_text_def lit_def utf8_width_def has_nul_def)
  ultimately show ?thesis using demo_text_current by metis
qed

lemma demo_materialized:
  "materialize sha demo_selection demo_memory_binding (lit ''c'') (lit ''k'') demo_budget RollingQuery
    (map artifact demo_candidates) = Inr demo_memory_text"
proof -
  note origin = selection_origin [OF demo_selected]
  then have "materialize_current_artifacts demo_memory_binding (selected demo_selection)
      (map artifact demo_candidates) = Inr demo_memory_text"
    unfolding materialize_exact length_map using demo_memory_text_ok by blast
  with origin show ?thesis by (simp add: materialize_def)
qed

theorem selection_applied_exactly_witness:
  "materialize (\<lambda>x. x) demo_selection demo_memory_binding (lit ''c'') (lit ''k'') demo_budget RollingQuery
    (map artifact demo_candidates) = Inr demo_memory_text"
proof -
  have "1000 < (2 :: nat) ^ 32" by simp
  from selection_applied_exactly [OF demo_budget_new this demo_policy_ok demo_selected,
    of "\<lambda>x. x" "map artifact demo_candidates" demo_memory_text]
  show ?thesis using demo_memory_text_ok unfolding length_map by blast
qed

section \<open>Summaries\<close>

text \<open>
  C13. The jobs of a plan cut the messages into consecutive batches of the configured size, only the
  last of which may be shorter; a job covers the range of its batch, the ranges are disjoint and
  ascending, and the job carries the messages of the batch that the preset includes. A job accepts as
  its current source exactly the batch it was planned from, when no two of the messages compared have
  the same digest but different encodings.
\<close>

theorem summary_jobs_partition_messages:
  assumes "plan_initial_summary_jobs sha binding chat character messages = Inr jobs"
    and "\<forall>m\<in>set messages. valid_str (source_content m)"
  shows "\<exists>batches. concat batches = messages \<and>
    (\<forall>b\<in>set batches. b \<noteq> [] \<and> length b \<le> max_messages_per_summary (summary (preset binding))) \<and>
    (\<forall>b\<in>set (butlast batches). length b = max_messages_per_summary (summary (preset binding))) \<and>
    sorted_wrt (\<lambda>j k. job_last_sequence j < job_first_sequence k) jobs \<and>
    list_all2 (\<lambda>job batch.
        job_first_sequence job = sequence (hd batch) \<and> job_last_sequence job = sequence (last batch) \<and>
        job_source job = Messages (included_messages binding batch) \<and>
        (\<forall>current. (\<forall>m\<in>set current. valid_str (source_content m)) \<longrightarrow>
          inj_on sha (message_encoding ` (set batch \<union> set current)) \<longrightarrow>
          (verify_authoritative_source sha job binding (Messages current) = Inr () \<longleftrightarrow> current = batch)))
      jobs batches"
proof -
  obtain batches where b: "jobs = map (job_of sha binding) batches \<and> concat batches = messages \<and>
    (\<forall>b\<in>set batches. b \<noteq> [] \<and> length b \<le> max_messages_per_summary (summary (preset binding)) \<and>
      snapshot_ok binding b) \<and>
    (\<forall>b\<in>set (butlast batches). length b = max_messages_per_summary (summary (preset binding))) \<and>
    sorted_wrt (\<lambda>a b. sequence (last a) < sequence (hd b)) batches"
    using plan_jobs [OF assms(1)] by blast
  have "verify_authoritative_source sha (job_of sha binding batch) binding (Messages current) = Inr () \<longleftrightarrow>
      current = batch"
    if "batch \<in> set batches" "\<forall>m\<in>set current. valid_str (source_content m)"
      "inj_on sha (message_encoding ` (set batch \<union> set current))" for batch current
    using that b assms(2) by (intro job_accepts_iff) auto
  with b show ?thesis
    by (intro exI [of _ batches]) (auto simp: sorted_wrt_map list_all2_map1 list.rel_refl_strong)
qed

definition demo_messages :: "MemorySourceMessage list" where
  "demo_messages = [
    \<lparr>source_id = lit ''1'', source_chat_id = lit ''c'', sequence = 1, source_role = User, source_content = lit ''a''\<rparr>,
    \<lparr>source_id = lit ''2'', source_chat_id = lit ''c'', sequence = 2, source_role = Assistant, source_content = lit ''b''\<rparr>,
    \<lparr>source_id = lit ''3'', source_chat_id = lit ''c'', sequence = 5, source_role = User, source_content = lit ''d''\<rparr>]"

lemma demo_planned:
  "\<exists>jobs. plan_initial_summary_jobs (\<lambda>x. x) demo_memory_binding (lit ''c'') (lit ''k'') demo_messages = Inr jobs \<and>
    length jobs = 2"
proof -
  have batches: "chunks_of 2 demo_messages = [take 2 demo_messages, drop 2 demo_messages]"
    by (simp add: chunks_of_unfold demo_messages_def)
  have "\<exists>r. try_fold (plan_batch (\<lambda>x. x) demo_memory_binding) (0, [])
      [take 2 demo_messages, drop 2 demo_messages] = Inr r \<and> length (snd r) = 2"
    by (simp add: plan_batch_def validate_batch_bytes_def demo_messages_def demo_memory_binding_def
        demo_memory_preset_def checked_add_def lit_def utf8_width_def Let_def cong: and_then_weak_cong)
  then obtain n jobs where planned: "try_fold (plan_batch (\<lambda>x. x) demo_memory_binding) (0, [])
      [take 2 demo_messages, drop 2 demo_messages] = Inr (n, jobs)" "length jobs = 2"
    by auto
  have "validate_message_snapshot demo_memory_binding demo_messages = Inr ()"
    by (simp add: validate_message_snapshot_exact snapshot_ok_def demo_messages_def demo_memory_binding_def lit_def)
  moreover have "verify_scope demo_memory_binding (lit ''c'') (lit ''k'') = Inr ()"
    "max_messages_per_summary (summary (preset demo_memory_binding)) = 2"
    by (simp_all add: verify_scope_def demo_memory_binding_def demo_memory_preset_def)
  ultimately show ?thesis using planned batches by (simp add: plan_initial_summary_jobs_def)
qed

theorem summary_jobs_partition_messages_witness:
  "\<exists>jobs. plan_initial_summary_jobs (\<lambda>x. x) demo_memory_binding (lit ''c'') (lit ''k'') demo_messages = Inr jobs \<and>
    length jobs = 2 \<and> sorted_wrt (\<lambda>j k. job_last_sequence j < job_first_sequence k) jobs"
proof -
  obtain jobs where jobs: "plan_initial_summary_jobs (\<lambda>x. x) demo_memory_binding (lit ''c'') (lit ''k'')
      demo_messages = Inr jobs" "length jobs = 2"
    using demo_planned by blast
  have "\<forall>m\<in>set demo_messages. valid_str (source_content m)"
    by (simp add: demo_messages_def lit_def valid_str_def)
  with summary_jobs_partition_messages [OF jobs(1)] jobs show ?thesis by blast
qed

end
