(* ===== verification/Import_Model.thy ===== *)
theory Import_Model
  imports Utf8_Decode Strings
begin

text \<open>
  Admission of imported archives: \<open>lorepia-import/src/model.rs\<close>, \<open>error.rs\<close>, \<open>path_policy.rs\<close> and the
  checks of \<open>service.rs\<close> that run before and while entries are extracted. A file is its bytes; an error
  of the file system, which every caller turns into the error of a short read, is not modelled.
  The \<open>zip\<close> crate is an argument that gives the entries of an archive, and Unicode normalisation and
  case mapping are arguments.
\<close>

section \<open>Limits and errors\<close>

datatype ImportErrorCode =
    Busy
  | Cancelled
  | SourceTooLarge
  | UnsupportedFormat
  | ArchiveMalformed
  | UnsupportedCompression
  | EntryCountLimit
  | EntrySizeLimit
  | TotalSizeLimit
  | CompressionRatioLimit
  | UnsafePath
  | DuplicatePath
  | UnsafeEntryType
  | UnsupportedFileType
  | PngMalformed
  | PngDimensionLimit
  | PngMetadataLimit
  | PngAnimationUnsupported
  | MetadataMalformed
  | AssetRejected
  | StagingFailure
  | CleanupFailure
  | Internal

record ImportLimits =
  max_source_bytes :: nat
  max_archive_entries :: nat
  max_entry_bytes :: nat
  max_total_uncompressed_bytes :: nat
  max_compression_ratio :: nat
  max_path_bytes :: nat
  max_component_bytes :: nat
  max_path_depth :: nat
  max_zip_extra_bytes :: nat
  copy_buffer_bytes :: nat
  max_png_bytes :: nat
  max_png_chunks :: nat
  max_png_chunk_bytes :: nat
  max_png_metadata_bytes :: nat
  max_png_width :: nat
  max_png_height :: nat
  max_png_pixels :: nat
  max_png_decode_bytes :: nat
  max_metadata_bytes :: nat

definition ImportLimits_default :: ImportLimits where
  "ImportLimits_default =
    \<lparr>max_source_bytes = 256 * 1024 * 1024, max_archive_entries = 2048,
     max_entry_bytes = 64 * 1024 * 1024, max_total_uncompressed_bytes = 512 * 1024 * 1024,
     max_compression_ratio = 200, max_path_bytes = 512, max_component_bytes = 128,
     max_path_depth = 16, max_zip_extra_bytes = 16 * 1024, copy_buffer_bytes = 64 * 1024,
     max_png_bytes = 64 * 1024 * 1024, max_png_chunks = 4096,
     max_png_chunk_bytes = 32 * 1024 * 1024, max_png_metadata_bytes = 4 * 1024 * 1024,
     max_png_width = 16384, max_png_height = 16384, max_png_pixels = 67108864,
     max_png_decode_bytes = 256 * 1024 * 1024, max_metadata_bytes = 8 * 1024 * 1024\<rparr>"

definition ImportLimits_validate :: "ImportLimits \<Rightarrow> (ImportErrorCode, unit) res" where
  "ImportLimits_validate self =
    (if max_source_bytes self = 0 \<or> max_archive_entries self = 0 \<or> max_entry_bytes self = 0
        \<or> max_total_uncompressed_bytes self < max_entry_bytes self
        \<or> max_compression_ratio self = 0 \<or> max_path_bytes self = 0
        \<or> max_component_bytes self = 0 \<or> max_path_depth self = 0
        \<or> max_zip_extra_bytes self = 0
        \<or> \<not> (4 * 1024 \<le> copy_buffer_bytes self \<and> copy_buffer_bytes self \<le> 1024 * 1024)
        \<or> max_png_bytes self = 0 \<or> max_png_chunks self = 0 \<or> max_png_chunk_bytes self = 0
        \<or> max_png_metadata_bytes self = 0 \<or> max_png_width self = 0 \<or> max_png_height self = 0
        \<or> max_png_pixels self = 0 \<or> max_png_decode_bytes self = 0 \<or> max_metadata_bytes self = 0
     then Inl Internal else Inr ())"

datatype ExecutableLanguage = JavaScript | Lua | WebAssembly

datatype AssetMime = Png | Jpeg | WebP | Gif | Wav | Mp3 | Ogg | Flac

datatype EntryKind = Directory | Asset AssetMime | Metadata | Executable ExecutableLanguage

section \<open>Paths\<close>

record unicode_tables =
  nfc :: "rstr \<Rightarrow> rstr"
  uppercase :: "uchar \<Rightarrow> rstr"
  lowercase :: "uchar \<Rightarrow> rstr"

record PortablePath =
  logical :: rstr
  collision_key :: rstr
  components :: "rstr list"
  is_directory :: bool

definition portable_case_key :: "unicode_tables \<Rightarrow> rstr \<Rightarrow> rstr" where
  "portable_case_key u value =
    nfc u (concat (map (lowercase u) (concat (map (uppercase u) value))))"

definition superscript_digit :: "uchar \<Rightarrow> uchar" where
  "superscript_digit c = (if c = 185 then 49 else if c = 178 then 50 else if c = 179 then 51 else c)"

definition is_windows_device :: "rstr \<Rightarrow> bool" where
  "is_windows_device component =
    (let upper = to_ascii_uppercase (map superscript_digit (hd (split_on 46 component))) in
     upper \<in> lit ` set [''CON'', ''PRN'', ''AUX'', ''NUL'', ''CLOCK$'', ''CONIN$'', ''CONOUT$''] \<or>
     list_ex (\<lambda>device. starts_with (lit device) upper \<and>
       drop (length device) upper \<in> lit ` set [''1'', ''2'', ''3'', ''4'', ''5'', ''6'', ''7'', ''8'', ''9''])
       [''COM'', ''LPT''])"

definition component_ok :: "ImportLimits \<Rightarrow> rstr \<Rightarrow> bool" where
  "component_ok limits component \<longleftrightarrow>
    \<not> (component = [] \<or> component = lit ''.'' \<or> component = lit ''..''
       \<or> max_component_bytes limits < str_len component
       \<or> last component \<in> {46, 32}
       \<or> list_ex (\<lambda>c. is_control c \<or> c \<in> {60, 62, 34, 124, 63, 42}) component
       \<or> is_windows_device component)"

text \<open>\<open>trim_end_matches('/')\<close>.\<close>

definition trim_slashes :: "rstr \<Rightarrow> rstr" where
  "trim_slashes s = rev (dropWhile (\<lambda>c. c = 47) (rev s))"

definition validate_path ::
    "unicode_tables \<Rightarrow> byte list \<Rightarrow> bool \<Rightarrow> ImportLimits \<Rightarrow> (ImportErrorCode, PortablePath) res" where
  "validate_path u raw directory_hint limits =
    and_then (ok_or (from_utf8 raw) UnsafePath) (\<lambda>raw.
    if raw = [] \<or> has_nul raw \<or> starts_with [47] raw \<or> starts_with [92] raw \<or> 92 \<in> set raw
       \<or> 58 \<in> set raw \<or> max_path_bytes limits < str_len raw \<or> nfc u raw \<noteq> raw
    then Inl UnsafePath
    else if (last raw = 47) \<noteq> directory_hint then Inl UnsafePath
    else let name = trim_slashes raw in
    if name = [] then Inl UnsafePath
    else let parts = split_on 47 name in
    if \<not> list_all (component_ok limits) parts then Inl UnsafePath
    else if max_path_depth limits < length parts then Inl UnsafePath
    else Inr \<lparr>logical = name, collision_key = portable_case_key u name, components = parts,
      is_directory = directory_hint\<rparr>)"

text \<open>The two \<open>HashSet\<close>s of keys, of files and of directories.\<close>

type_synonym path_registry = "rstr set \<times> rstr set"

definition insert_parent ::
    "unicode_tables \<Rightarrow> PortablePath \<Rightarrow> rstr set \<Rightarrow> rstr set \<Rightarrow> nat \<Rightarrow> (ImportErrorCode, rstr set) res" where
  "insert_parent u path files directories depth =
    (let parent = portable_case_key u (join_with [47] (take depth (components path))) in
     if parent \<in> files then Inl DuplicatePath else Inr (insert parent directories))"

definition insert_unique ::
    "unicode_tables \<Rightarrow> path_registry \<Rightarrow> PortablePath \<Rightarrow> (ImportErrorCode, path_registry) res" where
  "insert_unique u = (\<lambda>(files, directories) path.
    let key = collision_key path in
    if is_directory path then
      (if key \<in> files \<or> key \<in> directories then Inl DuplicatePath
       else Inr (files, insert key directories))
    else if key \<in> files \<or> key \<in> directories then Inl DuplicatePath
    else and_then (try_fold (insert_parent u path files) directories [1..<length (components path)])
      (\<lambda>directories.
        if (\<exists>existing\<in>files. starts_with (key @ [47]) existing) \<or>
           (\<exists>existing\<in>directories. starts_with (key @ [47]) existing)
        then Inl DuplicatePath
        else Inr (insert key files, directories)))"

text \<open>\<open>rsplit_once('.')\<close>: the text after the last full stop.\<close>

definition extension_of :: "rstr \<Rightarrow> rstr option" where
  "extension_of s = (if 46 \<in> set s then Some (last (split_on 46 s)) else None)"

definition classify_entry :: "PortablePath \<Rightarrow> (ImportErrorCode, EntryKind) res" where
  "classify_entry path =
    (if is_directory path then Inr Directory
     else and_then (ok_or (extension_of (logical path)) UnsupportedFileType) (\<lambda>extension.
       let e = to_ascii_lowercase extension in
       if e = lit ''png'' then Inr (Asset Png)
       else if e \<in> lit ` set [''jpg'', ''jpeg''] then Inr (Asset Jpeg)
       else if e = lit ''webp'' then Inr (Asset WebP)
       else if e = lit ''gif'' then Inr (Asset Gif)
       else if e = lit ''wav'' then Inr (Asset Wav)
       else if e = lit ''mp3'' then Inr (Asset Mp3)
       else if e = lit ''ogg'' then Inr (Asset Ogg)
       else if e = lit ''flac'' then Inr (Asset Flac)
       else if e = lit ''json'' then Inr Metadata
       else if e \<in> lit ` set [''js'', ''mjs'', ''cjs''] then Inr (Executable JavaScript)
       else if e = lit ''lua'' then Inr (Executable Lua)
       else if e = lit ''wasm'' then Inr (Executable WebAssembly)
       else Inl UnsupportedFileType))"

section \<open>The central directory\<close>

text \<open>\<open>le_u16\<close> and \<open>le_u32\<close> of the bytes at an offset, and \<open>read_exact\<close> on the bytes left.\<close>

definition le_at :: "nat \<Rightarrow> nat \<Rightarrow> byte list \<Rightarrow> nat" where
  "le_at width offset bytes = of_le_bytes (take width (drop offset bytes))"

abbreviation le_u16 :: "nat \<Rightarrow> byte list \<Rightarrow> nat" where
  "le_u16 \<equiv> le_at 2"

abbreviation le_u32 :: "nat \<Rightarrow> byte list \<Rightarrow> nat" where
  "le_u32 \<equiv> le_at 4"

definition read_exact ::
    "ImportErrorCode \<Rightarrow> nat \<Rightarrow> byte list \<Rightarrow> (ImportErrorCode, byte list \<times> byte list) res" where
  "read_exact e n bytes = (if length bytes < n then Inl e else Inr (take n bytes, drop n bytes))"

abbreviation (input) "U16_MAX \<equiv> 65535 :: nat"
abbreviation (input) "U32_MAX \<equiv> 4294967295 :: nat"

definition flag_set :: "nat \<Rightarrow> nat \<Rightarrow> bool" where
  "flag_set flags i \<longleftrightarrow> odd (flags div 2 ^ i)"

text \<open>Bits 1 and 2 are the options of the compressor, bit 11 marks a UTF-8 name.\<close>

definition validate_zip_flags :: "nat \<Rightarrow> nat \<Rightarrow> (ImportErrorCode, unit) res" where
  "validate_zip_flags flags zip_method =
    (if flag_set flags 0 \<or> flag_set flags 6 \<or> flag_set flags 13 then Inl UnsafeEntryType
     else if flag_set flags 3 \<or> (\<exists>i\<in>{0..<16} - {1, 2, 11}. flag_set flags i)
        \<or> zip_method = 0 \<and> (flag_set flags 1 \<or> flag_set flags 2)
     then Inl ArchiveMalformed
     else if zip_method \<notin> {0, 8} then Inl UnsupportedCompression
     else Inr ())"

definition saturating_mul :: "nat \<Rightarrow> nat \<Rightarrow> nat" where
  "saturating_mul a b = min (a * b) (2 ^ 64 - 1)"

definition ratio_exceeded :: "nat \<Rightarrow> nat \<Rightarrow> nat \<Rightarrow> bool" where
  "ratio_exceeded uncompressed compressed ratio =
    (if uncompressed = 0 then False
     else if compressed = 0 then True
     else saturating_mul compressed ratio < uncompressed)"

text \<open>The fields of an extra block, each with a kind and a length; kind 1 is ZIP64.\<close>

function reject_zip64_fields :: "byte list \<Rightarrow> nat \<Rightarrow> (ImportErrorCode, unit) res" where
  "reject_zip64_fields extra offset =
    (if \<not> offset < length extra then Inr ()
     else if length extra - offset < 4 then Inl ArchiveMalformed
     else
       (let kind = le_u16 offset extra;
            next_offset = offset + 4 + le_u16 (offset + 2) extra in
        if kind = 1 \<or> length extra < next_offset then Inl ArchiveMalformed
        else reject_zip64_fields extra next_offset))"
  by pat_completeness auto
termination
  by (relation "measure (\<lambda>(extra, offset). length extra - offset)") auto

declare reject_zip64_fields.simps [simp del]

definition reject_zip64_extra :: "byte list option \<Rightarrow> (ImportErrorCode, unit) res" where
  "reject_zip64_extra extra = (case extra of None \<Rightarrow> Inr () | Some extra \<Rightarrow> reject_zip64_fields extra 0)"

text \<open>The sizes that one more entry brings the archive to.\<close>

definition charge_entry ::
    "ImportLimits \<Rightarrow> nat \<Rightarrow> nat \<Rightarrow> nat \<Rightarrow> (ImportErrorCode, nat) res" where
  "charge_entry limits sum_bytes uncompressed compressed =
    (if max_entry_bytes limits < uncompressed then Inl EntrySizeLimit
     else and_then (ok_or (checked_add 64 sum_bytes uncompressed) TotalSizeLimit) (\<lambda>sum_bytes.
       if max_total_uncompressed_bytes limits < sum_bytes then Inl TotalSizeLimit
       else if ratio_exceeded uncompressed compressed (max_compression_ratio limits)
       then Inl CompressionRatioLimit
       else Inr sum_bytes))"

definition CENTRAL_SIGNATURE :: "byte list" where
  "CENTRAL_SIGNATURE = [80, 75, 1, 2]"

definition central_record ::
    "unicode_tables \<Rightarrow> ImportLimits \<Rightarrow> byte list \<times> nat \<times> path_registry \<Rightarrow>
      (ImportErrorCode, byte list \<times> nat \<times> path_registry) res" where
  "central_record u limits = (\<lambda>(bytes, sum_bytes, registry).
    and_then (read_exact ArchiveMalformed 46 bytes) (\<lambda>(fixed, bytes).
    if take 4 fixed \<noteq> CENTRAL_SIGNATURE then Inl ArchiveMalformed
    else let zip_method = le_u16 10 fixed; compressed = le_u32 20 fixed; uncompressed = le_u32 24 fixed;
      name_bytes = le_u16 28 fixed; extra_bytes = le_u16 30 fixed; comment_bytes = le_u16 32 fixed in
    and_then (validate_zip_flags (le_u16 8 fixed) zip_method) (\<lambda>_.
    if compressed = U32_MAX \<or> uncompressed = U32_MAX \<or> le_u16 34 fixed \<noteq> 0 \<or> le_u32 42 fixed = U32_MAX
       \<or> name_bytes = 0 \<or> saturating_add (max_path_bytes limits) 1 < name_bytes
       \<or> max_zip_extra_bytes limits < extra_bytes \<or> comment_bytes \<noteq> 0
    then Inl ArchiveMalformed
    else if zip_method = 0 \<and> compressed \<noteq> uncompressed then Inl ArchiveMalformed
    else and_then (charge_entry limits sum_bytes uncompressed compressed) (\<lambda>sum_bytes.
    and_then (read_exact ArchiveMalformed name_bytes bytes) (\<lambda>(name, bytes).
    and_then (read_exact ArchiveMalformed extra_bytes bytes) (\<lambda>(extra, bytes).
    and_then (reject_zip64_extra (Some extra)) (\<lambda>_.
    and_then (validate_path u name (last name = 47) limits) (\<lambda>path.
    and_then (insert_unique u registry path) (\<lambda>registry.
    and_then (classify_entry path) (\<lambda>_. Inr (bytes, sum_bytes, registry)))))))))))"

definition EOCD_SIGNATURE :: "byte list" where
  "EOCD_SIGNATURE = [80, 75, 5, 6]"

text \<open>The last position of an end record whose comment runs to the end of the file.\<close>

definition eocd_at :: "byte list \<Rightarrow> nat \<Rightarrow> bool" where
  "eocd_at tail offset \<longleftrightarrow> starts_with EOCD_SIGNATURE (drop offset tail) \<and>
    offset + 22 + le_u16 (offset + 20) tail = length tail"

definition preflight_zip_central ::
    "unicode_tables \<Rightarrow> byte list \<Rightarrow> ImportLimits \<Rightarrow> (ImportErrorCode, nat) res" where
  "preflight_zip_central u source limits =
    (if length source < 22 then Inl ArchiveMalformed
     else let tail_bytes = min (length source) (22 + U16_MAX); tail = drop (length source - tail_bytes) source in
     and_then (ok_or (find (eocd_at tail) (rev [0..<length tail - 22 + 1])) ArchiveMalformed) (\<lambda>eocd_in_tail.
     let eocd_offset = length source - tail_bytes + eocd_in_tail;
       eocd = take 22 (drop eocd_in_tail tail);
       entry_count = le_u16 10 eocd; central_bytes = le_u32 12 eocd; central_offset = le_u32 16 eocd in
     if le_u16 4 eocd \<noteq> 0 \<or> le_u16 6 eocd \<noteq> 0 \<or> le_u16 8 eocd \<noteq> entry_count \<or> entry_count = U16_MAX
        \<or> central_bytes = U32_MAX \<or> central_offset = U32_MAX
     then Inl ArchiveMalformed
     else if entry_count = 0 then Inl UnsupportedFileType
     else if max_archive_entries limits < entry_count then Inl EntryCountLimit
     else and_then (ok_or (checked_add 64 central_offset central_bytes) ArchiveMalformed) (\<lambda>central_end.
     if central_end \<noteq> eocd_offset then Inl ArchiveMalformed
     else and_then (try_fold (\<lambda>s _. central_record u limits s) (drop central_offset source, 0, {}, {})
         [0..<entry_count]) (\<lambda>(rest, _).
       if length source - length rest \<noteq> central_end then Inl ArchiveMalformed else Inr entry_count))))"

section \<open>The entries of the archive\<close>

datatype CompressionMethod = Stored | Deflated | OtherCompression

record zip_entry =
  encrypted :: bool
  compression :: CompressionMethod
  is_dir :: bool
  is_symlink :: bool
  unix_mode :: "nat option"
  extra_data :: "byte list option"
  size :: nat
  compressed_size :: nat
  name_raw :: "byte list"
  header_start :: nat
  data_start :: "nat option"
  central_header_start :: nat
  crc32 :: nat

text \<open>
  What \<open>ZipArchive::new\<close> gives: each entry as \<open>by_index_raw\<close> returns it, and \<open>decompressed_size\<close>.
\<close>

record zip_archive =
  zip_entries :: "zip_entry option list"
  decompressed_size :: "nat option"

record EntryPlan =
  plan_index :: nat
  plan_path :: PortablePath
  plan_kind :: EntryKind
  plan_bytes :: nat

text \<open>The file-type bits of a Unix mode, \<open>mode & 0o170_000\<close>.\<close>

definition portable_entry_type :: "nat option \<Rightarrow> bool \<Rightarrow> bool" where
  "portable_entry_type mode directory =
    (case mode of
       None \<Rightarrow> True
     | Some mode \<Rightarrow>
         (let file_type = mode div 4096 mod 16 in
          if directory then file_type \<in> {0, 4} else file_type \<in> {0, 8}))"

definition LOCAL_SIGNATURE :: "byte list" where
  "LOCAL_SIGNATURE = [80, 75, 3, 4]"

definition validate_local_header ::
    "byte list \<Rightarrow> nat \<Rightarrow> nat \<Rightarrow> zip_entry \<Rightarrow> nat \<Rightarrow> (ImportErrorCode, unit) res" where
  "validate_local_header source header expected_data_start entry max_extra_bytes =
    and_then (read_exact ArchiveMalformed 30 (drop header source)) (\<lambda>(fixed, bytes).
    if take 4 fixed \<noteq> LOCAL_SIGNATURE then Inl ArchiveMalformed
    else let flags = le_u16 6 fixed in
    if flag_set flags 0 \<or> flag_set flags 3 \<or> flag_set flags 6 \<or> flag_set flags 13
       \<or> (\<exists>i\<in>{0..<16} - {1, 2, 11}. flag_set flags i)
       \<or> compression entry = Stored \<and> (flag_set flags 1 \<or> flag_set flags 2)
    then Inl ArchiveMalformed
    else and_then (case compression entry of Stored \<Rightarrow> Inr 0 | Deflated \<Rightarrow> Inr 8
        | OtherCompression \<Rightarrow> Inl UnsupportedCompression) (\<lambda>expected_method.
    if le_u16 8 fixed \<noteq> expected_method \<or> le_u32 14 fixed \<noteq> crc32 entry
       \<or> le_u32 18 fixed \<noteq> compressed_size entry \<or> le_u32 22 fixed \<noteq> size entry
    then Inl ArchiveMalformed
    else let name_bytes = le_u16 26 fixed; extra_bytes = le_u16 28 fixed in
    if name_bytes \<noteq> length (name_raw entry) \<or> max_extra_bytes < extra_bytes
    then Inl ArchiveMalformed
    else and_then (read_exact ArchiveMalformed name_bytes bytes) (\<lambda>(name, bytes).
    if name \<noteq> name_raw entry then Inl ArchiveMalformed
    else and_then (read_exact ArchiveMalformed extra_bytes bytes) (\<lambda>(extra, _).
    and_then (reject_zip64_extra (Some extra)) (\<lambda>_.
    and_then (ok_or (checked_add 64 header 30) ArchiveMalformed) (\<lambda>v.
    and_then (ok_or (checked_add 64 v name_bytes) ArchiveMalformed) (\<lambda>v.
    and_then (ok_or (checked_add 64 v extra_bytes) ArchiveMalformed) (\<lambda>actual_data_start.
      if actual_data_start \<noteq> expected_data_start then Inl ArchiveMalformed else Inr ()))))))))"

record preflight_state =
  plans :: "EntryPlan list"
  registry :: path_registry
  sum_bytes :: nat
  ranges :: "(nat \<times> nat) list"
  minimum_header :: nat

text \<open>One entry; the answer of \<open>is_cancelled\<close> before it is the first argument.\<close>

definition preflight_entry ::
    "unicode_tables \<Rightarrow> byte list \<Rightarrow> ImportLimits \<Rightarrow> (nat \<Rightarrow> bool) \<Rightarrow> preflight_state \<Rightarrow>
      nat \<times> zip_entry option \<Rightarrow> (ImportErrorCode, preflight_state) res" where
  "preflight_entry u source limits cancelled s = (\<lambda>(index, entry).
    if cancelled index then Inl Cancelled
    else and_then (ok_or entry ArchiveMalformed) (\<lambda>entry.
    if encrypted entry then Inl UnsafeEntryType
    else if compression entry \<notin> {Stored, Deflated} then Inl UnsupportedCompression
    else if is_symlink entry \<or> \<not> portable_entry_type (unix_mode entry) (is_dir entry)
    then Inl UnsafeEntryType
    else and_then (reject_zip64_extra (extra_data entry)) (\<lambda>_.
    if size entry = U32_MAX \<or> compressed_size entry = U32_MAX then Inl ArchiveMalformed
    else and_then (charge_entry limits (sum_bytes s) (size entry) (compressed_size entry)) (\<lambda>sum.
    and_then (validate_path u (name_raw entry) (is_dir entry) limits) (\<lambda>path.
    and_then (insert_unique u (registry s) path) (\<lambda>known.
    and_then (classify_entry path) (\<lambda>kind.
    if is_dir entry \<and> size entry \<noteq> 0 then Inl UnsafeEntryType
    else and_then (ok_or (data_start entry) ArchiveMalformed) (\<lambda>start.
    and_then (ok_or (checked_add 64 start (compressed_size entry)) ArchiveMalformed) (\<lambda>data_end.
    if start < header_start entry \<or> central_header_start entry < data_end \<or> length source < data_end
    then Inl ArchiveMalformed
    else and_then (validate_local_header source (header_start entry) start entry
        (max_zip_extra_bytes limits)) (\<lambda>_.
      Inr \<lparr>plans = plans s @ [\<lparr>plan_index = index, plan_path = path, plan_kind = kind,
            plan_bytes = size entry\<rparr>],
        registry = known, sum_bytes = sum, ranges = ranges s @ [(header_start entry, data_end)],
        minimum_header = min (minimum_header s) (header_start entry)\<rparr>))))))))))"

definition by_range :: "nat \<times> nat \<Rightarrow> nat \<times> nat \<Rightarrow> ordering" where
  "by_range l r = then_with (cmp (fst l) (fst r)) (cmp (snd l) (snd r))"

fun windows_disjoint :: "(nat \<times> nat) list \<Rightarrow> bool" where
  "windows_disjoint (a # b # rest) \<longleftrightarrow> snd a \<le> fst b \<and> windows_disjoint (b # rest)"
| "windows_disjoint _ \<longleftrightarrow> True"

definition preflight_zip ::
    "(byte list \<Rightarrow> zip_archive option) \<Rightarrow> unicode_tables \<Rightarrow> byte list \<Rightarrow> ImportLimits \<Rightarrow> (nat \<Rightarrow> bool) \<Rightarrow>
      (ImportErrorCode, EntryPlan list) res" where
  "preflight_zip open_archive u source limits cancelled =
    and_then (preflight_zip_central u source limits) (\<lambda>central_entry_count.
    and_then (ok_or (open_archive source) ArchiveMalformed) (\<lambda>archive.
    if length (zip_entries archive) \<noteq> central_entry_count then Inl ArchiveMalformed
    else and_then (try_fold (preflight_entry u source limits cancelled)
        \<lparr>plans = [], registry = ({}, {}), sum_bytes = 0, ranges = [], minimum_header = 2 ^ 64 - 1\<rparr>
        (enumerate 0 (zip_entries archive))) (\<lambda>s.
    if plans s \<noteq> [] \<and> minimum_header s \<noteq> 0 then Inl ArchiveMalformed
    else if \<not> windows_disjoint (sort_by by_range (ranges s)) then Inl ArchiveMalformed
    else and_then (ok_or (decompressed_size archive) ArchiveMalformed) (\<lambda>compressed_total.
      if compressed_total \<noteq> sum_bytes s then Inl ArchiveMalformed else Inr (plans s)))))"

section \<open>Extraction\<close>

text \<open>
  The loop of \<open>stream_entry\<close>: the answers of \<open>is_cancelled\<close> and the reads, each of which may fail
  (\<open>None\<close>), in order; and the bytes written so far. The end of the list is a read of no bytes.
\<close>

fun stream_loop ::
    "ImportLimits \<Rightarrow> nat \<Rightarrow> (bool \<times> byte list option) list \<Rightarrow> nat \<times> nat \<times> byte list \<Rightarrow>
      (ImportErrorCode, nat \<times> nat \<times> byte list) res" where
  "stream_loop limits declared [] s = Inr s"
| "stream_loop limits declared ((cancelled, got) # reads) (entry_actual, total_actual, written) =
    (if cancelled then Inl Cancelled
     else and_then (ok_or got ArchiveMalformed) (\<lambda>got.
       if got = [] then Inr (entry_actual, total_actual, written)
       else and_then (ok_or (checked_add 64 entry_actual (length got)) EntrySizeLimit) (\<lambda>entry_actual.
         if declared < entry_actual \<or> max_entry_bytes limits < entry_actual then Inl EntrySizeLimit
         else and_then (ok_or (checked_add 64 total_actual (length got)) TotalSizeLimit) (\<lambda>total_actual.
           if max_total_uncompressed_bytes limits < total_actual then Inl TotalSizeLimit
           else stream_loop limits declared reads (entry_actual, total_actual, written @ got)))))"

definition stream_entry ::
    "ImportLimits \<Rightarrow> nat \<Rightarrow> (bool \<times> byte list option) list \<Rightarrow> nat \<Rightarrow>
      (ImportErrorCode, nat \<times> byte list) res" where
  "stream_entry limits declared reads total_actual =
    and_then (stream_loop limits declared reads (0, total_actual, [])) (\<lambda>(entry_actual, total_actual, written).
      if entry_actual \<noteq> declared then Inl ArchiveMalformed else Inr (total_actual, written))"

end
