(* ===== verification/Import_Png.thy ===== *)
theory Import_Png
  imports Import_Model
begin

text \<open>
  Admission of PNG files, \<open>lorepia-import/src/png_policy.rs\<close>, and the extraction of the entries of an
  archive, the first loop of \<open>import_zip\<close> in \<open>service.rs\<close>. The checksum, SHA-256, the decoder of the
  \<open>png\<close> crate, the session of the asset store and the JSON parser are arguments. The answers of
  \<open>is_cancelled\<close> are a function of the number of times it was asked before. Failures to write to the staging
  directory, which end the import, are left out.
\<close>

section \<open>Data\<close>

record PngInfo =
  png_width :: nat
  png_height :: nat

record AcceptedMetadata =
  meta_logical_path :: rstr
  meta_sha256 :: rstr
  meta_bytes :: nat

text \<open>What the decoder reports of a file, once it has read the header.\<close>

record png_reader =
  info_width :: nat
  info_height :: nat
  output_buffer_size :: "nat option"
  next_frame_ok :: bool
  finish_ok :: bool

record png_libraries =
  png_crc :: "byte list \<Rightarrow> 32 word"
  png_sha :: "byte list \<Rightarrow> byte list"
  png_read_info :: "nat \<Rightarrow> byte list \<Rightarrow> png_reader option"

record png_state =
  png_rest :: "byte list"
  polls :: nat
  chunk_count :: nat
  metadata_bytes :: nat
  ihdr :: "PngInfo option"
  plte_seen :: bool
  idat_seen :: bool
  idat_ended :: bool
  iend_seen :: bool
  card_metadata :: "AcceptedMetadata list"

section \<open>Text chunks\<close>

definition import_hex_digest :: "byte list \<Rightarrow> rstr" where
  "import_hex_digest bytes =
    concat (map (\<lambda>b. [lit ''0123456789abcdef'' ! (unat b div 16), lit ''0123456789abcdef'' ! (unat b mod 16)]) bytes)"

definition validate_text_keyword :: "byte list \<Rightarrow> nat \<Rightarrow> (ImportErrorCode, unit) res" where
  "validate_text_keyword pre len =
    (case position (\<lambda>b. b = 0) pre of
       None \<Rightarrow> Inl PngMalformed
     | Some separator \<Rightarrow>
         if separator = 0 \<or> 79 < separator \<or> len \<le> separator then Inl PngMalformed else Inr ())"

definition validate_itxt_prefix :: "byte list \<Rightarrow> nat \<Rightarrow> (ImportErrorCode, unit) res" where
  "validate_itxt_prefix pre len =
    (case position (\<lambda>b. b = 0) pre of
       None \<Rightarrow> Inl PngMalformed
     | Some keyword_end \<Rightarrow>
         if keyword_end = 0 \<or> 79 < keyword_end \<or> length pre < keyword_end + 3 then Inl PngMalformed
         else if pre ! (keyword_end + 1) \<noteq> 0 \<or> pre ! (keyword_end + 2) \<noteq> 0 \<or> len \<le> keyword_end
         then Inl PngMetadataLimit
         else Inr ())"

text \<open>
  The keywords of a card. \<open>String::from_utf8_lossy\<close> gives one of these texts for its own bytes only.
\<close>

definition card_keyword :: "byte list \<Rightarrow> rstr option" where
  "card_keyword bytes = find (\<lambda>k. as_bytes k = bytes) [lit ''chara'', lit ''ccv3'']"

definition card_entry ::
    "png_libraries \<Rightarrow> rstr \<Rightarrow> rstr \<Rightarrow> byte list \<Rightarrow> (ImportErrorCode, AcceptedMetadata list) res" where
  "card_entry lib logical_path marker data =
    and_then (ok_or (position (\<lambda>b. b = 0) (take 96 data)) PngMalformed) (\<lambda>keyword_end.
      Inr (case card_keyword (take keyword_end (take 96 data)) of
        None \<Rightarrow> []
      | Some keyword \<Rightarrow>
          [\<lparr>meta_logical_path = logical_path @ marker @ keyword,
            meta_sha256 = import_hex_digest (png_sha lib data), meta_bytes = length data\<rparr>]))"

section \<open>Chunks\<close>

abbreviation (input) "PNG_SIGNATURE \<equiv> [137, 80, 78, 71, 13, 10, 26, 10] :: byte list"

definition be_u32 :: "byte list \<Rightarrow> nat" where
  "be_u32 bytes = of_le_bytes (rev bytes)"

definition chunk_name :: "string \<Rightarrow> byte list" where
  "chunk_name name = as_bytes (lit name)"

definition ancillary :: "byte list \<Rightarrow> bool" where
  "ancillary chunk_type \<longleftrightarrow> flag_set (unat (chunk_type ! 0)) 5"

definition image_header ::
    "ImportLimits \<Rightarrow> byte list \<Rightarrow> (ImportErrorCode, PngInfo) res" where
  "image_header limits pre =
    (let width = be_u32 (take 4 pre); height = be_u32 (take 4 (drop 4 pre)) in
     if width = 0 \<or> height = 0 \<or> max_png_width limits < width \<or> max_png_height limits < height
        \<or> max_png_pixels limits < width * height
     then Inl PngDimensionLimit
     else Inr \<lparr>png_width = width, png_height = height\<rparr>)"

text \<open>The reaction to the type of a chunk whose bytes have been read and checked.\<close>

definition apply_chunk ::
    "png_libraries \<Rightarrow> rstr \<Rightarrow> ImportLimits \<Rightarrow> png_state \<Rightarrow> byte list \<Rightarrow> byte list \<Rightarrow>
      (ImportErrorCode, png_state) res" where
  "apply_chunk lib logical_path limits s chunk_type data =
    (let len = length data; pre = take 96 data in
     if chunk_type = chunk_name ''IHDR'' then
       (if chunk_count s \<noteq> 1 \<or> ihdr s \<noteq> None \<or> len \<noteq> 13 \<or> length pre \<noteq> 13 then Inl PngMalformed
        else and_then (image_header limits pre) (\<lambda>info. Inr (s\<lparr>ihdr := Some info\<rparr>)))
     else if chunk_type = chunk_name ''PLTE'' then
       (if ihdr s = None \<or> idat_seen s \<or> plte_seen s \<or> len = 0 \<or> 768 < len \<or> len mod 3 \<noteq> 0
        then Inl PngMalformed else Inr (s\<lparr>plte_seen := True\<rparr>))
     else if chunk_type = chunk_name ''IDAT'' then
       (if ihdr s = None \<or> idat_ended s then Inl PngMalformed else Inr (s\<lparr>idat_seen := True\<rparr>))
     else if chunk_type = chunk_name ''IEND'' then
       (if len \<noteq> 0 \<or> ihdr s = None \<or> \<not> idat_seen s then Inl PngMalformed
        else Inr (s\<lparr>iend_seen := True\<rparr>))
     else if chunk_type = chunk_name ''tEXt'' then
       and_then (validate_text_keyword pre len) (\<lambda>_.
       and_then (card_entry lib logical_path (lit ''#tEXt:'') data) (\<lambda>entry.
         Inr (s\<lparr>card_metadata := card_metadata s @ entry\<rparr>)))
     else if chunk_type = chunk_name ''iTXt'' then
       and_then (validate_itxt_prefix pre len) (\<lambda>_.
       and_then (card_entry lib logical_path (lit ''#iTXt:'') data) (\<lambda>entry.
         Inr (s\<lparr>card_metadata := card_metadata s @ entry\<rparr>)))
     else if \<not> ancillary chunk_type then Inl PngMalformed
     else Inr s)"

text \<open>
  The bytes of a chunk, read a buffer at a time. A buffer of no bytes, which the limits exclude, would
  keep the loop from advancing.
\<close>

function read_data ::
    "(nat \<Rightarrow> bool) \<Rightarrow> nat \<Rightarrow> nat \<Rightarrow> nat \<Rightarrow> byte list \<Rightarrow> byte list \<Rightarrow>
      (ImportErrorCode, nat \<times> byte list \<times> byte list) res" where
  "read_data cancelled buffer_bytes asked remaining rest data =
    (if remaining = 0 then Inr (asked, data, rest)
     else if buffer_bytes = 0 then Inl Internal
     else if cancelled asked then Inl Cancelled
     else and_then (read_exact PngMalformed (min remaining buffer_bytes) rest) (\<lambda>(got, rest).
       read_data cancelled buffer_bytes (asked + 1) (remaining - min remaining buffer_bytes) rest (data @ got)))"
  by pat_completeness auto
termination
  by (relation "measure (\<lambda>(_, _, _, remaining, _, _). remaining)") auto

declare read_data.simps [simp del]

text \<open>The checks on the header of a chunk; the result is the count of ancillary bytes.\<close>

definition admit_header ::
    "ImportLimits \<Rightarrow> nat \<Rightarrow> nat \<Rightarrow> byte list \<Rightarrow> (ImportErrorCode, nat) res" where
  "admit_header limits charged len chunk_type =
    (if max_png_chunk_bytes limits < len then Inl PngMalformed
     else if \<not> list_all (\<lambda>b. is_ascii_alphabetic (unat b)) chunk_type \<or> flag_set (unat (chunk_type ! 2)) 5
     then Inl PngMalformed
     else and_then
       (if ancillary chunk_type
        then and_then (ok_or (checked_add 64 charged len) PngMetadataLimit) (\<lambda>charged.
          if max_png_metadata_bytes limits < charged then Inl PngMetadataLimit else Inr charged)
        else Inr charged) (\<lambda>charged.
     if chunk_type \<in> chunk_name ` set [''acTL'', ''fcTL'', ''fdAT''] then Inl PngAnimationUnsupported
     else if chunk_type \<in> chunk_name ` set [''zTXt'', ''iCCP''] then Inl PngMetadataLimit
     else Inr charged))"

definition png_chunk ::
    "png_libraries \<Rightarrow> rstr \<Rightarrow> ImportLimits \<Rightarrow> (nat \<Rightarrow> bool) \<Rightarrow> png_state \<Rightarrow>
      (ImportErrorCode, png_state) res" where
  "png_chunk lib logical_path limits cancelled s =
    (if cancelled (polls s) then Inl Cancelled
     else and_then (ok_or (checked_add_usize (chunk_count s) 1) PngMalformed) (\<lambda>n.
     if max_png_chunks limits < n then Inl PngMalformed
     else and_then (read_exact PngMalformed 8 (png_rest s)) (\<lambda>(header, rest).
     let len = be_u32 (take 4 header); chunk_type = drop 4 header in
     and_then (admit_header limits (metadata_bytes s) len chunk_type) (\<lambda>charged.
     and_then (read_data cancelled (copy_buffer_bytes limits) (polls s + 1) len rest []) (\<lambda>(asked, data, rest).
     and_then (read_exact PngMalformed 4 rest) (\<lambda>(expected_crc, rest).
     if unat (png_crc lib (chunk_type @ data)) \<noteq> be_u32 expected_crc then Inl PngMalformed
     else and_then (apply_chunk lib logical_path limits
         (s\<lparr>png_rest := rest, polls := asked, chunk_count := n, metadata_bytes := charged\<rparr>)
         chunk_type data) (\<lambda>s.
       Inr (if idat_seen s \<and> chunk_type \<noteq> chunk_name ''IDAT'' then s\<lparr>idat_ended := True\<rparr> else s))))))))"

text \<open>Every round counts a chunk, so the loop ends.\<close>

lemma apply_chunk_kept:
  "apply_chunk lib logical_path limits s chunk_type data = Inr s' \<Longrightarrow>
    png_rest s' = png_rest s \<and> polls s' = polls s \<and> chunk_count s' = chunk_count s \<and>
    metadata_bytes s' = metadata_bytes s"
  by (auto simp: apply_chunk_def Let_def split: if_splits)

lemma png_chunk_count:
  assumes "png_chunk lib logical_path limits cancelled s = Inr s'"
  shows "chunk_count s' = chunk_count s + 1 \<and> chunk_count s' \<le> max_png_chunks limits"
  using assms unfolding png_chunk_def Let_def
  by (auto dest!: apply_chunk_kept simp: checked_add_def split: if_splits prod.splits)

function png_loop ::
    "png_libraries \<Rightarrow> rstr \<Rightarrow> ImportLimits \<Rightarrow> (nat \<Rightarrow> bool) \<Rightarrow> png_state \<Rightarrow>
      (ImportErrorCode, png_state) res" where
  "png_loop lib logical_path limits cancelled s =
    (if iend_seen s then Inr s
     else and_then (png_chunk lib logical_path limits cancelled s)
       (png_loop lib logical_path limits cancelled))"
  by pat_completeness auto
termination
  by (relation "measure (\<lambda>(_, _, limits, _, s). max_png_chunks limits - chunk_count s)")
    (auto dest: png_chunk_count)

declare png_loop.simps [simp del]

section \<open>Files\<close>

definition decode_png ::
    "png_libraries \<Rightarrow> byte list \<Rightarrow> PngInfo \<Rightarrow> ImportLimits \<Rightarrow> (ImportErrorCode, unit) res" where
  "decode_png lib source expected limits =
    and_then (ok_or (png_read_info lib (max_png_decode_bytes limits) source) PngMalformed) (\<lambda>reader.
    if info_width reader \<noteq> png_width expected \<or> info_height reader \<noteq> png_height expected
    then Inl PngMalformed
    else and_then (ok_or (output_buffer_size reader) PngDimensionLimit) (\<lambda>output_bytes.
    if max_png_decode_bytes limits < output_bytes then Inl PngDimensionLimit
    else if \<not> next_frame_ok reader then Inl PngMalformed
    else if \<not> finish_ok reader then Inl PngMalformed
    else Inr ()))"

definition validate_png ::
    "png_libraries \<Rightarrow> byte list \<Rightarrow> rstr \<Rightarrow> ImportLimits \<Rightarrow> (nat \<Rightarrow> bool) \<Rightarrow>
      (ImportErrorCode, PngInfo \<times> AcceptedMetadata list) res" where
  "validate_png lib source logical_path limits cancelled =
    (if max_png_bytes limits < length source then Inl PngMalformed
     else and_then (read_exact PngMalformed 8 source) (\<lambda>(signature, rest).
     if signature \<noteq> PNG_SIGNATURE then Inl PngMalformed
     else and_then (png_loop lib logical_path limits cancelled
         \<lparr>png_rest = rest, polls = 0, chunk_count = 0, metadata_bytes = 0, ihdr = None,
          plte_seen = False, idat_seen = False, idat_ended = False, iend_seen = False,
          card_metadata = []\<rparr>) (\<lambda>s.
     if png_rest s \<noteq> [] then Inl PngMalformed
     else and_then (ok_or (ihdr s) PngMalformed) (\<lambda>info.
     and_then (decode_png lib source info limits) (\<lambda>_. Inr (info, card_metadata s))))))"

section \<open>The copy of the source\<close>

record CopiedSource =
  copied_bytes :: nat
  copied_sha256 :: rstr
  copied_prefix :: "byte list"

text \<open>
  The loop of \<open>copy_source\<close>: the answers of \<open>is_cancelled\<close> and the reads, each of which may fail with a
  code, in order; the count, the filled part of the prefix and the bytes written so far.
\<close>

fun copy_loop ::
    "ImportLimits \<Rightarrow> (bool \<times> (ImportErrorCode, byte list) res) list \<Rightarrow> nat \<times> byte list \<times> byte list \<Rightarrow>
      (ImportErrorCode, nat \<times> byte list \<times> byte list) res" where
  "copy_loop limits [] s = Inr s"
| "copy_loop limits ((cancelled, got) # reads) (bytes, pre, written) =
    (if cancelled then Inl Cancelled
     else and_then got (\<lambda>got.
       if got = [] then Inr (bytes, pre, written)
       else and_then (ok_or (checked_add 64 bytes (length got)) SourceTooLarge) (\<lambda>bytes.
         if max_source_bytes limits < bytes then Inl SourceTooLarge
         else copy_loop limits reads (bytes, pre @ take (min (8 - length pre) (length got)) got, written @ got))))"

definition copy_source ::
    "png_libraries \<Rightarrow> ImportLimits \<Rightarrow> (bool \<times> (ImportErrorCode, byte list) res) list \<Rightarrow>
      (ImportErrorCode, CopiedSource \<times> byte list) res" where
  "copy_source lib limits reads =
    and_then (copy_loop limits reads (0, [], [])) (\<lambda>(bytes, pre, written).
      Inr (\<lparr>copied_bytes = bytes, copied_sha256 = import_hex_digest (png_sha lib written),
        copied_prefix = pre @ replicate (8 - length pre) 0\<rparr>, written))"

section \<open>Extraction of an archive\<close>

record StagedAsset =
  staged_logical_path :: rstr
  staged_mime :: AssetMime
  staged_content :: "byte list"

record QuarantinedExecutable =
  metadata_contract_version :: nat
  quarantined_logical_path :: rstr
  language :: ExecutableLanguage
  quarantined_sha256 :: rstr
  quarantined_bytes :: nat
  disposition :: rstr
  executable :: bool
  policy :: rstr

definition QuarantinedExecutable_new ::
    "rstr \<Rightarrow> ExecutableLanguage \<Rightarrow> rstr \<Rightarrow> nat \<Rightarrow> QuarantinedExecutable" where
  "QuarantinedExecutable_new path lang sha n =
    \<lparr>metadata_contract_version = 1, quarantined_logical_path = path, language = lang,
     quarantined_sha256 = sha, quarantined_bytes = n, disposition = lit ''INERT_QUARANTINED'',
     executable = False, policy = lit ''DISABLED_BY_SECURITY_POLICY''\<rparr>"

text \<open>
  What the surroundings answer for the entry with a given index: whether the import is cancelled before
  it, whether the session of the asset store is live, the reads of the entry, and the answers of
  \<open>is_cancelled\<close> while an image is checked.
\<close>

record stage_env =
  stage_cancelled :: "nat \<Rightarrow> bool"
  session_live :: "nat \<Rightarrow> (ImportErrorCode, unit) res"
  entry_reads :: "nat \<Rightarrow> (bool \<times> byte list option) list option"
  png_cancelled :: "nat \<Rightarrow> nat \<Rightarrow> bool"
  json_valid :: "byte list \<Rightarrow> bool"

record staging =
  total_actual :: nat
  staged_assets :: "StagedAsset list"
  stage_metadata :: "AcceptedMetadata list"
  quarantined :: "QuarantinedExecutable list"

definition validate_json :: "stage_env \<Rightarrow> byte list \<Rightarrow> nat \<Rightarrow> (ImportErrorCode, unit) res" where
  "validate_json env content max_bytes =
    (if max_bytes < length content then Inl EntrySizeLimit
     else if \<not> json_valid env content then Inl MetadataMalformed
     else Inr ())"

definition stage_content ::
    "png_libraries \<Rightarrow> stage_env \<Rightarrow> ImportLimits \<Rightarrow> staging \<Rightarrow> EntryPlan \<Rightarrow> byte list \<Rightarrow>
      (ImportErrorCode, staging) res" where
  "stage_content lib env limits s plan content =
    (let path = logical (plan_path plan) in
     case plan_kind plan of
       Asset mime \<Rightarrow>
         if length content \<noteq> plan_bytes plan then Inl ArchiveMalformed
         else and_then
           (if mime = Png
            then and_then (validate_png lib content path limits (png_cancelled env (plan_index plan)))
              (\<lambda>(_, found). Inr found)
            else Inr []) (\<lambda>found.
           Inr (s\<lparr>stage_metadata := stage_metadata s @ found,
             staged_assets := staged_assets s @ [\<lparr>staged_logical_path = path, staged_mime = mime,
               staged_content = content\<rparr>]\<rparr>))
     | Metadata \<Rightarrow>
         and_then (validate_json env content (max_metadata_bytes limits)) (\<lambda>_.
           Inr (s\<lparr>stage_metadata := stage_metadata s @ [\<lparr>meta_logical_path = path,
             meta_sha256 = import_hex_digest (png_sha lib content), meta_bytes = length content\<rparr>]\<rparr>))
     | Executable lang \<Rightarrow>
         Inr (s\<lparr>quarantined := quarantined s @ [QuarantinedExecutable_new path lang
           (import_hex_digest (png_sha lib content)) (length content)]\<rparr>)
     | Directory \<Rightarrow> Inr s)"

definition stage_plan ::
    "png_libraries \<Rightarrow> stage_env \<Rightarrow> ImportLimits \<Rightarrow> staging \<Rightarrow> EntryPlan \<Rightarrow> (ImportErrorCode, staging) res" where
  "stage_plan lib env limits s plan =
    (if stage_cancelled env (plan_index plan) then Inl Cancelled
     else if plan_kind plan = Directory then Inr s
     else and_then (session_live env (plan_index plan)) (\<lambda>_.
     and_then (ok_or (entry_reads env (plan_index plan)) ArchiveMalformed) (\<lambda>reads.
     and_then (stream_entry limits (plan_bytes plan) reads (total_actual s)) (\<lambda>(n, content).
       stage_content lib env limits (s\<lparr>total_actual := n\<rparr>) plan content))))"

definition stage_plans ::
    "png_libraries \<Rightarrow> stage_env \<Rightarrow> ImportLimits \<Rightarrow> EntryPlan list \<Rightarrow> (ImportErrorCode, staging) res" where
  "stage_plans lib env limits ps =
    try_fold (stage_plan lib env limits)
      \<lparr>total_actual = 0, staged_assets = [], stage_metadata = [], quarantined = []\<rparr> ps"

end
