(* ===== verification/Import_Correct.thy ===== *)
theory Import_Correct
  imports Import_Png
begin

text \<open>
  Correctness of the archive checks: which paths are accepted, that accepted files cannot collide, that
  the entries of an archive do not overlap, and what extraction can write.
\<close>

section \<open>Paths\<close>

text \<open>
  What Unicode says of the solidus: it has no case, and normalisation does not reorder or compose
  characters across it.
\<close>

definition slash_neutral :: "unicode_tables \<Rightarrow> bool" where
  "slash_neutral u \<longleftrightarrow> uppercase u 47 = [47] \<and> lowercase u 47 = [47] \<and>
    (\<forall>a b. nfc u (a @ 47 # b) = nfc u a @ 47 # nfc u b)"

definition key_components :: "unicode_tables \<Rightarrow> PortablePath \<Rightarrow> rstr list" where
  "key_components u path = map (portable_case_key u) (components path)"

text \<open>The device names of Windows: a name is reserved whatever its extension and case.\<close>

definition reserved_names :: "rstr set" where
  "reserved_names = lit ` set
    [''CON'', ''PRN'', ''AUX'', ''NUL'', ''CLOCK$'', ''CONIN$'', ''CONOUT$'',
     ''COM1'', ''COM2'', ''COM3'', ''COM4'', ''COM5'', ''COM6'', ''COM7'', ''COM8'', ''COM9'',
     ''LPT1'', ''LPT2'', ''LPT3'', ''LPT4'', ''LPT5'', ''LPT6'', ''LPT7'', ''LPT8'', ''LPT9'']"

definition plain_name :: "ImportLimits \<Rightarrow> rstr \<Rightarrow> bool" where
  "plain_name limits c \<longleftrightarrow>
    c \<noteq> [] \<and> c \<noteq> lit ''.'' \<and> c \<noteq> lit ''..'' \<and> str_len c \<le> max_component_bytes limits \<and>
    last c \<notin> set (lit ''. '') \<and> (\<forall>x\<in>set c. \<not> is_control x \<and> x \<notin> {47, 92, 58, 60, 62, 34, 124, 63, 42}) \<and>
    to_ascii_uppercase (map superscript_digit (takeWhile (\<lambda>x. x \<noteq> 46) c)) \<notin> reserved_names"

text \<open>A relative path of a bounded length and a bounded number of plain names; of a file, in normal form.\<close>

definition path_safe :: "unicode_tables \<Rightarrow> ImportLimits \<Rightarrow> PortablePath \<Rightarrow> bool" where
  "path_safe u limits path \<longleftrightarrow>
    components path \<noteq> [] \<and> length (components path) \<le> max_path_depth limits \<and>
    (\<forall>c\<in>set (components path). plain_name limits c) \<and>
    logical path = join_with [47] (components path) \<and> str_len (logical path) \<le> max_path_bytes limits \<and>
    (is_directory path \<or> nfc u (logical path) = logical path)"

text \<open>The kind that the extension of a file stands for.\<close>

definition extension_kinds :: "(rstr \<times> EntryKind) list" where
  "extension_kinds = map (\<lambda>(e, kind). (lit e, kind))
    [(''png'', Asset Png), (''jpg'', Asset Jpeg), (''jpeg'', Asset Jpeg), (''webp'', Asset WebP), (''gif'', Asset Gif),
     (''wav'', Asset Wav), (''mp3'', Asset Mp3), (''ogg'', Asset Ogg), (''flac'', Asset Flac), (''json'', Metadata),
     (''js'', Executable JavaScript), (''mjs'', Executable JavaScript), (''cjs'', Executable JavaScript),
     (''lua'', Executable Lua), (''wasm'', Executable WebAssembly)]"

definition kind_fits :: "PortablePath \<Rightarrow> EntryKind \<Rightarrow> bool" where
  "kind_fits path kind \<longleftrightarrow> (if is_directory path then kind = Directory
    else \<exists>stem extension. logical path = stem @ 46 # extension \<and> 46 \<notin> set extension \<and>
      map_of extension_kinds (to_ascii_lowercase extension) = Some kind)"

lemma split_on_last:
  assumes "c \<in> set s"
  shows "\<exists>stem. s = stem @ c # last (split_on c s)"
proof -
  let ?parts = "split_on c s"
  have "butlast ?parts \<noteq> []"
  proof
    assume "butlast ?parts = []"
    then have "?parts = [last ?parts]" by (metis append_Nil append_butlast_last_id split_on_nonempty)
    then have "s = last ?parts" using join_split_on [of c s] by (metis join_with.simps(2))
    with assms split_on_parts [of "last ?parts" c s] last_in_set [of ?parts] show False by fastforce
  qed
  then have "join_with [c] (butlast ?parts @ [last ?parts]) = join_with [c] (butlast ?parts) @ [c] @ last ?parts"
    by (simp only: join_with_snoc if_False)
  then show ?thesis by auto
qed

lemma hd_split_on: "hd (split_on c s) = takeWhile (\<lambda>x. x \<noteq> c) s"
proof (induction s)
  case (Cons d s)
  obtain part parts where "split_on c s = part # parts" by (cases "split_on c s") auto
  with Cons show ?case by simp
qed simp

lemma classify_entry_fits:
  assumes "classify_entry path = Inr kind"
  shows "kind_fits path kind"
proof (cases "is_directory path")
  case False
  let ?extension = "last (split_on 46 (logical path))"
  from False assms have dot: "46 \<in> set (logical path)"
    and table: "map_of extension_kinds (to_ascii_lowercase ?extension) = Some kind"
    by (auto simp: classify_entry_def extension_of_def extension_kinds_def Let_def lit_def split: if_splits)
  moreover have "46 \<notin> set ?extension" by (rule split_on_parts) (rule last_in_set [OF split_on_nonempty])
  ultimately show ?thesis using False split_on_last [OF dot] by (auto simp: kind_fits_def)
qed (use assms in \<open>simp add: kind_fits_def classify_entry_def\<close>)

lemma portable_case_key_join:
  assumes "slash_neutral u"
  shows "xs \<noteq> [] \<Longrightarrow> portable_case_key u (join_with [47] xs) = join_with [47] (map (portable_case_key u) xs)"
proof (induction xs)
  case (Cons x xs)
  then show ?case
    using assms by (cases "xs = []") (simp_all add: join_with_Cons portable_case_key_def slash_neutral_def)
qed simp

lemma device_number:
  "upper \<in> (\<lambda>d. lit device @ d) ` X \<Longrightarrow> starts_with (lit device) upper \<and> drop (length device) upper \<in> X"
  by (auto simp: starts_with_iff lit_def)

lemma reserved_names_eq:
  "reserved_names = lit ` set [''CON'', ''PRN'', ''AUX'', ''NUL'', ''CLOCK$'', ''CONIN$'', ''CONOUT$''] \<union>
    (\<lambda>d. lit ''COM'' @ d) ` lit ` set [''1'', ''2'', ''3'', ''4'', ''5'', ''6'', ''7'', ''8'', ''9''] \<union>
    (\<lambda>d. lit ''LPT'' @ d) ` lit ` set [''1'', ''2'', ''3'', ''4'', ''5'', ''6'', ''7'', ''8'', ''9'']"
  by (simp add: reserved_names_def lit_def del: Un_insert_right)

lemma reserved_names_device:
  "upper \<in> reserved_names \<Longrightarrow>
    upper \<in> lit ` set [''CON'', ''PRN'', ''AUX'', ''NUL'', ''CLOCK$'', ''CONIN$'', ''CONOUT$''] \<or>
    list_ex (\<lambda>device. starts_with (lit device) upper \<and>
       drop (length device) upper \<in> lit ` set [''1'', ''2'', ''3'', ''4'', ''5'', ''6'', ''7'', ''8'', ''9''])
       [''COM'', ''LPT'']"
  unfolding reserved_names_eq list_ex_Cons_iff Un_iff using device_number by blast

lemma component_ok_plain:
  assumes "component_ok limits c" and "47 \<notin> set c" "92 \<notin> set c" "58 \<notin> set c"
  shows "plain_name limits c"
  using assms reserved_names_device [of "to_ascii_uppercase (map superscript_digit (hd (split_on 46 c)))"]
  unfolding component_ok_def plain_name_def is_windows_device_def Let_def hd_split_on
  by (auto simp: list_ex_iff lit_def)

lemma trim_slashes_prefix: "\<exists>slashes. s = trim_slashes s @ slashes"
  unfolding trim_slashes_def by (metis append_Nil2 rev_append rev_rev_ident takeWhile_dropWhile_id)

lemma trim_slashes_id: "s \<noteq> [] \<Longrightarrow> last s \<noteq> 47 \<Longrightarrow> trim_slashes s = s"
  by (cases s rule: rev_cases) (simp_all add: trim_slashes_def)

lemma set_split_on: "part \<in> set (split_on c s) \<Longrightarrow> set part \<subseteq> set s"
proof (induction s arbitrary: part)
  case (Cons d s)
  obtain first parts where split: "split_on c s = first # parts" by (cases "split_on c s") auto
  with Cons.prems consider "part = []" | "part \<in> set (split_on c s)" | "part = d # first"
    by (auto split: if_splits)
  then show ?case using Cons.IH [of part] Cons.IH [of first] split by cases auto
qed simp

lemma validate_path_Inr:
  assumes "validate_path u raw hint limits = Inr path"
  shows "path_safe u limits path" and "collision_key path = portable_case_key u (logical path)"
    and "is_directory path = hint"
proof -
  from assms obtain t where admitted: "t \<noteq> []" "92 \<notin> set t" "58 \<notin> set t"
      "str_len t \<le> max_path_bytes limits" "nfc u t = t" "(last t = 47) = hint"
    and parts: "list_all (component_ok limits) (split_on 47 (trim_slashes t))"
      "length (split_on 47 (trim_slashes t)) \<le> max_path_depth limits"
    and path: "path = \<lparr>logical = trim_slashes t, collision_key = portable_case_key u (trim_slashes t),
      components = split_on 47 (trim_slashes t), is_directory = hint\<rparr>"
    by (auto simp: validate_path_def Let_def split: if_splits)
  obtain slashes where slashes: "t = trim_slashes t @ slashes" using trim_slashes_prefix by blast
  then have sub: "set (trim_slashes t) \<subseteq> set t" by (metis Un_upper1 set_append)
  have "plain_name limits c" if "c \<in> set (split_on 47 (trim_slashes t))" for c
    using component_ok_plain [of limits c] parts(1) split_on_parts [OF that] set_split_on [OF that] sub admitted(2,3) that
    by (auto simp: list_all_iff)
  moreover have "str_len (trim_slashes t) \<le> str_len t"
    by (subst (2) slashes) simp
  moreover have "hint \<or> nfc u (trim_slashes t) = trim_slashes t"
    using admitted trim_slashes_id by metis
  ultimately show "path_safe u limits path" using admitted parts by (simp add: path_safe_def path)
qed (use assms in \<open>auto simp: validate_path_def Let_def split: if_splits\<close>)

text \<open>Two files collide when one would have to be a directory of the other or the same file.\<close>

definition no_collision :: "unicode_tables \<Rightarrow> PortablePath \<Rightarrow> PortablePath \<Rightarrow> bool" where
  "no_collision u p q \<longleftrightarrow>
    \<not> prefix (key_components u p) (key_components u q) \<and> \<not> prefix (key_components u q) (key_components u p)"

definition file_paths :: "PortablePath list \<Rightarrow> PortablePath list" where
  "file_paths paths = filter (\<lambda>p. \<not> is_directory p) paths"

definition path_valid :: "unicode_tables \<Rightarrow> ImportLimits \<Rightarrow> PortablePath \<Rightarrow> bool" where
  "path_valid u limits path \<longleftrightarrow> path_safe u limits path \<and>
    collision_key path = portable_case_key u (logical path)"

lemma join_with_append:
  "xs \<noteq> [] \<Longrightarrow> ys \<noteq> [] \<Longrightarrow> join_with [c] (xs @ ys) = join_with [c] xs @ c # join_with [c] ys"
proof (induction xs)
  case (Cons x xs)
  then show ?case by (cases "xs = []") (simp_all add: join_with_Cons)
qed simp

lemma collision_key_join:
  assumes "slash_neutral u" and "path_valid u limits path"
  shows "collision_key path = join_with [47] (key_components u path)"
  using assms portable_case_key_join [OF assms(1), of "components path"]
  by (simp add: path_valid_def path_safe_def key_components_def)

lemma parents_absent:
  assumes "try_fold (insert_parent u path files) directories depths = Inr directories'" and "d \<in> set depths"
  shows "portable_case_key u (join_with [47] (take d (components path))) \<notin> files"
  using assms
proof (induction depths arbitrary: directories)
  case (Cons e depths)
  then show ?case by (auto simp: insert_parent_def Let_def split: if_splits)
qed simp

lemma file_inserted:
  assumes "slash_neutral u" and p: "path_valid u limits p" "\<not> is_directory p"
    and q: "path_valid u limits q" "collision_key q \<in> files"
    and step: "insert_unique u (files, directories) p = Inr r"
  shows "no_collision u q p"
proof -
  let ?K = "key_components u"
  have keys: "collision_key p = join_with [47] (?K p)" "collision_key q = join_with [47] (?K q)"
    using collision_key_join [OF assms(1)] p(1) q(1) by blast+
  have ne: "?K p \<noteq> []" "?K q \<noteq> []"
    using p(1) q(1) by (simp_all add: key_components_def path_valid_def path_safe_def)
  from step p(2) have fresh: "collision_key p \<notin> files"
    and below: "\<And>e. e \<in> files \<Longrightarrow> \<not> starts_with (collision_key p @ [47]) e"
    and above: "\<exists>directories'. try_fold (insert_parent u p files) directories [1..<length (components p)] =
      Inr directories'"
    by (auto simp: insert_unique_def Let_def split: if_splits)
  have "\<not> prefix (?K p) (?K q)"
  proof
    assume "prefix (?K p) (?K q)"
    then obtain zs where zs: "?K q = ?K p @ zs" by (auto elim: prefixE)
    show False
    proof (cases "zs = []")
      case True
      then show False using fresh q(2) keys zs by simp
    next
      case False
      then have "collision_key q = (collision_key p @ [47]) @ join_with [47] zs"
        using keys zs join_with_append [OF ne(1) False, of 47] by simp
      then show False using below [OF q(2)] by (auto simp: starts_with_iff)
    qed
  qed
  moreover have "\<not> prefix (?K q) (?K p)"
  proof
    assume pre: "prefix (?K q) (?K p)"
    then obtain zs where zs: "?K p = ?K q @ zs" by (auto elim: prefixE)
    then have zs_ne: "zs \<noteq> []" using fresh q(2) keys by auto
    let ?d = "length (?K q)"
    have len: "length (components p) = length (?K q) + length zs"
      using arg_cong [OF zs, of length] by (simp add: key_components_def)
    have "take ?d (?K p) = ?K q" using zs by simp
    then have "portable_case_key u (join_with [47] (take ?d (components p))) = collision_key q"
      using portable_case_key_join [OF assms(1), of "take ?d (components p)"] ne len keys(2)
      by (simp add: key_components_def take_map)
    moreover have "0 < ?d" "0 < length zs" using zs_ne ne(2) by simp_all
    then have "?d \<in> set [1..<length (components p)]" using len by (simp add: Suc_le_eq)
    ultimately show False using above parents_absent q(2) by metis
  qed
  ultimately show ?thesis by (simp add: no_collision_def)
qed

lemma insert_unique_files:
  assumes "insert_unique u (files, directories) p = Inr (files', directories')"
  shows "files' = (if is_directory p then files else insert (collision_key p) files)"
  using assms by (auto simp: insert_unique_def Let_def split: if_splits)

text \<open>The invariant of the registry after a sequence of accepted paths.\<close>

definition registry_ok ::
    "unicode_tables \<Rightarrow> ImportLimits \<Rightarrow> PortablePath list \<Rightarrow> path_registry \<Rightarrow> bool" where
  "registry_ok u limits paths known \<longleftrightarrow>
    (\<forall>p\<in>set paths. path_valid u limits p) \<and> fst known = collision_key ` set (file_paths paths) \<and>
    sorted_wrt (no_collision u) (file_paths paths)"

lemma registry_ok_Nil: "registry_ok u limits [] ({}, directories)"
  by (simp add: registry_ok_def file_paths_def)

lemma registry_ok_insert:
  assumes "slash_neutral u" and "registry_ok u limits paths known"
    and "validate_path u raw hint limits = Inr p" and "insert_unique u known p = Inr known'"
  shows "registry_ok u limits (paths @ [p]) known'"
proof -
  obtain files directories files' directories' where
    known: "known = (files, directories)" "known' = (files', directories')" by fastforce
  have p: "path_valid u limits p" using validate_path_Inr [OF assms(3)] by (simp add: path_valid_def)
  have "no_collision u q p" if "q \<in> set (file_paths paths)" "\<not> is_directory p" for q
    using file_inserted [OF assms(1) p that(2), of q files directories known'] that assms(2,4) known
    by (auto simp: registry_ok_def file_paths_def)
  with assms(2) p insert_unique_files [of u files directories p files' directories'] assms(4) known
  show ?thesis by (auto simp: registry_ok_def file_paths_def sorted_wrt_append)
qed

section \<open>Archives\<close>

definition entry_range :: "zip_entry \<Rightarrow> nat \<times> nat" where
  "entry_range e = (header_start e, the (data_start e) + compressed_size e)"

definition ranges_disjoint :: "nat \<times> nat \<Rightarrow> nat \<times> nat \<Rightarrow> bool" where
  "ranges_disjoint a b \<longleftrightarrow> snd a \<le> fst b \<or> snd b \<le> fst a"

interpretation range_order: comparator by_range
  unfolding by_range_def [abs_def] by (intro comparator_then comparator_cmp_on)

lemma windows_disjoint_pairwise:
  assumes "windows_disjoint rs" and "sorted_by by_range rs" and "\<forall>r\<in>set rs. fst r \<le> snd r"
  shows "sorted_wrt (\<lambda>a b. snd a \<le> fst b) rs"
  using assms
proof (induction rs rule: windows_disjoint.induct)
  case (1 a b rest)
  then have IH: "sorted_wrt (\<lambda>a b. snd a \<le> fst b) (b # rest)" by simp
  have "snd a \<le> fst c" if "c \<in> set (b # rest)" for c
  proof (cases "c = b")
    case False
    with that IH have "snd b \<le> fst c" by simp
    moreover have "snd a \<le> fst b" "fst b \<le> snd b" using "1.prems" by auto
    ultimately show ?thesis by linarith
  qed (use "1.prems" in simp)
  with IH show ?case by simp
qed simp_all

text \<open>Disjointness does not depend on the order in which the ranges are listed.\<close>

lemma pairwise_perm:
  assumes "sorted_wrt R xs" and "mset xs = mset ys" and "\<And>a b. R a b = R b a"
  shows "sorted_wrt R ys"
  using assms(1,2)
proof (induction ys arbitrary: xs)
  case (Cons y ys)
  from Cons.prems(2) have "y \<in> set xs" by (metis list.set_intros(1) mset_eq_setD)
  then obtain before after where xs: "xs = before @ y # after" by (meson split_list)
  with Cons.prems have rest: "sorted_wrt R (before @ after)" "mset (before @ after) = mset ys"
    by (auto simp: sorted_wrt_append)
  have "R y z" if "z \<in> set ys" for z
  proof -
    have "z \<in> set before \<union> set after" using rest(2) that by (metis mset_eq_setD set_append)
    with Cons.prems(1) xs assms(3) show ?thesis by (auto simp: sorted_wrt_append)
  qed
  with Cons.IH [OF rest] show ?case by simp
qed simp

text \<open>The invariant of the loop over the entries.\<close>

definition preflight_ok ::
    "unicode_tables \<Rightarrow> byte list \<Rightarrow> ImportLimits \<Rightarrow> zip_entry option list \<Rightarrow> preflight_state \<Rightarrow> bool" where
  "preflight_ok u source limits entries s \<longleftrightarrow>
    registry_ok u limits (map plan_path (plans s)) (registry s) \<and>
    sum_bytes s = (\<Sum>p\<leftarrow>plans s. plan_bytes p) \<and> sum_bytes s \<le> max_total_uncompressed_bytes limits \<and>
    (\<forall>p\<in>set (plans s). plan_bytes p \<le> max_entry_bytes limits \<and> classify_entry (plan_path p) = Inr (plan_kind p)) \<and>
    None \<notin> set entries \<and> length (plans s) = length entries \<and>
    map plan_index (plans s) = [0..<length entries] \<and>
    ranges s = map (entry_range \<circ> the) entries \<and>
    (\<forall>r\<in>set (ranges s). fst r \<le> snd r \<and> snd r \<le> length source)"

lemma charge_entry_Inr:
  "charge_entry limits n a c = Inr m \<Longrightarrow>
    m = n + a \<and> m \<le> max_total_uncompressed_bytes limits \<and> a \<le> max_entry_bytes limits"
  by (auto simp: charge_entry_def checked_add_def split: if_splits)

lemma preflight_entry_Inr:
  assumes "preflight_entry u source limits cancelled s (index, entry) = Inr s'"
  shows "\<exists>e path kind known start sum. entry = Some e \<and> data_start e = Some start \<and>
    validate_path u (name_raw e) (is_dir e) limits = Inr path \<and> insert_unique u (registry s) path = Inr known \<and>
    classify_entry path = Inr kind \<and>
    charge_entry limits (sum_bytes s) (size e) (compressed_size e) = Inr sum \<and>
    header_start e \<le> start \<and> start + compressed_size e \<le> length source \<and>
    s' = \<lparr>plans = plans s @ [\<lparr>plan_index = index, plan_path = path, plan_kind = kind, plan_bytes = size e\<rparr>],
      registry = known, sum_bytes = sum, ranges = ranges s @ [entry_range e],
      minimum_header = min (minimum_header s) (header_start e)\<rparr>"
proof (cases entry)
  case None
  with assms show ?thesis by (simp add: preflight_entry_def split: if_splits)
next
  case (Some e)
  with assms obtain start data_end where start: "data_start e = Some start"
    "checked_add 64 start (compressed_size e) = Some data_end"
    by (auto simp: preflight_entry_def split: if_splits)
  then have "data_end = start + compressed_size e" by (simp add: checked_add_def split: if_splits)
  with Some start assms show ?thesis
    by (auto simp: preflight_entry_def entry_range_def split: if_splits)
qed

lemma preflight_entry_ok:
  assumes "slash_neutral u" and "preflight_ok u source limits entries s"
    and "preflight_entry u source limits cancelled s (length entries, entry) = Inr s'"
  shows "preflight_ok u source limits (entries @ [entry]) s'"
proof -
  from preflight_entry_Inr [OF assms(3)] obtain e path kind known start sum where
    e: "entry = Some e" "data_start e = Some start" "validate_path u (name_raw e) (is_dir e) limits = Inr path"
    "insert_unique u (registry s) path = Inr known" "classify_entry path = Inr kind"
    "charge_entry limits (sum_bytes s) (size e) (compressed_size e) = Inr sum"
    "header_start e \<le> start" "start + compressed_size e \<le> length source"
    and s': "s' = \<lparr>plans = plans s @ [\<lparr>plan_index = length entries, plan_path = path, plan_kind = kind,
        plan_bytes = size e\<rparr>],
      registry = known, sum_bytes = sum, ranges = ranges s @ [entry_range e],
      minimum_header = min (minimum_header s) (header_start e)\<rparr>"
    by blast
  have "registry_ok u limits (map plan_path (plans s) @ [path]) known"
    using registry_ok_insert [OF assms(1) _ e(3,4)] assms(2) by (simp add: preflight_ok_def)
  with assms(2) e s' charge_entry_Inr [OF e(6)] show ?thesis
    by (auto simp: preflight_ok_def entry_range_def)
qed

lemma preflight_loop_ok:
  assumes "slash_neutral u"
  shows "preflight_ok u source limits done s \<Longrightarrow>
    try_fold (preflight_entry u source limits cancelled) s (enumerate (length done) entries) = Inr s' \<Longrightarrow>
    preflight_ok u source limits (done @ entries) s'"
proof (induction entries arbitrary: "done" s)
  case (Cons entry entries)
  from Cons.prems(2) obtain t where
    step: "preflight_entry u source limits cancelled s (length done, entry) = Inr t"
    and rest: "try_fold (preflight_entry u source limits cancelled) t (enumerate (length (done @ [entry])) entries) = Inr s'"
    by auto
  from Cons.IH [OF preflight_entry_ok [OF assms Cons.prems(1) step] rest] show ?case by simp
qed simp

lemma outcome_continue: "(\<And>x. outcome (\<lambda>_. True) P (f x)) \<Longrightarrow> outcome (\<lambda>_. True) P (and_then r f)"
  by (cases r) simp_all

lemma preflight_entries_count:
  assumes "preflight_zip_central u source limits = Inr n"
  shows "0 < n \<and> n \<le> max_archive_entries limits"
proof -
  have "outcome (\<lambda>_. True) (\<lambda>n. 0 < n \<and> n \<le> max_archive_entries limits) (preflight_zip_central u source limits)"
    unfolding preflight_zip_central_def Let_def split_beta
    by (rule outcome_continue | rule conjI | rule impI | simp only: outcome_if_iff outcome_simps | linarith)+
  with assms show ?thesis by simp
qed

lemma preflight_zip_ok:
  assumes "slash_neutral u" and "preflight_zip open_archive u source limits cancelled = Inr ps"
  shows "\<exists>archive s. open_archive source = Some archive \<and> ps = plans s \<and>
    preflight_ok u source limits (zip_entries archive) s \<and> 0 < length ps \<and>
    length ps \<le> max_archive_entries limits \<and>
    sorted_wrt ranges_disjoint (ranges s) \<and> decompressed_size archive = Some (sum_bytes s)"
proof -
  let ?start = "\<lparr>plans = [], registry = ({}, {}), sum_bytes = 0, ranges = [], minimum_header = 2 ^ 64 - 1\<rparr>"
  from assms(2) obtain n archive s where n: "preflight_zip_central u source limits = Inr n"
    and archive: "open_archive source = Some archive" "length (zip_entries archive) = n"
    and run: "try_fold (preflight_entry u source limits cancelled) ?start (enumerate 0 (zip_entries archive)) = Inr s"
    and windows: "windows_disjoint (sort_by by_range (ranges s))"
    and total: "decompressed_size archive = Some (sum_bytes s)" and ps: "ps = plans s"
    unfolding preflight_zip_def by (auto split: if_splits)
  have "preflight_ok u source limits [] ?start"
    by (simp add: preflight_ok_def registry_ok_Nil)
  from preflight_loop_ok [OF assms(1) this, of cancelled "zip_entries archive" s] run
  have ok: "preflight_ok u source limits (zip_entries archive) s" by simp
  have "\<forall>r\<in>set (sort_by by_range (ranges s)). fst r \<le> snd r" using ok by (simp add: preflight_ok_def)
  from windows_disjoint_pairwise [OF windows range_order.sorted_sort_by this]
  have "sorted_wrt ranges_disjoint (sort_by by_range (ranges s))"
    by (rule sorted_wrt_mono_rel [rotated]) (simp add: ranges_disjoint_def)
  then have "sorted_wrt ranges_disjoint (ranges s)"
    by (rule pairwise_perm) (auto simp: ranges_disjoint_def)
  moreover have "length ps = n" using ok ps archive by (simp add: preflight_ok_def)
  ultimately show ?thesis using archive(1) ps ok total preflight_entries_count [OF n] by auto
qed

section \<open>Extraction\<close>

lemma stream_loop_bounded:
  assumes "stream_loop limits declared reads (n, m, w) = Inr (n', m', w')"
    and "n = length w" and "m \<le> max_total_uncompressed_bytes limits"
  shows "n' = length w' \<and> n' + m = n + m' \<and> m' \<le> max_total_uncompressed_bytes limits"
  using assms
proof (induction reads arbitrary: n m w)
  case (Cons r reads)
  obtain c got where r: "r = (c, got)" by fastforce
  show ?case
  proof (cases "got = Some []")
    case True
    with Cons.prems r show ?thesis by (auto split: if_splits)
  next
    case False
    with Cons.prems(1) r obtain bytes where "got = Some bytes"
      and rest: "stream_loop limits declared reads (n + length bytes, m + length bytes, w @ bytes) = Inr (n', m', w')"
      and "m + length bytes \<le> max_total_uncompressed_bytes limits"
      by (cases got) (auto simp: checked_add_def split: if_splits)
    with Cons.IH [OF rest] Cons.prems(2) show ?thesis by simp
  qed
qed simp

lemma stream_entry_exact:
  assumes "stream_entry limits declared reads before = Inr (after, w)"
    and "before \<le> max_total_uncompressed_bytes limits"
  shows "length w = declared \<and> after = before + declared \<and> after \<le> max_total_uncompressed_bytes limits"
proof -
  obtain n where "stream_loop limits declared reads (0, before, []) = Inr (n, after, w)" "n = declared"
    using assms(1) by (auto simp: stream_entry_def split: if_splits)
  with stream_loop_bounded [of limits declared reads 0 before "[]" n after w] assms(2) show ?thesis by simp
qed

text \<open>The copy of the source is counted in full, bounded, and its prefix is its first eight bytes.\<close>

lemma copy_loop_exact:
  assumes "copy_loop limits reads (length w, take 8 w, w) = Inr (n, pre, w')" and "length w \<le> max_source_bytes limits"
  shows "n = length w' \<and> pre = take 8 w' \<and> length w' \<le> max_source_bytes limits"
  using assms
proof (induction reads arbitrary: w)
  case (Cons r reads)
  obtain c got where r: "r = (c, got)" by fastforce
  show ?case
  proof (cases "got = Inr []")
    case True
    with Cons.prems r show ?thesis by (auto split: if_splits)
  next
    case False
    with Cons.prems(1) r obtain bytes where bytes: "\<not> max_source_bytes limits < length w + length bytes"
      and rest: "copy_loop limits reads (length w + length bytes,
        take 8 w @ take (min (8 - length (take 8 w)) (length bytes)) bytes, w @ bytes) = Inr (n, pre, w')"
      by (cases got) (auto simp: checked_add_def split: if_splits)
    have "take 8 w @ take (min (8 - length (take 8 w)) (length bytes)) bytes = take 8 (w @ bytes)"
      by (cases "length w \<le> 8") (simp_all add: min_def)
    with Cons.IH [of "w @ bytes"] bytes rest show ?thesis by simp
  qed
qed simp

lemma copy_source_exact:
  assumes "copy_source lib limits reads = Inr (c, written)"
  shows "copied_bytes c = length written \<and> length written \<le> max_source_bytes limits \<and>
    copied_prefix c = take 8 (written @ replicate 8 0)"
proof -
  from assms obtain n pre where run: "copy_loop limits reads (0, [], []) = Inr (n, pre, written)"
    and c: "copied_bytes c = n" "copied_prefix c = pre @ replicate (8 - length pre) 0"
    by (auto simp: copy_source_def)
  from copy_loop_exact [of limits reads "[]"] run c show ?thesis
    by (cases "length written \<le> 8") (auto simp: min_def)
qed

text \<open>What the plans promise: the assets and the executables, in order, with their declared sizes.\<close>

definition planned_assets :: "EntryPlan list \<Rightarrow> (rstr \<times> AssetMime \<times> nat) list" where
  "planned_assets ps = concat (map (\<lambda>p. case plan_kind p of
     Asset mime \<Rightarrow> [(logical (plan_path p), mime, plan_bytes p)] | _ \<Rightarrow> []) ps)"

definition planned_executables :: "EntryPlan list \<Rightarrow> (rstr \<times> ExecutableLanguage \<times> nat) list" where
  "planned_executables ps = concat (map (\<lambda>p. case plan_kind p of
     Executable lang \<Rightarrow> [(logical (plan_path p), lang, plan_bytes p)] | _ \<Rightarrow> []) ps)"

definition planned_bytes :: "EntryPlan list \<Rightarrow> nat" where
  "planned_bytes ps = (\<Sum>p\<leftarrow>ps. if plan_kind p = Directory then 0 else plan_bytes p)"

definition asset_admitted :: "png_libraries \<Rightarrow> stage_env \<Rightarrow> ImportLimits \<Rightarrow> StagedAsset \<Rightarrow> bool" where
  "asset_admitted lib env limits a \<longleftrightarrow> (staged_mime a = Png \<longrightarrow>
    (\<exists>i info found. validate_png lib (staged_content a) (staged_logical_path a) limits (png_cancelled env i) =
      Inr (info, found)))"

definition staging_follows ::
    "png_libraries \<Rightarrow> stage_env \<Rightarrow> ImportLimits \<Rightarrow> EntryPlan list \<Rightarrow> staging \<Rightarrow> bool" where
  "staging_follows lib env limits ps s \<longleftrightarrow>
    map (\<lambda>a. (staged_logical_path a, staged_mime a, length (staged_content a))) (staged_assets s) =
      planned_assets ps \<and>
    map (\<lambda>q. (quarantined_logical_path q, language q, quarantined_bytes q)) (quarantined s) =
      planned_executables ps \<and>
    (\<forall>q\<in>set (quarantined s). \<not> executable q) \<and>
    (\<forall>a\<in>set (staged_assets s). asset_admitted lib env limits a) \<and>
    total_actual s = planned_bytes ps \<and> total_actual s \<le> max_total_uncompressed_bytes limits"

lemma stage_content_follows:
  assumes "staging_follows lib env limits ps s" and "length content = plan_bytes p"
    and "plan_kind p \<noteq> Directory" and "total_actual s + plan_bytes p \<le> max_total_uncompressed_bytes limits"
    and "stage_content lib env limits (s\<lparr>total_actual := total_actual s + plan_bytes p\<rparr>) p content = Inr s'"
  shows "staging_follows lib env limits (ps @ [p]) s'"
proof (cases "plan_kind p")
  case (Asset mime)
  let ?a = "\<lparr>staged_logical_path = logical (plan_path p), staged_mime = mime, staged_content = content\<rparr>"
  from Asset assms(5) have s': "total_actual s' = total_actual s + plan_bytes p"
      "staged_assets s' = staged_assets s @ [?a]" "quarantined s' = quarantined s"
    and png: "mime = Png \<Longrightarrow> \<exists>info found. validate_png lib content (logical (plan_path p)) limits
      (png_cancelled env (plan_index p)) = Inr (info, found)"
    by (auto simp: stage_content_def Let_def split: if_splits)
  from png have "asset_admitted lib env limits ?a" unfolding asset_admitted_def by auto
  with assms(1,2,4) Asset s' show ?thesis
    by (simp add: staging_follows_def planned_assets_def planned_executables_def planned_bytes_def)
qed (use assms in \<open>auto simp: stage_content_def Let_def staging_follows_def planned_assets_def
  planned_executables_def planned_bytes_def QuarantinedExecutable_new_def\<close>)

lemma stage_plan_follows:
  assumes "staging_follows lib env limits ps s" and "stage_plan lib env limits s p = Inr s'"
  shows "staging_follows lib env limits (ps @ [p]) s'"
proof (cases "plan_kind p = Directory")
  case True
  with assms show ?thesis
    by (auto simp: stage_plan_def staging_follows_def planned_assets_def planned_executables_def planned_bytes_def
        split: if_splits)
next
  case False
  with assms(2) obtain reads n content where
    read: "stream_entry limits (plan_bytes p) reads (total_actual s) = Inr (n, content)"
    and stage: "stage_content lib env limits (s\<lparr>total_actual := n\<rparr>) p content = Inr s'"
    by (auto simp: stage_plan_def split: if_splits)
  have "total_actual s \<le> max_total_uncompressed_bytes limits"
    using assms(1) by (simp add: staging_follows_def)
  from stream_entry_exact [OF read this] have n: "length content = plan_bytes p"
    "n = total_actual s + plan_bytes p" "n \<le> max_total_uncompressed_bytes limits" by blast+
  show ?thesis
    by (rule stage_content_follows [OF assms(1) n(1) False n(3) [unfolded n(2)] stage [unfolded n(2)]])
qed

lemma stage_plans_follow:
  assumes "stage_plans lib env limits ps = Inr s"
  shows "staging_follows lib env limits ps s"
proof -
  have "outcome (\<lambda>_. True) (staging_follows lib env limits ps) (stage_plans lib env limits ps)"
    unfolding stage_plans_def
  proof (rule outcome_try_fold)
    show "staging_follows lib env limits []
        \<lparr>total_actual = 0, staged_assets = [], stage_metadata = [], quarantined = []\<rparr>"
      by (simp add: staging_follows_def planned_assets_def planned_executables_def planned_bytes_def)
    show "outcome (\<lambda>_. True) (staging_follows lib env limits (pre @ [p])) (stage_plan lib env limits s p)"
      if "staging_follows lib env limits pre s" for pre p s
      using stage_plan_follows [OF that] by (cases "stage_plan lib env limits s p") auto
  qed
  with assms show ?thesis by simp
qed

end
