(* ===== verification/Import_Chunks.thy ===== *)
theory Import_Chunks
  imports Import_Png
begin

text \<open>
  The chunk loop of \<open>validate_png\<close> against the layout of a PNG file: a file is accepted exactly when it is
  the signature followed by the encodings of a sequence of chunks each of which is admissible after the
  ones before it.
\<close>

section \<open>The encoding of a chunk\<close>

definition be4 :: "nat \<Rightarrow> byte list" where
  "be4 v = rev (le_bytes 4 v)"

type_synonym chunk = "byte list \<times> byte list"

definition encode_chunk :: "(byte list \<Rightarrow> 32 word) \<Rightarrow> chunk \<Rightarrow> byte list" where
  "encode_chunk crc = (\<lambda>(chunk_type, data).
    be4 (length data) @ chunk_type @ data @ be4 (unat (crc (chunk_type @ data))))"

lemma length_be4 [simp]: "length (be4 v) = 4"
  by (simp add: be4_def)

lemma be_u32_be4: "v < 2 ^ 32 \<Longrightarrow> be_u32 (be4 v) = v"
  by (simp add: be_u32_def be4_def)

lemma le_bytes_of_le_bytes: "length bs = k \<Longrightarrow> le_bytes k (of_le_bytes bs) = bs"
proof (induction bs arbitrary: k)
  case (Cons b bs)
  have "unat b < 256" using unsigned_less [of b] by simp
  then have "(unat b + 256 * of_le_bytes bs) mod 256 = unat b"
    "(unat b + 256 * of_le_bytes bs) div 256 = of_le_bytes bs" by simp_all
  with Cons show ?case by (cases k) simp_all
qed simp

lemma be4_be_u32: "length bs = 4 \<Longrightarrow> be4 (be_u32 bs) = bs"
  using le_bytes_of_le_bytes [of "rev bs" 4] by (simp add: be_u32_def be4_def)

lemma be_u32_less: "length bs = 4 \<Longrightarrow> be_u32 bs < 2 ^ 32"
  using of_le_bytes_less [of "rev bs"] by (simp add: be_u32_def)

section \<open>Reading a chunk\<close>

abbreviation (input) never :: "nat \<Rightarrow> bool" where
  "never \<equiv> \<lambda>_. False"

lemma read_data_exact:
  assumes "0 < buffer_bytes"
  shows "\<exists>asked'. read_data never buffer_bytes asked n rest data =
    (if n \<le> length rest then Inr (asked', data @ take n rest, drop n rest) else Inl PngMalformed)"
proof (induction n arbitrary: asked rest data rule: less_induct)
  case (less n)
  show ?case
  proof (cases "n = 0")
    case True
    then show ?thesis by (simp add: read_data.simps)
  next
    case False
    let ?k = "min n buffer_bytes"
    from False assms have "n - ?k < n" by simp
    from less.IH [OF this, of "asked + 1" "drop ?k rest" "data @ take ?k rest"] obtain asked' where
      IH: "read_data never buffer_bytes (asked + 1) (n - ?k) (drop ?k rest) (data @ take ?k rest) =
        (if n - ?k \<le> length (drop ?k rest)
         then Inr (asked', (data @ take ?k rest) @ take (n - ?k) (drop ?k rest), drop (n - ?k) (drop ?k rest))
         else Inl PngMalformed)" by blast
    have joined: "take ?k rest @ take (n - ?k) (drop ?k rest) = take n rest"
      using take_add [of ?k "n - ?k" rest] by simp
    have step: "read_data never buffer_bytes asked n rest data =
      (if length rest < ?k then Inl PngMalformed
       else read_data never buffer_bytes (asked + 1) (n - ?k) (drop ?k rest) (data @ take ?k rest))"
      using False assms by (subst read_data.simps) (simp add: read_exact_def)
    show ?thesis
    proof (cases "n \<le> length rest")
      case True
      then show ?thesis unfolding step IH using joined by (intro exI [of _ asked']) auto
    next
      case False
      then show ?thesis unfolding step IH by (intro exI [of _ asked']) auto
    qed
  qed
qed

lemma read_data_Inr:
  assumes "0 < buffer_bytes" and "read_data never buffer_bytes asked n bytes [] = Inr (asked', data, rest)"
  shows "bytes = data @ rest \<and> length data = n"
  using read_data_exact [OF assms(1), of asked n bytes "[]"] assms(2) by (auto split: if_splits)

lemma read_exact_Inr: "read_exact e n bytes = Inr (got, rest) \<Longrightarrow> bytes = got @ rest \<and> length got = n"
  by (auto simp: read_exact_def split: if_splits)

definition finish_chunk :: "byte list \<Rightarrow> png_state \<Rightarrow> png_state" where
  "finish_chunk chunk_type s =
    (if idat_seen s \<and> chunk_type \<noteq> chunk_name ''IDAT'' then s\<lparr>idat_ended := True\<rparr> else s)"

text \<open>One round of the loop reads the encoding of one chunk.\<close>

definition chunk_taken ::
    "png_libraries \<Rightarrow> rstr \<Rightarrow> ImportLimits \<Rightarrow> png_state \<Rightarrow> chunk \<Rightarrow> byte list \<Rightarrow> nat \<Rightarrow> png_state \<Rightarrow> bool" where
  "chunk_taken lib logical_path limits s c rest asked s' \<longleftrightarrow>
    length (fst c) = 4 \<and> length (snd c) < 2 ^ 32 \<and>
    chunk_count s + 1 < 2 ^ 64 \<and> chunk_count s + 1 \<le> max_png_chunks limits \<and>
    (\<exists>charged s''. admit_header limits (metadata_bytes s) (length (snd c)) (fst c) = Inr charged \<and>
      apply_chunk lib logical_path limits
        (s\<lparr>png_rest := rest, polls := asked, chunk_count := chunk_count s + 1, metadata_bytes := charged\<rparr>)
        (fst c) (snd c) = Inr s'' \<and> s' = finish_chunk (fst c) s'')"

lemma png_chunk_taken:
  assumes "0 < copy_buffer_bytes limits" and "png_chunk lib logical_path limits never s = Inr s'"
  shows "\<exists>c rest asked. png_rest s = encode_chunk (png_crc lib) c @ rest \<and>
    chunk_taken lib logical_path limits s c rest asked s'"
proof -
  from assms(2) obtain h r charged asked d r' e rest s'' where
    n: "chunk_count s + 1 < 2 ^ 64" "chunk_count s + 1 \<le> max_png_chunks limits"
    and h: "read_exact PngMalformed 8 (png_rest s) = Inr (h, r)"
    and admit: "admit_header limits (metadata_bytes s) (be_u32 (take 4 h)) (drop 4 h) = Inr charged"
    and d: "read_data never (copy_buffer_bytes limits) (Suc (polls s)) (be_u32 (take 4 h)) r [] = Inr (asked, d, r')"
    and e: "read_exact PngMalformed 4 r' = Inr (e, rest)"
    and crc: "unat (png_crc lib (drop 4 h @ d)) = be_u32 e"
    and applied: "apply_chunk lib logical_path limits
        (s\<lparr>png_rest := rest, polls := asked, chunk_count := chunk_count s + 1, metadata_bytes := charged\<rparr>)
        (drop 4 h) d = Inr s''" and s': "s' = finish_chunk (drop 4 h) s''"
    by (auto simp: png_chunk_def Let_def checked_add_def finish_chunk_def split: if_splits)
  from read_exact_Inr [OF h] read_data_Inr [OF assms(1) d] read_exact_Inr [OF e]
  have parts: "png_rest s = h @ d @ e @ rest" "length h = 8" "length d = be_u32 (take 4 h)" "length e = 4" by auto
  have "h = be4 (length d) @ drop 4 h"
    using parts be4_be_u32 [of "take 4 h"] append_take_drop_id [of 4 h] by simp
  moreover have "e = be4 (unat (png_crc lib (drop 4 h @ d)))" using crc parts be4_be_u32 [of e] by simp
  ultimately have "png_rest s = encode_chunk (png_crc lib) (drop 4 h, d) @ rest"
    using parts(1) unfolding encode_chunk_def by (metis append_assoc case_prod_conv)
  moreover have "chunk_taken lib logical_path limits s (drop 4 h, d) rest asked s'"
    using n admit applied s' parts be_u32_less [of "take 4 h"] by (simp add: chunk_taken_def)
  ultimately show ?thesis by blast
qed

lemma chunk_taken_png_chunk:
  assumes "0 < copy_buffer_bytes limits" and "png_rest s = encode_chunk (png_crc lib) c @ rest"
    and "length (fst c) = 4" "length (snd c) < 2 ^ 32"
  shows "\<exists>asked. \<forall>s'. chunk_taken lib logical_path limits s c rest asked s' \<longrightarrow>
    png_chunk lib logical_path limits never s = Inr s'"
proof -
  obtain t d where c: "c = (t, d)" by (cases c)
  have len: "length t = 4" "length d < 2 ^ 32" using assms(3,4) c by simp_all
  let ?crc = "be4 (unat (png_crc lib (t @ d)))"
  have bytes: "png_rest s = be4 (length d) @ t @ d @ ?crc @ rest"
    using assms(2) c by (simp add: encode_chunk_def)
  obtain asked where "read_data never (copy_buffer_bytes limits) (polls s + 1) (length d) (d @ ?crc @ rest) [] =
      (if length d \<le> length (d @ ?crc @ rest)
       then Inr (asked, [] @ take (length d) (d @ ?crc @ rest), drop (length d) (d @ ?crc @ rest))
       else Inl PngMalformed)"
    using read_data_exact [OF assms(1)] by blast
  then have read: "read_data never (copy_buffer_bytes limits) (polls s + 1) (length d) (d @ ?crc @ rest) [] =
    Inr (asked, d, ?crc @ rest)" by simp
  have header: "read_exact PngMalformed 8 (png_rest s) = Inr (be4 (length d) @ t, d @ ?crc @ rest)"
    using len by (simp add: read_exact_def bytes)
  have trailer: "read_exact PngMalformed 4 (?crc @ rest) = Inr (?crc, rest)"
    by (simp add: read_exact_def)
  have "unat (png_crc lib (t @ d)) < 2 ^ 32" using unsigned_less [of "png_crc lib (t @ d)"] by simp
  then have numbers: "be_u32 (be4 (length d)) = length d" "be_u32 ?crc = unat (png_crc lib (t @ d))"
    using len(2) by (simp_all add: be_u32_be4)
  have "png_chunk lib logical_path limits never s = Inr s'"
    if "chunk_taken lib logical_path limits s c rest asked s'" for s'
    using that c read trailer numbers len
    by (auto simp: png_chunk_def header chunk_taken_def checked_add_def finish_chunk_def)
  then show ?thesis by blast
qed

section \<open>Admissible chunks\<close>

lemma chunk_names:
  "chunk_name ''IHDR'' = [73, 72, 68, 82]" "chunk_name ''PLTE'' = [80, 76, 84, 69]"
  "chunk_name ''IDAT'' = [73, 68, 65, 84]" "chunk_name ''IEND'' = [73, 69, 78, 68]"
  "chunk_name ''tEXt'' = [116, 69, 88, 116]" "chunk_name ''iTXt'' = [105, 84, 88, 116]"
  by code_simp+

text \<open>A keyword of 1 to 79 bytes, a zero byte and the text; for \<open>iTXt\<close> also the two zero bytes of no compression.\<close>

definition keyword_data :: "byte list \<Rightarrow> byte list \<Rightarrow> bool" where
  "keyword_data separator data \<longleftrightarrow>
    (\<exists>keyword body. data = keyword @ separator @ body \<and> 0 \<notin> set keyword \<and>
      1 \<le> length keyword \<and> length keyword \<le> 79)"

definition dimensions_ok :: "ImportLimits \<Rightarrow> nat \<Rightarrow> nat \<Rightarrow> bool" where
  "dimensions_ok limits w h \<longleftrightarrow> 0 < w \<and> w \<le> max_png_width limits \<and> 0 < h \<and> h \<le> max_png_height limits \<and>
    w * h \<le> max_png_pixels limits"

definition header_of :: "byte list \<Rightarrow> PngInfo" where
  "header_of data = \<lparr>png_width = be_u32 (take 4 data), png_height = be_u32 (take 4 (drop 4 data))\<rparr>"

definition seen_types :: "chunk list \<Rightarrow> byte list set" where
  "seen_types cs = fst ` set cs"

definition starts_with_header :: "chunk list \<Rightarrow> bool" where
  "starts_with_header cs \<longleftrightarrow> cs \<noteq> [] \<and> fst (hd cs) = chunk_name ''IHDR''"

definition data_ended :: "chunk list \<Rightarrow> bool" where
  "data_ended cs \<longleftrightarrow>
    (\<exists>c\<in>set (dropWhile (\<lambda>c. fst c \<noteq> chunk_name ''IDAT'') cs). fst c \<noteq> chunk_name ''IDAT'')"

definition ancillary_bytes :: "chunk list \<Rightarrow> nat" where
  "ancillary_bytes cs = (\<Sum>c\<leftarrow>cs. if ancillary (fst c) then length (snd c) else 0)"

text \<open>Where a chunk of each type may stand and what it may hold.\<close>

definition chunk_place :: "ImportLimits \<Rightarrow> chunk list \<Rightarrow> byte list \<Rightarrow> byte list \<Rightarrow> bool" where
  "chunk_place limits before t d \<longleftrightarrow>
    (if t = chunk_name ''IHDR'' then before = [] \<and> length d = 13 \<and>
       dimensions_ok limits (png_width (header_of d)) (png_height (header_of d))
     else if t = chunk_name ''PLTE'' then starts_with_header before \<and>
       chunk_name ''IDAT'' \<notin> seen_types before \<and> chunk_name ''PLTE'' \<notin> seen_types before \<and>
       0 < length d \<and> length d \<le> 768 \<and> 3 dvd length d
     else if t = chunk_name ''IDAT'' then starts_with_header before \<and> \<not> data_ended before
     else if t = chunk_name ''IEND'' then starts_with_header before \<and>
       chunk_name ''IDAT'' \<in> seen_types before \<and> d = []
     else if t = chunk_name ''tEXt'' then keyword_data [0] d
     else if t = chunk_name ''iTXt'' then keyword_data [0, 0, 0] d
     else ancillary t)"

definition header_admissible :: "ImportLimits \<Rightarrow> chunk list \<Rightarrow> chunk \<Rightarrow> bool" where
  "header_admissible limits before c \<longleftrightarrow>
    list_all (\<lambda>b. is_ascii_alphabetic (unat b)) (fst c) \<and> \<not> flag_set (unat (fst c ! 2)) 5 \<and>
    fst c \<notin> chunk_name ` {''acTL'', ''fcTL'', ''fdAT'', ''zTXt'', ''iCCP''} \<and>
    length (snd c) \<le> max_png_chunk_bytes limits \<and>
    (ancillary (fst c) \<longrightarrow> ancillary_bytes (before @ [c]) \<le> max_png_metadata_bytes limits)"

definition chunk_admissible :: "ImportLimits \<Rightarrow> chunk list \<Rightarrow> chunk \<Rightarrow> bool" where
  "chunk_admissible limits before c \<longleftrightarrow>
    length (fst c) = 4 \<and> length (snd c) < 2 ^ 32 \<and> length before < max_png_chunks limits \<and>
    header_admissible limits before c \<and> chunk_place limits before (fst c) (snd c)"

text \<open>The entry a card chunk adds: the keyword is what stands before the first zero byte.\<close>

definition card_of :: "png_libraries \<Rightarrow> rstr \<Rightarrow> chunk \<Rightarrow> AcceptedMetadata list" where
  "card_of lib logical_path c =
    (if fst c \<in> chunk_name ` {''tEXt'', ''iTXt''}
     then case card_keyword (takeWhile (\<lambda>b. b \<noteq> 0) (snd c)) of
       None \<Rightarrow> []
     | Some keyword \<Rightarrow>
         [\<lparr>meta_logical_path = logical_path @
             lit (if fst c = chunk_name ''tEXt'' then ''#tEXt:'' else ''#iTXt:'') @ keyword,
           meta_sha256 = import_hex_digest (png_sha lib (snd c)), meta_bytes = length (snd c)\<rparr>]
     else [])"

definition state_after :: "png_libraries \<Rightarrow> rstr \<Rightarrow> chunk list \<Rightarrow> byte list \<Rightarrow> nat \<Rightarrow> png_state" where
  "state_after lib logical_path cs rest asked =
    \<lparr>png_rest = rest, polls = asked, chunk_count = length cs, metadata_bytes = ancillary_bytes cs,
     ihdr = (if starts_with_header cs then Some (header_of (snd (hd cs))) else None),
     plte_seen = chunk_name ''PLTE'' \<in> seen_types cs, idat_seen = chunk_name ''IDAT'' \<in> seen_types cs,
     idat_ended = data_ended cs, iend_seen = chunk_name ''IEND'' \<in> seen_types cs,
     card_metadata = concat (map (card_of lib logical_path) cs)\<rparr>"

lemma position_zero:
  "position (\<lambda>b. b = 0) data = Some i \<longleftrightarrow> (\<exists>body. data = takeWhile (\<lambda>b. b \<noteq> 0) data @ (0::byte) # body) \<and>
    i = length (takeWhile (\<lambda>b. b \<noteq> 0) data)"
  by (induction data arbitrary: i) (auto split: if_splits option.splits)

lemma admit_header_iff:
  assumes "max_png_metadata_bytes limits < 2 ^ 64"
  shows "admit_header limits (ancillary_bytes before) (length (snd c)) (fst c) = Inr charged \<longleftrightarrow>
    header_admissible limits before c \<and> charged = ancillary_bytes (before @ [c])"
  using assms
  by (auto simp: admit_header_def header_admissible_def ancillary_bytes_def checked_add_def split: if_splits)

lemma position_take:
  "position p (take n xs) = (case position p xs of None \<Rightarrow> None | Some i \<Rightarrow> if i < n then Some i else None)"
proof (induction xs arbitrary: n)
  case (Cons x xs)
  then show ?case by (cases n) (auto split: option.splits)
qed simp

lemma position_zero_prefix: "position (\<lambda>b. b = 0) data = Some i \<Longrightarrow> take i data = takeWhile (\<lambda>b. b \<noteq> (0::byte)) data"
  by (metis position_zero append_eq_conv_conj)

lemma keyword_data_position:
  "keyword_data (0 # separator) data \<longleftrightarrow>
    (\<exists>i. position (\<lambda>b. b = 0) data = Some i \<and> 1 \<le> i \<and> i \<le> 79 \<and> (\<exists>body. drop i data = 0 # separator @ body))"
  (is "?lhs \<longleftrightarrow> ?rhs")
proof
  assume ?lhs
  then obtain keyword body where d: "data = keyword @ (0 # separator) @ body" "0 \<notin> set keyword"
    "1 \<le> length keyword" "length keyword \<le> 79" by (auto simp: keyword_data_def)
  have "position (\<lambda>b. b = 0) data = Some (length keyword)"
    using d(1,2) by (auto simp: position_Some nth_append in_set_conv_nth)
  with d show ?rhs by auto
next
  assume ?rhs
  then obtain i body where i: "position (\<lambda>b. b = 0) data = Some i" "1 \<le> i" "i \<le> 79"
    and body: "drop i data = 0 # separator @ body" by blast
  have "data = take i data @ (0 # separator) @ body"
    unfolding append_Cons body [symmetric] by (rule append_take_drop_id [symmetric])
  moreover have "0 \<notin> set (take i data)"
    unfolding position_zero_prefix [OF i(1)] by (auto dest: set_takeWhileD)
  moreover have "length (take i data) = i" using i(1) by (simp add: position_Some)
  ultimately show ?lhs unfolding keyword_data_def using i(2,3)
    by (intro exI [of _ "take i data"] exI [of _ body] conjI) simp_all
qed

lemma validate_text_keyword_iff:
  "validate_text_keyword (take 96 data) (length data) = Inr () \<longleftrightarrow> keyword_data [0] data"
proof -
  have tail: "i < length data \<and> (\<exists>body. drop i data = [0] @ body)"
    if "position (\<lambda>b. b = 0) data = Some i" for i
    using that by (simp add: position_Some) (metis Cons_nth_drop_Suc)
  show ?thesis
  proof (cases "position (\<lambda>b. b = 0) data")
    case (Some i)
    with tail [OF Some] show ?thesis
      by (auto simp: validate_text_keyword_def keyword_data_position position_take)
  qed (simp add: validate_text_keyword_def keyword_data_position position_take)
qed

lemma validate_itxt_prefix_iff:
  "validate_itxt_prefix (take 96 data) (length data) = Inr () \<longleftrightarrow> keyword_data [0, 0, 0] data"
proof -
  have tail: "(\<exists>body. drop i data = [0, 0, 0] @ body) \<longleftrightarrow>
      i + 3 \<le> length data \<and> data ! (i + 1) = 0 \<and> data ! (i + 2) = 0"
    if "position (\<lambda>b. b = 0) data = Some i" for i
  proof
    assume "\<exists>body. drop i data = [0, 0, 0] @ body"
    then obtain body where "drop i data = [0, 0, 0] @ body" by blast
    from arg_cong [OF this, of length] arg_cong [OF this, of "\<lambda>x. x ! 1"] arg_cong [OF this, of "\<lambda>x. x ! 2"] that
    show "i + 3 \<le> length data \<and> data ! (i + 1) = 0 \<and> data ! (i + 2) = 0" by (auto simp: position_Some)
  next
    assume "i + 3 \<le> length data \<and> data ! (i + 1) = 0 \<and> data ! (i + 2) = 0"
    with that have "drop i data = 0 # 0 # 0 # drop (Suc (Suc (Suc i))) data"
      by (simp add: Cons_nth_drop_Suc [symmetric] position_Some)
    then show "\<exists>body. drop i data = [0, 0, 0] @ body" by simp
  qed
  show ?thesis
  proof (cases "position (\<lambda>b. b = 0) data")
    case (Some i)
    have "keyword_data [0, 0, 0] data \<longleftrightarrow>
      1 \<le> i \<and> i \<le> 79 \<and> i + 3 \<le> length data \<and> data ! (i + 1) = 0 \<and> data ! (i + 2) = 0"
      using tail [OF Some] Some by (simp add: keyword_data_position)
    moreover have "i < 96 \<and> take 96 data ! (i + 1) = data ! (i + 1) \<and> take 96 data ! (i + 2) = data ! (i + 2) \<and>
        (i + 3 \<le> length (take 96 data)) = (i + 3 \<le> length data)" if "i \<le> 79"
      using that by auto
    ultimately show ?thesis using Some
      by (cases "i \<le> 79") (auto simp: validate_itxt_prefix_def position_take)
  qed (simp add: validate_itxt_prefix_def keyword_data_position position_take)
qed

lemma card_entry_keyword:
  assumes "keyword_data (0 # separator) data"
  shows "card_entry lib logical_path marker data =
    Inr (case card_keyword (takeWhile (\<lambda>b. b \<noteq> 0) data) of
      None \<Rightarrow> []
    | Some keyword \<Rightarrow>
        [\<lparr>meta_logical_path = logical_path @ marker @ keyword,
          meta_sha256 = import_hex_digest (png_sha lib data), meta_bytes = length data\<rparr>])"
proof -
  from assms obtain i where i: "position (\<lambda>b. b = 0) data = Some i" "i \<le> 79"
    by (auto simp: keyword_data_position)
  then have "position (\<lambda>b. b = 0) (take 96 data) = Some i" by (simp add: position_take)
  moreover have "take i (take 96 data) = takeWhile (\<lambda>b. b \<noteq> 0) data"
    using position_zero_prefix [OF i(1)] i(2) by simp
  ultimately show ?thesis by (simp add: card_entry_def)
qed

section \<open>The state after a sequence of chunks\<close>

lemma starts_with_header_snoc:
  "starts_with_header (cs @ [c]) \<longleftrightarrow> (if cs = [] then fst c = chunk_name ''IHDR'' else starts_with_header cs)"
  by (cases cs) (simp_all add: starts_with_header_def)

lemma hd_snoc: "hd (cs @ [c]) = (if cs = [] then c else hd cs)"
  by (cases cs) simp_all

lemma seen_types_snoc: "seen_types (cs @ [c]) = insert (fst c) (seen_types cs)"
  by (auto simp: seen_types_def)

lemma data_ended_snoc:
  "data_ended (cs @ [c]) \<longleftrightarrow>
    data_ended cs \<or> chunk_name ''IDAT'' \<in> seen_types cs \<and> fst c \<noteq> chunk_name ''IDAT''"
  by (induction cs) (auto simp: data_ended_def seen_types_def)

lemma starts_with_header_Nil: "\<not> starts_with_header []"
  by (simp add: starts_with_header_def)

lemmas snoc_simps = starts_with_header_snoc hd_snoc seen_types_snoc data_ended_snoc starts_with_header_Nil

lemma image_header_eq:
  "image_header limits data =
    (if dimensions_ok limits (png_width (header_of data)) (png_height (header_of data))
     then Inr (header_of data) else Inl PngDimensionLimit)"
  by (auto simp: image_header_def Let_def dimensions_ok_def header_of_def)

text \<open>
  What each type of chunk has to satisfy: it is applied exactly where it may stand, and leads to the state
  after the longer sequence.
\<close>

definition applied_exactly ::
    "png_libraries \<Rightarrow> rstr \<Rightarrow> ImportLimits \<Rightarrow> chunk list \<Rightarrow> chunk \<Rightarrow> byte list \<Rightarrow> nat \<Rightarrow> png_state \<Rightarrow> bool" where
  "applied_exactly lib logical_path limits before c rest asked s' \<longleftrightarrow>
    ((\<exists>s. apply_chunk lib logical_path limits
        ((state_after lib logical_path before rest asked)
          \<lparr>chunk_count := length before + 1, metadata_bytes := ancillary_bytes (before @ [c])\<rparr>)
        (fst c) (snd c) = Inr s \<and> s' = finish_chunk (fst c) s) \<longleftrightarrow>
     chunk_place limits before (fst c) (snd c) \<and> s' = state_after lib logical_path (before @ [c]) rest asked)"

lemmas step_simps = applied_exactly_def apply_chunk_def Let_def chunk_place_def finish_chunk_def state_after_def
  snoc_simps chunk_names image_header_eq

lemma applied_header:
  assumes "fst c = chunk_name ''IHDR''"
  shows "applied_exactly lib logical_path limits before c rest asked s'"
proof (cases "before = []")
  case True
  then show ?thesis using assms
    by (auto simp: step_simps seen_types_def data_ended_def starts_with_header_def card_of_def)
next
  case False
  then show ?thesis using assms by (simp add: step_simps)
qed

lemma applied_palette:
  assumes "fst c = chunk_name ''PLTE''"
  shows "applied_exactly lib logical_path limits before c rest asked s'"
  unfolding applied_exactly_def using assms by (auto simp: step_simps card_of_def)

lemma applied_data:
  assumes "fst c = chunk_name ''IDAT''"
  shows "applied_exactly lib logical_path limits before c rest asked s'"
  unfolding applied_exactly_def using assms by (auto simp: step_simps card_of_def)

lemma applied_end:
  assumes "fst c = chunk_name ''IEND''"
  shows "applied_exactly lib logical_path limits before c rest asked s'"
  unfolding applied_exactly_def using assms by (auto simp: step_simps card_of_def)

lemma applied_text:
  assumes "fst c = chunk_name ''tEXt''"
  shows "applied_exactly lib logical_path limits before c rest asked s'"
proof (cases "keyword_data [0] (snd c)")
  case True
  then have "validate_text_keyword (take 96 (snd c)) (length (snd c)) = Inr ()"
    by (simp add: validate_text_keyword_iff)
  with True assms show ?thesis
    by (auto simp: step_simps card_entry_keyword [OF True] card_of_def)
next
  case False
  then have "validate_text_keyword (take 96 (snd c)) (length (snd c)) \<noteq> Inr ()"
    by (simp add: validate_text_keyword_iff)
  with False assms show ?thesis by (auto simp: step_simps)
qed

lemma applied_itxt:
  assumes "fst c = chunk_name ''iTXt''"
  shows "applied_exactly lib logical_path limits before c rest asked s'"
proof (cases "keyword_data [0, 0, 0] (snd c)")
  case True
  then have "validate_itxt_prefix (take 96 (snd c)) (length (snd c)) = Inr ()"
    by (simp add: validate_itxt_prefix_iff)
  with True assms show ?thesis
    by (auto simp: step_simps card_entry_keyword [OF True] card_of_def)
next
  case False
  then have "validate_itxt_prefix (take 96 (snd c)) (length (snd c)) \<noteq> Inr ()"
    by (simp add: validate_itxt_prefix_iff)
  with False assms show ?thesis by (auto simp: step_simps)
qed

lemma applied_other:
  assumes "fst c \<notin> chunk_name ` {''IHDR'', ''PLTE'', ''IDAT'', ''IEND'', ''tEXt'', ''iTXt''}"
  shows "applied_exactly lib logical_path limits before c rest asked s'"
  using assms by (auto simp: step_simps card_of_def)

lemma applied: "applied_exactly lib logical_path limits before c rest asked s'"
proof (cases "fst c \<in> chunk_name ` {''IHDR'', ''PLTE'', ''IDAT'', ''IEND'', ''tEXt'', ''iTXt''}")
  case True
  then consider "fst c = chunk_name ''IHDR''" | "fst c = chunk_name ''PLTE''" | "fst c = chunk_name ''IDAT''"
    | "fst c = chunk_name ''IEND''" | "fst c = chunk_name ''tEXt''" | "fst c = chunk_name ''iTXt''" by auto
  then show ?thesis
    by cases (simp_all add: applied_header applied_palette applied_data applied_end applied_text applied_itxt)
qed (rule applied_other)

section \<open>The loop\<close>

definition png_limits_fit :: "ImportLimits \<Rightarrow> bool" where
  "png_limits_fit limits \<longleftrightarrow> 0 < copy_buffer_bytes limits \<and> max_png_chunks limits < 2 ^ 64 \<and>
    max_png_metadata_bytes limits < 2 ^ 64"

lemma chunk_taken_iff:
  assumes "png_limits_fit limits"
  shows "chunk_taken lib logical_path limits (state_after lib logical_path before bytes k) c rest asked s' \<longleftrightarrow>
    chunk_admissible limits before c \<and> s' = state_after lib logical_path (before @ [c]) rest asked"
proof -
  have s: "chunk_count (state_after lib logical_path before bytes k) = length before"
    "metadata_bytes (state_after lib logical_path before bytes k) = ancillary_bytes before"
    "(state_after lib logical_path before bytes k)
      \<lparr>png_rest := rest, polls := asked, chunk_count := n, metadata_bytes := m\<rparr> =
    (state_after lib logical_path before rest asked)\<lparr>chunk_count := n, metadata_bytes := m\<rparr>" for n m
    by (simp_all add: state_after_def)
  have limits: "max_png_metadata_bytes limits < 2 ^ 64" "max_png_chunks limits < 2 ^ 64"
    using assms by (simp_all add: png_limits_fit_def)
  have "length before + 1 < 2 ^ 64 \<and> length before + 1 \<le> max_png_chunks limits \<longleftrightarrow>
    length before < max_png_chunks limits" using limits(2) by linarith
  with applied [of lib logical_path limits before c rest asked s'] show ?thesis
    unfolding chunk_taken_def s admit_header_iff [OF limits(1)] chunk_admissible_def applied_exactly_def
    by blast
qed

text \<open>The remaining chunks, up to the first \<open>IEND\<close>.\<close>

fun chunk_run :: "ImportLimits \<Rightarrow> chunk list \<Rightarrow> chunk list \<Rightarrow> bool" where
  "chunk_run limits before [] \<longleftrightarrow> chunk_name ''IEND'' \<in> seen_types before"
| "chunk_run limits before (c # cs) \<longleftrightarrow>
    chunk_name ''IEND'' \<notin> seen_types before \<and> chunk_admissible limits before c \<and>
    chunk_run limits (before @ [c]) cs"

lemma png_loop_run:
  assumes "png_limits_fit limits"
  shows "png_loop lib logical_path limits never (state_after lib logical_path before bytes k) = Inr s \<Longrightarrow>
    \<exists>cs rest asked. bytes = concat (map (encode_chunk (png_crc lib)) cs) @ rest \<and> chunk_run limits before cs \<and>
      s = state_after lib logical_path (before @ cs) rest asked"
proof (induction "max_png_chunks limits - length before" arbitrary: before bytes k rule: less_induct)
  case less
  let ?s = "state_after lib logical_path before bytes k"
  show ?case
  proof (cases "iend_seen ?s")
    case True
    then have "chunk_run limits before []" "s = ?s"
      using less.prems by (simp_all add: state_after_def png_loop.simps)
    then show ?thesis by (intro exI [of _ "[]"] exI [of _ bytes] exI [of _ k]) simp
  next
    case False
    with less.prems obtain t where t: "png_chunk lib logical_path limits never ?s = Inr t"
      and rest: "png_loop lib logical_path limits never t = Inr s"
      by (subst (asm) png_loop.simps) auto
    have "0 < copy_buffer_bytes limits" using assms by (simp add: png_limits_fit_def)
    from png_chunk_taken [OF this t] obtain c r asked where
      c: "bytes = encode_chunk (png_crc lib) c @ r" "chunk_admissible limits before c"
        "t = state_after lib logical_path (before @ [c]) r asked"
      unfolding chunk_taken_iff [OF assms] by (auto simp: state_after_def)
    from c(2) have "length before < max_png_chunks limits" by (simp add: chunk_admissible_def)
    then have "max_png_chunks limits - length (before @ [c]) < max_png_chunks limits - length before" by simp
    from less.hyps [OF this rest [unfolded c(3)]] obtain cs r' asked' where
      "r = concat (map (encode_chunk (png_crc lib)) cs) @ r'" "chunk_run limits (before @ [c]) cs"
      "s = state_after lib logical_path ((before @ [c]) @ cs) r' asked'" by blast
    with c False show ?thesis
      by (intro exI [of _ "c # cs"] exI [of _ r'] exI [of _ asked']) (simp add: state_after_def)
  qed
qed

lemma run_png_loop:
  assumes "png_limits_fit limits"
  shows "chunk_run limits before cs \<Longrightarrow> \<exists>asked.
    png_loop lib logical_path limits never
      (state_after lib logical_path before (concat (map (encode_chunk (png_crc lib)) cs) @ rest) k) =
    Inr (state_after lib logical_path (before @ cs) rest asked)"
proof (induction cs arbitrary: before k)
  case Nil
  then show ?case by (subst png_loop.simps) (auto simp: state_after_def)
next
  case (Cons c cs)
  let ?s = "state_after lib logical_path before (concat (map (encode_chunk (png_crc lib)) (c # cs)) @ rest) k"
  let ?r = "concat (map (encode_chunk (png_crc lib)) cs) @ rest"
  have "png_rest ?s = encode_chunk (png_crc lib) c @ ?r" by (simp add: state_after_def)
  moreover have "0 < copy_buffer_bytes limits" "length (fst c) = 4" "length (snd c) < 2 ^ 32"
    using assms Cons.prems by (simp_all add: png_limits_fit_def chunk_admissible_def)
  ultimately obtain asked where "\<forall>s'. chunk_taken lib logical_path limits ?s c ?r asked s' \<longrightarrow>
      png_chunk lib logical_path limits never ?s = Inr s'"
    using chunk_taken_png_chunk by blast
  then have step: "png_chunk lib logical_path limits never ?s =
      Inr (state_after lib logical_path (before @ [c]) ?r asked)"
    using chunk_taken_iff [OF assms] Cons.prems by simp
  have "\<not> iend_seen ?s" using Cons.prems by (simp add: state_after_def)
  then have "png_loop lib logical_path limits never ?s =
      png_loop lib logical_path limits never (state_after lib logical_path (before @ [c]) ?r asked)"
    unfolding png_loop.simps [of lib logical_path limits never ?s] step by simp
  with Cons.IH [of "before @ [c]" asked] Cons.prems show ?case by simp
qed

text \<open>A complete file: every chunk is admissible after the ones before it, and the first \<open>IEND\<close> is the last chunk.\<close>

definition png_layout :: "ImportLimits \<Rightarrow> chunk list \<Rightarrow> bool" where
  "png_layout limits cs \<longleftrightarrow>
    (\<forall>i<length cs. chunk_admissible limits (take i cs) (cs ! i) \<and> chunk_name ''IEND'' \<notin> seen_types (take i cs)) \<and>
    chunk_name ''IEND'' \<in> seen_types cs"

lemma chunk_run_layout: "chunk_run limits [] cs \<longleftrightarrow> png_layout limits cs"
proof -
  have "chunk_run limits before cs \<longleftrightarrow>
    (\<forall>i<length cs. chunk_admissible limits (before @ take i cs) (cs ! i) \<and>
      chunk_name ''IEND'' \<notin> seen_types (before @ take i cs)) \<and> chunk_name ''IEND'' \<in> seen_types (before @ cs)" for before
  proof (induction cs arbitrary: before)
    case (Cons c cs)
    then show ?case by (simp add: All_less_Suc2) blast
  qed simp
  from this [of "[]"] show ?thesis by (simp add: png_layout_def)
qed

lemma validate_png_exact:
  assumes "png_limits_fit limits"
  shows "validate_png lib source logical_path limits never = Inr (info, found) \<longleftrightarrow>
    length source \<le> max_png_bytes limits \<and>
    (\<exists>cs. source = PNG_SIGNATURE @ concat (map (encode_chunk (png_crc lib)) cs) \<and> png_layout limits cs \<and>
      starts_with_header cs \<and> info = header_of (snd (hd cs)) \<and>
      found = concat (map (card_of lib logical_path) cs)) \<and>
    decode_png lib source info limits = Inr ()" (is "?lhs \<longleftrightarrow> ?rhs")
proof
  let ?start = "\<lambda>rest. \<lparr>png_rest = rest, polls = 0, chunk_count = 0, metadata_bytes = 0, ihdr = None,
    plte_seen = False, idat_seen = False, idat_ended = False, iend_seen = False, card_metadata = []\<rparr>"
  have start: "?start rest = state_after lib logical_path [] rest 0" for rest
    by (simp add: state_after_def ancillary_bytes_def starts_with_header_def seen_types_def data_ended_def)
  {
    assume ?lhs
    then obtain rest s where small: "length source \<le> max_png_bytes limits"
      and sig: "read_exact PngMalformed 8 source = Inr (PNG_SIGNATURE, rest)"
      and run: "png_loop lib logical_path limits never (?start rest) = Inr s"
      and s: "png_rest s = []" "ihdr s = Some info" "card_metadata s = found"
      and ok: "decode_png lib source info limits = Inr ()"
      by (auto simp: validate_png_def split: if_splits)
    from png_loop_run [OF assms run [unfolded start]] obtain cs rest' asked where
      cs: "rest = concat (map (encode_chunk (png_crc lib)) cs) @ rest'" "chunk_run limits [] cs"
        "s = state_after lib logical_path cs rest' asked" by auto
    then have "rest' = []" "starts_with_header cs" "info = header_of (snd (hd cs))"
      "found = concat (map (card_of lib logical_path) cs)"
      using s by (auto simp: state_after_def split: if_splits)
    with small ok cs read_exact_Inr [OF sig] show ?rhs by (auto simp: chunk_run_layout)
  }
  {
    assume ?rhs
    then obtain cs where small: "length source \<le> max_png_bytes limits"
      and src: "source = PNG_SIGNATURE @ concat (map (encode_chunk (png_crc lib)) cs)"
      and cs: "png_layout limits cs" "starts_with_header cs" "info = header_of (snd (hd cs))"
        "found = concat (map (card_of lib logical_path) cs)"
      and ok: "decode_png lib source info limits = Inr ()" by auto
    from run_png_loop [OF assms cs(1) [folded chunk_run_layout], of lib logical_path "[]" 0] obtain asked where
      run: "png_loop lib logical_path limits never
        (?start (concat (map (encode_chunk (png_crc lib)) cs))) =
        Inr (state_after lib logical_path cs [] asked)" unfolding start by auto
    have "read_exact PngMalformed 8 source =
        Inr (PNG_SIGNATURE, concat (map (encode_chunk (png_crc lib)) cs))"
      unfolding src by (simp add: read_exact_def)
    with small run ok cs(2,3,4) show ?lhs by (simp add: validate_png_def state_after_def)
  }
qed

end
