(* ===== verification/Import_Properties.thy ===== *)
theory Import_Properties
  imports Import_Correct Import_Chunks
begin

text \<open>
  The properties of card import: what an accepted archive looks like, what is extracted from it, and
  which PNG files are accepted.
\<close>

section \<open>Example inputs\<close>

definition demo_tables :: unicode_tables where
  "demo_tables = \<lparr>nfc = (\<lambda>s. s), uppercase = (\<lambda>c. [c]), lowercase = (\<lambda>c. [c])\<rparr>"

definition demo_zip :: "byte list" where
  "demo_zip =
    [80, 75, 3, 4, 20, 0, 0, 0, 0, 0, 0, 0, 33, 0, 67, 191, 166, 163, 2, 0, 0, 0, 2, 0, 0, 0, 6, 0, 0,
     0, 97, 46, 106, 115, 111, 110, 123, 125, 80, 75, 1, 2, 20, 0, 20, 0, 0, 0, 0, 0, 0, 0, 33, 0, 67,
     191, 166, 163, 2, 0, 0, 0, 2, 0, 0, 0, 6, 0, 0, 0, 0, 0, 0, 0, 0, 0, 0, 0, 128, 1, 0, 0, 0, 0, 97,
     46, 106, 115, 111, 110, 80, 75, 5, 6, 0, 0, 0, 0, 1, 0, 1, 0, 52, 0, 0, 0, 38, 0, 0, 0, 0, 0]"

definition demo_archive :: zip_archive where
  "demo_archive = \<lparr>zip_entries = [
    Some \<lparr>encrypted = False, compression = Stored, is_dir = False, is_symlink = False, unix_mode = None,
     extra_data = Some [], size = 2, compressed_size = 2, name_raw = [97, 46, 106, 115, 111, 110], header_start = 0,
     data_start = Some 36, central_header_start = 38, crc32 = 2745614147\<rparr>],
    decompressed_size = Some 2\<rparr>"

definition demo_png_libraries :: png_libraries where
  "demo_png_libraries = \<lparr>png_crc = (\<lambda>_. 0), png_sha = (\<lambda>_. [171]),
    png_read_info = (\<lambda>_ _. Some \<lparr>info_width = 1, info_height = 2, output_buffer_size = Some 8,
      next_frame_ok = True, finish_ok = True\<rparr>)\<rparr>"

definition demo_chunks :: "chunk list" where
  "demo_chunks = [(chunk_name ''IHDR'', [0, 0, 0, 1, 0, 0, 0, 2, 8, 2, 0, 0, 0]),
    (chunk_name ''tEXt'', [99, 104, 97, 114, 97, 0, 65]), (chunk_name ''IDAT'', [7]), (chunk_name ''IEND'', [])]"

definition demo_png :: "byte list" where
  "demo_png = PNG_SIGNATURE @ concat (map (encode_chunk (\<lambda>_. 0)) demo_chunks)"

definition demo_plan :: "nat \<Rightarrow> string \<Rightarrow> EntryKind \<Rightarrow> nat \<Rightarrow> EntryPlan" where
  "demo_plan i name kind n = \<lparr>plan_index = i, plan_path = \<lparr>logical = lit name, collision_key = lit name,
    components = [lit name], is_directory = False\<rparr>, plan_kind = kind, plan_bytes = n\<rparr>"

definition demo_plans :: "EntryPlan list" where
  "demo_plans = [demo_plan 0 ''a.json'' Metadata 2, demo_plan 1 ''r.lua'' (Executable Lua) 1,
    demo_plan 2 ''p.png'' (Asset Png) (length demo_png)]"

definition demo_env :: stage_env where
  "demo_env = \<lparr>stage_cancelled = (\<lambda>_. False), session_live = (\<lambda>_. Inr ()),
    entry_reads = (\<lambda>i. Some (if i = 0 then [(False, Some [123]), (False, Some [125])]
      else if i = 1 then [(False, Some [120])] else [(False, Some demo_png)])),
    png_cancelled = (\<lambda>_ _. False), json_valid = (\<lambda>b. b = [123, 125])\<rparr>"

definition demo_path :: PortablePath where
  "demo_path = \<lparr>logical = lit ''a.json'', collision_key = lit ''a.json'', components = [lit ''a.json''],
    is_directory = False\<rparr>"

lemma demo_limits:
  "max_path_bytes ImportLimits_default = 512" "max_zip_extra_bytes ImportLimits_default = 16384"
  "max_archive_entries ImportLimits_default = 2048" "max_entry_bytes ImportLimits_default = 67108864"
  "max_total_uncompressed_bytes ImportLimits_default = 536870912" "max_metadata_bytes ImportLimits_default = 8388608"
  by (simp_all add: ImportLimits_default_def)

lemma demo_validate_path:
  "validate_path demo_tables [97, 46, 106, 115, 111, 110] False ImportLimits_default = Inr demo_path"
proof -
  have "component_ok ImportLimits_default (lit ''a.json'')"
    by (simp add: component_ok_def is_windows_device_def Let_def ImportLimits_default_def lit_def is_control_def
        utf8_width_def to_ascii_uppercase_def superscript_digit_def starts_with_def)
  then show ?thesis
    by (simp add: validate_path_def demo_tables_def ImportLimits_default_def demo_path_def lit_def has_nul_def
        starts_with_def utf8_width_def trim_slashes_def portable_case_key_def Let_def)
qed

lemma demo_insert: "insert_unique demo_tables ({}, {}) demo_path = Inr ({lit ''a.json''}, {})"
  by (simp add: insert_unique_def demo_path_def)

lemma demo_classify: "classify_entry demo_path = Inr Metadata"
  by (simp add: classify_entry_def demo_path_def extension_of_def to_ascii_lowercase_def lit_def)

lemma demo_charge: "charge_entry ImportLimits_default 0 2 2 = Inr 2"
  by (simp add: charge_entry_def ImportLimits_default_def checked_add_def ratio_exceeded_def saturating_mul_def)

lemma demo_eocd: "eocd_at demo_zip 90"
  by (simp add: demo_zip_def eocd_at_def EOCD_SIGNATURE_def le_at_def starts_with_def)

lemma demo_central_record:
  "central_record demo_tables ImportLimits_default (drop 38 demo_zip, 0, {}, {}) =
    Inr (drop 90 demo_zip, 2, {lit ''a.json''}, {})"
  by (simp add: central_record_def demo_zip_def read_exact_def CENTRAL_SIGNATURE_def le_at_def validate_zip_flags_def
      flag_set_def demo_charge demo_validate_path demo_insert demo_classify reject_zip64_extra_def
      reject_zip64_fields.simps saturating_add_def demo_limits cong: and_then_weak_cong)

lemma demo_central: "preflight_zip_central demo_tables demo_zip ImportLimits_default = Inr 1"
proof -
  have size: "length demo_zip = 112" by (simp add: demo_zip_def)
  have eocd: "take 22 (drop 90 demo_zip) = [80, 75, 5, 6, 0, 0, 0, 0, 1, 0, 1, 0, 52, 0, 0, 0, 38, 0, 0, 0, 0, 0]"
    by (simp add: demo_zip_def)
  show ?thesis
    using demo_eocd
    by (simp add: preflight_zip_central_def Let_def size eocd le_at_def checked_add_def demo_limits demo_central_record
        cong: and_then_weak_cong)
qed

lemma demo_preflight:
  "preflight_zip (\<lambda>_. Some demo_archive) demo_tables demo_zip ImportLimits_default (\<lambda>_. False) =
    Inr [\<lparr>plan_index = 0, plan_path = demo_path, plan_kind = Metadata, plan_bytes = 2\<rparr>]"
proof -
  let ?e = "the (hd (zip_entries demo_archive))"
  have "validate_local_header demo_zip 0 36 ?e 16384 = Inr ()"
    by (simp add: validate_local_header_def demo_archive_def demo_zip_def read_exact_def LOCAL_SIGNATURE_def le_at_def
        flag_set_def lit_def reject_zip64_extra_def reject_zip64_fields.simps checked_add_def
        cong: and_then_weak_cong)
  then have "preflight_entry demo_tables demo_zip ImportLimits_default (\<lambda>_. False)
      \<lparr>plans = [], registry = ({}, {}), sum_bytes = 0, ranges = [], minimum_header = 2 ^ 64 - 1\<rparr>
      (0, Some ?e) =
    Inr \<lparr>plans = [\<lparr>plan_index = 0, plan_path = demo_path, plan_kind = Metadata, plan_bytes = 2\<rparr>],
      registry = ({lit ''a.json''}, {}), sum_bytes = 2, ranges = [(0, 38)], minimum_header = 0\<rparr>"
    using demo_validate_path
    by (simp add: preflight_entry_def demo_archive_def portable_entry_type_def reject_zip64_extra_def
        reject_zip64_fields.simps demo_charge demo_insert demo_classify checked_add_def demo_limits lit_def
        demo_zip_def cong: and_then_weak_cong)
  then show ?thesis
    by (simp add: preflight_zip_def demo_central demo_archive_def sort_by_def)
qed

lemma refused_chunk_names:
  "chunk_name ''acTL'' = [97, 99, 84, 76]" "chunk_name ''fcTL'' = [102, 99, 84, 76]"
  "chunk_name ''fdAT'' = [102, 100, 65, 84]" "chunk_name ''zTXt'' = [122, 84, 88, 116]"
  "chunk_name ''iCCP'' = [105, 67, 67, 80]"
  by code_simp+

lemma demo_layout: "png_layout ImportLimits_default demo_chunks"
proof -
  have "keyword_data [0] [99, 104, 97, 114, 97, 0, 65]"
    unfolding keyword_data_def by (intro exI [of _ "[99, 104, 97, 114, 97]"] exI [of _ "[65]"]) simp
  then have "chunk_run ImportLimits_default [] demo_chunks"
    by (simp add: demo_chunks_def chunk_names lit_def chunk_admissible_def header_admissible_def chunk_place_def
        seen_types_def starts_with_header_def data_ended_def dimensions_ok_def header_of_def be_u32_def
        ancillary_bytes_def ancillary_def flag_set_def ImportLimits_default_def is_ascii_alphabetic_def
        refused_chunk_names)
  then show ?thesis by (simp add: chunk_run_layout)
qed

definition demo_card :: AcceptedMetadata where
  "demo_card = \<lparr>meta_logical_path = lit ''p.png#tEXt:chara'', meta_sha256 = lit ''ab'', meta_bytes = 7\<rparr>"

lemma demo_validate_png:
  "validate_png demo_png_libraries demo_png (lit ''p.png'') ImportLimits_default (\<lambda>_. False) =
    Inr (\<lparr>png_width = 1, png_height = 2\<rparr>, [demo_card])"
proof -
  let ?lib = demo_png_libraries
  have "png_limits_fit ImportLimits_default" by (simp add: png_limits_fit_def ImportLimits_default_def)
  moreover have "length demo_png \<le> max_png_bytes ImportLimits_default"
    by (simp add: demo_png_def demo_chunks_def encode_chunk_def chunk_names ImportLimits_default_def)
  moreover have "demo_png = PNG_SIGNATURE @ concat (map (encode_chunk (png_crc ?lib)) demo_chunks)"
    by (simp add: demo_png_def demo_png_libraries_def)
  moreover have "starts_with_header demo_chunks" by (simp add: starts_with_header_def demo_chunks_def)
  moreover have "\<lparr>png_width = 1, png_height = 2\<rparr> = header_of (snd (hd demo_chunks))"
    by (simp add: header_of_def demo_chunks_def be_u32_def)
  moreover have "[demo_card] = concat (map (card_of ?lib (lit ''p.png'')) demo_chunks)"
    by (simp add: demo_card_def demo_chunks_def card_of_def chunk_names card_keyword_def lit_def as_bytes_def
        utf8_encode_def import_hex_digest_def demo_png_libraries_def)
  moreover have "decode_png ?lib demo_png \<lparr>png_width = 1, png_height = 2\<rparr> ImportLimits_default = Inr ()"
    by (simp add: decode_png_def demo_png_libraries_def ImportLimits_default_def)
  ultimately show ?thesis using validate_png_exact demo_layout by metis
qed

lemma length_demo_png: "length demo_png = 77"
  by (simp add: demo_png_def demo_chunks_def encode_chunk_def chunk_names)

lemma demo_streams:
  "stream_entry ImportLimits_default 2 [(False, Some [123]), (False, Some [125])] 0 = Inr (2, [123, 125])"
  "stream_entry ImportLimits_default 1 [(False, Some [120])] 2 = Inr (3, [120])"
  "stream_entry ImportLimits_default 77 [(False, Some demo_png)] 3 = Inr (80, demo_png)"
proof -
  have "demo_png \<noteq> []" using length_demo_png by auto
  then show "stream_entry ImportLimits_default 77 [(False, Some demo_png)] 3 = Inr (80, demo_png)"
    by (simp add: stream_entry_def checked_add_def demo_limits length_demo_png)
qed (simp_all add: stream_entry_def checked_add_def demo_limits)

lemma demo_stage:
  "\<exists>s. stage_plans demo_png_libraries demo_env ImportLimits_default demo_plans = Inr s"
  using demo_streams demo_validate_png
  by (simp add: stage_plans_def demo_plans_def demo_plan_def stage_plan_def demo_env_def stage_content_def
      validate_json_def length_demo_png demo_limits)

section \<open>Archives\<close>

text \<open>
  C11. An archive that passes the preflight has at least one and at most the permitted number of entries.
  Every planned path is at most as long as the limit on path bytes and is the join of at most the permitted
  number of plain names: none is empty, a dot or two dots, longer than the limit on names, ends in a full stop
  or a space, contains a slash, a backslash, a colon, a control character or a wildcard, or is a reserved device
  name of Windows; so the path is relative and cannot leave its directory. The path of a file is in normal
  form. No two files collide, also after normalisation and case folding, and no file stands where another
  needs a directory. Every entry has the kind that the table of extensions gives it and respects the size
  limits, the sizes add up to the announced total, and the byte ranges of the entries lie inside the file and
  do not overlap. The one assumption is on Unicode: the solidus has no case and normalisation does not work
  across it.
\<close>

theorem archive_preflight_safe:
  assumes "slash_neutral u" and "preflight_zip open_archive u source limits cancelled = Inr ps"
  shows "\<exists>archive. open_archive source = Some archive \<and>
    ps \<noteq> [] \<and> length ps \<le> max_archive_entries limits \<and> length (zip_entries archive) = length ps \<and>
    (\<forall>p\<in>set ps. path_safe u limits (plan_path p) \<and> plan_bytes p \<le> max_entry_bytes limits \<and>
      kind_fits (plan_path p) (plan_kind p)) \<and>
    sorted_wrt (no_collision u) (file_paths (map plan_path ps)) \<and>
    decompressed_size archive = Some (\<Sum>p\<leftarrow>ps. plan_bytes p) \<and>
    (\<Sum>p\<leftarrow>ps. plan_bytes p) \<le> max_total_uncompressed_bytes limits \<and>
    sorted_wrt ranges_disjoint (map (entry_range \<circ> the) (zip_entries archive)) \<and>
    (\<forall>e\<in>set (zip_entries archive). snd (entry_range (the e)) \<le> length source)"
proof -
  from preflight_zip_ok [OF assms] obtain archive s where
    archive: "open_archive source = Some archive" "decompressed_size archive = Some (sum_bytes s)"
    and ps: "ps = plans s" "0 < length ps" "length ps \<le> max_archive_entries limits"
    and ok: "preflight_ok u source limits (zip_entries archive) s" and apart: "sorted_wrt ranges_disjoint (ranges s)"
    by blast
  from ok have "registry_ok u limits (map plan_path (plans s)) (registry s)"
    and "ranges s = map (entry_range \<circ> the) (zip_entries archive)" by (simp_all add: preflight_ok_def)
  with archive ps apart ok show ?thesis
    by (intro exI [of _ archive]) (simp add: preflight_ok_def registry_ok_def path_valid_def classify_entry_fits)
qed

theorem archive_preflight_safe_witness:
  "slash_neutral demo_tables \<and> path_safe demo_tables ImportLimits_default demo_path \<and> kind_fits demo_path Metadata \<and>
   (\<exists>archive. Some demo_archive = Some archive \<and> sorted_wrt ranges_disjoint (map (entry_range \<circ> the) (zip_entries archive)))"
proof -
  have "slash_neutral demo_tables" by (simp add: slash_neutral_def demo_tables_def)
  with archive_preflight_safe [OF this demo_preflight] show ?thesis by auto
qed

text \<open>
  C19. What extraction leaves behind is what the plans say: the staged assets and the quarantined executables
  are exactly the planned ones, in order, each with its declared size; every staged PNG image passed the check
  of its content; nothing that was quarantined is marked executable; and the bytes read from the entries,
  executables and metadata included, are the planned total, within the limit.
\<close>

theorem extraction_follows_plan:
  assumes "stage_plans lib env limits ps = Inr s"
  shows "map (\<lambda>a. (staged_logical_path a, staged_mime a, length (staged_content a))) (staged_assets s) =
      planned_assets ps \<and>
    map (\<lambda>q. (quarantined_logical_path q, language q, quarantined_bytes q)) (quarantined s) =
      planned_executables ps \<and>
    (\<forall>q\<in>set (quarantined s). \<not> executable q) \<and>
    (\<forall>a\<in>set (staged_assets s). staged_mime a = Png \<longrightarrow>
      (\<exists>i info found. validate_png lib (staged_content a) (staged_logical_path a) limits (png_cancelled env i) =
        Inr (info, found))) \<and>
    total_actual s = planned_bytes ps \<and> total_actual s \<le> max_total_uncompressed_bytes limits"
  using stage_plans_follow [OF assms] by (simp add: staging_follows_def asset_admitted_def)

theorem extraction_follows_plan_witness:
  "\<exists>s. stage_plans demo_png_libraries demo_env ImportLimits_default demo_plans = Inr s \<and>
    total_actual s = planned_bytes demo_plans"
proof -
  obtain s where s: "stage_plans demo_png_libraries demo_env ImportLimits_default demo_plans = Inr s"
    using demo_stage by blast
  with extraction_follows_plan [OF s] show ?thesis by blast
qed

section \<open>Images\<close>

text \<open>
  C12. For limits the service accepts, and when the import is not cancelled, \<open>validate_png\<close> accepts a file
  exactly when the file is small enough, is the signature followed by the encodings, with their checksums, of a
  sequence of admissible chunks that ends with its only \<open>IEND\<close> and starts with \<open>IHDR\<close>, and the
  decoder accepts it. The result is the size in the header and one entry for each card chunk.
\<close>

theorem png_accepted_iff_well_formed:
  assumes "ImportLimits_validate limits = Inr ()"
    and "max_png_chunks limits < 2 ^ 64" and "max_png_metadata_bytes limits < 2 ^ 64"
  shows "validate_png lib source logical_path limits (\<lambda>_. False) = Inr (info, found) \<longleftrightarrow>
    length source \<le> max_png_bytes limits \<and>
    (\<exists>cs. source = PNG_SIGNATURE @ concat (map (encode_chunk (png_crc lib)) cs) \<and> png_layout limits cs \<and>
      starts_with_header cs \<and> info = header_of (snd (hd cs)) \<and>
      found = concat (map (card_of lib logical_path) cs)) \<and>
    decode_png lib source info limits = Inr ()"
proof (rule validate_png_exact)
  show "png_limits_fit limits" using assms by (auto simp: png_limits_fit_def ImportLimits_validate_def split: if_splits)
qed

theorem png_accepted_iff_well_formed_witness:
  "ImportLimits_validate ImportLimits_default = Inr () \<and>
   (\<exists>cs. demo_png = PNG_SIGNATURE @ concat (map (encode_chunk (png_crc demo_png_libraries)) cs) \<and>
     png_layout ImportLimits_default cs)"
proof -
  have "ImportLimits_validate ImportLimits_default = Inr ()"
    by (simp add: ImportLimits_validate_def ImportLimits_default_def)
  moreover have "max_png_chunks ImportLimits_default < 2 ^ 64" "max_png_metadata_bytes ImportLimits_default < 2 ^ 64"
    by (simp_all add: ImportLimits_default_def)
  ultimately show ?thesis using png_accepted_iff_well_formed demo_validate_png by blast
qed

end
