(* ===== verification/Spec2Isabelle.thy ===== *)
theory Spec2Isabelle
  imports Lore_Import Prompt_Contracts Persona_Properties Tool_Properties Tool_Remote
    Stream_Properties Memory_Properties Import_Properties
begin

text \<open>
  Lorepia is a chat client for role play. Its core is a set of Rust crates under \<open>src/crates\<close>. This
  development models the ones that decide what enters a prompt, what a stream or a tool call may do,
  and what an imported file may contain; each paragraph names the crate, its theories and what they show.
  Claims are numbered C1 to C40 in the \<open>text\<close> blocks before their theorems.

  \<^bold>\<open>How the parts interact.\<close> A prompt is compiled (\<open>lorepia-prompt\<close>) from a preset and
  inputs: the lorebook text selected for the conversation (\<open>lorepia-lorebook\<close>), the persona in force
  (\<open>lorepia-persona\<close>) and the memories selected from the chat (\<open>lorepia-memory\<close>). The
  provider answers with a stream (\<open>lorepia-provider-runtime\<close>), which may call tools
  (\<open>lorepia-tool-runtime\<close>). Lorebooks, presets and cards come from outside: lorebooks and presets through
  the import functions of their crates, cards through \<open>lorepia-import\<close>. This theory joins three
  of them: C40 shows that persona and memory texts pass the runtime check of the prompt compiler, and at which
  later steps a prompt with them can still be refused.

  \<^bold>\<open>Conventions.\<close> A \<open>Result\<close> is \<open>'e + 'a\<close>, \<open>and_then\<close> is the \<open>?\<close> operator and \<open>try_fold\<close> a loop
  that stops at the first error; \<open>outcome\<close> states at once which errors are possible and what a success
  satisfies. Strings are lists of scalar values with their UTF-8 encoding \<open>as_bytes\<close>, numbers that are
  computed with are \<open>nat\<close> with checked, saturating or wrapping operations at the width of the source, and a
  Rust panic is an error of its own, so that its absence is a theorem. A mutated structure is a record
  that is passed and returned; an operation that fails returns no record, since every operation here
  checks before it writes. Definitions keep the names of the source; constructors are \<open>T_new\<close> and methods
  \<open>T_method\<close> where the bare name is taken. A helper that names a part of a long function, such as the body of
  one of its loops, models lines inside those of the function.

  \<^bold>\<open>Shared theories.\<close> \<open>Prelude\<close> (results, arithmetic, strings, sorting with the locale \<open>comparator\<close>),
  \<open>Ordered_Map\<close> (the locale \<open>ordered_map\<close>, interpreted by sorted association lists, for \<open>BTreeMap\<close>),
  \<open>Metering\<close> (the locales \<open>meter\<close> for work counters and \<open>greedy_admission\<close> for budgets), \<open>Strings\<close>,
  \<open>Utf8\<close> and \<open>Utf8_Decode\<close> (the encoding is injective and \<open>from_utf8\<close> accepts exactly its images),
  \<open>Json\<close> (documents as the JSON library presents them).

  \<^bold>\<open>Lorebook\<close>, \<open>lorepia-lorebook\<close>. \<open>Lore_Model\<close>: \<open>model.rs\<close>, \<open>normalize.rs\<close>, \<open>error.rs\<close>, \<open>import.rs\<close>.
  \<open>Lore_Engine\<close>: \<open>engine.rs\<close>, with \<open>compile_catalog\<close>, \<open>select_uncached\<close>, \<open>select\<close> and the cache.
  \<open>Lore_Correct\<close> gives the reference semantics, which searches the text directly, and shows that the pattern
  indexes implement it; \<open>Lore_Select\<close> is about a whole selection, \<open>Lore_Cache\<close> about the cache under an
  inductive step relation that interleaves the critical sections of concurrent calls with catalog
  replacement. C1 to C8 (\<open>Lore_Properties\<close>): a returned selection is the reference selection of the catalog
  in force, refusals are declared limits, the admitted text is maximal within its budget. C9 and C10
  (\<open>Lore_Import\<close>): imports grant no activation, export and import round-trip.

  \<^bold>\<open>Prompt\<close>, \<open>lorepia-prompt\<close>. \<open>Prompt_Schema\<close>, \<open>Prompt_Template\<close>, \<open>Prompt_Regex\<close>, \<open>Prompt_Validate\<close>,
  \<open>Prompt_Compile\<close> and \<open>Prompt_Import\<close> follow \<open>schema.rs\<close>, \<open>template.rs\<close>, \<open>regex_pipeline.rs\<close>,
  \<open>validate.rs\<close>, \<open>compile.rs\<close> and \<open>import.rs\<close>. \<open>Prompt_Correct\<close> has the messages a preset denotes and
  \<open>Prompt_Wellformed\<close> what validation guarantees. C14 to C18 and C20 to C23: compilation gives the denoted
  messages, within the limits of a provider and without panics; templates and transforms equal their
  references, and transforms work on every validated preset; the reader of documents refuses duplicate keys exactly; imported presets carry no authority.

  \<^bold>\<open>Persona\<close>, \<open>lorepia-persona\<close>. \<open>Persona_Model\<close>: \<open>catalog.rs\<close>, \<open>id.rs\<close>, \<open>storage.rs\<close>. \<open>Persona_Correct\<close>
  has an abstract specification over maps. C25 to C29 (\<open>Persona_Properties\<close>): the operations refine it,
  every reachable catalog is well formed, resolution is total, storing and reading round-trip, and an update
  against a stale revision is refused after any attempts in which the persona was not removed.

  \<^bold>\<open>Tools\<close>, \<open>lorepia-tool-runtime\<close>. \<open>Tool_Schema\<close>: \<open>json.rs\<close>, \<open>schema.rs\<close>; \<open>Tool_Runtime\<close>: \<open>policy.rs\<close>,
  \<open>registry.rs\<close>, \<open>mcp.rs\<close>. \<open>Tool_Correct\<close> has the shapes that schemas denote, \<open>Tool_Canonical\<close> shows that the
  signed message determines the call, \<open>Tool_Ledger\<close> follows runs of approvals and calls. C30 to C35:
  every executed call was approved and used its approval once, an approval lets its call run until it is used
  or expires, whatever else happens in the run, the canonical form is
  injective, arguments are accepted exactly when they have the shape, limits are exact, remote endpoints
  are public.

  \<^bold>\<open>Streams\<close>, \<open>lorepia-provider-runtime\<close>. \<open>Stream_Framing\<close>: \<open>framing/\<close>; \<open>Stream_Decode\<close>: \<open>decode/\<close>,
  \<open>event.rs\<close>; \<open>Stream_Run\<close>: \<open>runner.rs\<close>. \<open>Stream_Chunks\<close> has the contract \<open>framer\<close>, which both framers
  satisfy through \<open>line_framer\<close>; \<open>Stream_Correct\<close> the contract \<open>stream_decoder\<close>; \<open>Stream_Consume\<close> the loops
  over both. C36 to C38: chunking is irrelevant, a run completes exactly on a terminal event, errors
  carry nothing a provider sent. C36 asks that the bytes can be framed, because the frames of a chunk in
  which framing fails are not delivered.

  \<^bold>\<open>Memory\<close>, \<open>lorepia-memory\<close>. \<open>Memory_Model\<close>: \<open>id.rs\<close>, \<open>config.rs\<close>, \<open>session.rs\<close>, \<open>budget.rs\<close>;
  \<open>Memory_Summary\<close>: \<open>artifact.rs\<close>, \<open>summary.rs\<close>, \<open>chunk.rs\<close>; \<open>Memory_Retrieval\<close>: \<open>retrieval.rs\<close>.
  \<open>Memory_Budget\<close> is about apportionment, \<open>Memory_Select\<close> about selection, \<open>Memory_Apply\<close> about
  materialisation, \<open>Memory_Jobs\<close> about summary jobs. C39, C24 and C13: a selection keeps its budget and uses it
  up, it is applied exactly as made or refused, and the jobs of a plan partition the messages and accept
  only what they were planned from.

  \<^bold>\<open>Import\<close>, \<open>lorepia-import\<close>. \<open>Import_Model\<close>: \<open>model.rs\<close>, \<open>error.rs\<close>, \<open>path_policy.rs\<close> and the archive
  checks of \<open>service.rs\<close>; \<open>Import_Png\<close>: \<open>png_policy.rs\<close>, and from \<open>service.rs\<close> the copy of the source and the
  extraction loop of \<open>import_zip\<close>. \<open>Import_Correct\<close> has the invariants of the path registry, of the
  preflight and of extraction; \<open>Import_Chunks\<close> relates the chunk loop to the layout of a PNG file. C11, C19 and
  C12: an accepted archive has bounded paths of plain names that do not collide, kinds from the table of
  extensions, bounded sizes and disjoint entries;
  extraction follows the plan; a PNG file is accepted exactly when it is well formed.

  \<^bold>\<open>Termination.\<close> No model has fuel. Loops over data are structural; the others carry a measure: the
  bytes left (readers, framers), the values on the stack (JSON limits), the chunks still allowed
  (\<open>png_loop\<close>). The loops on a network body take the list of the polls as an argument.

  \<^bold>\<open>Parameters.\<close> Code outside \<open>src/\<close> is an argument: Unicode tables, SHA-256, HMAC, CRC-32, the
  Aho-Corasick and regular expression engines, the JSON and URL parsers, the \<open>zip\<close> and \<open>png\<close> crates, the
  clock, and the choices of \<open>tokio::select!\<close>. What is assumed of them is in named hypotheses: the documented
  matches of Aho-Corasick, spans inside the text, a codec that reads back what it wrote, digests without
  a collision on the inputs at hand, an unforged MAC, and the solidus as a character that has no case and
  takes part in no composition. Each such property is evaluated on a small instance.

  \<^bold>\<open>Not modelled.\<close> \<open>compile_prompt_request\<close> and the remote token counters, the HTTP client and the
  sending of a request (asynchronous network code); the checks and the bodies of provider requests in
  \<open>lorepia-providers\<close>, which are pure functions that have no model yet, only their \<open>ProviderId\<close>,
  \<open>ChatMessage\<close> and sampling fields do; the stored forms of \<open>lorepia-memory\<close> (serde); the schema documents that describe the tool types; of
  \<open>lorepia-import\<close> the staging directories, leases and the ingestion into the asset store; \<open>lorepia-assets\<close>,
  \<open>lorepia-storage\<close>, \<open>lorepia-backup\<close> and \<open>lorepia-credential-vault\<close>, which are mostly calls into the file
  system, SQLite, archive libraries and the keychain; \<open>lorepia-safety\<close>, constant disclosure tables with small
  field checks; the application shells, experiments and tools. Floating-point cosine similarity is an argument, since only its quantised value is used.
\<close>

section \<open>Persona and memory as prompt inputs\<close>

lemma prompt_text_admissible:
  "validate_prompt_text text = Inr () \<Longrightarrow> str_len text \<le> 65536 \<and> \<not> has_nul text \<and> trim text \<noteq> []"
  by (auto simp: validate_prompt_text_def has_nul_def list_ex_iff is_control_def split: if_splits)

lemma resolved_text_admissible:
  assumes "catalog_reachable codec c" and "resolve_for_play c chat character choice = Inr play"
    and "apply_to_prompt_input play chat character old = Inr text"
  shows "str_len text \<le> 65536 \<and> \<not> has_nul text \<and> (text = [] \<or> trim text \<noteq> [])"
proof -
  have bounded: "str_len (rec_prompt_text r) \<le> 65536 \<and> \<not> has_nul (rec_prompt_text r) \<and> trim (rec_prompt_text r) \<noteq> []"
    if "map_of (personas c) i = Some r" for i r
    using reachable_inv [OF assms(1)] that prompt_text_admissible [of "rec_prompt_text r"]
    unfolding catalog_inv_def record_ok_def by blast
  have "text = [] \<or> (\<exists>i r. map_of (personas c) i = Some r \<and> text = rec_prompt_text r)"
    using assms(2,3)
    by (auto simp: resolve_for_play_def resolve_persona_def require_persona_def apply_to_prompt_input_def
        binding_prompt_text_def snapshot_def ok_or_def
        split: PersonaChoice.splits option.splits StoredCharacterPolicy.splits if_splits) blast+
  with bounded show ?thesis by (auto simp: has_nul_def)
qed

text \<open>
  C40. What the persona and memory components hand to the prompt compiler is never a reason to refuse the
  prompt before its messages are assembled. Take the text of a persona resolved for a chat from a catalog in
  use, and the text of a memory selection applied in that chat. The runtime check of the inputs accepts or
  refuses as it would without them; and when \<open>compile_prompt\<close> refuses, it refuses in the same way without
  them, or it fails while it assembles or transforms the messages. There the size of the whole prompt, the
  templates of the preset or the order of the roles may still count against the two texts; but a persona
  block in plain format always becomes one message with the text of the persona, none if no persona is in
  force, unless the limits of the whole prompt forbid it: the number of messages, their bytes, and no system
  message after the conversation has started.
\<close>

theorem persona_and_memory_admitted:
  assumes "catalog_reachable codec c" and "resolve_for_play c chat character choice = Inr play"
    and "apply_to_prompt_input play chat character old = Inr persona_text"
    and "materialize sha selection binding chat character budget query current = Inr memory"
    and "input' = input\<lparr>persona := persona_text, long_term_memory := memory\<rparr>"
    and "without = input\<lparr>persona := [], long_term_memory := []\<rparr>"
  shows "validate_runtime_input input' = validate_runtime_input without \<and>
    (\<forall>e. compile_prompt rxe ps input' = Inl e \<longrightarrow> compile_prompt rxe ps without = Inl e \<or>
      (\<exists>vars. merged_variables ps input = Inr vars \<and>
        and_then (collect_messages ps input' vars) (\<lambda>st. transform_messages rxe ps (st_messages st)) = Inl e)) \<and>
    outcome whole_prompt_error (\<lambda>bs'. st_messages (bs_state bs') = st_messages (bs_state bs) @
        (if persona_text = [] then [] else [\<lparr>msg_role = role_of role, msg_content = persona_text\<rparr>]))
      (compile_block input' vars i bs (Persona name en role Plain))"
proof (intro conjI allI impI)
  have admitted: "str_len persona_text \<le> 65536 \<and> \<not> has_nul persona_text \<and> (persona_text = [] \<or> trim persona_text \<noteq> [])"
    by (rule resolved_text_admissible [OF assms(1-3)])
  moreover have "str_len memory \<le> 1048576 \<and> \<not> has_nul memory"
    using assms(4) by (auto simp: materialize_def materialize_exact)
  ultimately show check: "validate_runtime_input input' = validate_runtime_input without"
    by (simp add: validate_runtime_input_def assms(5,6))
  show "compile_prompt rxe ps without = Inl e \<or> (\<exists>vars. merged_variables ps input = Inr vars \<and>
      and_then (collect_messages ps input' vars) (\<lambda>st. transform_messages rxe ps (st_messages st)) = Inl e)"
    if "compile_prompt rxe ps input' = Inl e" for e
    using compile_prompt_refusal [OF check [unfolded assms(5,6)]] that by (simp add: assms(5,6))
  show "outcome whole_prompt_error (\<lambda>bs'. st_messages (bs_state bs') = st_messages (bs_state bs) @
        (if persona_text = [] then [] else [\<lparr>msg_role = role_of role, msg_content = persona_text\<rparr>]))
      (compile_block input' vars i bs (Persona name en role Plain))"
    using plain_block_admitted [OF admitted, of "bs_state bs" role vars "Block i PersonaKind"]
    by (cases "push_dynamic_content (bs_state bs) role Plain persona_text vars (Block i PersonaKind)")
      (simp_all add: assms(5) lift_state_def)
qed

theorem persona_and_memory_admitted_witness:
  "validate_runtime_input (demo_input\<lparr>persona := lit ''I am Alice.'', long_term_memory := demo_memory_text\<rparr>) =
    validate_runtime_input (demo_input\<lparr>persona := [], long_term_memory := []\<rparr>) \<and>
   outcome whole_prompt_error (\<lambda>bs. st_messages (bs_state bs) = [\<lparr>msg_role = System, msg_content = lit ''I am Alice.''\<rparr>])
    (compile_block (demo_input\<lparr>persona := lit ''I am Alice.'', long_term_memory := demo_memory_text\<rparr>) [] 0
      \<lparr>bs_state = CompileState_default, main_seen = False, global_note_seen = False\<rparr> (Persona [] True PromptSystem Plain))"
proof -
  have "resolve_for_play demo_catalog (lit ''c'') (lit ''k'') UseDefault =
      Inr \<lparr>binding_chat_id = lit ''c'', binding_character_card_id = lit ''k'',
        binding_persona = Some \<lparr>res_source = GlobalDefault, res_snapshot = \<lparr>snap_id = lit ''alice'',
          snap_revision = 1, snap_label = lit ''Alice'', snap_prompt_text = lit ''I am Alice.''\<rparr>\<rparr>\<rparr>"
    by (simp add: resolve_for_play_def resolve_persona_def require_persona_def demo_catalog_eq snapshot_def
        lit_def)
  from persona_and_memory_admitted [OF demo_catalog_reachable [of demo_codec] this _ demo_materialized refl refl,
    of _ "lit ''I am Alice.''" demo_input literal_engine demo_preset
      "\<lparr>bs_state = CompileState_default, main_seen = False, global_note_seen = False\<rparr>" PromptSystem]
  show ?thesis by (simp add: apply_to_prompt_input_def binding_prompt_text_def CompileState_default_def lit_def)
qed

end
